(* ===== verification/Go_Prelude.thy ===== *)
theory Go_Prelude
  imports
    Main
    "HOL-Library.Multiset"
    "HOL-Library.List_Lexorder"
    "HOL-Library.Char_ord"
begin

text \<open>
  The Go vocabulary the components share: slices that may be \<open>nil\<close>, 64-bit integers,
  byte strings with the functions of package \<open>strings\<close> and \<open>strconv\<close> the bridge calls,
  and the sorting functions of package \<open>sort\<close> with the comparator contract they rely on.

  A Go string is a sequence of bytes, which is what \<^typ>\<open>string\<close> is.  Go's \<open>int\<close> and
  \<open>int64\<close> are \<^typ>\<open>int\<close>; \<open>i64\<close> writes the wrap-around where an operation can leave the
  64-bit range.
\<close>

named_theorems go_defs \<open>definitions of the small Go library functions\<close>
named_theorems sorting \<open>facts about the outcome of a sort\<close>

section \<open>Slices\<close>

text \<open>\<open>None\<close> is the nil slice; it differs from the empty slice in its JSON encoding.\<close>

type_synonym 'a slice = "'a list option"

definition elems :: "'a slice \<Rightarrow> 'a list" where
  "elems s = (case s of None \<Rightarrow> [] | Some xs \<Rightarrow> xs)"

text \<open>\<open>append(s, xs...)\<close>: appending nothing to a nil slice leaves it nil.\<close>

definition append_slice :: "'a slice \<Rightarrow> 'a list \<Rightarrow> 'a slice" where
  "append_slice s xs = (if xs = [] then s else Some (elems s @ xs))"

lemma elems_simps [simp]: "elems None = []" "elems (Some xs) = xs"
  by (simp_all add: elems_def)

lemma elems_append_slice [simp]: "elems (append_slice s xs) = elems s @ xs"
  by (simp add: append_slice_def)

lemma append_slice_None_iff [simp]: "append_slice s xs = None \<longleftrightarrow> s = None \<and> xs = []"
  by (simp add: append_slice_def)

section \<open>Integers\<close>

definition i64 :: "int \<Rightarrow> int" where
  "i64 x = (x + 2 ^ 63) mod 2 ^ 64 - 2 ^ 63"

definition in_i64 :: "int \<Rightarrow> bool" where
  "in_i64 x \<longleftrightarrow> - (2 ^ 63) \<le> x \<and> x < 2 ^ 63"

lemma i64_id: "in_i64 x \<Longrightarrow> i64 x = x"
  by (simp add: i64_def in_i64_def)

lemma in_i64_i64 [simp]: "in_i64 (i64 x)"
proof -
  have "0 \<le> (x + 2 ^ 63) mod 2 ^ 64" and "(x + 2 ^ 63) mod 2 ^ 64 < 2 ^ 64"
    by simp_all
  then show ?thesis by (simp add: i64_def in_i64_def)
qed

section \<open>Strings\<close>

definition ascii_lower :: "char \<Rightarrow> char" where
  "ascii_lower c = (if CHR ''A'' \<le> c \<and> c \<le> CHR ''Z'' then char_of (of_char c + 32 :: nat) else c)"

definition ascii_upper :: "char \<Rightarrow> char" where
  "ascii_upper c = (if CHR ''a'' \<le> c \<and> c \<le> CHR ''z'' then char_of (of_char c - 32 :: nat) else c)"

text \<open>
  \<open>strings.ToLower\<close> and \<open>strings.ToUpper\<close>.  Besides the ASCII letters they change those
  non-ASCII code points whose image is ASCII: the Kelvin sign (bytes E2 84 AA) and the dotted
  capital I (C4 B0) in lower case, the dotless i (C4 B1) and the long s (C5 BF) in upper case.
  Other non-ASCII code points have non-ASCII images and are left as they are here: the bridge
  inspects a converted string only for ASCII content.
\<close>

fun to_lower :: "string \<Rightarrow> string" where
  "to_lower [] = []"
| "to_lower (x # xs) =
     (if x = CHR 0xE2 \<and> take 2 xs = [CHR 0x84, CHR 0xAA] then CHR ''k'' # to_lower (drop 2 xs)
      else if x = CHR 0xC4 \<and> take 1 xs = [CHR 0xB0] then CHR ''i'' # to_lower (drop 1 xs)
      else ascii_lower x # to_lower xs)"

fun to_upper :: "string \<Rightarrow> string" where
  "to_upper [] = []"
| "to_upper (x # xs) =
     (if x = CHR 0xC4 \<and> take 1 xs = [CHR 0xB1] then CHR ''I'' # to_upper (drop 1 xs)
      else if x = CHR 0xC5 \<and> take 1 xs = [CHR 0xBF] then CHR ''S'' # to_upper (drop 1 xs)
      else ascii_upper x # to_upper xs)"

text \<open>
  \<open>strings.EqualFold\<close> compares under simple case folding: ASCII letters fold together, the
  Kelvin sign folds with k and the long s with s; other code points are compared as they are.
\<close>

fun fold_case :: "string \<Rightarrow> string" where
  "fold_case [] = []"
| "fold_case (x # xs) =
     (if x = CHR 0xE2 \<and> take 2 xs = [CHR 0x84, CHR 0xAA] then CHR ''k'' # fold_case (drop 2 xs)
      else if x = CHR 0xC5 \<and> take 1 xs = [CHR 0xBF] then CHR ''s'' # fold_case (drop 1 xs)
      else ascii_lower x # fold_case xs)"

definition equal_fold :: "string \<Rightarrow> string \<Rightarrow> bool" where
  "equal_fold a b \<longleftrightarrow> fold_case a = fold_case b"

text \<open>
  \<open>strings.TrimSpace\<close> removes Unicode white space; each white-space code point is listed
  with its UTF-8 bytes (the encodings are prefix-free, so matching bytes is matching code points).
\<close>

definition space_runes :: "string list" where
  "space_runes =
     [[CHR 0x09], [CHR 0x0A], [CHR 0x0B], [CHR 0x0C], [CHR 0x0D], [CHR 0x20],
      [CHR 0xC2, CHR 0x85], [CHR 0xC2, CHR 0xA0], [CHR 0xE1, CHR 0x9A, CHR 0x80],
      [CHR 0xE2, CHR 0x80, CHR 0x80], [CHR 0xE2, CHR 0x80, CHR 0x81], [CHR 0xE2, CHR 0x80, CHR 0x82],
      [CHR 0xE2, CHR 0x80, CHR 0x83], [CHR 0xE2, CHR 0x80, CHR 0x84], [CHR 0xE2, CHR 0x80, CHR 0x85],
      [CHR 0xE2, CHR 0x80, CHR 0x86], [CHR 0xE2, CHR 0x80, CHR 0x87], [CHR 0xE2, CHR 0x80, CHR 0x88],
      [CHR 0xE2, CHR 0x80, CHR 0x89], [CHR 0xE2, CHR 0x80, CHR 0x8A], [CHR 0xE2, CHR 0x80, CHR 0xA8],
      [CHR 0xE2, CHR 0x80, CHR 0xA9], [CHR 0xE2, CHR 0x80, CHR 0xAF], [CHR 0xE2, CHR 0x81, CHR 0x9F],
      [CHR 0xE3, CHR 0x80, CHR 0x80]]"

definition has_prefix :: "string \<Rightarrow> string \<Rightarrow> bool" where
  "has_prefix s p \<longleftrightarrow> take (length p) s = p"

definition trim_prefix :: "string \<Rightarrow> string \<Rightarrow> string" where
  "trim_prefix s p = (if has_prefix s p then drop (length p) s else s)"

definition drop_any :: "string list \<Rightarrow> string \<Rightarrow> string option" where
  "drop_any ps s = map_option (\<lambda>p. drop (length p) s) (List.find (has_prefix s) ps)"

lemma drop_any_shorter:
  assumes "drop_any ps s = Some t" and "[] \<notin> set ps"
  shows "length t < length s"
proof -
  from assms(1) obtain p where p: "List.find (has_prefix s) ps = Some p" and t: "t = drop (length p) s"
    by (auto simp: drop_any_def)
  from p have "p \<in> set ps" and hp: "has_prefix s p"
    by (auto simp: find_Some_iff)
  with assms(2) have "p \<noteq> []" by auto
  with hp show ?thesis
    by (cases s) (auto simp: t has_prefix_def)
qed

lemma space_runes_nonempty: "[] \<notin> set space_runes"
  by (simp add: space_runes_def)

lemma rev_space_runes_nonempty: "[] \<notin> set (map rev space_runes)"
  by (simp add: space_runes_def)

function trim_left_by :: "string list \<Rightarrow> string \<Rightarrow> string" where
  "trim_left_by ps s =
     (if [] \<in> set ps then s
      else case drop_any ps s of None \<Rightarrow> s | Some t \<Rightarrow> trim_left_by ps t)"
  by pat_completeness auto
termination
  by (relation "measure (\<lambda>(ps, s). length s)") (auto dest: drop_any_shorter)

declare trim_left_by.simps [simp del]

definition trim_space :: "string \<Rightarrow> string" where
  "trim_space s = rev (trim_left_by (map rev space_runes) (rev (trim_left_by space_runes s)))"

text \<open>\<open>strings.TrimRight(s, c)\<close> and \<open>strings.Trim(s, c)\<close> for a one-byte cutset.\<close>

definition trim_right_char :: "char \<Rightarrow> string \<Rightarrow> string" where
  "trim_right_char c s = rev (dropWhile (\<lambda>x. x = c) (rev s))"

definition trim_char :: "char \<Rightarrow> string \<Rightarrow> string" where
  "trim_char c s = trim_right_char c (dropWhile (\<lambda>x. x = c) s)"

fun contains :: "string \<Rightarrow> string \<Rightarrow> bool" where
  "contains [] p \<longleftrightarrow> p = []"
| "contains (x # xs) p \<longleftrightarrow> has_prefix (x # xs) p \<or> contains xs p"

text \<open>\<open>strings.Index\<close>; \<open>None\<close> is Go's -1.\<close>

fun index_of :: "string \<Rightarrow> string \<Rightarrow> nat option" where
  "index_of [] p = (if p = [] then Some 0 else None)"
| "index_of (x # xs) p =
     (if has_prefix (x # xs) p then Some 0 else map_option Suc (index_of xs p))"

text \<open>\<open>strings.Split(s, c)\<close> for a one-byte separator: always at least one part.\<close>

fun split_char :: "char \<Rightarrow> string \<Rightarrow> string list" where
  "split_char c [] = [[]]"
| "split_char c (x # xs) =
     (if x = c then [] # split_char c xs
      else (case split_char c xs of [] \<Rightarrow> [[x]] | p # ps \<Rightarrow> (x # p) # ps))"

text \<open>\<open>strings.SplitN(s, c, 2)\<close>: \<open>None\<close> when the separator does not occur.\<close>

definition cut_char :: "char \<Rightarrow> string \<Rightarrow> (string \<times> string) option" where
  "cut_char c s =
     (case dropWhile (\<lambda>x. x \<noteq> c) s of [] \<Rightarrow> None
      | _ # rest \<Rightarrow> Some (takeWhile (\<lambda>x. x \<noteq> c) s, rest))"

text \<open>\<open>strings.ReplaceAll(s, old, new)\<close> for a nonempty \<open>old\<close>: left to right, not overlapping.\<close>

function replace_all :: "string \<Rightarrow> string \<Rightarrow> string \<Rightarrow> string" where
  "replace_all [] old new = []"
| "replace_all (x # xs) old new =
     (if old \<noteq> [] \<and> has_prefix (x # xs) old
      then new @ replace_all (drop (length old) (x # xs)) old new
      else x # replace_all xs old new)"
  by pat_completeness auto
termination
proof (relation "measure (\<lambda>(s, old, new). length s)")
  fix x xs and old new :: string
  assume "old \<noteq> [] \<and> has_prefix (x # xs) old"
  then show "((drop (length old) (x # xs), old, new), x # xs, old, new)
      \<in> measure (\<lambda>(s, old, new). length s)"
    by (cases old) auto
qed auto

fun join_with :: "string \<Rightarrow> string list \<Rightarrow> string" where
  "join_with sep [] = []"
| "join_with sep [x] = x"
| "join_with sep (x # y # ys) = x @ sep @ join_with sep (y # ys)"

lemma split_char_not_Nil [simp]: "split_char c s \<noteq> []"
  by (cases s) (auto split: list.splits)

lemma split_char_append: "split_char c (a @ c # b) = split_char c a @ split_char c b"
  by (induction a) (auto split: list.splits)

lemma split_char_single: "c \<notin> set s \<Longrightarrow> split_char c s = [s]"
  by (induction s) auto

lemma join_split_char: "join_with [c] (split_char c s) = s"
proof (induction s)
  case Nil
  then show ?case by simp
next
  case (Cons x xs)
  then show ?case
    by (cases "split_char c xs"; cases "tl (split_char c xs)")
       (auto split: list.splits)
qed

lemma has_prefix_append [simp]: "has_prefix (p @ s) p"
  by (simp add: has_prefix_def)

lemma trim_prefix_append [simp]: "trim_prefix (p @ s) p = s"
  by (simp add: trim_prefix_def)

subsection \<open>Facts about trimming\<close>

lemma drop_any_None_iff: "drop_any ps s = None \<longleftrightarrow> (\<forall>p\<in>set ps. \<not> has_prefix s p)"
  by (auto simp: drop_any_def find_None_iff)

lemma trim_left_id: "drop_any ps s = None \<Longrightarrow> trim_left_by ps s = s"
  by (simp add: trim_left_by.simps [of ps s])

lemma trim_left_fix: "[] \<notin> set ps \<Longrightarrow> drop_any ps (trim_left_by ps s) = None"
proof (induction ps s rule: trim_left_by.induct)
  case (1 ps s)
  then show ?case by (cases "drop_any ps s") (simp_all add: trim_left_by.simps [of ps s])
qed

lemma trim_left_drop: "\<exists>k. trim_left_by ps s = drop k s"
proof (induction ps s rule: trim_left_by.induct)
  case (1 ps s)
  show ?case
  proof (cases "[] \<in> set ps \<or> drop_any ps s = None")
    case True
    then show ?thesis
      by (intro exI [of _ 0]) (auto simp: trim_left_by.simps [of ps s])
  next
    case False
    then obtain t j where t: "drop_any ps s = Some t" and j: "t = drop j s"
      by (auto simp: drop_any_def)
    with False 1 obtain k where "trim_left_by ps t = drop k t" by blast
    with False t j show ?thesis by (auto simp: trim_left_by.simps [of ps s] intro: exI [of _ "k + j"])
  qed
qed

lemma has_prefix_take: "has_prefix (take k s) p \<Longrightarrow> has_prefix s p"
  by (auto simp: has_prefix_def min_def split: if_splits)

text \<open>A trimmed string: no white space at either end.\<close>

definition trimmed :: "string \<Rightarrow> bool" where
  "trimmed s \<longleftrightarrow> drop_any space_runes s = None \<and> drop_any (map rev space_runes) (rev s) = None"

lemma trim_space_id: "trimmed s \<Longrightarrow> trim_space s = s"
  by (simp add: trimmed_def trim_space_def trim_left_id)

lemma trimmed_trim_space [simp]: "trimmed (trim_space s)"
proof -
  define t where "t = trim_left_by space_runes s"
  have t: "drop_any space_runes t = None"
    unfolding t_def by (rule trim_left_fix [OF space_runes_nonempty])
  obtain k where k: "trim_left_by (map rev space_runes) (rev t) = drop k (rev t)"
    using trim_left_drop by blast
  have "drop_any space_runes (take (length t - k) t) = None"
    using t by (auto simp: drop_any_None_iff dest: has_prefix_take)
  then have "drop_any space_runes (rev (drop k (rev t))) = None"
    by (simp add: drop_rev)
  moreover have "drop_any (map rev space_runes) (drop k (rev t)) = None"
    unfolding k [symmetric] by (rule trim_left_fix [OF rev_space_runes_nonempty])
  ultimately show ?thesis
    by (simp add: trimmed_def trim_space_def k t_def [symmetric])
qed

lemma trim_space_idem [simp]: "trim_space (trim_space s) = trim_space s"
  by (simp add: trim_space_id)

definition space_bytes :: "char set" where
  "space_bytes = \<Union> (set ` set space_runes)"

lemma trimmedI: "set s \<inter> space_bytes = {} \<Longrightarrow> trimmed s"
proof -
  assume *: "set s \<inter> space_bytes = {}"
  have "\<not> has_prefix t p" if "p \<noteq> []" "set p \<subseteq> space_bytes" "set t = set s" for t p
    using that * by (cases p; cases t) (auto simp: has_prefix_def)
  moreover have "p \<noteq> [] \<and> set p \<subseteq> space_bytes" if "p \<in> set space_runes" for p
    using that space_runes_nonempty by (auto simp: space_bytes_def)
  moreover have "p \<noteq> [] \<and> set p \<subseteq> space_bytes" if "p \<in> set (map rev space_runes)" for p
    using that space_runes_nonempty by (auto simp: space_bytes_def)
  ultimately show ?thesis by (auto simp: trimmed_def drop_any_None_iff)
qed

lemma trim_space_Nil [simp]: "trim_space [] = []"
  by (rule trim_space_id, rule trimmedI) simp

subsection \<open>Decimal numbers\<close>

definition digit_char :: "nat \<Rightarrow> char" where
  "digit_char d = char_of (48 + d)"

fun nat_digits :: "nat \<Rightarrow> string" where
  "nat_digits n = (if n < 10 then [digit_char n] else nat_digits (n div 10) @ [digit_char (n mod 10)])"

declare nat_digits.simps [simp del]

text \<open>\<open>strconv.Itoa\<close>, also what \<open>%d\<close> prints.\<close>

definition itoa :: "int \<Rightarrow> string" where
  "itoa n = (if n < 0 then CHR ''-'' # nat_digits (nat (- n)) else nat_digits (nat n))"

definition is_digit :: "char \<Rightarrow> bool" where
  "is_digit c \<longleftrightarrow> CHR ''0'' \<le> c \<and> c \<le> CHR ''9''"

definition digits_val :: "string \<Rightarrow> int" where
  "digits_val = foldl (\<lambda>acc c. acc * 10 + (int (of_char c) - 48)) 0"

text \<open>
  \<open>strconv.ParseInt(s, 10, 64)\<close>: the value and whether there was an error.  A syntax error
  gives 0, a value out of range the nearest bound, both with an error; the digits are read from the
  left, and as soon as they exceed 64 bits the rest is not looked at.
\<close>

definition parse_int64 :: "string \<Rightarrow> int \<times> bool" where
  "parse_int64 s =
     (let neg = has_prefix s ''-'';
          ds = (if neg \<or> has_prefix s ''+'' then drop 1 s else s);
          n = digits_val (takeWhile is_digit ds)
      in if n < 2 ^ 64 \<and> (ds = [] \<or> \<not> list_all is_digit ds) then (0, True)
         else let v = (if neg then - n else n)
              in if v < - (2 ^ 63) then (- (2 ^ 63), True)
                 else if 2 ^ 63 \<le> v then (2 ^ 63 - 1, True)
                 else (v, False))"

definition atoi :: "string \<Rightarrow> int option" where
  "atoi s = (case parse_int64 s of (v, err) \<Rightarrow> if err then None else Some v)"

lemma digit_char_digit: "d < 10 \<Longrightarrow> is_digit (digit_char d) \<and> of_char (digit_char d) = d + 48"
  by (auto simp: is_digit_def digit_char_def less_eq_char_def of_char_of)

lemma digits_val_snoc: "digits_val (xs @ [c]) = digits_val xs * 10 + (int (of_char c) - 48)"
  by (simp add: digits_val_def)

lemma nat_digits_props:
  "nat_digits n \<noteq> [] \<and> list_all is_digit (nat_digits n) \<and> digits_val (nat_digits n) = int n"
proof (induction n rule: nat_digits.induct)
  case (1 n)
  show ?case
  proof (cases "n < 10")
    case True
    then show ?thesis
      using digit_char_digit [of n] by (simp add: nat_digits.simps [of n] digits_val_def)
  next
    case False
    have "int (n div 10) * 10 + int (n mod 10) = int n"
      by presburger
    with False "1.IH" show ?thesis
      using digit_char_digit [of "n mod 10"]
      by (simp add: nat_digits.simps [of n] digits_val_snoc)
  qed
qed

lemma take_digits: "list_all is_digit ds \<Longrightarrow> takeWhile is_digit ds = ds"
  by (simp add: takeWhile_eq_all_conv list_all_iff)

lemma nat_digits_hd: "hd (nat_digits n) \<noteq> CHR ''-'' \<and> hd (nat_digits n) \<noteq> CHR ''+''"
  using nat_digits_props [of n]
  by (cases "nat_digits n") (auto simp: is_digit_def less_eq_char_def)

lemma parse_nat_digits:
  "int n < 2 ^ 63 \<Longrightarrow> parse_int64 (nat_digits n) = (int n, False)"
  using nat_digits_props [of n] nat_digits_hd [of n]
  by (cases "nat_digits n") (auto simp: parse_int64_def has_prefix_def Let_def take_digits simp del: takeWhile.simps)

lemma parse_neg_nat_digits:
  "int n \<le> 2 ^ 63 \<Longrightarrow> parse_int64 (CHR ''-'' # nat_digits n) = (- int n, False)"
  using nat_digits_props [of n]
  by (auto simp: parse_int64_def has_prefix_def Let_def take_digits)

lemma parse_itoa: "in_i64 n \<Longrightarrow> parse_int64 (itoa n) = (n, False)"
  using parse_neg_nat_digits [of "nat (- n)"] parse_nat_digits [of "nat n"]
  by (auto simp: itoa_def in_i64_def)

lemma atoi_itoa: "in_i64 n \<Longrightarrow> atoi (itoa n) = Some n"
  by (simp add: atoi_def parse_itoa)

subsection \<open>Hexadecimal\<close>

text \<open>\<open>encoding/hex\<close>: two lower-case digits for each byte.\<close>

definition hex_digit :: "nat \<Rightarrow> char" where
  "hex_digit d = (if d < 10 then char_of (48 + d) else char_of (87 + d))"

definition hex_encode :: "nat list \<Rightarrow> string" where
  "hex_encode bs = concat (map (\<lambda>b. [hex_digit (b div 16 mod 16), hex_digit (b mod 16)]) bs)"

definition is_hex :: "char \<Rightarrow> bool" where
  "is_hex c \<longleftrightarrow> is_digit c \<or> CHR ''a'' \<le> c \<and> c \<le> CHR ''f'' \<or> CHR ''A'' \<le> c \<and> c \<le> CHR ''F''"

lemma length_hex_encode [simp]: "length (hex_encode bs) = 2 * length bs"
  by (induction bs) (simp_all add: hex_encode_def)

definition hex_alphabet :: "char set" where
  "hex_alphabet = set ''0123456789abcdef''"

lemma hex_digit_less16: "d < 16 \<Longrightarrow> hex_digit d \<in> hex_alphabet"
proof -
  have "\<forall>d<16. hex_digit d \<in> hex_alphabet"
    unfolding hex_alphabet_def by code_simp
  then show "d < 16 \<Longrightarrow> hex_digit d \<in> hex_alphabet" by blast
qed

lemma hex_encode_chars: "set (hex_encode bs) \<subseteq> hex_alphabet"
  by (auto simp: hex_encode_def intro: hex_digit_less16)

lemma hex_alphabet_facts:
  "c \<in> hex_alphabet \<Longrightarrow> is_hex c \<and> ascii_lower c = c \<and> c < CHR 0x80 \<and> c \<noteq> CHR '':'' \<and> c \<notin> space_bytes"
  unfolding hex_alphabet_def
  by (auto simp: is_hex_def is_digit_def ascii_lower_def less_eq_char_def less_char_def
      space_bytes_def space_runes_def)

lemma to_lower_ascii: "\<forall>c\<in>set s. c < CHR 0x80 \<Longrightarrow> to_lower s = map ascii_lower s"
  by (induction s rule: to_lower.induct) (auto simp: less_char_def)

lemma replace_all_absent: "c \<notin> set s \<Longrightarrow> replace_all s (c # old) new = s"
  by (induction s "c # old" new rule: replace_all.induct) (auto simp: has_prefix_def)

end
