(* ===== verification/Config.thy ===== *)
theory Config
  imports Go_Prelude
begin

text \<open>
  Package \<open>config\<close> (\<open>internal/config/config.go\<close>): the configuration records, their defaults,
  the validation a source list has to pass before a Proxmox collector is built for it, and the
  tokens and durations read from them.  The process environment (\<open>os.Getenv\<close>) is the argument
  \<open>getenv\<close>; a variable that is not set reads as the empty string.
\<close>

record tls_config =
  tls_Mode :: string
  tls_Fingerprint :: string
  tls_CAFile :: string

record proxmox_host =
  pve_ID :: string
  pve_Name :: string
  pve_BaseURL :: string
  pve_TokenEnv :: string
  pve_TokenValue :: string
  pve_TLS :: tls_config

record server_config =
  srv_Bind :: string
  srv_Port :: int
  srv_DisplayTokenEnv :: string
  srv_DisplayTokenValue :: string
  srv_AdminTokenEnv :: string
  srv_AdminTokenValue :: string
  srv_PollIntervalSeconds :: int
  srv_StaleAfterSeconds :: int

record alert_config =
  alr_MemoryWarningPct :: int
  alr_MemoryCriticalPct :: int
  alr_StorageWarningPct :: int
  alr_StorageCriticalPct :: int

record pinned_guest =
  pin_Source :: string
  pin_ID :: string
  pin_Label :: string
  pin_Expected :: string

record guest_config =
  gst_Pinned :: "pinned_guest list"

record config =
  cfg_Server :: server_config
  cfg_Proxmox :: "proxmox_host list"
  cfg_Alerts :: alert_config
  cfg_Guests :: guest_config

definition config_zero :: config where
  "config_zero =
     \<lparr>cfg_Server = \<lparr>srv_Bind = '''', srv_Port = 0, srv_DisplayTokenEnv = '''',
        srv_DisplayTokenValue = '''', srv_AdminTokenEnv = '''', srv_AdminTokenValue = '''',
        srv_PollIntervalSeconds = 0, srv_StaleAfterSeconds = 0\<rparr>,
      cfg_Proxmox = [],
      cfg_Alerts = \<lparr>alr_MemoryWarningPct = 0, alr_MemoryCriticalPct = 0,
        alr_StorageWarningPct = 0, alr_StorageCriticalPct = 0\<rparr>,
      cfg_Guests = \<lparr>gst_Pinned = []\<rparr>\<rparr>"

definition proxmox_host_zero :: proxmox_host where
  "proxmox_host_zero =
     \<lparr>pve_ID = '''', pve_Name = '''', pve_BaseURL = '''', pve_TokenEnv = '''', pve_TokenValue = '''',
      pve_TLS = \<lparr>tls_Mode = '''', tls_Fingerprint = '''', tls_CAFile = ''''\<rparr>\<rparr>"

section \<open>Defaults\<close>

definition default_str :: "string \<Rightarrow> string \<Rightarrow> string" where
  "default_str d v = (if v = '''' then d else v)"

definition default_int :: "int \<Rightarrow> int \<Rightarrow> int" where
  "default_int d v = (if v = 0 then d else v)"

definition default_tls_mode :: "proxmox_host \<Rightarrow> proxmox_host" where
  "default_tls_mode p =
     (if tls_Mode (pve_TLS p) = ''''
      then p\<lparr>pve_TLS := (pve_TLS p)\<lparr>tls_Mode := ''fingerprint''\<rparr>\<rparr> else p)"

definition applyDefaults :: "config \<Rightarrow> config" where
  "applyDefaults c = c
     \<lparr>cfg_Server := (cfg_Server c)
        \<lparr>srv_Bind := default_str ''0.0.0.0'' (srv_Bind (cfg_Server c)),
         srv_Port := default_int 8765 (srv_Port (cfg_Server c)),
         srv_DisplayTokenEnv := default_str ''DISPLAY_TOKEN'' (srv_DisplayTokenEnv (cfg_Server c)),
         srv_AdminTokenEnv := default_str ''ADMIN_TOKEN'' (srv_AdminTokenEnv (cfg_Server c)),
         srv_PollIntervalSeconds := default_int 10 (srv_PollIntervalSeconds (cfg_Server c)),
         srv_StaleAfterSeconds := default_int 45 (srv_StaleAfterSeconds (cfg_Server c))\<rparr>,
      cfg_Alerts := (cfg_Alerts c)
        \<lparr>alr_MemoryWarningPct := default_int 85 (alr_MemoryWarningPct (cfg_Alerts c)),
         alr_MemoryCriticalPct := default_int 95 (alr_MemoryCriticalPct (cfg_Alerts c)),
         alr_StorageWarningPct := default_int 80 (alr_StorageWarningPct (cfg_Alerts c)),
         alr_StorageCriticalPct := default_int 90 (alr_StorageCriticalPct (cfg_Alerts c))\<rparr>,
      cfg_Proxmox := map default_tls_mode (cfg_Proxmox c)\<rparr>"

definition NewDefault :: config where
  "NewDefault = applyDefaults config_zero"

definition MockConfig :: config where
  "MockConfig = config_zero
     \<lparr>cfg_Server := (cfg_Server config_zero)
        \<lparr>srv_Bind := ''0.0.0.0'', srv_Port := 8765, srv_DisplayTokenEnv := ''DISPLAY_TOKEN'',
         srv_AdminTokenEnv := ''ADMIN_TOKEN'', srv_PollIntervalSeconds := 10,
         srv_StaleAfterSeconds := 45\<rparr>,
      cfg_Alerts := \<lparr>alr_MemoryWarningPct = 85, alr_MemoryCriticalPct = 95,
         alr_StorageWarningPct = 80, alr_StorageCriticalPct = 90\<rparr>\<rparr>"

section \<open>Tokens, address, durations\<close>

definition DisplayToken :: "(string \<Rightarrow> string) \<Rightarrow> server_config \<Rightarrow> string" where
  "DisplayToken getenv s =
     (if srv_DisplayTokenValue s \<noteq> '''' then srv_DisplayTokenValue s
      else getenv (srv_DisplayTokenEnv s))"

definition AdminToken :: "(string \<Rightarrow> string) \<Rightarrow> server_config \<Rightarrow> string" where
  "AdminToken getenv s =
     (if srv_AdminTokenValue s \<noteq> '''' then srv_AdminTokenValue s
      else let token = getenv (srv_AdminTokenEnv s)
           in if token \<noteq> '''' then token else DisplayToken getenv s)"

definition Addr :: "server_config \<Rightarrow> string" where
  "Addr s = srv_Bind s @ '':'' @ itoa (srv_Port s)"

text \<open>A \<open>time.Duration\<close> is an \<open>int64\<close> count of nanoseconds; the product wraps.\<close>

definition seconds :: "int \<Rightarrow> int" where
  "seconds n = i64 (n * 1000000000)"

definition PollInterval :: "server_config \<Rightarrow> int" where
  "PollInterval s = seconds (srv_PollIntervalSeconds s)"

definition StaleAfter :: "server_config \<Rightarrow> int" where
  "StaleAfter s = seconds (srv_StaleAfterSeconds s)"

definition NormalizeToken :: "string \<Rightarrow> string" where
  "NormalizeToken token =
     (let token = trim_space token
      in if has_prefix token ''PVEAPIToken='' then token else ''PVEAPIToken='' @ token)"

section \<open>Validation\<close>

datatype config_error =
    PortRange
  | DisplayTokenEmpty string
  | NoProxmox
  | ProxmoxIDRequired
  | DuplicateID string
  | NameRequired string
  | BaseURLRequired string
  | TokenRequired string
  | TokenEnvEmpty string string
  | FingerprintRequired string
  | CAFileRequired string
  | UnsupportedTLSMode string string

definition validate_host :: "(string \<Rightarrow> string) \<Rightarrow> proxmox_host \<Rightarrow> config_error option" where
  "validate_host getenv p =
     (if pve_Name p = '''' then Some (NameRequired (pve_ID p))
      else if pve_BaseURL p = '''' then Some (BaseURLRequired (pve_ID p))
      else if pve_TokenValue p = '''' \<and> pve_TokenEnv p = '''' then Some (TokenRequired (pve_ID p))
      else if pve_TokenValue p = '''' \<and> getenv (pve_TokenEnv p) = ''''
        then Some (TokenEnvEmpty (pve_ID p) (pve_TokenEnv p))
      else if tls_Mode (pve_TLS p) = ''fingerprint''
        then (if tls_Fingerprint (pve_TLS p) = '''' then Some (FingerprintRequired (pve_ID p)) else None)
      else if tls_Mode (pve_TLS p) = ''ca_file''
        then (if tls_CAFile (pve_TLS p) = '''' then Some (CAFileRequired (pve_ID p)) else None)
      else if tls_Mode (pve_TLS p) = ''system'' \<or> tls_Mode (pve_TLS p) = ''insecure'' then None
      else Some (UnsupportedTLSMode (pve_ID p) (tls_Mode (pve_TLS p))))"

text \<open>The loop over the sources; \<open>seen\<close> is the map of the IDs met so far.\<close>

fun validate_hosts ::
    "(string \<Rightarrow> string) \<Rightarrow> string set \<Rightarrow> proxmox_host list \<Rightarrow> config_error option" where
  "validate_hosts getenv seen [] = None"
| "validate_hosts getenv seen (p # ps) =
     (if pve_ID p = '''' then Some ProxmoxIDRequired
      else if pve_ID p \<in> seen then Some (DuplicateID (pve_ID p))
      else case validate_host getenv p of
             Some e \<Rightarrow> Some e
           | None \<Rightarrow> validate_hosts getenv (insert (pve_ID p) seen) ps)"

definition Validate :: "(string \<Rightarrow> string) \<Rightarrow> config \<Rightarrow> bool \<Rightarrow> config_error option" where
  "Validate getenv c mock =
     (if srv_Port (cfg_Server c) < 1 \<or> srv_Port (cfg_Server c) > 65535 then Some PortRange
      else if DisplayToken getenv (cfg_Server c) = '''' \<and> \<not> mock
        then Some (DisplayTokenEmpty (srv_DisplayTokenEnv (cfg_Server c)))
      else if \<not> mock \<and> cfg_Proxmox c = [] then Some NoProxmox
      else validate_hosts getenv {} (cfg_Proxmox c))"

section \<open>Facts\<close>

lemma default_tls_mode_id [simp]: "pve_ID (default_tls_mode p) = pve_ID p"
  by (simp add: default_tls_mode_def)

lemma default_tls_mode_idem [simp]: "default_tls_mode (default_tls_mode p) = default_tls_mode p"
  by (simp add: default_tls_mode_def)

lemma applyDefaults_idem [simp]: "applyDefaults (applyDefaults c) = applyDefaults c"
  by (simp add: applyDefaults_def default_str_def default_int_def)

lemma applyDefaults_Guests [simp]: "cfg_Guests (applyDefaults c) = cfg_Guests c"
  by (simp add: applyDefaults_def)

lemma applyDefaults_Proxmox: "cfg_Proxmox (applyDefaults c) = map default_tls_mode (cfg_Proxmox c)"
  by (simp add: applyDefaults_def)

lemma applyDefaults_Server [simp]:
  "srv_DisplayTokenValue (cfg_Server (applyDefaults c)) = srv_DisplayTokenValue (cfg_Server c)"
  "srv_AdminTokenValue (cfg_Server (applyDefaults c)) = srv_AdminTokenValue (cfg_Server c)"
  by (simp_all add: applyDefaults_def)

text \<open>What validation accepts, source by source.\<close>

definition host_ok :: "(string \<Rightarrow> string) \<Rightarrow> proxmox_host \<Rightarrow> bool" where
  "host_ok getenv p \<longleftrightarrow>
     pve_ID p \<noteq> '''' \<and> pve_Name p \<noteq> '''' \<and> pve_BaseURL p \<noteq> ''''
     \<and> (pve_TokenValue p \<noteq> '''' \<or> pve_TokenEnv p \<noteq> '''' \<and> getenv (pve_TokenEnv p) \<noteq> '''')
     \<and> (tls_Mode (pve_TLS p) = ''fingerprint'' \<and> tls_Fingerprint (pve_TLS p) \<noteq> ''''
        \<or> tls_Mode (pve_TLS p) = ''ca_file'' \<and> tls_CAFile (pve_TLS p) \<noteq> ''''
        \<or> tls_Mode (pve_TLS p) = ''system'' \<or> tls_Mode (pve_TLS p) = ''insecure'')"

lemma validate_host_ok:
  "pve_ID p \<noteq> '''' \<Longrightarrow> validate_host getenv p = None \<longleftrightarrow> host_ok getenv p"
  by (simp add: validate_host_def host_ok_def)

lemma validate_hosts_ok:
  "validate_hosts getenv seen ps = None \<longleftrightarrow>
     (\<forall>p\<in>set ps. host_ok getenv p) \<and> distinct (map pve_ID ps) \<and> seen \<inter> pve_ID ` set ps = {}"
proof (induction ps arbitrary: seen)
  case (Cons p ps)
  show ?case
  proof (cases "pve_ID p = ''''")
    case True
    then show ?thesis by (simp add: host_ok_def)
  next
    case False
    then show ?thesis
      using validate_host_ok [OF False, of getenv] by (auto simp: Cons.IH split: option.split)
  qed
qed simp

lemma Validate_ok:
  "Validate getenv c False = None \<longleftrightarrow>
     1 \<le> srv_Port (cfg_Server c) \<and> srv_Port (cfg_Server c) \<le> 65535
     \<and> DisplayToken getenv (cfg_Server c) \<noteq> '''' \<and> cfg_Proxmox c \<noteq> []
     \<and> (\<forall>p\<in>set (cfg_Proxmox c). host_ok getenv p) \<and> distinct (map pve_ID (cfg_Proxmox c))"
  by (auto simp: Validate_def validate_hosts_ok)

lemma seconds_exact: "\<bar>n\<bar> \<le> 9223372036 \<Longrightarrow> seconds n = n * 1000000000"
  by (auto simp: seconds_def in_i64_def abs_le_iff intro!: i64_id)

lemma seconds_in_i64: "in_i64 (seconds n)"
  by (simp add: seconds_def)

text \<open>One second more than fits, and the duration is negative.\<close>

lemma seconds_overflow: "seconds 9223372037 < 0"
  by (simp add: seconds_def i64_def)

section \<open>Properties\<close>

text \<open>
  A collector for real sources is built only for a configuration that passes \<open>Validate\<close>, and
  \<open>Validate\<close> passes exactly when the port is a port, a display token is set, there is a source,
  every source is complete for its TLS mode, and no two sources have the same ID.
\<close>

theorem Validate_accepts:
  "Validate getenv c False = None \<longleftrightarrow>
     1 \<le> srv_Port (cfg_Server c) \<and> srv_Port (cfg_Server c) \<le> 65535 \<and>
     DisplayToken getenv (cfg_Server c) \<noteq> '''' \<and> cfg_Proxmox c \<noteq> [] \<and>
     list_all (host_ok getenv) (cfg_Proxmox c) \<and> distinct (map pve_ID (cfg_Proxmox c))"
  by (simp add: Validate_ok list_all_iff)

text \<open>
  The two durations are exact up to 9223372036 seconds (some 292 years); one second more wraps
  to a negative duration, which makes every state stale.
\<close>

theorem seconds_bounds:
  assumes "\<bar>n\<bar> \<le> 9223372036"
  shows "seconds n = n * 1000000000 \<and> seconds 9223372037 < 0"
  using seconds_exact [OF assms] seconds_overflow by simp

lemma seconds_bounds_witness: "seconds 45 = 45000000000"
  using seconds_bounds [of 45] by simp

end
