(* ===== verification/Go_Sort.thy ===== *)
theory Go_Sort
  imports Go_Prelude
begin

text \<open>
  Package \<open>sort\<close>.  \<open>sort.SliceStable\<close> is a stable sort for the comparator it is given;
  \<open>sort.Slice\<close> promises a sorted permutation only, in no fixed order among elements that
  compare equal, which is the relation \<open>sorts_to\<close>.  The comparator contract (a strict weak
  order) is the locale \<open>less_weak\<close>; \<open>less_key\<close> adds that comparator-equal elements have
  equal keys, so that on elements with distinct keys every sort has the same outcome.
\<close>

fun insert_by :: "('a \<Rightarrow> 'a \<Rightarrow> bool) \<Rightarrow> 'a \<Rightarrow> 'a list \<Rightarrow> 'a list" where
  "insert_by lt x [] = [x]"
| "insert_by lt x (y # ys) = (if lt y x then y # insert_by lt x ys else x # y # ys)"

definition slice_stable :: "('a \<Rightarrow> 'a \<Rightarrow> bool) \<Rightarrow> 'a list \<Rightarrow> 'a list" where
  "slice_stable lt xs = foldr (insert_by lt) xs []"

definition sorts_to :: "('a \<Rightarrow> 'a \<Rightarrow> bool) \<Rightarrow> 'a list \<Rightarrow> 'a list \<Rightarrow> bool" where
  "sorts_to lt xs ys \<longleftrightarrow> mset ys = mset xs \<and> sorted_wrt (\<lambda>x y. \<not> lt y x) ys"

lemma slice_stable_simps [simp]:
  "slice_stable lt [] = []"
  "slice_stable lt (x # xs) = insert_by lt x (slice_stable lt xs)"
  by (simp_all add: slice_stable_def)

lemma mset_insert_by [simp]: "mset (insert_by lt x ys) = add_mset x (mset ys)"
  by (induction ys) auto

lemma mset_slice_stable [simp]: "mset (slice_stable lt xs) = mset xs"
  by (induction xs) auto

lemma set_insert_by [simp]: "set (insert_by lt x ys) = insert x (set ys)"
  by (metis mset_insert_by set_mset_add_mset_insert set_mset_mset)

lemma set_slice_stable [simp]: "set (slice_stable lt xs) = set xs"
  by (metis mset_slice_stable set_mset_mset)

lemma length_slice_stable [simp]: "length (slice_stable lt xs) = length xs"
  by (metis mset_slice_stable size_mset)

lemma sorts_to_set: "sorts_to lt xs ys \<Longrightarrow> set ys = set xs"
  unfolding sorts_to_def by (metis set_mset_mset)

lemma sorts_to_length: "sorts_to lt xs ys \<Longrightarrow> length ys = length xs"
  unfolding sorts_to_def by (metis size_mset)

locale less_weak =
  fixes lt :: "'a \<Rightarrow> 'a \<Rightarrow> bool"
  assumes asym: "lt x y \<Longrightarrow> \<not> lt y x"
    and neg_trans: "lt x z \<Longrightarrow> lt x y \<or> lt y z"
begin

lemma irrefl: "\<not> lt x x"
  using asym by blast

lemma trans: "lt x y \<Longrightarrow> lt y z \<Longrightarrow> lt x z"
  using asym neg_trans by blast

lemma insert_sorted:
  "sorted_wrt (\<lambda>x y. \<not> lt y x) ys \<Longrightarrow> sorted_wrt (\<lambda>x y. \<not> lt y x) (insert_by lt x ys)"
  by (induction ys) (auto dest: asym neg_trans)

lemma stable_sorted: "sorted_wrt (\<lambda>x y. \<not> lt y x) (slice_stable lt xs)"
  by (induction xs) (simp_all add: insert_sorted)

lemma stable_sorts_to: "sorts_to lt xs (slice_stable lt xs)"
  by (simp add: sorts_to_def stable_sorted)

lemma filter_insert_tie:
  "\<not> lt z x \<Longrightarrow> \<not> lt x z \<Longrightarrow>
   filter (\<lambda>y. \<not> lt z y \<and> \<not> lt y z) (insert_by lt x ys)
     = x # filter (\<lambda>y. \<not> lt z y \<and> \<not> lt y z) ys"
  by (induction ys) (auto dest: asym neg_trans)

lemma filter_insert_other:
  "lt z x \<or> lt x z \<Longrightarrow>
   filter (\<lambda>y. \<not> lt z y \<and> \<not> lt y z) (insert_by lt x ys)
     = filter (\<lambda>y. \<not> lt z y \<and> \<not> lt y z) ys"
  by (induction ys) auto

text \<open>Stability: elements that compare equal keep their order.\<close>

lemma stable_keeps_ties:
  "filter (\<lambda>y. \<not> lt z y \<and> \<not> lt y z) (slice_stable lt xs)
     = filter (\<lambda>y. \<not> lt z y \<and> \<not> lt y z) xs"
proof (induction xs)
  case (Cons x xs)
  then show ?case
    by (cases "lt z x \<or> lt x z") (auto simp: filter_insert_tie filter_insert_other)
qed simp

lemma stable_id: "sorted_wrt (\<lambda>x y. \<not> lt y x) xs \<Longrightarrow> slice_stable lt xs = xs"
proof (induction xs)
  case (Cons x xs)
  then show ?case by (cases xs) auto
qed simp

end

locale less_key = less_weak lt for lt :: "'a \<Rightarrow> 'a \<Rightarrow> bool" +
  fixes key :: "'a \<Rightarrow> 'k"
  assumes tie_key: "\<not> lt x y \<Longrightarrow> \<not> lt y x \<Longrightarrow> key x = key y"
begin

lemma sorted_unique:
  "sorted_wrt (\<lambda>x y. \<not> lt y x) xs \<Longrightarrow> sorted_wrt (\<lambda>x y. \<not> lt y x) ys \<Longrightarrow>
   mset xs = mset ys \<Longrightarrow> inj_on key (set xs) \<Longrightarrow> xs = ys"
proof (induction xs arbitrary: ys)
  case Nil
  then show ?case by simp
next
  case (Cons x xs)
  from Cons.prems(3) obtain y ys' where ys: "ys = y # ys'"
    by (cases ys) auto
  from Cons.prems(3) have sets: "set (x # xs) = set ys"
    by (metis set_mset_mset)
  have "\<not> lt y x"
    using Cons.prems(1) sets ys irrefl by (metis list.set_intros(1) set_ConsD sorted_wrt.simps(2))
  moreover have "\<not> lt x y"
    using Cons.prems(2) sets ys irrefl by (metis list.set_intros(1) set_ConsD sorted_wrt.simps(2))
  ultimately have "key x = key y" by (blast intro: tie_key)
  moreover have "y \<in> set (x # xs)" using sets ys by simp
  ultimately have "x = y"
    using inj_onD [OF Cons.prems(4)] by simp
  moreover have "xs = ys'"
    using Cons.prems ys \<open>x = y\<close> by (intro Cons.IH) auto
  ultimately show ?case using ys by simp
qed

text \<open>With distinct keys a sort has one possible outcome, whatever the order it started from.\<close>

lemma sorts_unique:
  assumes "inj_on key (set xs)" and "mset xs = mset xs'"
    and "sorts_to lt xs ys" and "sorts_to lt xs' ys'"
  shows "ys = ys'"
proof (rule sorted_unique)
  show "inj_on key (set ys)"
    using assms(1,3) by (simp add: sorts_to_set)
qed (use assms in \<open>simp_all add: sorts_to_def\<close>)

lemma stable_unique:
  "inj_on key (set xs) \<Longrightarrow> sorts_to lt xs ys \<Longrightarrow> ys = slice_stable lt xs"
  using sorts_unique stable_sorts_to by blast

lemma stable_perm:
  "inj_on key (set xs) \<Longrightarrow> mset xs = mset ys \<Longrightarrow> slice_stable lt xs = slice_stable lt ys"
  using sorts_unique stable_sorts_to by blast

end

text \<open>\<open>sort.Strings\<close>: strings compare byte by byte.\<close>

interpretation string_order: less_key "(<) :: string \<Rightarrow> string \<Rightarrow> bool" "\<lambda>s. s"
  by unfold_locales auto

definition sort_strings :: "string list \<Rightarrow> string list" where
  "sort_strings = slice_stable (<)"

lemma sort_strings_sorted: "sorted (sort_strings xs)"
  using string_order.stable_sorted [of xs]
  by (simp add: sort_strings_def not_less)

lemma mset_sort_strings [simp]: "mset (sort_strings xs) = mset xs"
  by (simp add: sort_strings_def)

section \<open>sort.Slice as an operation\<close>

text \<open>
  \<open>sort.Slice(xs, less)\<close> sees its elements only through \<open>less\<close>: what it does is a permutation
  of the positions chosen from the outcomes of the comparisons.  The algorithm (which decides
  where ties go) is the parameter \<open>perm\<close>; \<open>sort_algorithm\<close> is its documented contract.
\<close>

definition SortSlice ::
    "(nat \<Rightarrow> (nat \<Rightarrow> nat \<Rightarrow> bool) \<Rightarrow> nat list) \<Rightarrow> ('a \<Rightarrow> 'a \<Rightarrow> bool) \<Rightarrow> 'a list \<Rightarrow> 'a list" where
  "SortSlice perm lt xs = map ((!) xs) (perm (length xs) (\<lambda>i j. lt (xs ! i) (xs ! j)))"

definition insertion_perm :: "nat \<Rightarrow> (nat \<Rightarrow> nat \<Rightarrow> bool) \<Rightarrow> nat list" where
  "insertion_perm n r = slice_stable r [0..<n]"

locale sort_algorithm =
  fixes perm :: "nat \<Rightarrow> (nat \<Rightarrow> nat \<Rightarrow> bool) \<Rightarrow> nat list"
  assumes perm_sorts: "less_weak r \<Longrightarrow> sorts_to r [0..<n] (perm n r)"
begin

lemma slice_sorts_to:
  assumes "less_weak lt"
  shows "sorts_to lt xs (SortSlice perm lt xs)"
proof -
  let ?r = "\<lambda>i j. lt (xs ! i) (xs ! j)"
  from assms have "less_weak ?r"
    unfolding less_weak_def by blast
  then have p: "sorts_to ?r [0..<length xs] (perm (length xs) ?r)"
    by (rule perm_sorts)
  have "mset (map ((!) xs) (perm (length xs) ?r)) = mset (map ((!) xs) [0..<length xs])"
    using p by (simp only: mset_map sorts_to_def)
  then show ?thesis
    using p by (simp add: sorts_to_def SortSlice_def sorted_wrt_map map_nth)
qed

lemma slice_set: "less_weak lt \<Longrightarrow> set (SortSlice perm lt xs) = set xs"
  by (rule sorts_to_set [OF slice_sorts_to])

lemma slice_length: "less_weak lt \<Longrightarrow> length (SortSlice perm lt xs) = length xs"
  by (rule sorts_to_length [OF slice_sorts_to])

lemma slice_sorted: "less_weak lt \<Longrightarrow> sorted_wrt (\<lambda>x y. \<not> lt y x) (SortSlice perm lt xs)"
  using slice_sorts_to [of lt xs] by (simp add: sorts_to_def)

text \<open>Elements with distinct keys: the outcome does not depend on the algorithm or on the input order.\<close>

lemma slice_determined:
  assumes "less_key lt key" and "inj_on key (set xs)" and "mset xs = mset ys"
  shows "SortSlice perm lt xs = slice_stable lt ys"
proof -
  have w: "less_weak lt" using assms(1) by (rule less_key.axioms(1))
  then show ?thesis
    using less_key.sorts_unique [OF assms(1,2,3) slice_sorts_to [OF w]]
      less_weak.stable_sorts_to [OF w] by blast
qed

end

interpretation insertion: sort_algorithm insertion_perm
  by unfold_locales (simp add: insertion_perm_def less_weak.stable_sorts_to)

text \<open>The comparators of the form \<open>xs[i].ID < xs[j].ID\<close>.\<close>

definition less_by :: "('a \<Rightarrow> string) \<Rightarrow> 'a \<Rightarrow> 'a \<Rightarrow> bool" where
  "less_by f x y \<longleftrightarrow> f x < f y"

lemma less_by_key: "less_key (less_by f) f"
  by unfold_locales (auto simp: less_by_def)

lemmas less_by_weak = less_key.axioms(1) [OF less_by_key]

end
