(* ===== verification/Config_Store.thy ===== *)
theory Config_Store
  imports Config Go_Sort
begin

text \<open>
  Package \<open>configstore\<close> (\<open>internal/configstore/store.go\<close>): the two files the bridge persists
  (configuration and secrets), written through a temporary file and a rename, and the normal form
  of source IDs.

  The file system is a map from paths to files; every system call may fail, which the oracle
  \<open>fault\<close> decides.  YAML (\<open>gopkg.in/yaml.v3\<close>) and the random part of a temporary name are
  arguments.
\<close>

record 'd disk_file =
  file_data :: 'd
  file_perm :: nat

type_synonym 'd disk = "string \<Rightarrow> 'd disk_file option"

datatype os_call =
    Stat string | ReadFile string | MkdirAll string | CreateTemp string string
  | WriteTmp string | ChmodTmp string | CloseTmp string | RenameTo string | RemoveTmp string

datatype store_error = OsError string | YamlError string | EmptyPath | RandError string

record secrets =
  sec_AdminToken :: string
  sec_DisplayToken :: string
  sec_ProxmoxTokens :: "string \<Rightarrow> string option"

definition secrets_zero :: secrets where
  "secrets_zero = \<lparr>sec_AdminToken = '''', sec_DisplayToken = '''', sec_ProxmoxTokens = Map.empty\<rparr>"

record 'd yaml =
  marshal_config :: "config \<Rightarrow> string + 'd"
  unmarshal_config :: "'d \<Rightarrow> string + config"
  marshal_secrets :: "secrets \<Rightarrow> string + 'd"
  unmarshal_secrets :: "'d \<Rightarrow> string + secrets"

record store =
  store_DataDir :: string
  store_ConfigPath :: string
  store_SecretsPath :: string

section \<open>Paths\<close>

text \<open>\<open>filepath.Clean\<close>, \<open>Join\<close>, \<open>Dir\<close> and \<open>Base\<close> on Unix.\<close>

fun clean_segments :: "bool \<Rightarrow> string list \<Rightarrow> string list \<Rightarrow> string list" where
  "clean_segments rooted out [] = rev out"
| "clean_segments rooted out (s # ss) =
     (if s = '''' \<or> s = ''.'' then clean_segments rooted out ss
      else if s = ''..'' then
        (case out of
           [] \<Rightarrow> if rooted then clean_segments rooted [] ss else clean_segments rooted [''..''] ss
         | prev # rest \<Rightarrow> if prev = ''..'' then clean_segments rooted (''..'' # prev # rest) ss
                          else clean_segments rooted rest ss)
      else clean_segments rooted (s # out) ss)"

definition clean_path :: "string \<Rightarrow> string" where
  "clean_path p =
     (let rooted = has_prefix p ''/'';
          segs = clean_segments rooted [] (split_char (CHR ''/'') p)
      in if rooted then ''/'' @ join_with ''/'' segs
         else if segs = [] then ''.'' else join_with ''/'' segs)"

definition join_path :: "string \<Rightarrow> string \<Rightarrow> string" where
  "join_path a b = clean_path (a @ ''/'' @ b)"

definition dir_path :: "string \<Rightarrow> string" where
  "dir_path p = clean_path (rev (dropWhile (\<lambda>c. c \<noteq> CHR ''/'') (rev p)))"

definition base_path :: "string \<Rightarrow> string" where
  "base_path p =
     (if p = '''' then ''.''
      else let q = trim_right_char (CHR ''/'') p
           in if q = '''' then ''/'' else rev (takeWhile (\<lambda>c. c \<noteq> CHR ''/'') (rev q)))"

section \<open>Source identifiers\<close>

definition replace_id_char :: "char \<Rightarrow> char" where
  "replace_id_char c =
     (if c = CHR '' '' \<or> c = CHR ''_'' \<or> c = CHR ''.'' \<or> c = CHR ''/'' \<or> c = CHR 0x5C
      then CHR ''-'' else c)"

definition id_char :: "char \<Rightarrow> bool" where
  "id_char r \<longleftrightarrow> CHR ''a'' \<le> r \<and> r \<le> CHR ''z'' \<or> CHR ''0'' \<le> r \<and> r \<le> CHR ''9'' \<or> r = CHR ''-''"

lemma length_replace_dashes: "length (replace_all s ''--'' ''-'') \<le> length s"
  by (induction s "''--''" "''-''" rule: replace_all.induct) auto

lemma replace_dashes_shorter:
  "contains s ''--'' \<Longrightarrow> length (replace_all s ''--'' ''-'') < length s"
proof (induction s "''--''" "''-''" rule: replace_all.induct)
  case (2 x xs)
  show ?case
  proof (cases "has_prefix (x # xs) ''--''")
    case True
    then show ?thesis
      using length_replace_dashes [of "drop 2 (x # xs)"]
      by (cases xs) (auto simp: has_prefix_def)
  next
    case False
    with 2 show ?thesis by auto
  qed
qed simp

text \<open>The loop that replaces double dashes until there are none.\<close>

function collapse_dashes :: "string \<Rightarrow> string" where
  "collapse_dashes s =
     (if contains s ''--'' then collapse_dashes (replace_all s ''--'' ''-'') else s)"
  by pat_completeness auto
termination
  by (relation "measure length") (auto dest: replace_dashes_shorter)

declare collapse_dashes.simps [simp del]

definition SanitizeID :: "string \<Rightarrow> string" where
  "SanitizeID value =
     (let value = to_lower (trim_space value);
          value = map replace_id_char value;
          value = trim_char (CHR ''-'') (filter id_char value)
      in collapse_dashes value)"

definition SortedProxmoxIDs :: "config \<Rightarrow> string list" where
  "SortedProxmoxIDs c = sort_strings (map pve_ID (cfg_Proxmox c))"

section \<open>Secrets\<close>

definition apply_token :: "secrets \<Rightarrow> proxmox_host \<Rightarrow> proxmox_host" where
  "apply_token s p =
     (let token = trim_space (case sec_ProxmoxTokens s (pve_ID p) of None \<Rightarrow> '''' | Some t \<Rightarrow> t)
      in if token \<noteq> '''' then p\<lparr>pve_TokenValue := token\<rparr> else p)"

definition ApplySecrets :: "config \<Rightarrow> secrets \<Rightarrow> config" where
  "ApplySecrets c s = c
     \<lparr>cfg_Server := (cfg_Server c)
        \<lparr>srv_DisplayTokenValue := trim_space (sec_DisplayToken s),
         srv_AdminTokenValue := trim_space (sec_AdminToken s)\<rparr>,
      cfg_Proxmox := map (apply_token s) (cfg_Proxmox c)\<rparr>"

text \<open>
  \<open>randomToken\<close> is 24 bytes of \<open>crypto/rand\<close> in hexadecimal; the bytes of the two draws are
  arguments, a failed draw is \<open>Inl\<close>.
\<close>

definition randomToken :: "string + nat list \<Rightarrow> store_error + string" where
  "randomToken draw = (case draw of Inl e \<Rightarrow> Inl (RandError e) | Inr bs \<Rightarrow> Inr (hex_encode bs))"

definition EnsureTokens ::
    "string + nat list \<Rightarrow> string + nat list \<Rightarrow> secrets \<Rightarrow> secrets \<times> store_error option" where
  "EnsureTokens draw1 draw2 s =
     (case (if trim_space (sec_DisplayToken s) = '''' then randomToken draw1
            else Inr (sec_DisplayToken s)) of
        Inl e \<Rightarrow> (s\<lparr>sec_DisplayToken := ''''\<rparr>, Some e)
      | Inr display \<Rightarrow>
          let s = s\<lparr>sec_DisplayToken := display\<rparr>
          in (case (if trim_space (sec_AdminToken s) = '''' then randomToken draw2
                    else Inr (sec_AdminToken s)) of
                Inl e \<Rightarrow> (s\<lparr>sec_AdminToken := ''''\<rparr>, Some e)
              | Inr admin \<Rightarrow> (s\<lparr>sec_AdminToken := admin\<rparr>, None)))"

section \<open>The files\<close>

definition NewStore :: "string \<Rightarrow> string \<Rightarrow> store" where
  "NewStore dataDir configPath =
     (let dataDir = (if dataDir = '''' then ''/data'' else dataDir);
          configPath = (if configPath = '''' then join_path dataDir ''config.yaml'' else configPath)
      in \<lparr>store_DataDir = dataDir, store_ConfigPath = configPath,
          store_SecretsPath = join_path dataDir ''secrets.yaml''\<rparr>)"

definition fileExists :: "(os_call \<Rightarrow> string option) \<Rightarrow> 'd disk \<Rightarrow> string \<Rightarrow> bool" where
  "fileExists fault d path \<longleftrightarrow> path \<noteq> '''' \<and> fault (Stat path) = None \<and> d path \<noteq> None"

text \<open>Reading a file that is not there fails like any other read.\<close>

definition readFile :: "(os_call \<Rightarrow> string option) \<Rightarrow> 'd disk \<Rightarrow> string \<Rightarrow> store_error + 'd" where
  "readFile fault d path =
     (case fault (ReadFile path) of Some e \<Rightarrow> Inl (OsError e)
      | None \<Rightarrow> (case d path of None \<Rightarrow> Inl (OsError ''no such file'') | Some f \<Rightarrow> Inr (file_data f)))"

definition LoadConfig ::
    "(os_call \<Rightarrow> string option) \<Rightarrow> 'd yaml \<Rightarrow> 'd disk \<Rightarrow> string \<Rightarrow> store_error + config" where
  "LoadConfig fault y d path =
     (case readFile fault d path of Inl e \<Rightarrow> Inl e
      | Inr bytes \<Rightarrow> (case unmarshal_config y bytes of Inl e \<Rightarrow> Inl (YamlError e)
                      | Inr c \<Rightarrow> Inr (applyDefaults c)))"

definition LoadSecrets ::
    "(os_call \<Rightarrow> string option) \<Rightarrow> 'd yaml \<Rightarrow> 'd disk \<Rightarrow> store \<Rightarrow> store_error + secrets" where
  "LoadSecrets fault y d st =
     (if \<not> fileExists fault d (store_SecretsPath st) then Inr secrets_zero
      else case readFile fault d (store_SecretsPath st) of Inl e \<Rightarrow> Inl e
           | Inr bytes \<Rightarrow> (case unmarshal_secrets y bytes of Inl e \<Rightarrow> Inl (YamlError e)
                           | Inr s \<Rightarrow> Inr s))"

definition Load ::
    "(os_call \<Rightarrow> string option) \<Rightarrow> 'd yaml \<Rightarrow> 'd disk \<Rightarrow> store \<Rightarrow> store_error + config \<times> secrets" where
  "Load fault y d st =
     (case (if fileExists fault d (store_ConfigPath st)
            then LoadConfig fault y d (store_ConfigPath st) else Inr NewDefault) of
        Inl e \<Rightarrow> Inl e
      | Inr c \<Rightarrow> (case LoadSecrets fault y d st of Inl e \<Rightarrow> Inl e
                  | Inr s \<Rightarrow> Inr (ApplySecrets c s, s)))"

text \<open>
  \<open>temp_name d dir pattern\<close> is the name \<open>os.CreateTemp\<close> picks, \<open>temp_torn\<close> what a write that fails
  leaves of its data.  On every failure after the temporary file exists, the deferred \<open>os.Remove\<close>
  deletes it, unless that call fails too, whose error nobody reads; after the rename there is
  nothing left under its name.
\<close>

record 'd temp_files =
  temp_name :: "'d disk \<Rightarrow> string \<Rightarrow> string \<Rightarrow> string"
  temp_torn :: "'d \<Rightarrow> 'd"

definition tmp_pattern :: "string \<Rightarrow> string" where
  "tmp_pattern path = ''.'' @ base_path path @ ''.tmp-*''"

definition writeFileAtomic ::
    "(os_call \<Rightarrow> string option) \<Rightarrow> 'd temp_files \<Rightarrow> string \<Rightarrow> 'd \<Rightarrow> nat \<Rightarrow>
     'd disk \<Rightarrow> store_error option \<times> 'd disk" where
  "writeFileAtomic fault mktemp path bytes perm d =
     (if path = '''' then (Some EmptyPath, d)
      else case fault (MkdirAll (dir_path path)) of Some e \<Rightarrow> (Some (OsError e), d)
      | None \<Rightarrow>
      (case fault (CreateTemp (dir_path path) (tmp_pattern path)) of Some e \<Rightarrow> (Some (OsError e), d)
      | None \<Rightarrow>
       let tmp = temp_name mktemp d (dir_path path) (tmp_pattern path);
           torn = d(tmp \<mapsto> \<lparr>file_data = temp_torn mktemp bytes, file_perm = 384\<rparr>);
           written = d(tmp \<mapsto> \<lparr>file_data = bytes, file_perm = 384\<rparr>);
           ready = d(tmp \<mapsto> \<lparr>file_data = bytes, file_perm = perm\<rparr>);
           removed = (\<lambda>x. if fault (RemoveTmp tmp) = None then x(tmp := None) else x)
       in (case fault (WriteTmp tmp) of Some e \<Rightarrow> (Some (OsError e), removed torn)
           | None \<Rightarrow>
          (case fault (ChmodTmp tmp) of Some e \<Rightarrow> (Some (OsError e), removed written)
           | None \<Rightarrow>
          (case fault (CloseTmp tmp) of Some e \<Rightarrow> (Some (OsError e), removed ready)
           | None \<Rightarrow>
          (case fault (RenameTo path) of Some e \<Rightarrow> (Some (OsError e), removed ready)
           | None \<Rightarrow>
             (None, (ready(path \<mapsto> \<lparr>file_data = bytes, file_perm = perm\<rparr>))(tmp := None))))))))"

text \<open>
  \<open>Save\<close> takes the configuration by value, but its \<open>Proxmox\<close> slice shares its array with the
  caller's: the default TLS modes and the cleared token values of the sources are visible to the
  caller, the changes to the \<open>Server\<close> struct are not.  The result therefore carries the
  configuration the caller is left with.
\<close>

definition clear_host_token :: "proxmox_host \<Rightarrow> proxmox_host" where
  "clear_host_token p = p\<lparr>pve_TokenValue := ''''\<rparr>"

record 'd save_result =
  save_err :: "store_error option"
  save_disk :: "'d disk"
  save_caller :: config

text \<open>The two halves of \<open>Save\<close>, one for each file; between them other saves may write.\<close>

definition save_config ::
    "(os_call \<Rightarrow> string option) \<Rightarrow> 'd temp_files \<Rightarrow> 'd yaml \<Rightarrow> store \<Rightarrow>
     config \<Rightarrow> 'd disk \<Rightarrow> store_error option \<times> 'd disk" where
  "save_config fault mktemp y st c d =
     (case fault (MkdirAll (store_DataDir st)) of Some e \<Rightarrow> (Some (OsError e), d)
      | None \<Rightarrow>
        (case marshal_config y c of Inl e \<Rightarrow> (Some (YamlError e), d)
         | Inr configData \<Rightarrow> writeFileAtomic fault mktemp (store_ConfigPath st) configData 416 d))"

definition save_secrets ::
    "(os_call \<Rightarrow> string option) \<Rightarrow> 'd temp_files \<Rightarrow> 'd yaml \<Rightarrow> store \<Rightarrow>
     secrets \<Rightarrow> 'd disk \<Rightarrow> store_error option \<times> 'd disk" where
  "save_secrets fault mktemp y st s d =
     (case marshal_secrets y s of Inl e \<Rightarrow> (Some (YamlError e), d)
      | Inr secretData \<Rightarrow> writeFileAtomic fault mktemp (store_SecretsPath st) secretData 384 d)"

definition Save ::
    "(os_call \<Rightarrow> string option) \<Rightarrow> 'd temp_files \<Rightarrow> 'd yaml \<Rightarrow> store \<Rightarrow>
     config \<Rightarrow> secrets \<Rightarrow> 'd disk \<Rightarrow> 'd save_result" where
  "Save fault mktemp y st c0 s d =
     (let c = applyDefaults c0;
          c = c\<lparr>cfg_Server := (cfg_Server c)\<lparr>srv_DisplayTokenValue := '''', srv_AdminTokenValue := ''''\<rparr>\<rparr>;
          c = c\<lparr>cfg_Proxmox := map clear_host_token (cfg_Proxmox c)\<rparr>;
          caller = c0\<lparr>cfg_Proxmox := cfg_Proxmox c\<rparr>
      in case save_config fault mktemp y st c d of
           (Some e, d1) \<Rightarrow> \<lparr>save_err = Some e, save_disk = d1, save_caller = caller\<rparr>
         | (None, d1) \<Rightarrow>
             (case save_secrets fault mktemp y st s d1 of
                (e, d2) \<Rightarrow> \<lparr>save_err = e, save_disk = d2, save_caller = caller\<rparr>))"

lemmas save_defs = Save_def save_config_def save_secrets_def

section \<open>Facts: source identifiers\<close>

text \<open>The normal form: lower-case letters, digits and single inner dashes.\<close>

definition valid_id :: "string \<Rightarrow> bool" where
  "valid_id s \<longleftrightarrow> list_all id_char s \<and> (s \<noteq> [] \<longrightarrow> hd s \<noteq> CHR ''-'' \<and> last s \<noteq> CHR ''-'')
     \<and> \<not> contains s ''--''"

lemma replace_dashes_chars: "list_all id_char s \<Longrightarrow> list_all id_char (replace_all s ''--'' ''-'')"
proof (induction s "''--''" "''-''" rule: replace_all.induct)
  case (2 x xs)
  then show ?case by (cases xs) (auto simp: id_char_def)
qed simp

lemma replace_dashes_Nil [simp]: "replace_all s ''--'' ''-'' = [] \<longleftrightarrow> s = []"
  by (cases s) auto

lemma replace_dashes_hd: "hd (replace_all s ''--'' ''-'') = hd s"
  by (cases s) (auto simp: has_prefix_def)

lemma replace_dashes_last: "last (replace_all s ''--'' ''-'') = last s"
proof (induction s "''--''" "''-''" rule: replace_all.induct)
  case (2 x xs)
  show ?case
  proof (cases "has_prefix (x # xs) ''--''")
    case True
    then obtain ys where "xs = CHR ''-'' # ys" and "x = CHR ''-''"
      by (cases xs) (auto simp: has_prefix_def)
    with 2 True show ?thesis by (cases "ys = []") auto
  next
    case False
    with 2 show ?thesis by auto
  qed
qed simp

lemma collapse_dashes_no_double: "\<not> contains (collapse_dashes s) ''--''"
proof (induction s rule: collapse_dashes.induct)
  case (1 s)
  then show ?case by (simp add: collapse_dashes.simps [of s])
qed

lemma collapse_dashes_keeps:
  "(list_all id_char s \<longrightarrow> list_all id_char (collapse_dashes s))
   \<and> (collapse_dashes s = [] \<longleftrightarrow> s = []) \<and> hd (collapse_dashes s) = hd s
   \<and> last (collapse_dashes s) = last s"
proof (induction s rule: collapse_dashes.induct)
  case (1 s)
  then show ?case
    by (auto simp: collapse_dashes.simps [of s] replace_dashes_chars replace_dashes_hd
        replace_dashes_last)
qed

lemma dropWhile_hd: "dropWhile P s \<noteq> [] \<Longrightarrow> \<not> P (hd (dropWhile P s))"
  by (induction s) auto

lemma trim_char_ends:
  assumes "trim_char c s \<noteq> []"
  shows "hd (trim_char c s) \<noteq> c \<and> last (trim_char c s) \<noteq> c"
proof -
  define t where "t = dropWhile (\<lambda>x. x = c) s"
  from assms have ne: "dropWhile (\<lambda>x. x = c) (rev t) \<noteq> []"
    by (simp add: trim_char_def trim_right_char_def t_def)
  then have last: "last (trim_char c s) \<noteq> c"
    using dropWhile_hd [OF ne] by (simp add: trim_char_def trim_right_char_def t_def last_rev)
  have "t \<noteq> []" using ne by auto
  then have hd: "hd t \<noteq> c" using dropWhile_hd [of "\<lambda>x. x = c" s] by (simp add: t_def)
  obtain pre where "rev t = pre @ dropWhile (\<lambda>x. x = c) (rev t)"
    by (metis takeWhile_dropWhile_id)
  then have "t = rev (dropWhile (\<lambda>x. x = c) (rev t)) @ rev pre"
    by (metis rev_append rev_rev_ident)
  with ne hd have "hd (rev (dropWhile (\<lambda>x. x = c) (rev t))) \<noteq> c"
    by (metis hd_append2 rev_is_Nil_conv)
  with last show ?thesis by (simp add: trim_char_def trim_right_char_def t_def)
qed

lemma set_trim_char: "set (trim_char c s) \<subseteq> set s"
  by (auto simp: trim_char_def trim_right_char_def dest!: set_dropWhileD)

lemma SanitizeID_valid: "valid_id (SanitizeID v)"
proof -
  define t where
    "t = trim_char (CHR ''-'') (filter id_char (map replace_id_char (to_lower (trim_space v))))"
  have "list_all id_char t"
    using set_trim_char [of "CHR ''-''" "filter id_char (map replace_id_char (to_lower (trim_space v)))"]
    by (auto simp: list_all_iff t_def)
  moreover have "t \<noteq> [] \<longrightarrow> hd t \<noteq> CHR ''-'' \<and> last t \<noteq> CHR ''-''"
    using trim_char_ends by (simp add: t_def)
  ultimately show ?thesis
    using collapse_dashes_keeps [of t] collapse_dashes_no_double [of t]
    by (simp add: SanitizeID_def Let_def valid_id_def t_def [symmetric])
qed

lemma id_char_code:
  "id_char c \<longleftrightarrow> 97 \<le> (of_char c :: nat) \<and> (of_char c :: nat) \<le> 122
     \<or> 48 \<le> (of_char c :: nat) \<and> (of_char c :: nat) \<le> 57 \<or> (of_char c :: nat) = 45"
proof -
  have "c = CHR ''-'' \<longleftrightarrow> (of_char c :: nat) = of_char (CHR ''-'')"
    by (simp only: of_char_eq_iff)
  then show ?thesis by (simp add: id_char_def less_eq_char_def)
qed

lemma char_code_neq: "(of_char c :: nat) \<noteq> of_char d \<Longrightarrow> c \<noteq> d"
  by auto

lemma space_bytes_code: "c \<in> space_bytes \<Longrightarrow> (of_char c :: nat) \<le> 32 \<or> 128 \<le> (of_char c :: nat)"
  by (auto simp: space_bytes_def space_runes_def)

lemma id_char_plain:
  assumes "id_char c"
  shows "ascii_lower c = c \<and> replace_id_char c = c \<and> c \<noteq> CHR 0xE2 \<and> c \<noteq> CHR 0xC4 \<and> c \<notin> space_bytes"
proof -
  have code: "97 \<le> (of_char c :: nat) \<and> (of_char c :: nat) \<le> 122
     \<or> 48 \<le> (of_char c :: nat) \<and> (of_char c :: nat) \<le> 57 \<or> (of_char c :: nat) = 45"
    using assms by (simp add: id_char_code)
  have "ascii_lower c = c" using code by (auto simp: ascii_lower_def less_eq_char_def)
  moreover have "replace_id_char c = c"
    using code by (auto simp: replace_id_char_def)
  moreover have "c \<noteq> CHR 0xE2 \<and> c \<noteq> CHR 0xC4"
    using code by (auto intro!: char_code_neq)
  moreover have "c \<notin> space_bytes" using code space_bytes_code [of c] by auto
  ultimately show ?thesis by blast
qed

lemma to_lower_id: "list_all id_char s \<Longrightarrow> to_lower s = s"
  by (induction s rule: to_lower.induct) (auto simp: id_char_plain)

lemma dropWhile_id: "s = [] \<or> hd s \<noteq> c \<Longrightarrow> dropWhile (\<lambda>x. x = c) s = s"
  by (cases s) auto

lemma trim_char_id: "s \<noteq> [] \<longrightarrow> hd s \<noteq> c \<and> last s \<noteq> c \<Longrightarrow> trim_char c s = s"
  by (cases "s = []") (simp_all add: trim_char_def trim_right_char_def dropWhile_id hd_rev)

lemma SanitizeID_id: "valid_id s \<Longrightarrow> SanitizeID s = s"
proof -
  assume v: "valid_id s"
  then have ids: "list_all id_char s" by (simp add: valid_id_def)
  then have "trim_space s = s"
    by (intro trim_space_id trimmedI) (auto simp: list_all_iff dest: id_char_plain)
  moreover have "map replace_id_char s = s"
    using ids by (induction s) (auto simp: id_char_plain)
  moreover have "filter id_char s = s"
    using ids by (simp add: list_all_iff)
  ultimately show ?thesis
    using v ids
    by (simp add: SanitizeID_def to_lower_id trim_char_id valid_id_def collapse_dashes.simps [of s])
qed

lemma SanitizeID_idem [simp]: "SanitizeID (SanitizeID v) = SanitizeID v"
  by (simp add: SanitizeID_id SanitizeID_valid)

section \<open>Facts: secrets\<close>

lemma apply_token_id [simp]: "pve_ID (apply_token s p) = pve_ID p"
  by (simp add: apply_token_def Let_def)

lemma apply_token_idem [simp]: "apply_token s (apply_token s p) = apply_token s p"
  by (simp add: apply_token_def Let_def)

lemma ApplySecrets_idem [simp]: "ApplySecrets (ApplySecrets c s) s = ApplySecrets c s"
  by (simp add: ApplySecrets_def)

lemma apply_token_defaults: "apply_token s (default_tls_mode p) = default_tls_mode (apply_token s p)"
  by (simp add: apply_token_def default_tls_mode_def Let_def)

lemma ApplySecrets_defaults: "ApplySecrets (applyDefaults c) s = applyDefaults (ApplySecrets c s)"
  by (simp add: ApplySecrets_def applyDefaults_def apply_token_defaults)

text \<open>What is written to the configuration file: everything but the three token values.\<close>

definition persisted :: "config \<Rightarrow> config" where
  "persisted c = c
     \<lparr>cfg_Server := (cfg_Server c)\<lparr>srv_DisplayTokenValue := '''', srv_AdminTokenValue := ''''\<rparr>,
      cfg_Proxmox := map clear_host_token (cfg_Proxmox c)\<rparr>"

lemma persisted_idem [simp]: "persisted (persisted c) = persisted c"
  by (simp add: persisted_def clear_host_token_def)

lemma persisted_defaults: "applyDefaults (persisted c) = persisted (applyDefaults c)"
  by (simp add: persisted_def applyDefaults_def clear_host_token_def default_tls_mode_def)

section \<open>Facts: files\<close>

text \<open>The last name of a path survives its cleaning, so the secrets file is always called so.\<close>

lemma clean_segments_last:
  "s \<notin> {'''', ''.'', ''..''} \<Longrightarrow> \<exists>pre. clean_segments rooted out (ss @ [s]) = pre @ [s]"
proof (induction ss arbitrary: out)
  case Nil then show ?case by simp
next
  case (Cons x xs)
  have "\<exists>out'. clean_segments rooted out ((x # xs) @ [s]) = clean_segments rooted out' (xs @ [s])"
    by (simp split: list.split) blast
  with Cons show ?case by metis
qed

lemma join_with_last: "\<exists>pre. join_with sep (xs @ [x]) = pre @ x"
proof (induction sep xs rule: join_with.induct)
  case (2 sep y)
  have "join_with sep ([y] @ [x]) = (y @ sep) @ x" by simp
  then show ?case ..
next
  case (3 sep y z zs)
  then obtain pre where "join_with sep ((z # zs) @ [x]) = pre @ x" ..
  then have "join_with sep ((y # z # zs) @ [x]) = (y @ sep @ pre) @ x" by simp
  then show ?case ..
qed simp

lemma join_path_last:
  assumes "CHR ''/'' \<notin> set s" and "s \<notin> {'''', ''.'', ''..''}"
  shows "\<exists>pre. join_path a s = pre @ s"
proof -
  let ?path = "a @ ''/'' @ s"
  have parts: "split_char (CHR ''/'') ?path = split_char (CHR ''/'') a @ [s]"
    using assms(1) by (simp add: split_char_append split_char_single)
  obtain segs where "clean_segments (has_prefix ?path ''/'') [] (split_char (CHR ''/'') ?path) = segs @ [s]"
    unfolding parts using clean_segments_last [OF assms(2)] by blast
  moreover obtain pre where "join_with ''/'' (segs @ [s]) = pre @ s"
    using join_with_last by blast
  ultimately show ?thesis
    unfolding join_path_def clean_path_def Let_def by (metis append.assoc append_is_Nil_conv not_Cons_self2)
qed

lemma secrets_path_no_temp: "\<not> is_digit (last (store_SecretsPath (NewStore dataDir configPath)))"
proof -
  have name: "CHR ''/'' \<notin> set ''secrets.yaml''" "''secrets.yaml'' \<notin> {'''', ''.'', ''..''}" by simp_all
  obtain pre where "store_SecretsPath (NewStore dataDir configPath) = pre @ ''secrets.yaml''"
    using join_path_last [OF name] by (fastforce simp: NewStore_def Let_def)
  then show ?thesis by (simp add: is_digit_def)
qed

text \<open>
  What \<open>os.CreateTemp\<close> documents: the name is new, never the target itself, and ends in the random
  number that takes the place of the star.
\<close>

definition fresh_temp :: "'d temp_files \<Rightarrow> bool" where
  "fresh_temp mktemp \<longleftrightarrow>
     (\<forall>d p. finite (dom d) \<longrightarrow> temp_name mktemp d (dir_path p) (tmp_pattern p) \<notin> insert p (dom d) \<and>
        is_digit (last (temp_name mktemp d (dir_path p) (tmp_pattern p))))"

text \<open>
  The disk \<open>d\<close>, but for one temporary file: under such a name, which is neither taken nor the
  target's, and only if it could not be removed.
\<close>

definition left_over :: "(os_call \<Rightarrow> string option) \<Rightarrow> string \<Rightarrow> 'd disk \<Rightarrow> 'd disk \<Rightarrow> bool" where
  "left_over fault path d d' \<longleftrightarrow>
     d' = d \<or>
     (\<exists>tmp f. tmp \<notin> insert path (dom d) \<and> is_digit (last tmp) \<and> fault (RemoveTmp tmp) \<noteq> None \<and> d' = d(tmp \<mapsto> f))"

lemma left_over_refl [simp]: "left_over fault path d d"
  by (simp add: left_over_def)

lemma write_outcome:
  assumes "fresh_temp mktemp" and "finite (dom d)"
    and "writeFileAtomic fault mktemp path bytes perm d = (err, d')"
  shows "if err = None then d' = d(path \<mapsto> \<lparr>file_data = bytes, file_perm = perm\<rparr>)
         else left_over fault path d d'"
proof -
  define tmp where "tmp = temp_name mktemp d (dir_path path) (tmp_pattern path)"
  have new: "d tmp = None" "tmp \<noteq> path" "is_digit (last tmp)"
    using assms(1,2) by (auto simp: fresh_temp_def tmp_def)
  then have "(d(tmp \<mapsto> f))(tmp := None) = d" for f
    by (auto simp: fun_eq_iff)
  then have left: "left_over fault path d (if fault (RemoveTmp tmp) = None then (d(tmp \<mapsto> f))(tmp := None) else d(tmp \<mapsto> f))" for f
    using new by (auto simp: left_over_def)
  from new have moved: "((d(tmp \<mapsto> f))(path \<mapsto> g))(tmp := None) = d(path \<mapsto> g)" for f g
    by (auto simp: fun_eq_iff)
  show ?thesis
    using assms(3) left moved
    by (auto simp: writeFileAtomic_def tmp_def [symmetric] Let_def simp del: fun_upd_apply
        split: if_splits option.splits)
qed

lemma write_error_disk:
  "fresh_temp mktemp \<Longrightarrow> finite (dom d) \<Longrightarrow>
   writeFileAtomic fault mktemp path bytes perm d = (Some e, d') \<Longrightarrow> left_over fault path d d'"
  by (drule (2) write_outcome) simp

lemma write_ok_disk:
  "fresh_temp mktemp \<Longrightarrow> finite (dom d) \<Longrightarrow>
   writeFileAtomic fault mktemp path bytes perm d = (None, d') \<Longrightarrow>
   d' = d(path \<mapsto> \<lparr>file_data = bytes, file_perm = perm\<rparr>)"
  by (drule (2) write_outcome) simp

lemma write_ok_path:
  "writeFileAtomic fault mktemp path bytes perm d = (None, d') \<Longrightarrow> path \<noteq> ''''"
  by (auto simp: writeFileAtomic_def)

lemma Save_caller [simp]:
  "save_caller (Save fault mktemp y st c s d)
     = c\<lparr>cfg_Proxmox := map clear_host_token (cfg_Proxmox (applyDefaults c))\<rparr>"
  by (simp add: save_defs Let_def applyDefaults_def split: option.split sum.split prod.split)

text \<open>The first write of a save succeeds, or the save fails and no file of the disk is touched.\<close>

lemma Save_first_write:
  assumes "fresh_temp mktemp" and "finite (dom d)"
  obtains (untouched) "save_err (Save fault mktemp y st c s d) \<noteq> None"
        and "left_over fault (store_ConfigPath st) d (save_disk (Save fault mktemp y st c s d))"
    | (first_written) b where "fault (MkdirAll (store_DataDir st)) = None"
        and "marshal_config y (persisted (applyDefaults c)) = Inr b"
        and "writeFileAtomic fault mktemp (store_ConfigPath st) b 416 d =
               (None, d(store_ConfigPath st \<mapsto> \<lparr>file_data = b, file_perm = 416\<rparr>))"
proof (cases "fault (MkdirAll (store_DataDir st))"; cases "marshal_config y (persisted (applyDefaults c))")
  fix b
  assume mk: "fault (MkdirAll (store_DataDir st)) = None"
    and mc: "marshal_config y (persisted (applyDefaults c)) = Inr b"
  obtain e1 d1 where w1: "writeFileAtomic fault mktemp (store_ConfigPath st) b 416 d = (e1, d1)"
    by fastforce
  show thesis
  proof (cases e1)
    case (Some e)
    with w1 mk mc write_error_disk [OF assms] show thesis
      by (intro untouched) (simp_all add: save_defs Let_def persisted_def)
  next
    case None
    have "d1 = d(store_ConfigPath st \<mapsto> \<lparr>file_data = b, file_perm = 416\<rparr>)"
      by (rule write_ok_disk [OF assms, of fault "store_ConfigPath st" b]) (simp add: w1 None)
    with w1 mk mc None show thesis by (intro first_written) simp_all
  qed
qed (intro untouched; simp add: save_defs Let_def persisted_def)+

text \<open>A save leaves the files as they were, or with the new configuration file only, or with both.\<close>

lemma Save_disk:
  assumes "fresh_temp mktemp" and "finite (dom d)"
  obtains (untouched) "save_err (Save fault mktemp y st c s d) \<noteq> None"
        and "left_over fault (store_ConfigPath st) d (save_disk (Save fault mktemp y st c s d))"
    | (config_only) b where "marshal_config y (persisted (applyDefaults c)) = Inr b"
        and "save_err (Save fault mktemp y st c s d) \<noteq> None"
        and "left_over fault (store_SecretsPath st) (d(store_ConfigPath st \<mapsto> \<lparr>file_data = b, file_perm = 416\<rparr>))
               (save_disk (Save fault mktemp y st c s d))"
    | (saved) b b' where "marshal_config y (persisted (applyDefaults c)) = Inr b"
        and "marshal_secrets y s = Inr b'" and "save_err (Save fault mktemp y st c s d) = None"
        and "store_ConfigPath st \<noteq> ''''" and "store_SecretsPath st \<noteq> ''''"
        and "save_disk (Save fault mktemp y st c s d)
               = d(store_ConfigPath st \<mapsto> \<lparr>file_data = b, file_perm = 416\<rparr>,
                   store_SecretsPath st \<mapsto> \<lparr>file_data = b', file_perm = 384\<rparr>)"
proof (rule Save_first_write [OF assms, of fault y st c s])
  assume "save_err (Save fault mktemp y st c s d) \<noteq> None"
    and "left_over fault (store_ConfigPath st) d (save_disk (Save fault mktemp y st c s d))"
  then show thesis by (rule untouched)
next
  fix b
  let ?d1 = "d(store_ConfigPath st \<mapsto> \<lparr>file_data = b, file_perm = 416\<rparr>)"
  assume first: "fault (MkdirAll (store_DataDir st)) = None"
      "marshal_config y (persisted (applyDefaults c)) = Inr b"
      "writeFileAtomic fault mktemp (store_ConfigPath st) b 416 d = (None, ?d1)"
  show thesis
  proof (cases "marshal_secrets y s")
    case (Inl e)
    with first show thesis
      by (intro config_only [of b]) (simp_all add: save_defs Let_def persisted_def)
  next
    case ms: (Inr b')
    have fin: "finite (dom ?d1)" using assms(2) by simp
    obtain e2 d2 where
      w2: "writeFileAtomic fault mktemp (store_SecretsPath st) b' 384 ?d1 = (e2, d2)"
      by fastforce
    with first ms have r: "save_err (Save fault mktemp y st c s d) = e2"
        "save_disk (Save fault mktemp y st c s d) = d2"
      by (simp_all add: save_defs Let_def persisted_def)
    show thesis
    proof (cases e2)
      case (Some e)
      have "left_over fault (store_SecretsPath st) ?d1 d2"
        by (rule write_error_disk [OF assms(1) fin, of fault "store_SecretsPath st" b' 384 e])
          (simp add: w2 Some)
      with r first Some show thesis by (intro config_only [of b]) simp_all
    next
      case None
      have "d2 = ?d1(store_SecretsPath st \<mapsto> \<lparr>file_data = b', file_perm = 384\<rparr>)"
        by (rule write_ok_disk [OF assms(1) fin, of fault "store_SecretsPath st" b' 384])
          (simp add: w2 None)
      moreover have "store_ConfigPath st \<noteq> ''''" by (rule write_ok_path [OF first(3)])
      moreover have "store_SecretsPath st \<noteq> ''''"
        by (rule write_ok_path [of fault mktemp _ b' 384 ?d1 d2]) (simp add: w2 None)
      ultimately show thesis using r first ms None by (intro saved [of b b']) simp_all
    qed
  qed
qed

text \<open>What the YAML library documents: a value that is written is read back, \<open>yaml:"-"\<close> fields empty.\<close>

definition yaml_roundtrip :: "'d yaml \<Rightarrow> bool" where
  "yaml_roundtrip y \<longleftrightarrow>
     (\<forall>c b. marshal_config y c = Inr b \<longrightarrow> unmarshal_config y b = Inr (persisted c)) \<and>
     (\<forall>s b. marshal_secrets y s = Inr b \<longrightarrow> unmarshal_secrets y b = Inr s)"

lemma Save_Load:
  assumes "yaml_roundtrip y" and "fresh_temp mktemp" and "finite (dom d)"
    and "store_ConfigPath st \<noteq> store_SecretsPath st" and "\<forall>call. readfault call = None"
    and "save_err (Save fault mktemp y st c s d) = None"
  shows "Load readfault y (save_disk (Save fault mktemp y st c s d)) st
           = Inr (ApplySecrets (persisted (applyDefaults c)) s, s)"
proof (rule Save_disk [OF assms(2,3), of fault y st c s])
  fix b b'
  assume saved: "marshal_config y (persisted (applyDefaults c)) = Inr b" "marshal_secrets y s = Inr b'"
      "store_ConfigPath st \<noteq> ''''" "store_SecretsPath st \<noteq> ''''"
      "save_disk (Save fault mktemp y st c s d)
         = d(store_ConfigPath st \<mapsto> \<lparr>file_data = b, file_perm = 416\<rparr>,
             store_SecretsPath st \<mapsto> \<lparr>file_data = b', file_perm = 384\<rparr>)"
  have "unmarshal_config y b = Inr (persisted (applyDefaults c))"
    and "unmarshal_secrets y b' = Inr s"
    using assms(1) saved(1,2) by (force simp: yaml_roundtrip_def)+
  with saved assms(4,5) show ?thesis
    by (simp add: Load_def LoadConfig_def LoadSecrets_def readFile_def fileExists_def
        persisted_defaults)
qed (use assms(6) in simp_all)

section \<open>Properties\<close>

text \<open>A concrete codec and temporary names, under which the hypotheses below hold.\<close>

definition plain_yaml :: "(config + secrets) yaml" where
  "plain_yaml =
     \<lparr>marshal_config = \<lambda>c. Inr (Inl (persisted c)),
      unmarshal_config = \<lambda>b. (case b of Inl c \<Rightarrow> Inr c | Inr s \<Rightarrow> Inl ''not a configuration''),
      marshal_secrets = \<lambda>s. Inr (Inr s),
      unmarshal_secrets = \<lambda>b. (case b of Inl c \<Rightarrow> Inl ''not secrets'' | Inr s \<Rightarrow> Inr s)\<rparr>"

lemma plain_yaml_roundtrip: "yaml_roundtrip plain_yaml"
  by (auto simp: yaml_roundtrip_def plain_yaml_def)

definition long_temp :: "'d temp_files" where
  "long_temp =
     \<lparr>temp_name = \<lambda>d dir pattern.
        CHR ''/'' # replicate (Suc (length pattern + Max (insert 0 (length ` dom d)))) (CHR ''0''),
      temp_torn = \<lambda>bytes. bytes\<rparr>"

lemma base_path_replicate: "base_path (CHR ''/'' # replicate (Suc n) (CHR ''0'')) = replicate (Suc n) (CHR ''0'')"
proof -
  have r: "rev (CHR ''/'' # replicate (Suc n) (CHR ''0'')) = replicate (Suc n) (CHR ''0'') @ ''/''"
    by (simp add: replicate_append_same)
  then have t: "trim_right_char (CHR ''/'') (CHR ''/'' # replicate (Suc n) (CHR ''0''))
      = CHR ''/'' # replicate (Suc n) (CHR ''0'')"
    by (simp add: trim_right_char_def replicate_append_same)
  have "takeWhile (\<lambda>c. c \<noteq> CHR ''/'') (replicate (Suc n) (CHR ''0'') @ ''/'') = replicate (Suc n) (CHR ''0'')"
    by (subst takeWhile_append2) auto
  then show ?thesis unfolding base_path_def Let_def t r by (simp add: replicate_append_same)
qed

lemma long_temp_fresh: "fresh_temp long_temp"
  unfolding fresh_temp_def
proof (intro allI impI)
  fix d :: "'d disk" and p
  assume fin: "finite (dom d)"
  let ?n = "length (tmp_pattern p) + Max (insert 0 (length ` dom d))"
  let ?t = "CHR ''/'' # replicate (Suc ?n) (CHR ''0'')"
  have "?t \<noteq> p"
  proof
    assume "?t = p"
    then have "base_path p = replicate (Suc ?n) (CHR ''0'')" using base_path_replicate [of ?n] by simp
    then have "length (base_path p) = Suc ?n" by (metis length_replicate)
    then show False by (simp add: tmp_pattern_def)
  qed
  moreover have "?t \<notin> dom d"
  proof
    assume "?t \<in> dom d"
    then have "length ?t \<in> insert 0 (length ` dom d)" by (rule imageI [THEN insertI2])
    then have "length ?t \<le> Max (insert 0 (length ` dom d))" using fin by (intro Max_ge) simp_all
    then show False by simp
  qed
  ultimately show "temp_name long_temp d (dir_path p) (tmp_pattern p) \<notin> insert p (dom d) \<and>
      is_digit (last (temp_name long_temp d (dir_path p) (tmp_pattern p)))"
    by (simp add: long_temp_def is_digit_def)
qed

text \<open>
  C25: Restart: what a successful \<open>Save\<close> wrote, \<open>Load\<close> reads back as the configuration with its
  defaults filled in and the tokens taken from the secrets, and as the same secrets.
\<close>

theorem save_then_load:
  assumes "yaml_roundtrip y" and "fresh_temp mktemp" and "finite (dom d)"
    and "store_ConfigPath st \<noteq> store_SecretsPath st" and "\<forall>call. readfault call = None"
    and "save_err (Save fault mktemp y st c s d) = None"
  shows "Load readfault y (save_disk (Save fault mktemp y st c s d)) st
           = Inr (ApplySecrets (persisted (applyDefaults c)) s, s)"
  using assms by (rule Save_Load)

definition sample_store :: store where
  "sample_store = NewStore '''' ''''"

lemma sample_store_paths: "store_ConfigPath sample_store = ''/data/config.yaml''"
    "store_SecretsPath sample_store = ''/data/secrets.yaml''"
  by (simp_all add: sample_store_def NewStore_def join_path_def clean_path_def has_prefix_def)

lemma save_then_load_witness:
  "Load (\<lambda>_. None) plain_yaml
     (save_disk (Save (\<lambda>_. None) long_temp plain_yaml sample_store NewDefault secrets_zero Map.empty))
     sample_store
   = Inr (ApplySecrets (persisted (applyDefaults NewDefault)) secrets_zero, secrets_zero)"
proof (rule save_then_load [OF plain_yaml_roundtrip long_temp_fresh])
  show "save_err (Save (\<lambda>_. None) long_temp plain_yaml sample_store NewDefault secrets_zero Map.empty) = None"
    by (simp add: save_defs writeFileAtomic_def sample_store_paths plain_yaml_def Let_def)
qed (simp_all add: sample_store_paths)

text \<open>
  C27: A save that fails, at whatever call, leaves every file of the disk as it was, or the new
  configuration with the old secrets; never a truncated file, or new secrets with an old
  configuration.  One more file may be left, the temporary one, under a name that was free and is
  neither of the two files', and that only if the call that removes it fails too.  A save that
  succeeds has written both, and nothing else.
\<close>

theorem save_failure_states:
  assumes "fresh_temp mktemp" and "finite (dom d)" and "st = NewStore dataDir configPath"
  shows "case save_err (Save fault mktemp y st c s d) of
           Some _ \<Rightarrow>
             (\<exists>left. (left = d \<or>
                      (\<exists>b. marshal_config y (persisted (applyDefaults c)) = Inr b \<and>
                           left = d(store_ConfigPath st \<mapsto> \<lparr>file_data = b, file_perm = 416\<rparr>))) \<and>
                     (save_disk (Save fault mktemp y st c s d) = left \<or>
                      (\<exists>tmp f. tmp \<notin> dom left \<union> {store_ConfigPath st, store_SecretsPath st} \<and>
                           fault (RemoveTmp tmp) \<noteq> None \<and>
                           save_disk (Save fault mktemp y st c s d) = left(tmp \<mapsto> f))))
         | None \<Rightarrow>
             save_disk (Save fault mktemp y st c s d)
               \<in> {d(store_ConfigPath st \<mapsto> \<lparr>file_data = b, file_perm = 416\<rparr>,
                    store_SecretsPath st \<mapsto> \<lparr>file_data = b', file_perm = 384\<rparr>) |b b'.
                  marshal_config y (persisted (applyDefaults c)) = Inr b \<and> marshal_secrets y s = Inr b'}"
proof (rule Save_disk [OF assms(1,2), of fault y st c s])
  have secrets: "is_digit (last tmp) \<Longrightarrow> tmp \<noteq> store_SecretsPath st" for tmp
    using secrets_path_no_temp [of dataDir configPath] assms(3) by auto
  {
    assume "save_err (Save fault mktemp y st c s d) \<noteq> None"
      and "left_over fault (store_ConfigPath st) d (save_disk (Save fault mktemp y st c s d))"
    then show ?thesis unfolding left_over_def using secrets by (fastforce split: option.split)
  next
    fix b
    let ?left = "d(store_ConfigPath st \<mapsto> \<lparr>file_data = b, file_perm = 416\<rparr>)"
    assume "marshal_config y (persisted (applyDefaults c)) = Inr b"
      and "save_err (Save fault mktemp y st c s d) \<noteq> None"
      and "left_over fault (store_SecretsPath st) ?left (save_disk (Save fault mktemp y st c s d))"
    then obtain e where e: "save_err (Save fault mktemp y st c s d) = Some e"
      and left: "marshal_config y (persisted (applyDefaults c)) = Inr b"
        "left_over fault (store_SecretsPath st) ?left (save_disk (Save fault mktemp y st c s d))" by blast
    have "tmp \<notin> insert (store_SecretsPath st) (dom ?left) \<Longrightarrow>
        tmp \<notin> dom ?left \<union> {store_ConfigPath st, store_SecretsPath st}" for tmp
      by simp
    then show ?thesis
      unfolding e option.case using left by (intro exI [of _ ?left]) (unfold left_over_def, blast)
  }
qed auto

lemma save_failure_states_witness:
  "\<exists>left. (left = Map.empty \<or> (\<exists>b. left = [''/data/config.yaml'' \<mapsto> \<lparr>file_data = b, file_perm = 416\<rparr>])) \<and>
     save_disk (Save (\<lambda>call. if call = RenameTo ''/data/secrets.yaml'' then Some ''disk full'' else None)
       long_temp plain_yaml sample_store NewDefault secrets_zero Map.empty) = left"
proof -
  let ?fault = "\<lambda>call. if call = RenameTo ''/data/secrets.yaml'' then Some ''disk full'' else None"
  let ?save = "Save ?fault long_temp plain_yaml sample_store NewDefault secrets_zero Map.empty"
  have "save_err ?save = Some (OsError ''disk full'')"
    by (simp add: save_defs writeFileAtomic_def sample_store_paths plain_yaml_def Let_def)
  with save_failure_states [OF long_temp_fresh _ sample_store_def, of Map.empty ?fault plain_yaml NewDefault secrets_zero]
  show ?thesis by (auto simp: sample_store_paths)
qed

text \<open>
  A source ID in normal form consists of lower-case letters, digits and single inner dashes,
  and normalising is idempotent, so an ID taken from a normalised configuration names its source.
\<close>

theorem SanitizeID_normal_form:
  "valid_id (SanitizeID v) \<and> SanitizeID (SanitizeID v) = SanitizeID v"
  by (simp add: SanitizeID_valid)

lemma Save_writes_config:
  assumes "fresh_temp mktemp" and "finite (dom d)" and "save_err (Save fault mktemp y st c s d) = None"
  shows "save_disk (Save fault mktemp y st c s d) (store_ConfigPath st) \<noteq> None"
  by (rule Save_disk [OF assms(1,2), of fault y st c s]) (use assms(3) in auto)

text \<open>
  C26: No token reaches the configuration file: if a save changes that file, its new content is the
  encoding of a configuration without any token value, for the server or for a source, and the
  file is readable by its group at most.
\<close>

theorem no_token_in_config_file:
  assumes "fresh_temp mktemp" and "finite (dom d)" and "store_ConfigPath st \<noteq> store_SecretsPath st"
    and "save_disk (Save fault mktemp y st c s d) (store_ConfigPath st) \<noteq> d (store_ConfigPath st)"
  shows "\<exists>c' f. save_disk (Save fault mktemp y st c s d) (store_ConfigPath st) = Some f \<and>
           marshal_config y c' = Inr (file_data f) \<and> file_perm f = 416 \<and>
           srv_DisplayTokenValue (cfg_Server c') = '''' \<and> srv_AdminTokenValue (cfg_Server c') = '''' \<and>
           pve_TokenValue ` set (cfg_Proxmox c') \<subseteq> {''''}"
proof -
  let ?c' = "persisted (applyDefaults c)"
  have tokens: "srv_DisplayTokenValue (cfg_Server ?c') = ''''" "srv_AdminTokenValue (cfg_Server ?c') = ''''"
      "pve_TokenValue ` set (cfg_Proxmox ?c') \<subseteq> {''''}"
    by (auto simp: persisted_def clear_host_token_def)
  show ?thesis
    by (rule Save_disk [OF assms(1,2), of fault y st c s])
      (use assms(3,4) tokens in \<open>auto simp: left_over_def intro!: exI [of _ ?c']\<close>)
qed

definition sample_host :: proxmox_host where
  "sample_host = proxmox_host_zero\<lparr>pve_ID := ''lab'', pve_Name := ''Lab'',
     pve_BaseURL := ''https://pve.lan:8006'', pve_TokenValue := ''root@pam!t=secret'',
     pve_TLS := \<lparr>tls_Mode = ''system'', tls_Fingerprint = '''', tls_CAFile = ''''\<rparr>\<rparr>"

lemma no_token_in_config_file_witness:
  "\<exists>c' f. save_disk (Save (\<lambda>_. None) long_temp plain_yaml sample_store
            (NewDefault\<lparr>cfg_Proxmox := [sample_host]\<rparr>) secrets_zero Map.empty) ''/data/config.yaml'' = Some f \<and>
          marshal_config plain_yaml c' = Inr (file_data f) \<and>
          pve_TokenValue ` set (cfg_Proxmox c') \<subseteq> {''''}"
proof -
  let ?c = "NewDefault\<lparr>cfg_Proxmox := [sample_host]\<rparr>"
  let ?disk = "save_disk (Save (\<lambda>_. None) long_temp plain_yaml sample_store ?c secrets_zero Map.empty)"
  have "save_err (Save (\<lambda>_. None) long_temp plain_yaml sample_store ?c secrets_zero Map.empty) = None"
    by (simp add: save_defs writeFileAtomic_def sample_store_paths plain_yaml_def Let_def)
  then have "?disk (store_ConfigPath sample_store) \<noteq> None"
    by (intro Save_writes_config long_temp_fresh) simp_all
  then show ?thesis
    using no_token_in_config_file [OF long_temp_fresh, of Map.empty sample_store "\<lambda>_. None" plain_yaml ?c
        secrets_zero]
    unfolding sample_store_paths by (simp only: dom_empty finite.emptyI simp_thms) (simp, blast)
qed

end
