(* ===== verification/Go_Float.thy ===== *)
theory Go_Float
  imports Complex_Main "HOL-Library.Log_Nat" Go_Prelude
begin

text \<open>
  Go's \<open>float64\<close>: IEEE 754 binary64 with rounding to nearest, ties to even.  A finite value is
  the rational number it denotes (the sign of zero is dropped: no operation of the bridge
  depends on it).  The operations are the ones the bridge uses: conversion from and to integers,
  product, quotient, sum, comparison, \<open>math.Round\<close> and \<open>math.Floor\<close>.

  Converting a float that does not fit an \<open>int\<close> is implementation-defined in Go.  The published
  image is built for amd64 (the result is the least integer) and arm64 (it saturates, NaN gives
  0), so the conversion takes the architecture as an argument.
\<close>

datatype f64 = Fin rat | PInf | NInf | NaN

datatype arch = AMD64 | ARM64

section \<open>Rounding a rational to a double\<close>

text \<open>Powers of two, with a code equation that computes them in the integers.\<close>

definition pow2 :: "int \<Rightarrow> rat" where
  "pow2 k = 2 powi k"

lemma pow2_code [code]:
  "pow2 k = (if 0 \<le> k then of_int (2 ^ nat k) else Fract 1 (2 ^ nat (- k)))"
  by (simp add: pow2_def power_int_def Fract_of_int_quotient power_inverse divide_simps)

text \<open>The exponent of the leading binary digit of a positive rational.\<close>

definition flog2 :: "rat \<Rightarrow> int" where
  "flog2 x =
     (case quotient_of x of (p, q) \<Rightarrow>
        let k = bitlen p - bitlen q in if pow2 k \<le> x then k else k - 1)"

text \<open>Round to the nearest integer, ties to even.\<close>

definition rne :: "rat \<Rightarrow> int" where
  "rne x =
     (let f = \<lfloor>x\<rfloor>; d = x - of_int f
      in if d < 1 / 2 then f else if 1 / 2 < d then f + 1 else if even f then f else f + 1)"

definition ulp_exp :: "rat \<Rightarrow> int" where
  "ulp_exp x = max (flog2 \<bar>x\<bar> - 52) (- 1074)"

definition rnd :: "rat \<Rightarrow> rat" where
  "rnd x = (if x = 0 then 0 else of_int (rne (x * pow2 (- ulp_exp x))) * pow2 (ulp_exp x))"

definition to_f64 :: "rat \<Rightarrow> f64" where
  "to_f64 x =
     (let y = rnd x
      in if y = 0 \<or> flog2 \<bar>y\<bar> < 1024 then Fin y else if 0 < y then PInf else NInf)"

section \<open>Operations\<close>

definition f_of_int :: "int \<Rightarrow> f64" where
  "f_of_int n = to_f64 (of_int n)"

fun f_neg :: "f64 \<Rightarrow> f64" where
  "f_neg (Fin x) = Fin (- x)"
| "f_neg PInf = NInf"
| "f_neg NInf = PInf"
| "f_neg NaN = NaN"

definition inf_by :: "rat \<Rightarrow> f64" where
  "inf_by s = (if 0 < s then PInf else if s < 0 then NInf else NaN)"

fun f_mul :: "f64 \<Rightarrow> f64 \<Rightarrow> f64" where
  "f_mul (Fin x) (Fin y) = to_f64 (x * y)"
| "f_mul PInf (Fin y) = inf_by y"
| "f_mul NInf (Fin y) = inf_by (- y)"
| "f_mul (Fin x) PInf = inf_by x"
| "f_mul (Fin x) NInf = inf_by (- x)"
| "f_mul PInf PInf = PInf"
| "f_mul NInf NInf = PInf"
| "f_mul PInf NInf = NInf"
| "f_mul NInf PInf = NInf"
| "f_mul NaN y = NaN"
| "f_mul x NaN = NaN"

fun f_div :: "f64 \<Rightarrow> f64 \<Rightarrow> f64" where
  "f_div (Fin x) (Fin y) = (if y = 0 then inf_by x else to_f64 (x / y))"
| "f_div PInf (Fin y) = (if y < 0 then NInf else PInf)"
| "f_div NInf (Fin y) = (if y < 0 then PInf else NInf)"
| "f_div (Fin x) PInf = Fin 0"
| "f_div (Fin x) NInf = Fin 0"
| "f_div NaN y = NaN"
| "f_div x y = NaN"

fun f_add :: "f64 \<Rightarrow> f64 \<Rightarrow> f64" where
  "f_add (Fin x) (Fin y) = to_f64 (x + y)"
| "f_add NaN y = NaN"
| "f_add x NaN = NaN"
| "f_add PInf NInf = NaN"
| "f_add NInf PInf = NaN"
| "f_add PInf y = PInf"
| "f_add NInf y = NInf"
| "f_add x PInf = PInf"
| "f_add x NInf = NInf"

text \<open>\<open>x < y\<close>; every comparison with NaN is false.\<close>

fun f_less :: "f64 \<Rightarrow> f64 \<Rightarrow> bool" where
  "f_less (Fin x) (Fin y) \<longleftrightarrow> x < y"
| "f_less NInf (Fin y) \<longleftrightarrow> True"
| "f_less NInf PInf \<longleftrightarrow> True"
| "f_less (Fin x) PInf \<longleftrightarrow> True"
| "f_less x y \<longleftrightarrow> False"

definition f_le :: "f64 \<Rightarrow> f64 \<Rightarrow> bool" where
  "f_le x y \<longleftrightarrow> f_less x y \<or> x = y \<and> x \<noteq> NaN"

text \<open>\<open>math.Round\<close> rounds half away from zero, \<open>math.Floor\<close> towards minus infinity.\<close>

definition round_away :: "rat \<Rightarrow> int" where
  "round_away x = (if x < 0 then - \<lfloor>- x + 1 / 2\<rfloor> else \<lfloor>x + 1 / 2\<rfloor>)"

fun f_round :: "f64 \<Rightarrow> f64" where
  "f_round (Fin x) = Fin (of_int (round_away x))"
| "f_round x = x"

fun f_floor :: "f64 \<Rightarrow> f64" where
  "f_floor (Fin x) = Fin (of_int \<lfloor>x\<rfloor>)"
| "f_floor x = x"

text \<open>\<open>int(f)\<close>: truncation where the result fits.\<close>

definition trunc :: "rat \<Rightarrow> int" where
  "trunc x = (if x < 0 then - \<lfloor>- x\<rfloor> else \<lfloor>x\<rfloor>)"

fun f_to_int :: "arch \<Rightarrow> f64 \<Rightarrow> int" where
  "f_to_int AMD64 (Fin x) = (if in_i64 (trunc x) then trunc x else - (2 ^ 63))"
| "f_to_int ARM64 (Fin x) =
     (if in_i64 (trunc x) then trunc x else if x < 0 then - (2 ^ 63) else 2 ^ 63 - 1)"
| "f_to_int AMD64 y = - (2 ^ 63)"
| "f_to_int ARM64 PInf = 2 ^ 63 - 1"
| "f_to_int ARM64 NInf = - (2 ^ 63)"
| "f_to_int ARM64 NaN = 0"

section \<open>Facts about rounding\<close>

lemma two_powi_pos [simp]: "(0 :: rat) < 2 powi k"
  by (simp add: zero_less_power_int)

lemma two_powi_mono: "i \<le> j \<Longrightarrow> (2 :: rat) powi i \<le> 2 powi j"
  by (simp add: power_int_increasing)

lemma two_powi_less_iff [simp]: "(2 :: rat) powi i < 2 powi j \<longleftrightarrow> i < j"
  by (metis linorder_not_le power_int_strict_increasing two_powi_mono numeral_One one_less_numeral_iff
      semiring_norm(76))

lemma two_powi_le_iff [simp]: "(2 :: rat) powi i \<le> 2 powi j \<longleftrightarrow> i \<le> j"
  by (meson linorder_not_le two_powi_less_iff)

lemma two_powi_add: "(2 :: rat) powi (i + j) = 2 powi i * 2 powi j"
  by (simp add: power_int_add)

lemma two_powi_diff: "(2 :: rat) powi (i - j) = 2 powi i / 2 powi j"
  by (simp add: power_int_diff)

lemma bitlen_pos: "0 < n \<Longrightarrow> 0 < bitlen n"
  using bitlen_bounds [of n] by (cases "bitlen n \<le> 0") auto

lemma bitlen_powi:
  assumes "0 < n"
  shows "2 powi (bitlen n - 1) \<le> (of_int n :: rat) \<and> (of_int n :: rat) < 2 powi bitlen n"
proof -
  from bitlen_bounds [OF assms]
  have "(of_int (2 ^ nat (bitlen n - 1)) :: rat) \<le> of_int n" and "(of_int n :: rat) < of_int (2 ^ nat (bitlen n))"
    by (simp_all only: of_int_le_iff of_int_less_iff)
  with bitlen_pos [OF assms] show ?thesis by (simp add: power_int_def)
qed

lemma flog2_bounds:
  assumes "0 < x"
  shows "2 powi flog2 x \<le> x \<and> x < 2 powi (flog2 x + 1)"
proof -
  obtain p q where pq: "quotient_of x = (p, q)" by (cases "quotient_of x")
  then have q: "0 < q" and x: "x = of_int p / of_int q"
    by (auto simp: quotient_of_denom_pos quotient_of_div)
  with assms have p: "0 < p"
    by (simp add: zero_less_divide_iff)
  let ?k = "bitlen p - bitlen q"
  have "x < 2 powi bitlen p / 2 powi (bitlen q - 1)"
    unfolding x using bitlen_powi [OF p] bitlen_powi [OF q] p q by (intro frac_less) auto
  then have up: "x < 2 powi (?k + 1)"
    by (simp add: two_powi_diff two_powi_add field_simps)
  have "2 powi (bitlen p - 1) / 2 powi bitlen q \<le> x"
    unfolding x using bitlen_powi [OF p] bitlen_powi [OF q] p q by (intro frac_le) auto
  then have lo: "2 powi (?k - 1) \<le> x"
    by (simp add: two_powi_diff two_powi_add field_simps)
  from up lo show ?thesis
    by (auto simp: flog2_def pow2_def pq Let_def)
qed

text \<open>The exponent is determined by its two bounds.\<close>

lemma powi_between:
  fixes x :: rat
  assumes "2 powi i \<le> x" and "x < 2 powi (j + 1)"
  shows "i \<le> j"
proof -
  from assms have "(2 :: rat) powi i < 2 powi (j + 1)" by (rule order_le_less_trans)
  then show ?thesis by simp
qed

lemma flog2_unique:
  assumes "0 < x" and "2 powi k \<le> x" and "x < 2 powi (k + 1)"
  shows "flog2 x = k"
proof (rule antisym)
  show "flog2 x \<le> k"
    using flog2_bounds [OF assms(1)] assms(3) by (blast intro: powi_between)
  show "k \<le> flog2 x"
    using flog2_bounds [OF assms(1)] assms(2) by (blast intro: powi_between)
qed

lemma flog2_mono:
  assumes "0 < x" and "x \<le> y"
  shows "flog2 x \<le> flog2 y"
proof (rule powi_between)
  show "2 powi flog2 x \<le> y" using flog2_bounds [OF assms(1)] assms(2) by linarith
  show "y < 2 powi (flog2 y + 1)" using flog2_bounds [of y] assms by simp
qed

lemma rne_of_int [simp]: "rne (of_int n) = n"
  by (simp add: rne_def)

lemma rne_close: "\<bar>of_int (rne x) - x\<bar> \<le> 1 / 2"
  using floor_correct [of x] by (auto simp: rne_def Let_def abs_le_iff)

lemma rne_bounds: "\<lfloor>x\<rfloor> \<le> rne x \<and> rne x \<le> \<lfloor>x\<rfloor> + 1"
  by (simp add: rne_def Let_def)

lemma rne_mono: "x \<le> y \<Longrightarrow> rne x \<le> rne y"
proof (cases "\<lfloor>x\<rfloor> = \<lfloor>y\<rfloor>")
  case True
  assume "x \<le> y"
  with True show ?thesis by (auto simp: rne_def Let_def)
next
  case False
  assume "x \<le> y"
  with False have "\<lfloor>x\<rfloor> + 1 \<le> \<lfloor>y\<rfloor>" using floor_mono [of x y] by linarith
  then show ?thesis using rne_bounds [of x] rne_bounds [of y] by linarith
qed

lemma rnd_0 [simp]: "rnd 0 = 0"
  by (simp add: rnd_def)

lemma rnd_nonzero:
  "x \<noteq> 0 \<Longrightarrow> rnd x = of_int (rne (x / 2 powi ulp_exp x)) * 2 powi ulp_exp x"
  by (simp add: rnd_def pow2_def power_int_minus divide_inverse)

text \<open>Rounding error: half a unit in the last place.\<close>

lemma rnd_error: "\<bar>rnd x - x\<bar> \<le> 2 powi ulp_exp x / 2"
proof (cases "x = 0")
  case False
  let ?u = "2 powi ulp_exp x :: rat"
  have "\<bar>of_int (rne (x / ?u)) * ?u - x\<bar> = \<bar>of_int (rne (x / ?u)) - x / ?u\<bar> * ?u"
    by (simp add: abs_mult_pos left_diff_distrib)
  also have "\<dots> \<le> 1 / 2 * ?u"
    by (intro mult_right_mono rne_close) simp
  finally show ?thesis using False by (simp add: rnd_nonzero)
qed simp

lemma rnd_rel_error:
  assumes "2 powi (- 1022) \<le> x"
  shows "\<bar>rnd x - x\<bar> \<le> x / 2 ^ 53"
proof -
  have x: "0 < x" using assms two_powi_pos [of "- 1022"] by linarith
  have "- 1022 \<le> flog2 x"
    using flog2_bounds [OF x] assms by (blast intro: powi_between)
  then have "ulp_exp x = flog2 x - 52" using x by (simp add: ulp_exp_def)
  then have "2 powi ulp_exp x / 2 = (2 powi flog2 x :: rat) / 2 ^ 53"
    by (simp add: two_powi_diff)
  also have "\<dots> \<le> x / 2 ^ 53"
    using flog2_bounds [OF x] by (intro divide_right_mono) auto
  finally show ?thesis using rnd_error [of x] by linarith
qed

lemma rnd_pos_eq: "0 < x \<Longrightarrow> rnd x = of_int (rne (x / 2 powi ulp_exp x)) * 2 powi ulp_exp x"
  by (simp add: rnd_nonzero)

lemma rnd_below_power:
  assumes "0 < x"
  shows "rnd x \<le> 2 powi (ulp_exp x + 53)"
proof -
  let ?e = "ulp_exp x"
  have "x < 2 powi (flog2 x + 1)" using flog2_bounds [OF assms] by blast
  also have "\<dots> \<le> 2 powi (?e + 53)" using assms by (simp add: ulp_exp_def)
  finally have "x / 2 powi ?e \<le> of_int (2 ^ 53)"
    by (simp add: two_powi_add divide_le_eq mult.commute)
  then have "rne (x / 2 powi ?e) \<le> 2 ^ 53"
    using rne_mono rne_of_int by metis
  then have "(of_int (rne (x / 2 powi ?e)) :: rat) \<le> of_int (2 ^ 53)"
    by (simp only: of_int_le_iff)
  then have "of_int (rne (x / 2 powi ?e)) * 2 powi ?e \<le> 2 ^ 53 * (2 powi ?e :: rat)"
    by (intro mult_right_mono) simp_all
  then show ?thesis using assms by (simp add: rnd_pos_eq two_powi_add mult.commute)
qed

lemma rnd_above_power:
  assumes "0 < x" and "ulp_exp x = flog2 x - 52"
  shows "2 powi flog2 x \<le> rnd x"
proof -
  let ?e = "ulp_exp x"
  have "2 powi (?e + 52) \<le> x" using flog2_bounds [OF assms(1)] assms(2) by simp
  then have "of_int (2 ^ 52) \<le> x / 2 powi ?e"
    by (simp add: two_powi_add le_divide_eq mult.commute)
  then have "2 ^ 52 \<le> rne (x / 2 powi ?e)"
    using rne_mono rne_of_int by metis
  then have "(of_int (2 ^ 52) :: rat) \<le> of_int (rne (x / 2 powi ?e))"
    by (simp only: of_int_le_iff)
  then have "2 ^ 52 * (2 powi ?e :: rat) \<le> of_int (rne (x / 2 powi ?e)) * 2 powi ?e"
    by (intro mult_right_mono) simp_all
  moreover have "2 powi flog2 x = (2 ^ 52 * 2 powi ?e :: rat)"
    using assms(2) by (simp add: two_powi_diff)
  ultimately show ?thesis using assms(1) by (simp add: rnd_pos_eq)
qed

text \<open>Rounding is monotone.\<close>

lemma rnd_mono:
  assumes "0 < x" and "x \<le> y"
  shows "rnd x \<le> rnd y"
proof -
  have y: "0 < y" using assms by simp
  have le: "ulp_exp x \<le> ulp_exp y"
    using assms y flog2_mono [OF assms] by (simp add: ulp_exp_def)
  show ?thesis
  proof (cases "ulp_exp x = ulp_exp y")
    case True
    have "rne (x / 2 powi ulp_exp y) \<le> rne (y / 2 powi ulp_exp y)"
      using assms by (intro rne_mono divide_right_mono) simp_all
    then show ?thesis using assms y True
      by (simp add: rnd_pos_eq mult_right_mono)
  next
    case False
    with le have *: "ulp_exp x < ulp_exp y" by simp
    then have ey: "ulp_exp y = flog2 y - 52" using y by (auto simp: ulp_exp_def)
    have "rnd x \<le> 2 powi (ulp_exp x + 53)" by (rule rnd_below_power [OF assms(1)])
    also have "\<dots> \<le> 2 powi flog2 y" using * ey by simp
    also have "\<dots> \<le> rnd y" by (rule rnd_above_power [OF y ey])
    finally show ?thesis .
  qed
qed

text \<open>A value with at most 53 significant bits is a double.\<close>

lemma rnd_exact:
  assumes "0 < m" and "m < 2 ^ 53" and "- 1074 \<le> e"
  shows "rnd (of_int m * 2 powi e) = of_int m * 2 powi e"
proof -
  let ?x = "of_int m * 2 powi e :: rat"
  have x: "0 < ?x" using assms(1) by simp
  have "?x < 2 powi (e + 52 + 1)"
  proof -
    have "(of_int m :: rat) < of_int (2 ^ 53)" using assms(2) by (simp only: of_int_less_iff)
    then have "?x < 2 ^ 53 * 2 powi e" by (intro mult_strict_right_mono) simp_all
    then show ?thesis by (simp add: two_powi_add mult.commute)
  qed
  then have "flog2 ?x \<le> e + 52" using flog2_bounds [OF x] by (blast intro: powi_between)
  then have "ulp_exp ?x \<le> e" using x assms(3) by (simp add: ulp_exp_def)
  then have "?x / 2 powi ulp_exp ?x = of_int m * 2 powi (e - ulp_exp ?x)"
    by (simp add: two_powi_diff)
  also have "\<dots> = of_int (m * 2 ^ nat (e - ulp_exp ?x))"
    using \<open>ulp_exp ?x \<le> e\<close> by (simp add: power_int_def)
  finally have "rne (?x / 2 powi ulp_exp ?x) = m * 2 ^ nat (e - ulp_exp ?x)"
    by (metis rne_of_int)
  then have "rnd ?x = of_int (m * 2 ^ nat (e - ulp_exp ?x)) * 2 powi ulp_exp ?x"
    using x by (simp only: rnd_pos_eq)
  also have "\<dots> = of_int m * (2 powi (e - ulp_exp ?x) * 2 powi ulp_exp ?x)"
    using \<open>ulp_exp ?x \<le> e\<close> by (simp add: power_int_def)
  also have "\<dots> = ?x" by (simp add: two_powi_diff)
  finally show ?thesis .
qed

lemma rnd_power: "- 1074 \<le> e \<Longrightarrow> rnd (2 powi e) = 2 powi e"
  using rnd_exact [of 1 e] by simp

lemma rnd_int: "0 \<le> n \<Longrightarrow> n \<le> 2 ^ 53 \<Longrightarrow> rnd (of_int n) = of_int n"
proof -
  assume n: "0 \<le> n" "n \<le> 2 ^ 53"
  consider "n = 0" | "n = 2 ^ 53" | "0 < n" "n < 2 ^ 53" using n by linarith
  then show ?thesis
  proof cases
    case 2
    then show ?thesis using rnd_power [of 53] by simp
  next
    case 3
    then show ?thesis using rnd_exact [of n 0] by simp
  qed simp
qed

lemma rnd_pos:
  assumes "2 powi (- 1074) \<le> x"
  shows "0 < rnd x"
proof -
  have "0 < x" using assms two_powi_pos [of "- 1074"] by linarith
  have "0 < (2 :: rat) powi (- 1074)" by simp
  also have "\<dots> = rnd (2 powi (- 1074))" by (simp only: rnd_power)
  also have "\<dots> \<le> rnd x" using assms by (intro rnd_mono) simp_all
  finally show ?thesis .
qed

lemma rnd_nonneg: "0 \<le> x \<Longrightarrow> 0 \<le> rnd x"
proof (cases "x = 0")
  case False
  assume "0 \<le> x"
  then have "rne 0 \<le> rne (x / 2 powi ulp_exp x)" by (intro rne_mono) simp
  then show ?thesis using rne_of_int [of 0] False by (simp add: rnd_nonzero)
qed simp

lemma to_f64_bounded:
  assumes "0 \<le> x" and "x \<le> 2 powi k" and "k \<le> 1023" and "- 1074 \<le> k"
  shows "to_f64 x = Fin (rnd x) \<and> 0 \<le> rnd x \<and> rnd x \<le> 2 powi k"
proof -
  have le: "rnd x \<le> 2 powi k"
  proof (cases "x = 0")
    case False
    then have "rnd x \<le> rnd (2 powi k)" using assms by (intro rnd_mono) simp_all
    then show ?thesis using assms by (simp only: rnd_power)
  qed simp
  have nonneg: "0 \<le> rnd x" using assms(1) by (rule rnd_nonneg)
  have "flog2 \<bar>rnd x\<bar> < 1024" if "rnd x \<noteq> 0"
  proof -
    have pos: "0 < rnd x" using that nonneg by simp
    have "(2 :: rat) powi k < 2 powi 1024" using assms(3) by (simp only: two_powi_less_iff)
    with le have "rnd x < 2 powi (1023 + 1)" by simp
    with flog2_bounds [OF pos] have "flog2 (rnd x) \<le> 1023" by (blast intro: powi_between)
    with pos show ?thesis by simp
  qed
  with le nonneg show ?thesis by (auto simp: to_f64_def Let_def)
qed

lemma round_away_mono: "x \<le> y \<Longrightarrow> round_away x \<le> round_away y"
  unfolding round_away_def by (auto intro: floor_mono) linarith+

lemma round_away_of_int [simp]: "round_away (of_int n) = n"
  by (simp add: round_away_def) linarith

lemma round_away_close: "\<bar>of_int (round_away x) - x\<bar> \<le> 1 / 2"
proof -
  have "\<bar>of_int \<lfloor>y + 1 / 2\<rfloor> - y\<bar> \<le> 1 / 2" for y :: rat
    using floor_correct [of "y + 1 / 2"] by linarith
  from this [of x] this [of "- x"]
  have "\<bar>of_int \<lfloor>x + 1 / 2\<rfloor> - x\<bar> \<le> 1 / 2" and "\<bar>of_int (- \<lfloor>- x + 1 / 2\<rfloor>) - x\<bar> \<le> 1 / 2"
    unfolding of_int_minus by linarith+
  then show ?thesis
    unfolding round_away_def by (metis (full_types))
qed

lemma trunc_of_int [simp]: "trunc (of_int n) = n"
  by (simp add: trunc_def)

end
