(* ===== verification/Go_Values.thy ===== *)
theory Go_Values
  imports Go_Float Go_Sort
begin

text \<open>
  Dynamic values: what \<open>encoding/json\<close> decodes into an \<open>any\<close>, how package \<open>fmt\<close> prints them
  and how \<open>encoding/json\<close> writes them back, and the float syntax of package \<open>strconv\<close>.
  A JSON object is its list of members with distinct keys; their order stands for the order in
  which a \<open>range\<close> over the Go map visits them.
\<close>

datatype any =
    ANil
  | ABool bool
  | AInt int
  | AInt64 int
  | AFloat f64
  | AStr string
  | AArr "any list"
  | AMap "(string \<times> any) list"

type_synonym json_map = "(string \<times> any) list"

text \<open>\<open>m[k]\<close>: the zero value when the key is missing.\<close>

definition lookup_any :: "json_map \<Rightarrow> string \<Rightarrow> any" where
  "lookup_any m k = (case map_of m k of None \<Rightarrow> ANil | Some v \<Rightarrow> v)"

section \<open>Printing floats\<close>

definition ten_to :: "int \<Rightarrow> rat" where
  "ten_to k = (if 0 \<le> k then of_int (10 ^ nat k) else 1 / of_int (10 ^ nat (- k)))"

text \<open>
  The decimal exponent of a positive double.  30103/100000 approximates the decimal logarithm
  of 2 closely enough for every binary exponent of a double.
\<close>

definition dec_exp :: "rat \<Rightarrow> int" where
  "dec_exp x = (let k = flog2 x * 30103 div 100000 in if ten_to (k + 1) \<le> x then k + 1 else k)"

text \<open>The \<open>n\<close>-digit decimals next to \<open>x\<close> that read back as \<open>x\<close>, the closest one first.\<close>

definition decimal_at :: "rat \<Rightarrow> nat \<Rightarrow> int option" where
  "decimal_at x n =
     (let scale = ten_to (dec_exp x + 1 - int n);
          c = \<lfloor>x / scale\<rfloor>;
          lo = rnd (of_int c * scale) = x;
          hi = rnd (of_int (c + 1) * scale) = x
      in if lo \<and> hi then Some (rne (x / scale))
         else if lo then Some c else if hi then Some (c + 1) else None)"

definition strip_zeros :: "string \<Rightarrow> string" where
  "strip_zeros ds = trim_right_char (CHR ''0'') ds"

text \<open>
  The shortest decimal that reads back as \<open>x\<close>: its digits and the position of the decimal
  point (\<open>0.d1d2... * 10 ^ dp\<close>).  Seventeen digits always suffice.
\<close>

definition shortest :: "rat \<Rightarrow> string \<times> int" where
  "shortest x =
     (case List.find (\<lambda>n. decimal_at x n \<noteq> None) [1..<18] of
        None \<Rightarrow> (''0'', 0)
      | Some n \<Rightarrow>
          (let ds = nat_digits (nat (the (decimal_at x n)))
           in (strip_zeros ds, int (length ds) + dec_exp x + 1 - int n)))"

definition zeros :: "int \<Rightarrow> string" where
  "zeros n = replicate (nat n) (CHR ''0'')"

text \<open>Formats \<open>%e\<close> and \<open>%f\<close> of strconv for a positive number in shortest form.\<close>

definition format_e :: "string \<Rightarrow> int \<Rightarrow> string" where
  "format_e ds dp =
     (let ex = dp - 1; m = nat_digits (nat \<bar>ex\<bar>)
      in take 1 ds @ (if length ds > 1 then ''.'' @ drop 1 ds else []) @ ''e'' @
         (if ex < 0 then ''-'' else ''+'') @ (if length m < 2 then ''0'' @ m else m))"

definition format_f :: "string \<Rightarrow> int \<Rightarrow> string" where
  "format_f ds dp =
     (if dp \<le> 0 then ''0.'' @ zeros (- dp) @ ds
      else if int (length ds) \<le> dp then ds @ zeros (dp - int (length ds))
      else take (nat dp) ds @ ''.'' @ drop (nat dp) ds)"

text \<open>\<open>fmt.Sprint\<close> of a \<open>float64\<close>: \<open>%g\<close> with the shortest digits.\<close>

definition sprint_float :: "f64 \<Rightarrow> string" where
  "sprint_float v =
     (case v of PInf \<Rightarrow> ''+Inf'' | NInf \<Rightarrow> ''-Inf'' | NaN \<Rightarrow> ''NaN''
      | Fin x \<Rightarrow>
          if x = 0 then ''0''
          else (case shortest \<bar>x\<bar> of (ds, dp) \<Rightarrow>
                  (if x < 0 then ''-'' else []) @
                  (if dp - 1 < - 4 \<or> 6 \<le> dp - 1
                   then format_e ds dp else format_f ds dp)))"

section \<open>\<open>fmt.Sprint\<close> and \<open>json.Marshal\<close>\<close>

definition sort_members :: "(string \<times> 'a) list \<Rightarrow> (string \<times> 'a) list" where
  "sort_members = slice_stable (less_by fst)"

text \<open>
  What \<open>fmt.Sprint\<close> prints, maps with sorted keys.  (The sign of a zero is not kept in the
  model, so a negative zero prints as \<open>0\<close>.)
\<close>

fun sprint :: "any \<Rightarrow> string" where
  "sprint ANil = ''<nil>''"
| "sprint (ABool b) = (if b then ''true'' else ''false'')"
| "sprint (AInt n) = itoa n"
| "sprint (AInt64 n) = itoa n"
| "sprint (AFloat v) = sprint_float v"
| "sprint (AStr s) = s"
| "sprint (AArr xs) = ''['' @ join_with '' '' (map sprint xs) @ '']''"
| "sprint (AMap m) =
     ''map['' @ join_with '' '' (map (\<lambda>(k, s). k @ '':'' @ s)
                                 (sort_members (map (\<lambda>(k, v). (k, sprint v)) m))) @ '']''"

definition escaped :: "string \<Rightarrow> string" where
  "escaped s = CHR 0x5C # s"

text \<open>
  A JSON string literal with the HTML escaping of \<open>json.Marshal\<close>; the input is valid UTF-8,
  as every string that \<open>encoding/json\<close> decoded is.
\<close>

fun json_chars :: "string \<Rightarrow> string" where
  "json_chars [] = []"
| "json_chars (c # cs) =
     (if c = CHR 0xE2 \<and> take 1 cs = [CHR 0x80] \<and> take 1 (drop 1 cs) = [CHR 0xA8]
      then escaped ''u2028'' @ json_chars (drop 2 cs)
      else if c = CHR 0xE2 \<and> take 1 cs = [CHR 0x80] \<and> take 1 (drop 1 cs) = [CHR 0xA9]
      then escaped ''u2029'' @ json_chars (drop 2 cs)
      else (if c = CHR 0x22 then [CHR 0x5C, CHR 0x22]
            else if c = CHR 0x5C then [CHR 0x5C, CHR 0x5C]
            else if c = CHR 0x08 then escaped ''b'' else if c = CHR 0x0C then escaped ''f''
            else if c = CHR 0x0A then escaped ''n'' else if c = CHR 0x0D then escaped ''r''
            else if c = CHR 0x09 then escaped ''t''
            else if c < CHR 0x20 \<or> c = CHR ''<'' \<or> c = CHR ''>'' \<or> c = CHR ''&''
            then escaped ''u00'' @ [hex_digit (of_char c div 16), hex_digit (of_char c mod 16)]
            else [c]) @ json_chars cs)"

definition json_string :: "string \<Rightarrow> string" where
  "json_string s = [CHR 0x22] @ json_chars s @ [CHR 0x22]"

text \<open>Exponents below -6 or from 21 on use \<open>%e\<close>, with a one-digit negative exponent unpadded.\<close>

definition json_float :: "f64 \<Rightarrow> string option" where
  "json_float v =
     (case v of
        Fin x \<Rightarrow>
          if x = 0 then Some ''0''
          else (case shortest \<bar>x\<bar> of (ds, dp) \<Rightarrow>
            let body = (if \<bar>x\<bar> < ten_to (- 6) \<or> ten_to 21 \<le> \<bar>x\<bar>
                        then replace_all (format_e ds dp) ''e-0'' ''e-'' else format_f ds dp)
            in Some ((if x < 0 then ''-'' else []) @ body))
      | _ \<Rightarrow> None)"

fun options :: "'a option list \<Rightarrow> 'a list option" where
  "options [] = Some []"
| "options (None # xs) = None"
| "options (Some x # xs) = map_option ((#) x) (options xs)"

text \<open>\<open>json.Marshal\<close>; \<open>None\<close> is an error (an infinite number or not a number).\<close>

fun json_marshal :: "any \<Rightarrow> string option" where
  "json_marshal ANil = Some ''null''"
| "json_marshal (ABool b) = Some (if b then ''true'' else ''false'')"
| "json_marshal (AInt n) = Some (itoa n)"
| "json_marshal (AInt64 n) = Some (itoa n)"
| "json_marshal (AFloat v) = json_float v"
| "json_marshal (AStr s) = Some (json_string s)"
| "json_marshal (AArr xs) =
     map_option (\<lambda>ys. ''['' @ join_with '','' ys @ '']'') (options (map json_marshal xs))"
| "json_marshal (AMap m) =
     map_option (\<lambda>ys. ''{'' @ join_with '','' ys @ ''}'')
       (options (map (\<lambda>(k, r). map_option (\<lambda>s. json_string k @ '':'' @ s) r)
                     (sort_members (map (\<lambda>(k, v). (k, json_marshal v)) m))))"

section \<open>\<open>strconv.ParseFloat\<close>\<close>

definition lower_in :: "char \<Rightarrow> string \<Rightarrow> bool" where
  "lower_in c s \<longleftrightarrow> ascii_lower c \<in> set s"

definition is_hex_digit :: "char \<Rightarrow> bool" where
  "is_hex_digit c \<longleftrightarrow> is_digit c \<or> lower_in c ''abcdef''"

definition hex_val :: "string \<Rightarrow> int" where
  "hex_val = foldl (\<lambda>acc c. acc * 16 +
     (if is_digit c then int (of_char c) - 48 else int (of_char (ascii_lower c)) - 87)) 0"

text \<open>
  An underscore stands between digits, or between the base prefix and a digit.  \<open>prev\<close> is
  what precedes: \<open>0\<close> for a digit or the prefix, \<open>_\<close>, or \<open>!\<close> for anything else.
\<close>

fun underscores_ok :: "bool \<Rightarrow> char \<Rightarrow> string \<Rightarrow> bool" where
  "underscores_ok hex prev [] \<longleftrightarrow> prev \<noteq> CHR ''_''"
| "underscores_ok hex prev (c # cs) \<longleftrightarrow>
     (if is_digit c \<or> hex \<and> is_hex_digit c then underscores_ok hex (CHR ''0'') cs
      else if c = CHR ''_'' then prev = CHR ''0'' \<and> underscores_ok hex (CHR ''_'') cs
      else prev \<noteq> CHR ''_'' \<and> underscores_ok hex (CHR ''!'') cs)"

text \<open>Mantissa digits with at most one point: the digits and how many follow the point.\<close>

definition mantissa :: "(char \<Rightarrow> bool) \<Rightarrow> string \<Rightarrow> (string \<times> int) option" where
  "mantissa dig s =
     (case cut_char (CHR ''.'') s of
        None \<Rightarrow> if s \<noteq> [] \<and> list_all dig s then Some (s, 0) else None
      | Some (a, b) \<Rightarrow>
          if a @ b \<noteq> [] \<and> list_all dig (a @ b) then Some (a @ b, int (length b)) else None)"

definition exponent :: "string \<Rightarrow> int option" where
  "exponent s =
     (let ds = (if has_prefix s ''-'' \<or> has_prefix s ''+'' then drop 1 s else s)
      in if ds = [] \<or> \<not> list_all is_digit ds then None
         else Some (if has_prefix s ''-'' then - digits_val ds else digits_val ds))"

text \<open>The part before the exponent mark (in either case) and the part after it, if any.\<close>

definition split_mark :: "char \<Rightarrow> string \<Rightarrow> string \<times> string option" where
  "split_mark m s =
     (case dropWhile (\<lambda>c. ascii_lower c \<noteq> m) s of [] \<Rightarrow> (s, None)
      | _ # rest \<Rightarrow> (takeWhile (\<lambda>c. ascii_lower c \<noteq> m) s, Some rest))"

definition parse_unsigned :: "string \<Rightarrow> rat option" where
  "parse_unsigned s0 =
     (let hex = map ascii_lower (take 2 s0) = ''0x'' \<and> length s0 > 2;
          body = (if hex then drop 2 s0 else s0);
          s = filter (\<lambda>c. c \<noteq> CHR ''_'') body
      in if CHR ''_'' \<in> set s0 \<and> \<not> underscores_ok hex (if hex then CHR ''0'' else CHR ''!'') body then None
         else if hex then
           (case split_mark (CHR ''p'') s of
              (m, Some e) \<Rightarrow>
                (case (mantissa is_hex_digit m, exponent e) of
                   (Some (ds, k), Some ex) \<Rightarrow> Some (of_int (hex_val ds) * pow2 (ex - 4 * k))
                 | _ \<Rightarrow> None)
            | _ \<Rightarrow> None)
         else
           (case split_mark (CHR ''e'') s of
              (m, None) \<Rightarrow> map_option (\<lambda>(ds, k). of_int (digits_val ds) * ten_to (- k)) (mantissa is_digit m)
            | (m, Some e) \<Rightarrow>
                (case (mantissa is_digit m, exponent e) of
                   (Some (ds, k), Some ex) \<Rightarrow> Some (of_int (digits_val ds) * ten_to (ex - k))
                 | _ \<Rightarrow> None)))"

text \<open>
  The value \<open>ParseFloat(s, 64)\<close> returns, which is all the bridge looks at: 0 after a syntax
  error, an infinity after a range error.
\<close>

definition parse_float :: "string \<Rightarrow> f64" where
  "parse_float s =
     (let neg = has_prefix s ''-'';
          u = (if neg \<or> has_prefix s ''+'' then drop 1 s else s)
      in if map ascii_lower u = ''inf'' \<or> map ascii_lower u = ''infinity''
         then (if neg then NInf else PInf)
         else if map ascii_lower s = ''nan'' then NaN
         else (case parse_unsigned u of
                 None \<Rightarrow> Fin 0
               | Some x \<Rightarrow> to_f64 (if neg then - x else x)))"

end
