(* ===== verification/Api_Types.thy ===== *)
theory Api_Types
  imports Go_Values
begin

text \<open>
  The records into which \<open>internal/proxmox/provider.go\<close> decodes the answers of the Proxmox
  API, in the order of the file.  An anonymous inner struct is flattened (\<open>Memory.Used\<close> is
  the field \<open>nodeStatus_Memory_Used\<close>); the elements of an anonymous slice have a record of
  their own.  A field the answer leaves out has its zero value.
\<close>

record resource =
  resource_ID :: string
  resource_Type :: string
  resource_Node :: string
  resource_Name :: string
  resource_Status :: string
  resource_VMID :: int
  resource_CPU :: f64
  resource_MaxCPU :: int
  resource_Mem :: int
  resource_MaxMem :: int
  resource_Disk :: int
  resource_MaxDisk :: int
  resource_Uptime :: int
  resource_NetIn :: int
  resource_NetOut :: int
  resource_DiskRead :: int
  resource_DiskWrite :: int
  resource_Tags :: string
  resource_Storage :: string
  resource_PluginType :: string
  resource_Content :: string
  resource_Shared :: int

definition resource_zero :: resource where
  "resource_zero = \<lparr>
    resource_ID = '''', resource_Type = '''', resource_Node = '''', resource_Name = '''',
    resource_Status = '''', resource_VMID = 0, resource_CPU = Fin 0, resource_MaxCPU = 0,
    resource_Mem = 0, resource_MaxMem = 0, resource_Disk = 0, resource_MaxDisk = 0,
    resource_Uptime = 0, resource_NetIn = 0, resource_NetOut = 0, resource_DiskRead = 0,
    resource_DiskWrite = 0, resource_Tags = '''', resource_Storage = '''',
    resource_PluginType = '''', resource_Content = '''', resource_Shared = 0\<rparr>"

record nodeStatus =
  nodeStatus_CPU :: "f64 option"
  nodeStatus_Uptime :: int
  nodeStatus_LoadAvg :: "string list"
  nodeStatus_PVEVersion :: string
  nodeStatus_KVersion :: string
  nodeStatus_Wait :: f64
  nodeStatus_Memory_Used :: int
  nodeStatus_Memory_Total :: int
  nodeStatus_Memory_Available :: int
  nodeStatus_Swap_Used :: int
  nodeStatus_Swap_Total :: int
  nodeStatus_KSM_Shared :: int
  nodeStatus_RootFS_Used :: int
  nodeStatus_RootFS_Total :: int
  nodeStatus_CPUInfo_Model :: string
  nodeStatus_CPUInfo_CPUs :: int
  nodeStatus_CPUInfo_Cores :: int
  nodeStatus_CurrentKernel_Release :: string
  nodeStatus_CurrentKernel_Version :: string

definition nodeStatus_zero :: nodeStatus where
  "nodeStatus_zero = \<lparr>
    nodeStatus_CPU = None, nodeStatus_Uptime = 0, nodeStatus_LoadAvg = [],
    nodeStatus_PVEVersion = '''', nodeStatus_KVersion = '''', nodeStatus_Wait = Fin 0,
    nodeStatus_Memory_Used = 0, nodeStatus_Memory_Total = 0, nodeStatus_Memory_Available = 0,
    nodeStatus_Swap_Used = 0, nodeStatus_Swap_Total = 0, nodeStatus_KSM_Shared = 0,
    nodeStatus_RootFS_Used = 0, nodeStatus_RootFS_Total = 0, nodeStatus_CPUInfo_Model = '''',
    nodeStatus_CPUInfo_CPUs = 0, nodeStatus_CPUInfo_Cores = 0,
    nodeStatus_CurrentKernel_Release = '''', nodeStatus_CurrentKernel_Version = ''''\<rparr>"

record nodeCertificate =
  nodeCertificate_Filename :: string
  nodeCertificate_Subject :: string
  nodeCertificate_Issuer :: string
  nodeCertificate_SANs :: "string list"
  nodeCertificate_Fingerprint :: string
  nodeCertificate_PublicKeyType :: string
  nodeCertificate_PublicKeyBits :: int
  nodeCertificate_NotBefore :: int
  nodeCertificate_NotAfter :: int

definition nodeCertificate_zero :: nodeCertificate where
  "nodeCertificate_zero = \<lparr>
    nodeCertificate_Filename = '''', nodeCertificate_Subject = '''',
    nodeCertificate_Issuer = '''', nodeCertificate_SANs = [], nodeCertificate_Fingerprint = '''',
    nodeCertificate_PublicKeyType = '''', nodeCertificate_PublicKeyBits = 0,
    nodeCertificate_NotBefore = 0, nodeCertificate_NotAfter = 0\<rparr>"

record storageConfig =
  storageConfig_Storage :: string
  storageConfig_Type :: string
  storageConfig_Content :: string
  storageConfig_Path :: string
  storageConfig_Pool :: string
  storageConfig_Mountpoint :: string
  storageConfig_Nodes :: string
  storageConfig_Shared :: Go_Values.any

definition storageConfig_zero :: storageConfig where
  "storageConfig_zero = \<lparr>
    storageConfig_Storage = '''', storageConfig_Type = '''', storageConfig_Content = '''',
    storageConfig_Path = '''', storageConfig_Pool = '''', storageConfig_Mountpoint = '''',
    storageConfig_Nodes = '''', storageConfig_Shared = ANil\<rparr>"

record storageContent =
  storageContent_VolID :: string
  storageContent_Content :: string
  storageContent_Format :: string
  storageContent_Size :: int
  storageContent_CTime :: int
  storageContent_VMID :: Go_Values.any
  storageContent_Notes :: string
  storageContent_Protected :: int
  storageContent_Verification :: json_map
  storageContent_Verified :: int

definition storageContent_zero :: storageContent where
  "storageContent_zero = \<lparr>
    storageContent_VolID = '''', storageContent_Content = '''', storageContent_Format = '''',
    storageContent_Size = 0, storageContent_CTime = 0, storageContent_VMID = ANil,
    storageContent_Notes = '''', storageContent_Protected = 0, storageContent_Verification = [],
    storageContent_Verified = 0\<rparr>"

record pciDevice =
  pciDevice_ID :: string
  pciDevice_Class :: string
  pciDevice_VendorName :: string
  pciDevice_DeviceName :: string
  pciDevice_SubsystemVendorName :: string
  pciDevice_SubsystemDeviceName :: string

definition pciDevice_zero :: pciDevice where
  "pciDevice_zero = \<lparr>
    pciDevice_ID = '''', pciDevice_Class = '''', pciDevice_VendorName = '''',
    pciDevice_DeviceName = '''', pciDevice_SubsystemVendorName = '''',
    pciDevice_SubsystemDeviceName = ''''\<rparr>"

record networkInterface =
  networkInterface_Iface :: string
  networkInterface_Type :: string
  networkInterface_Active :: int
  networkInterface_Autostart :: int
  networkInterface_Method :: string
  networkInterface_Address :: string
  networkInterface_CIDR :: string
  networkInterface_Gateway :: string
  networkInterface_BridgePorts :: string
  networkInterface_Slaves :: string
  networkInterface_VLANAware :: int
  networkInterface_Comments :: string

definition networkInterface_zero :: networkInterface where
  "networkInterface_zero = \<lparr>
    networkInterface_Iface = '''', networkInterface_Type = '''', networkInterface_Active = 0,
    networkInterface_Autostart = 0, networkInterface_Method = '''',
    networkInterface_Address = '''', networkInterface_CIDR = '''',
    networkInterface_Gateway = '''', networkInterface_BridgePorts = '''',
    networkInterface_Slaves = '''', networkInterface_VLANAware = 0,
    networkInterface_Comments = ''''\<rparr>"

record nodeService =
  nodeService_Name :: string
  nodeService_Service :: string
  nodeService_State :: string
  nodeService_UnitState :: string
  nodeService_Description :: string

definition nodeService_zero :: nodeService where
  "nodeService_zero = \<lparr>
    nodeService_Name = '''', nodeService_Service = '''', nodeService_State = '''',
    nodeService_UnitState = '''', nodeService_Description = ''''\<rparr>"

record nodeDisk =
  nodeDisk_DevPath :: string
  nodeDisk_Device :: string
  nodeDisk_Model :: string
  nodeDisk_Vendor :: string
  nodeDisk_Serial :: string
  nodeDisk_Type :: string
  nodeDisk_Used :: Go_Values.any
  nodeDisk_Size :: int
  nodeDisk_Health :: string
  nodeDisk_SMARTHealth :: string
  nodeDisk_Wearout :: int

definition nodeDisk_zero :: nodeDisk where
  "nodeDisk_zero = \<lparr>
    nodeDisk_DevPath = '''', nodeDisk_Device = '''', nodeDisk_Model = '''',
    nodeDisk_Vendor = '''', nodeDisk_Serial = '''', nodeDisk_Type = '''', nodeDisk_Used = ANil,
    nodeDisk_Size = 0, nodeDisk_Health = '''', nodeDisk_SMARTHealth = '''',
    nodeDisk_Wearout = 0\<rparr>"

record nodeTask =
  nodeTask_UPID :: string
  nodeTask_Node :: string
  nodeTask_Type :: string
  nodeTask_ID :: string
  nodeTask_User :: string
  nodeTask_Status :: string
  nodeTask_StartTime :: int
  nodeTask_EndTime :: int

definition nodeTask_zero :: nodeTask where
  "nodeTask_zero = \<lparr>
    nodeTask_UPID = '''', nodeTask_Node = '''', nodeTask_Type = '''', nodeTask_ID = '''',
    nodeTask_User = '''', nodeTask_Status = '''', nodeTask_StartTime = 0,
    nodeTask_EndTime = 0\<rparr>"

record clusterStatus =
  clusterStatus_ID :: string
  clusterStatus_Name :: string
  clusterStatus_Type :: string
  clusterStatus_NodeID :: int
  clusterStatus_Online :: int
  clusterStatus_Quorate :: int
  clusterStatus_Version :: int
  clusterStatus_Nodes :: int
  clusterStatus_Expected :: int

definition clusterStatus_zero :: clusterStatus where
  "clusterStatus_zero = \<lparr>
    clusterStatus_ID = '''', clusterStatus_Name = '''', clusterStatus_Type = '''',
    clusterStatus_NodeID = 0, clusterStatus_Online = 0, clusterStatus_Quorate = 0,
    clusterStatus_Version = 0, clusterStatus_Nodes = 0, clusterStatus_Expected = 0\<rparr>"

record backupJob =
  backupJob_ID :: string
  backupJob_Storage :: string
  backupJob_Schedule :: string
  backupJob_Mode :: string
  backupJob_Enabled :: int
  backupJob_All :: int
  backupJob_VMID :: string
  backupJob_Compress :: string
  backupJob_MailTo :: string

definition backupJob_zero :: backupJob where
  "backupJob_zero = \<lparr>
    backupJob_ID = '''', backupJob_Storage = '''', backupJob_Schedule = '''',
    backupJob_Mode = '''', backupJob_Enabled = 0, backupJob_All = 0, backupJob_VMID = '''',
    backupJob_Compress = '''', backupJob_MailTo = ''''\<rparr>"

record haResource =
  haResource_SID :: string
  haResource_Type :: string
  haResource_State :: string
  haResource_RequestState :: string
  haResource_Group :: string
  haResource_Node :: string
  haResource_MaxRestart :: int
  haResource_MaxRelocate :: int

definition haResource_zero :: haResource where
  "haResource_zero = \<lparr>
    haResource_SID = '''', haResource_Type = '''', haResource_State = '''',
    haResource_RequestState = '''', haResource_Group = '''', haResource_Node = '''',
    haResource_MaxRestart = 0, haResource_MaxRelocate = 0\<rparr>"

record replicationJob =
  replicationJob_ID :: string
  replicationJob_Guest :: int
  replicationJob_Source :: string
  replicationJob_Target :: string
  replicationJob_Schedule :: string
  replicationJob_Rate :: int
  replicationJob_Disable :: int
  replicationJob_Status :: string
  replicationJob_State :: string
  replicationJob_Duration :: int
  replicationJob_FailCount :: int
  replicationJob_LastSync :: int
  replicationJob_NextSync :: int
  replicationJob_LastSyncStatus :: string
  replicationJob_Error :: string
  replicationJob_Type :: string

definition replicationJob_zero :: replicationJob where
  "replicationJob_zero = \<lparr>
    replicationJob_ID = '''', replicationJob_Guest = 0, replicationJob_Source = '''',
    replicationJob_Target = '''', replicationJob_Schedule = '''', replicationJob_Rate = 0,
    replicationJob_Disable = 0, replicationJob_Status = '''', replicationJob_State = '''',
    replicationJob_Duration = 0, replicationJob_FailCount = 0, replicationJob_LastSync = 0,
    replicationJob_NextSync = 0, replicationJob_LastSyncStatus = '''',
    replicationJob_Error = '''', replicationJob_Type = ''''\<rparr>"

record replicationStatus =
  replicationStatus_Status :: string
  replicationStatus_State :: string
  replicationStatus_Duration :: int
  replicationStatus_FailCount :: int
  replicationStatus_LastSync :: int
  replicationStatus_NextSync :: int
  replicationStatus_LastSyncStatus :: string
  replicationStatus_Error :: string

definition replicationStatus_zero :: replicationStatus where
  "replicationStatus_zero = \<lparr>
    replicationStatus_Status = '''', replicationStatus_State = '''',
    replicationStatus_Duration = 0, replicationStatus_FailCount = 0,
    replicationStatus_LastSync = 0, replicationStatus_NextSync = 0,
    replicationStatus_LastSyncStatus = '''', replicationStatus_Error = ''''\<rparr>"

record zfsPool =
  zfsPool_Name :: string
  zfsPool_Pool :: string
  zfsPool_Health :: string
  zfsPool_Status :: string
  zfsPool_Size :: int
  zfsPool_Alloc :: int
  zfsPool_Free :: int
  zfsPool_Frag :: int
  zfsPool_Dedup :: Go_Values.any

definition zfsPool_zero :: zfsPool where
  "zfsPool_zero = \<lparr>
    zfsPool_Name = '''', zfsPool_Pool = '''', zfsPool_Health = '''', zfsPool_Status = '''',
    zfsPool_Size = 0, zfsPool_Alloc = 0, zfsPool_Free = 0, zfsPool_Frag = 0,
    zfsPool_Dedup = ANil\<rparr>"

datatype zfsPoolDetail = ZfsPoolDetail
  (zfsPoolDetail_Name: string)
  (zfsPoolDetail_State: string)
  (zfsPoolDetail_Status: string)
  (zfsPoolDetail_Scan: string)
  (zfsPoolDetail_Errors: string)
  (zfsPoolDetail_Leaf: int)
  (zfsPoolDetail_Read: int)
  (zfsPoolDetail_Write: int)
  (zfsPoolDetail_Checksum: int)
  (zfsPoolDetail_Children: "zfsPoolDetail list")

record rrdPoint =
  rrdPoint_Time :: int
  rrdPoint_CPU :: f64
  rrdPoint_MaxCPU :: f64
  rrdPoint_Mem :: f64
  rrdPoint_MemHost :: f64
  rrdPoint_MemUsed :: f64
  rrdPoint_MemAvailable :: f64
  rrdPoint_MaxMem :: f64
  rrdPoint_MemTotal :: f64
  rrdPoint_Disk :: f64
  rrdPoint_MaxDisk :: f64
  rrdPoint_RootUsed :: f64
  rrdPoint_RootTotal :: f64
  rrdPoint_NetIn :: f64
  rrdPoint_NetOut :: f64
  rrdPoint_DiskRead :: f64
  rrdPoint_DiskWrite :: f64
  rrdPoint_IOWait :: f64
  rrdPoint_PressureIOSome :: f64
  rrdPoint_PressureIOFull :: f64
  rrdPoint_PressureCPUSome :: f64
  rrdPoint_PressureCPUFull :: f64
  rrdPoint_PressureMemorySome :: f64
  rrdPoint_PressureMemoryFull :: f64

definition rrdPoint_zero :: rrdPoint where
  "rrdPoint_zero = \<lparr>
    rrdPoint_Time = 0, rrdPoint_CPU = Fin 0, rrdPoint_MaxCPU = Fin 0, rrdPoint_Mem = Fin 0,
    rrdPoint_MemHost = Fin 0, rrdPoint_MemUsed = Fin 0, rrdPoint_MemAvailable = Fin 0,
    rrdPoint_MaxMem = Fin 0, rrdPoint_MemTotal = Fin 0, rrdPoint_Disk = Fin 0,
    rrdPoint_MaxDisk = Fin 0, rrdPoint_RootUsed = Fin 0, rrdPoint_RootTotal = Fin 0,
    rrdPoint_NetIn = Fin 0, rrdPoint_NetOut = Fin 0, rrdPoint_DiskRead = Fin 0,
    rrdPoint_DiskWrite = Fin 0, rrdPoint_IOWait = Fin 0, rrdPoint_PressureIOSome = Fin 0,
    rrdPoint_PressureIOFull = Fin 0, rrdPoint_PressureCPUSome = Fin 0,
    rrdPoint_PressureCPUFull = Fin 0, rrdPoint_PressureMemorySome = Fin 0,
    rrdPoint_PressureMemoryFull = Fin 0\<rparr>"

record guestStatus =
  guestStatus_Status :: string
  guestStatus_QMPStatus :: string
  guestStatus_CPU :: f64
  guestStatus_CPUs :: int
  guestStatus_Mem :: int
  guestStatus_MemHost :: int
  guestStatus_MaxMem :: int
  guestStatus_Swap :: int
  guestStatus_MaxSwap :: int
  guestStatus_Disk :: int
  guestStatus_MaxDisk :: int
  guestStatus_DiskRead :: int
  guestStatus_DiskWrite :: int
  guestStatus_NetIn :: int
  guestStatus_NetOut :: int
  guestStatus_Uptime :: int
  guestStatus_PID :: int
  guestStatus_Tags :: string
  guestStatus_RunningQEMU :: string
  guestStatus_PressureCPUSome :: Go_Values.any
  guestStatus_PressureCPUFull :: Go_Values.any
  guestStatus_PressureIOSome :: Go_Values.any
  guestStatus_PressureIOFull :: Go_Values.any
  guestStatus_PressureMemorySome :: Go_Values.any
  guestStatus_PressureMemoryFull :: Go_Values.any
  guestStatus_HA_Managed :: int

definition guestStatus_zero :: guestStatus where
  "guestStatus_zero = \<lparr>
    guestStatus_Status = '''', guestStatus_QMPStatus = '''', guestStatus_CPU = Fin 0,
    guestStatus_CPUs = 0, guestStatus_Mem = 0, guestStatus_MemHost = 0, guestStatus_MaxMem = 0,
    guestStatus_Swap = 0, guestStatus_MaxSwap = 0, guestStatus_Disk = 0, guestStatus_MaxDisk = 0,
    guestStatus_DiskRead = 0, guestStatus_DiskWrite = 0, guestStatus_NetIn = 0,
    guestStatus_NetOut = 0, guestStatus_Uptime = 0, guestStatus_PID = 0, guestStatus_Tags = '''',
    guestStatus_RunningQEMU = '''', guestStatus_PressureCPUSome = ANil,
    guestStatus_PressureCPUFull = ANil, guestStatus_PressureIOSome = ANil,
    guestStatus_PressureIOFull = ANil, guestStatus_PressureMemorySome = ANil,
    guestStatus_PressureMemoryFull = ANil, guestStatus_HA_Managed = 0\<rparr>"

record containerInterfaceIP =
  containerInterfaceIP_IPAddress :: string
  containerInterfaceIP_IPAddressType :: string
  containerInterfaceIP_Prefix :: Go_Values.any

definition containerInterfaceIP_zero :: containerInterfaceIP where
  "containerInterfaceIP_zero = \<lparr>
    containerInterfaceIP_IPAddress = '''', containerInterfaceIP_IPAddressType = '''',
    containerInterfaceIP_Prefix = ANil\<rparr>"

record containerInterface =
  containerInterface_Name :: string
  containerInterface_Inet :: string
  containerInterface_Inet6 :: string
  containerInterface_HardwareAddress :: string
  containerInterface_HWAddr :: string
  containerInterface_IPAddresses :: "containerInterfaceIP list"

definition containerInterface_zero :: containerInterface where
  "containerInterface_zero = \<lparr>
    containerInterface_Name = '''', containerInterface_Inet = '''',
    containerInterface_Inet6 = '''', containerInterface_HardwareAddress = '''',
    containerInterface_HWAddr = '''', containerInterface_IPAddresses = []\<rparr>"

record cephStatus =
  cephStatus_FSID :: string
  cephStatus_Health_Status :: string
  cephStatus_OSDMap_OSDMap_NumOSDs :: int
  cephStatus_OSDMap_OSDMap_NumUp :: int
  cephStatus_OSDMap_OSDMap_NumIn :: int
  cephStatus_PGMap_NumPGs :: int

definition cephStatus_zero :: cephStatus where
  "cephStatus_zero = \<lparr>
    cephStatus_FSID = '''', cephStatus_Health_Status = '''',
    cephStatus_OSDMap_OSDMap_NumOSDs = 0, cephStatus_OSDMap_OSDMap_NumUp = 0,
    cephStatus_OSDMap_OSDMap_NumIn = 0, cephStatus_PGMap_NumPGs = 0\<rparr>"

record cephDF =
  cephDF_Summary_TotalBytes :: int
  cephDF_Summary_TotalUsedBytes :: int
  cephDF_Summary_TotalAvailBytes :: int

definition cephDF_zero :: cephDF where
  "cephDF_zero = \<lparr>
    cephDF_Summary_TotalBytes = 0, cephDF_Summary_TotalUsedBytes = 0,
    cephDF_Summary_TotalAvailBytes = 0\<rparr>"

record aptUpdate =
  aptUpdate_Package :: string
  aptUpdate_Title :: string
  aptUpdate_CurrentVersion :: string
  aptUpdate_CandidateVersion :: string
  aptUpdate_Origin :: string
  aptUpdate_Section :: string
  aptUpdate_Priority :: string

definition aptUpdate_zero :: aptUpdate where
  "aptUpdate_zero = \<lparr>
    aptUpdate_Package = '''', aptUpdate_Title = '''', aptUpdate_CurrentVersion = '''',
    aptUpdate_CandidateVersion = '''', aptUpdate_Origin = '''', aptUpdate_Section = '''',
    aptUpdate_Priority = ''''\<rparr>"

record aptRepositoryEntry =
  aptRepositoryEntry_Types :: "string list"
  aptRepositoryEntry_URIs :: "string list"
  aptRepositoryEntry_Suites :: "string list"
  aptRepositoryEntry_Components :: "string list"
  aptRepositoryEntry_Enabled :: Go_Values.any

definition aptRepositoryEntry_zero :: aptRepositoryEntry where
  "aptRepositoryEntry_zero = \<lparr>
    aptRepositoryEntry_Types = [], aptRepositoryEntry_URIs = [], aptRepositoryEntry_Suites = [],
    aptRepositoryEntry_Components = [], aptRepositoryEntry_Enabled = ANil\<rparr>"

record aptRepositoryFile =
  aptRepositoryFile_Path :: string
  aptRepositoryFile_Repositories :: "aptRepositoryEntry list"

definition aptRepositoryFile_zero :: aptRepositoryFile where
  "aptRepositoryFile_zero = \<lparr>
    aptRepositoryFile_Path = '''', aptRepositoryFile_Repositories = []\<rparr>"

record aptRepositoryInfo =
  aptRepositoryInfo_Path :: string
  aptRepositoryInfo_Index :: Go_Values.any
  aptRepositoryInfo_Status :: string
  aptRepositoryInfo_Message :: string

definition aptRepositoryInfo_zero :: aptRepositoryInfo where
  "aptRepositoryInfo_zero = \<lparr>
    aptRepositoryInfo_Path = '''', aptRepositoryInfo_Index = ANil,
    aptRepositoryInfo_Status = '''', aptRepositoryInfo_Message = ''''\<rparr>"

record aptRepositories =
  aptRepositories_Files :: "aptRepositoryFile list"
  aptRepositories_Infos :: "aptRepositoryInfo list"

definition aptRepositories_zero :: aptRepositories where
  "aptRepositories_zero = \<lparr>
    aptRepositories_Files = [], aptRepositories_Infos = []\<rparr>"

record subscriptionInfo =
  subscriptionInfo_Status :: string
  subscriptionInfo_Level :: string
  subscriptionInfo_ProductName :: string
  subscriptionInfo_ServerID :: string
  subscriptionInfo_NextDueDate :: string
  subscriptionInfo_Message :: string

definition subscriptionInfo_zero :: subscriptionInfo where
  "subscriptionInfo_zero = \<lparr>
    subscriptionInfo_Status = '''', subscriptionInfo_Level = '''',
    subscriptionInfo_ProductName = '''', subscriptionInfo_ServerID = '''',
    subscriptionInfo_NextDueDate = '''', subscriptionInfo_Message = ''''\<rparr>"

record guestSnapshot =
  guestSnapshot_Name :: string
  guestSnapshot_Description :: string
  guestSnapshot_SnapTime :: int
  guestSnapshot_Parent :: string
  guestSnapshot_VMState :: int

definition guestSnapshot_zero :: guestSnapshot where
  "guestSnapshot_zero = \<lparr>
    guestSnapshot_Name = '''', guestSnapshot_Description = '''', guestSnapshot_SnapTime = 0,
    guestSnapshot_Parent = '''', guestSnapshot_VMState = 0\<rparr>"

record agentInfoCommand =
  agentInfoCommand_Name :: string
  agentInfoCommand_Enabled :: bool

definition agentInfoCommand_zero :: agentInfoCommand where
  "agentInfoCommand_zero = \<lparr>
    agentInfoCommand_Name = '''', agentInfoCommand_Enabled = False\<rparr>"

record agentInfo =
  agentInfo_Result_Version :: string
  agentInfo_Result_SupportedCommands :: "agentInfoCommand list"

definition agentInfo_zero :: agentInfo where
  "agentInfo_zero = \<lparr>
    agentInfo_Result_Version = '''', agentInfo_Result_SupportedCommands = []\<rparr>"

record agentHostname =
  agentHostname_Result_HostName :: string

definition agentHostname_zero :: agentHostname where
  "agentHostname_zero = \<lparr>
    agentHostname_Result_HostName = ''''\<rparr>"

record agentOSInfo =
  agentOSInfo_Result_ID :: string
  agentOSInfo_Result_Name :: string
  agentOSInfo_Result_PrettyName :: string
  agentOSInfo_Result_Version :: string

definition agentOSInfo_zero :: agentOSInfo where
  "agentOSInfo_zero = \<lparr>
    agentOSInfo_Result_ID = '''', agentOSInfo_Result_Name = '''',
    agentOSInfo_Result_PrettyName = '''', agentOSInfo_Result_Version = ''''\<rparr>"

record agentNetworkInterfacesIP =
  agentNetworkInterfacesIP_IPAddress :: string
  agentNetworkInterfacesIP_IPAddressType :: string
  agentNetworkInterfacesIP_Prefix :: int

definition agentNetworkInterfacesIP_zero :: agentNetworkInterfacesIP where
  "agentNetworkInterfacesIP_zero = \<lparr>
    agentNetworkInterfacesIP_IPAddress = '''', agentNetworkInterfacesIP_IPAddressType = '''',
    agentNetworkInterfacesIP_Prefix = 0\<rparr>"

record agentNetworkInterfacesItem =
  agentNetworkInterfacesItem_Name :: string
  agentNetworkInterfacesItem_HardwareAddress :: string
  agentNetworkInterfacesItem_IPAddresses :: "agentNetworkInterfacesIP list"

definition agentNetworkInterfacesItem_zero :: agentNetworkInterfacesItem where
  "agentNetworkInterfacesItem_zero = \<lparr>
    agentNetworkInterfacesItem_Name = '''', agentNetworkInterfacesItem_HardwareAddress = '''',
    agentNetworkInterfacesItem_IPAddresses = []\<rparr>"

record agentNetworkInterfaces =
  agentNetworkInterfaces_Result :: "agentNetworkInterfacesItem list"

definition agentNetworkInterfaces_zero :: agentNetworkInterfaces where
  "agentNetworkInterfaces_zero = \<lparr>
    agentNetworkInterfaces_Result = []\<rparr>"

record agentFSInfoDisk =
  agentFSInfoDisk_BusType :: string

definition agentFSInfoDisk_zero :: agentFSInfoDisk where
  "agentFSInfoDisk_zero = \<lparr>
    agentFSInfoDisk_BusType = ''''\<rparr>"

record agentFSInfoItem =
  agentFSInfoItem_Name :: string
  agentFSInfoItem_Mountpoint :: string
  agentFSInfoItem_Type :: string
  agentFSInfoItem_UsedBytes :: int
  agentFSInfoItem_TotalBytes :: int
  agentFSInfoItem_Disk :: "agentFSInfoDisk list"

definition agentFSInfoItem_zero :: agentFSInfoItem where
  "agentFSInfoItem_zero = \<lparr>
    agentFSInfoItem_Name = '''', agentFSInfoItem_Mountpoint = '''', agentFSInfoItem_Type = '''',
    agentFSInfoItem_UsedBytes = 0, agentFSInfoItem_TotalBytes = 0,
    agentFSInfoItem_Disk = []\<rparr>"

record agentFSInfo =
  agentFSInfo_Result :: "agentFSInfoItem list"

definition agentFSInfo_zero :: agentFSInfo where
  "agentFSInfo_zero = \<lparr>
    agentFSInfo_Result = []\<rparr>"

end
