(* ===== verification/Display_Types.thy ===== *)
theory Display_Types
  imports Go_Prelude
begin

text \<open>
  The display state of package \<open>display\<close> (\<open>internal/display/state.go\<close>): one record per
  struct, in the order of the file, the fields named after the struct and the Go field.  Each
  record has its Go zero value (\<open>..._zero\<close>), from which composite literals that leave fields
  out are built.  The collections of \<open>State\<close> and \<open>DetailState\<close> are slices that may be nil;
  the slices inside an element are encoded with \<open>omitempty\<close> or always set, so they are lists.

  A time is its distance from the Unix epoch in nanoseconds; Go's zero time is the year 1.
\<close>

type_synonym gotime = int

definition zero_time :: gotime where
  "zero_time = - 62135596800 * 1000000000"

text \<open>Seconds since the epoch, \<open>time.Time.Unix\<close>: rounded towards minus infinity.\<close>

definition unix :: "gotime \<Rightarrow> int" where
  "unix t = t div 1000000000"

text \<open>
  \<open>Health\<close> is a string type; the program builds the four constants and, by leaving the field
  out, the empty string (\<open>HealthZero\<close>).
\<close>

datatype health = HealthZero | HealthUnknown | HealthOK | HealthWarning | HealthCritical

instantiation health :: linorder
begin

definition health_index :: "health \<Rightarrow> nat" where
  "health_index h = (case h of HealthZero \<Rightarrow> 0 | HealthUnknown \<Rightarrow> 1 | HealthOK \<Rightarrow> 2
     | HealthWarning \<Rightarrow> 3 | HealthCritical \<Rightarrow> 4)"

definition less_eq_health :: "health \<Rightarrow> health \<Rightarrow> bool" where
  "less_eq_health a b \<longleftrightarrow> health_index a \<le> health_index b"

definition less_health :: "health \<Rightarrow> health \<Rightarrow> bool" where
  "less_health a b \<longleftrightarrow> health_index a < health_index b"

instance
  by standard
    (auto simp: less_eq_health_def less_health_def health_index_def split: health.splits)

end

lemma HealthCritical_top [simp]: "h \<le> HealthCritical" for h :: health
  by (cases h) (simp_all add: less_eq_health_def health_index_def)

section \<open>Records\<close>

record summary =
  summary_Health :: health
  summary_HostsOnline :: int
  summary_HostsTotal :: int
  summary_GuestsRunning :: int
  summary_GuestsStopped :: int
  summary_Alerts :: int
  summary_Updates :: int

definition summary_zero :: summary where
  "summary_zero = \<lparr>
    summary_Health = HealthZero, summary_HostsOnline = 0, summary_HostsTotal = 0,
    summary_GuestsRunning = 0, summary_GuestsStopped = 0, summary_Alerts = 0,
    summary_Updates = 0\<rparr>"

record cluster =
  cluster_ID :: string
  cluster_SourceID :: string
  cluster_Name :: string
  cluster_Version :: int
  cluster_Quorate :: bool
  cluster_NodesOnline :: int
  cluster_NodesTotal :: int
  cluster_NodesExpected :: int
  cluster_Health :: health
  cluster_DataWarnings :: "string list"

definition cluster_zero :: cluster where
  "cluster_zero = \<lparr>
    cluster_ID = '''', cluster_SourceID = '''', cluster_Name = '''', cluster_Version = 0,
    cluster_Quorate = False, cluster_NodesOnline = 0, cluster_NodesTotal = 0,
    cluster_NodesExpected = 0, cluster_Health = HealthZero, cluster_DataWarnings = []\<rparr>"

record host =
  host_ID :: string
  host_Name :: string
  host_SourceID :: string
  host_Node :: string
  host_Online :: bool
  host_CPUPct :: int
  host_MaxCPU :: int
  host_CPUModel :: string
  host_GPUCount :: int
  host_GPUSummary :: string
  host_MemoryPct :: int
  host_MemoryUsedBytes :: int
  host_MemoryTotalBytes :: int
  host_MemoryAvailableBytes :: int
  host_SwapPct :: int
  host_SwapUsedBytes :: int
  host_SwapTotalBytes :: int
  host_IOWaitPct :: int
  host_KSMSharedBytes :: int
  host_StoragePct :: int
  host_StorageUsedBytes :: int
  host_StorageTotalBytes :: int
  host_StorageMaxPct :: int
  host_StorageMaxName :: string
  host_UptimeSec :: int
  host_LoadAvg :: "string list"
  host_PVEVersion :: string
  host_KernelVersion :: string
  host_PrimaryAddress :: string
  host_NetworkActive :: int
  host_NetworkTotal :: int
  host_ServicesRunning :: int
  host_ServicesFailed :: int
  host_ServicesTotal :: int
  host_UpdatesAvailable :: int
  host_SubscriptionStatus :: string
  host_DiskCount :: int
  host_DiskIssues :: int
  host_FailedTasks24h :: int
  host_LastBackupStatus :: string
  host_LastBackupAgeSec :: int
  host_DataWarnings :: "string list"
  host_GuestsRunning :: int
  host_GuestsStopped :: int
  host_Health :: health
  host_Error :: "string option"

definition host_zero :: host where
  "host_zero = \<lparr>
    host_ID = '''', host_Name = '''', host_SourceID = '''', host_Node = '''',
    host_Online = False, host_CPUPct = 0, host_MaxCPU = 0, host_CPUModel = '''',
    host_GPUCount = 0, host_GPUSummary = '''', host_MemoryPct = 0, host_MemoryUsedBytes = 0,
    host_MemoryTotalBytes = 0, host_MemoryAvailableBytes = 0, host_SwapPct = 0,
    host_SwapUsedBytes = 0, host_SwapTotalBytes = 0, host_IOWaitPct = 0, host_KSMSharedBytes = 0,
    host_StoragePct = 0, host_StorageUsedBytes = 0, host_StorageTotalBytes = 0,
    host_StorageMaxPct = 0, host_StorageMaxName = '''', host_UptimeSec = 0, host_LoadAvg = [],
    host_PVEVersion = '''', host_KernelVersion = '''', host_PrimaryAddress = '''',
    host_NetworkActive = 0, host_NetworkTotal = 0, host_ServicesRunning = 0,
    host_ServicesFailed = 0, host_ServicesTotal = 0, host_UpdatesAvailable = 0,
    host_SubscriptionStatus = '''', host_DiskCount = 0, host_DiskIssues = 0,
    host_FailedTasks24h = 0, host_LastBackupStatus = '''', host_LastBackupAgeSec = 0,
    host_DataWarnings = [], host_GuestsRunning = 0, host_GuestsStopped = 0,
    host_Health = HealthZero, host_Error = None\<rparr>"

record storage =
  storage_ID :: string
  storage_Name :: string
  storage_SourceID :: string
  storage_HostID :: string
  storage_HostName :: string
  storage_Node :: string
  storage_Status :: string
  storage_PluginType :: string
  storage_Content :: string
  storage_Path :: string
  storage_Pool :: string
  storage_Mountpoint :: string
  storage_Shared :: bool
  storage_DiskPct :: int
  storage_DiskUsedBytes :: int
  storage_DiskTotalBytes :: int
  storage_ContentItems :: int
  storage_BackupCount :: int
  storage_ISOCount :: int
  storage_TemplateCount :: int
  storage_ImageCount :: int
  storage_RootdirCount :: int
  storage_Health :: health

definition storage_zero :: storage where
  "storage_zero = \<lparr>
    storage_ID = '''', storage_Name = '''', storage_SourceID = '''', storage_HostID = '''',
    storage_HostName = '''', storage_Node = '''', storage_Status = '''',
    storage_PluginType = '''', storage_Content = '''', storage_Path = '''', storage_Pool = '''',
    storage_Mountpoint = '''', storage_Shared = False, storage_DiskPct = 0,
    storage_DiskUsedBytes = 0, storage_DiskTotalBytes = 0, storage_ContentItems = 0,
    storage_BackupCount = 0, storage_ISOCount = 0, storage_TemplateCount = 0,
    storage_ImageCount = 0, storage_RootdirCount = 0, storage_Health = HealthZero\<rparr>"

record disk =
  disk_ID :: string
  disk_SourceID :: string
  disk_HostID :: string
  disk_HostName :: string
  disk_Node :: string
  disk_Name :: string
  disk_Model :: string
  disk_Serial :: string
  disk_Type :: string
  disk_UsedBy :: string
  disk_SizeBytes :: int
  disk_SMARTHealth :: string
  disk_WearoutPct :: int
  disk_Health :: health

definition disk_zero :: disk where
  "disk_zero = \<lparr>
    disk_ID = '''', disk_SourceID = '''', disk_HostID = '''', disk_HostName = '''',
    disk_Node = '''', disk_Name = '''', disk_Model = '''', disk_Serial = '''', disk_Type = '''',
    disk_UsedBy = '''', disk_SizeBytes = 0, disk_SMARTHealth = '''', disk_WearoutPct = 0,
    disk_Health = HealthZero\<rparr>"

record network =
  network_ID :: string
  network_SourceID :: string
  network_HostID :: string
  network_HostName :: string
  network_Node :: string
  network_Iface :: string
  network_Type :: string
  network_Active :: bool
  network_Autostart :: bool
  network_Method :: string
  network_Address :: string
  network_CIDR :: string
  network_Gateway :: string
  network_BridgePorts :: string
  network_Slaves :: string
  network_VLANAware :: bool
  network_Comments :: string
  network_Health :: health

definition network_zero :: network where
  "network_zero = \<lparr>
    network_ID = '''', network_SourceID = '''', network_HostID = '''', network_HostName = '''',
    network_Node = '''', network_Iface = '''', network_Type = '''', network_Active = False,
    network_Autostart = False, network_Method = '''', network_Address = '''',
    network_CIDR = '''', network_Gateway = '''', network_BridgePorts = '''',
    network_Slaves = '''', network_VLANAware = False, network_Comments = '''',
    network_Health = HealthZero\<rparr>"

record service =
  service_ID :: string
  service_SourceID :: string
  service_HostID :: string
  service_HostName :: string
  service_Node :: string
  service_Name :: string
  service_State :: string
  service_UnitState :: string
  service_Description :: string
  service_Health :: health

definition service_zero :: service where
  "service_zero = \<lparr>
    service_ID = '''', service_SourceID = '''', service_HostID = '''', service_HostName = '''',
    service_Node = '''', service_Name = '''', service_State = '''', service_UnitState = '''',
    service_Description = '''', service_Health = HealthZero\<rparr>"

record zfspool =
  zfspool_ID :: string
  zfspool_SourceID :: string
  zfspool_HostID :: string
  zfspool_HostName :: string
  zfspool_Node :: string
  zfspool_Name :: string
  zfspool_HealthText :: string
  zfspool_Status :: string
  zfspool_State :: string
  zfspool_Scan :: string
  zfspool_Errors :: string
  zfspool_DeviceCount :: int
  zfspool_IssueCount :: int
  zfspool_SizeBytes :: int
  zfspool_AllocatedBytes :: int
  zfspool_FreeBytes :: int
  zfspool_FragmentationPct :: int
  zfspool_DedupRatio :: string
  zfspool_Health :: health

definition zfspool_zero :: zfspool where
  "zfspool_zero = \<lparr>
    zfspool_ID = '''', zfspool_SourceID = '''', zfspool_HostID = '''', zfspool_HostName = '''',
    zfspool_Node = '''', zfspool_Name = '''', zfspool_HealthText = '''', zfspool_Status = '''',
    zfspool_State = '''', zfspool_Scan = '''', zfspool_Errors = '''', zfspool_DeviceCount = 0,
    zfspool_IssueCount = 0, zfspool_SizeBytes = 0, zfspool_AllocatedBytes = 0,
    zfspool_FreeBytes = 0, zfspool_FragmentationPct = 0, zfspool_DedupRatio = '''',
    zfspool_Health = HealthZero\<rparr>"

record guestdisk =
  guestdisk_Name :: string
  guestdisk_Storage :: string
  guestdisk_Volume :: string
  guestdisk_Size :: string
  guestdisk_Format :: string
  guestdisk_Backup :: bool
  guestdisk_Replicate :: bool
  guestdisk_SSD :: bool

definition guestdisk_zero :: guestdisk where
  "guestdisk_zero = \<lparr>
    guestdisk_Name = '''', guestdisk_Storage = '''', guestdisk_Volume = '''',
    guestdisk_Size = '''', guestdisk_Format = '''', guestdisk_Backup = False,
    guestdisk_Replicate = False, guestdisk_SSD = False\<rparr>"

record guestnic =
  guestnic_Name :: string
  guestnic_Model :: string
  guestnic_MAC :: string
  guestnic_Bridge :: string
  guestnic_Firewall :: bool
  guestnic_Tag :: string
  guestnic_Rate :: string

definition guestnic_zero :: guestnic where
  "guestnic_zero = \<lparr>
    guestnic_Name = '''', guestnic_Model = '''', guestnic_MAC = '''', guestnic_Bridge = '''',
    guestnic_Firewall = False, guestnic_Tag = '''', guestnic_Rate = ''''\<rparr>"

record guestfilesystem =
  guestfilesystem_Name :: string
  guestfilesystem_Mountpoint :: string
  guestfilesystem_Type :: string
  guestfilesystem_UsedBytes :: int
  guestfilesystem_TotalBytes :: int

definition guestfilesystem_zero :: guestfilesystem where
  "guestfilesystem_zero = \<lparr>
    guestfilesystem_Name = '''', guestfilesystem_Mountpoint = '''', guestfilesystem_Type = '''',
    guestfilesystem_UsedBytes = 0, guestfilesystem_TotalBytes = 0\<rparr>"

record guest =
  guest_ID :: string
  guest_VMID :: string
  guest_Name :: string
  guest_Type :: string
  guest_HostID :: string
  guest_HostName :: string
  guest_SourceID :: string
  guest_Status :: string
  guest_CPUPct :: int
  guest_MaxCPU :: int
  guest_MemoryPct :: int
  guest_MemoryUsedBytes :: int
  guest_MemoryTotalBytes :: int
  guest_MemoryHostBytes :: int
  guest_SwapPct :: int
  guest_SwapUsedBytes :: int
  guest_SwapTotalBytes :: int
  guest_DiskPct :: int
  guest_DiskUsedBytes :: int
  guest_DiskTotalBytes :: int
  guest_UptimeSec :: int
  guest_NetInBytes :: int
  guest_NetOutBytes :: int
  guest_DiskReadBytes :: int
  guest_DiskWriteBytes :: int
  guest_Tags :: string
  guest_OSType :: string
  guest_IPAddress :: string
  guest_IPAddresses :: "string list"
  guest_AgentEnabled :: bool
  guest_AgentAvailable :: bool
  guest_AgentHostname :: string
  guest_AgentOS :: string
  guest_AgentVersion :: string
  guest_AgentCommandCount :: int
  guest_AgentWarning :: string
  guest_PID :: int
  guest_QMPStatus :: string
  guest_RunningQEMU :: string
  guest_HAManaged :: bool
  guest_PressureCPUSomePct :: int
  guest_PressureCPUFullPct :: int
  guest_PressureIOSomePct :: int
  guest_PressureIOFullPct :: int
  guest_PressureMemorySomePct :: int
  guest_PressureMemoryFullPct :: int
  guest_OnBoot :: bool
  guest_Protection :: bool
  guest_Template :: bool
  guest_Unprivileged :: bool
  guest_CPUType :: string
  guest_BIOS :: string
  guest_Machine :: string
  guest_BootOrder :: string
  guest_Startup :: string
  guest_Nameserver :: string
  guest_SearchDomain :: string
  guest_Features :: string
  guest_Disks :: "guestdisk list"
  guest_NICs :: "guestnic list"
  guest_Filesystems :: "guestfilesystem list"
  guest_ConfigWarning :: string
  guest_Pinned :: bool
  guest_Expected :: string
  guest_Health :: health

definition guest_zero :: guest where
  "guest_zero = \<lparr>
    guest_ID = '''', guest_VMID = '''', guest_Name = '''', guest_Type = '''',
    guest_HostID = '''', guest_HostName = '''', guest_SourceID = '''', guest_Status = '''',
    guest_CPUPct = 0, guest_MaxCPU = 0, guest_MemoryPct = 0, guest_MemoryUsedBytes = 0,
    guest_MemoryTotalBytes = 0, guest_MemoryHostBytes = 0, guest_SwapPct = 0,
    guest_SwapUsedBytes = 0, guest_SwapTotalBytes = 0, guest_DiskPct = 0,
    guest_DiskUsedBytes = 0, guest_DiskTotalBytes = 0, guest_UptimeSec = 0, guest_NetInBytes = 0,
    guest_NetOutBytes = 0, guest_DiskReadBytes = 0, guest_DiskWriteBytes = 0, guest_Tags = '''',
    guest_OSType = '''', guest_IPAddress = '''', guest_IPAddresses = [],
    guest_AgentEnabled = False, guest_AgentAvailable = False, guest_AgentHostname = '''',
    guest_AgentOS = '''', guest_AgentVersion = '''', guest_AgentCommandCount = 0,
    guest_AgentWarning = '''', guest_PID = 0, guest_QMPStatus = '''', guest_RunningQEMU = '''',
    guest_HAManaged = False, guest_PressureCPUSomePct = 0, guest_PressureCPUFullPct = 0,
    guest_PressureIOSomePct = 0, guest_PressureIOFullPct = 0, guest_PressureMemorySomePct = 0,
    guest_PressureMemoryFullPct = 0, guest_OnBoot = False, guest_Protection = False,
    guest_Template = False, guest_Unprivileged = False, guest_CPUType = '''', guest_BIOS = '''',
    guest_Machine = '''', guest_BootOrder = '''', guest_Startup = '''', guest_Nameserver = '''',
    guest_SearchDomain = '''', guest_Features = '''', guest_Disks = [], guest_NICs = [],
    guest_Filesystems = [], guest_ConfigWarning = '''', guest_Pinned = False,
    guest_Expected = '''', guest_Health = HealthZero\<rparr>"

record snapshot =
  snapshot_ID :: string
  snapshot_SourceID :: string
  snapshot_HostID :: string
  snapshot_HostName :: string
  snapshot_GuestID :: string
  snapshot_GuestName :: string
  snapshot_VMID :: string
  snapshot_Type :: string
  snapshot_Name :: string
  snapshot_Description :: string
  snapshot_SnapTime :: int
  snapshot_Parent :: string
  snapshot_VMState :: bool
  snapshot_Health :: health

definition snapshot_zero :: snapshot where
  "snapshot_zero = \<lparr>
    snapshot_ID = '''', snapshot_SourceID = '''', snapshot_HostID = '''',
    snapshot_HostName = '''', snapshot_GuestID = '''', snapshot_GuestName = '''',
    snapshot_VMID = '''', snapshot_Type = '''', snapshot_Name = '''',
    snapshot_Description = '''', snapshot_SnapTime = 0, snapshot_Parent = '''',
    snapshot_VMState = False, snapshot_Health = HealthZero\<rparr>"

record task =
  task_ID :: string
  task_SourceID :: string
  task_HostID :: string
  task_HostName :: string
  task_Node :: string
  task_Type :: string
  task_User :: string
  task_Status :: string
  task_Target :: string
  task_VMID :: string
  task_GuestName :: string
  task_StartedAt :: int
  task_StartedAgeSec :: int
  task_EndedAt :: int
  task_DurationSec :: int
  task_Health :: health

definition task_zero :: task where
  "task_zero = \<lparr>
    task_ID = '''', task_SourceID = '''', task_HostID = '''', task_HostName = '''',
    task_Node = '''', task_Type = '''', task_User = '''', task_Status = '''', task_Target = '''',
    task_VMID = '''', task_GuestName = '''', task_StartedAt = 0, task_StartedAgeSec = 0,
    task_EndedAt = 0, task_DurationSec = 0, task_Health = HealthZero\<rparr>"

record backupjob =
  backupjob_ID :: string
  backupjob_SourceID :: string
  backupjob_Storage :: string
  backupjob_Schedule :: string
  backupjob_Mode :: string
  backupjob_Enabled :: bool
  backupjob_All :: bool
  backupjob_VMIDs :: string
  backupjob_Compress :: string
  backupjob_MailTo :: string
  backupjob_Health :: health

definition backupjob_zero :: backupjob where
  "backupjob_zero = \<lparr>
    backupjob_ID = '''', backupjob_SourceID = '''', backupjob_Storage = '''',
    backupjob_Schedule = '''', backupjob_Mode = '''', backupjob_Enabled = False,
    backupjob_All = False, backupjob_VMIDs = '''', backupjob_Compress = '''',
    backupjob_MailTo = '''', backupjob_Health = HealthZero\<rparr>"

record replication =
  replication_ID :: string
  replication_SourceID :: string
  replication_GuestID :: string
  replication_GuestName :: string
  replication_VMID :: string
  replication_SourceNode :: string
  replication_TargetNode :: string
  replication_Schedule :: string
  replication_Rate :: int
  replication_Enabled :: bool
  replication_Status :: string
  replication_State :: string
  replication_DurationSec :: int
  replication_FailCount :: int
  replication_LastSync :: int
  replication_NextSync :: int
  replication_LastSyncStatus :: string
  replication_Error :: string
  replication_Health :: health

definition replication_zero :: replication where
  "replication_zero = \<lparr>
    replication_ID = '''', replication_SourceID = '''', replication_GuestID = '''',
    replication_GuestName = '''', replication_VMID = '''', replication_SourceNode = '''',
    replication_TargetNode = '''', replication_Schedule = '''', replication_Rate = 0,
    replication_Enabled = False, replication_Status = '''', replication_State = '''',
    replication_DurationSec = 0, replication_FailCount = 0, replication_LastSync = 0,
    replication_NextSync = 0, replication_LastSyncStatus = '''', replication_Error = '''',
    replication_Health = HealthZero\<rparr>"

record haresource =
  haresource_ID :: string
  haresource_SourceID :: string
  haresource_SID :: string
  haresource_Type :: string
  haresource_State :: string
  haresource_RequestState :: string
  haresource_Group :: string
  haresource_Node :: string
  haresource_MaxRestart :: int
  haresource_MaxRelocate :: int
  haresource_Health :: health

definition haresource_zero :: haresource where
  "haresource_zero = \<lparr>
    haresource_ID = '''', haresource_SourceID = '''', haresource_SID = '''',
    haresource_Type = '''', haresource_State = '''', haresource_RequestState = '''',
    haresource_Group = '''', haresource_Node = '''', haresource_MaxRestart = 0,
    haresource_MaxRelocate = 0, haresource_Health = HealthZero\<rparr>"

record certificate =
  certificate_ID :: string
  certificate_SourceID :: string
  certificate_HostID :: string
  certificate_HostName :: string
  certificate_Node :: string
  certificate_Filename :: string
  certificate_Subject :: string
  certificate_Issuer :: string
  certificate_SANs :: "string list"
  certificate_Fingerprint :: string
  certificate_PublicKeyType :: string
  certificate_PublicKeyBits :: int
  certificate_NotBefore :: int
  certificate_NotAfter :: int
  certificate_DaysRemaining :: int
  certificate_Health :: health

definition certificate_zero :: certificate where
  "certificate_zero = \<lparr>
    certificate_ID = '''', certificate_SourceID = '''', certificate_HostID = '''',
    certificate_HostName = '''', certificate_Node = '''', certificate_Filename = '''',
    certificate_Subject = '''', certificate_Issuer = '''', certificate_SANs = [],
    certificate_Fingerprint = '''', certificate_PublicKeyType = '''',
    certificate_PublicKeyBits = 0, certificate_NotBefore = 0, certificate_NotAfter = 0,
    certificate_DaysRemaining = 0, certificate_Health = HealthZero\<rparr>"

record storageitem =
  storageitem_ID :: string
  storageitem_SourceID :: string
  storageitem_HostID :: string
  storageitem_HostName :: string
  storageitem_Node :: string
  storageitem_Storage :: string
  storageitem_Content :: string
  storageitem_VolID :: string
  storageitem_VMID :: string
  storageitem_Format :: string
  storageitem_SizeBytes :: int
  storageitem_CreatedAt :: int
  storageitem_Notes :: string
  storageitem_Protected :: bool
  storageitem_VerificationState :: string
  storageitem_Health :: health

definition storageitem_zero :: storageitem where
  "storageitem_zero = \<lparr>
    storageitem_ID = '''', storageitem_SourceID = '''', storageitem_HostID = '''',
    storageitem_HostName = '''', storageitem_Node = '''', storageitem_Storage = '''',
    storageitem_Content = '''', storageitem_VolID = '''', storageitem_VMID = '''',
    storageitem_Format = '''', storageitem_SizeBytes = 0, storageitem_CreatedAt = 0,
    storageitem_Notes = '''', storageitem_Protected = False,
    storageitem_VerificationState = '''', storageitem_Health = HealthZero\<rparr>"

record metrictrend =
  metrictrend_ID :: string
  metrictrend_SourceID :: string
  metrictrend_HostID :: string
  metrictrend_GuestID :: string
  metrictrend_ResourceType :: string
  metrictrend_ResourceName :: string
  metrictrend_Metric :: string
  metrictrend_Unit :: string
  metrictrend_Timeframe :: string
  metrictrend_Last :: int
  metrictrend_Values :: "int list"

definition metrictrend_zero :: metrictrend where
  "metrictrend_zero = \<lparr>
    metrictrend_ID = '''', metrictrend_SourceID = '''', metrictrend_HostID = '''',
    metrictrend_GuestID = '''', metrictrend_ResourceType = '''', metrictrend_ResourceName = '''',
    metrictrend_Metric = '''', metrictrend_Unit = '''', metrictrend_Timeframe = '''',
    metrictrend_Last = 0, metrictrend_Values = []\<rparr>"

record clusteroption =
  clusteroption_ID :: string
  clusteroption_SourceID :: string
  clusteroption_Key :: string
  clusteroption_Value :: string

definition clusteroption_zero :: clusteroption where
  "clusteroption_zero = \<lparr>
    clusteroption_ID = '''', clusteroption_SourceID = '''', clusteroption_Key = '''',
    clusteroption_Value = ''''\<rparr>"

record cephcluster =
  cephcluster_ID :: string
  cephcluster_SourceID :: string
  cephcluster_FSID :: string
  cephcluster_HealthText :: string
  cephcluster_TotalBytes :: int
  cephcluster_UsedBytes :: int
  cephcluster_AvailableBytes :: int
  cephcluster_UsagePct :: int
  cephcluster_OSDs :: int
  cephcluster_OSDsUp :: int
  cephcluster_OSDsIn :: int
  cephcluster_PGs :: int
  cephcluster_Health :: health

definition cephcluster_zero :: cephcluster where
  "cephcluster_zero = \<lparr>
    cephcluster_ID = '''', cephcluster_SourceID = '''', cephcluster_FSID = '''',
    cephcluster_HealthText = '''', cephcluster_TotalBytes = 0, cephcluster_UsedBytes = 0,
    cephcluster_AvailableBytes = 0, cephcluster_UsagePct = 0, cephcluster_OSDs = 0,
    cephcluster_OSDsUp = 0, cephcluster_OSDsIn = 0, cephcluster_PGs = 0,
    cephcluster_Health = HealthZero\<rparr>"

record capability =
  capability_ID :: string
  capability_SourceID :: string
  capability_HostID :: string
  capability_GuestID :: string
  capability_Name :: string
  capability_Endpoint :: string
  capability_Status :: string
  capability_HTTPStatus :: int
  capability_Message :: string

definition capability_zero :: capability where
  "capability_zero = \<lparr>
    capability_ID = '''', capability_SourceID = '''', capability_HostID = '''',
    capability_GuestID = '''', capability_Name = '''', capability_Endpoint = '''',
    capability_Status = '''', capability_HTTPStatus = 0, capability_Message = ''''\<rparr>"

record update =
  update_ID :: string
  update_SourceID :: string
  update_HostID :: string
  update_HostName :: string
  update_Node :: string
  update_Package :: string
  update_Title :: string
  update_CurrentVersion :: string
  update_CandidateVersion :: string
  update_Origin :: string
  update_Section :: string
  update_Priority :: string
  update_Health :: health

definition update_zero :: update where
  "update_zero = \<lparr>
    update_ID = '''', update_SourceID = '''', update_HostID = '''', update_HostName = '''',
    update_Node = '''', update_Package = '''', update_Title = '''', update_CurrentVersion = '''',
    update_CandidateVersion = '''', update_Origin = '''', update_Section = '''',
    update_Priority = '''', update_Health = HealthZero\<rparr>"

record repository =
  repository_ID :: string
  repository_SourceID :: string
  repository_HostID :: string
  repository_HostName :: string
  repository_Node :: string
  repository_File :: string
  repository_Types :: string
  repository_URIs :: string
  repository_Suites :: string
  repository_Components :: string
  repository_Enabled :: bool
  repository_Status :: string
  repository_Warning :: string
  repository_Health :: health

definition repository_zero :: repository where
  "repository_zero = \<lparr>
    repository_ID = '''', repository_SourceID = '''', repository_HostID = '''',
    repository_HostName = '''', repository_Node = '''', repository_File = '''',
    repository_Types = '''', repository_URIs = '''', repository_Suites = '''',
    repository_Components = '''', repository_Enabled = False, repository_Status = '''',
    repository_Warning = '''', repository_Health = HealthZero\<rparr>"

record subscription =
  subscription_ID :: string
  subscription_SourceID :: string
  subscription_HostID :: string
  subscription_HostName :: string
  subscription_Node :: string
  subscription_Status :: string
  subscription_Level :: string
  subscription_ProductName :: string
  subscription_ServerID :: string
  subscription_NextDueDate :: string
  subscription_Health :: health

definition subscription_zero :: subscription where
  "subscription_zero = \<lparr>
    subscription_ID = '''', subscription_SourceID = '''', subscription_HostID = '''',
    subscription_HostName = '''', subscription_Node = '''', subscription_Status = '''',
    subscription_Level = '''', subscription_ProductName = '''', subscription_ServerID = '''',
    subscription_NextDueDate = '''', subscription_Health = HealthZero\<rparr>"

record alert =
  alert_ID :: string
  alert_SourceID :: string
  alert_HostID :: string
  alert_GuestID :: string
  alert_Severity :: health
  alert_Title :: string
  alert_Message :: string

definition alert_zero :: alert where
  "alert_zero = \<lparr>
    alert_ID = '''', alert_SourceID = '''', alert_HostID = '''', alert_GuestID = '''',
    alert_Severity = HealthZero, alert_Title = '''', alert_Message = ''''\<rparr>"

record dstate =
  dstate_Schema :: string
  dstate_GeneratedAt :: gotime
  dstate_Stale :: bool
  dstate_Summary :: summary
  dstate_Clusters :: "cluster slice"
  dstate_Hosts :: "host slice"
  dstate_Storages :: "storage slice"
  dstate_Disks :: "disk slice"
  dstate_Networks :: "network slice"
  dstate_Services :: "service slice"
  dstate_ZFSPools :: "zfspool slice"
  dstate_Guests :: "guest slice"
  dstate_Snapshots :: "snapshot slice"
  dstate_Tasks :: "task slice"
  dstate_BackupJobs :: "backupjob slice"
  dstate_Replications :: "replication slice"
  dstate_HAResources :: "haresource slice"
  dstate_Certificates :: "certificate slice"
  dstate_StorageItems :: "storageitem slice"
  dstate_MetricTrends :: "metrictrend slice"
  dstate_ClusterOptions :: "clusteroption slice"
  dstate_CephClusters :: "cephcluster slice"
  dstate_Capabilities :: "capability slice"
  dstate_Updates :: "update slice"
  dstate_Repositories :: "repository slice"
  dstate_Subscriptions :: "subscription slice"
  dstate_Alerts :: "alert slice"

definition dstate_zero :: dstate where
  "dstate_zero = \<lparr>
    dstate_Schema = '''', dstate_GeneratedAt = zero_time, dstate_Stale = False,
    dstate_Summary = summary_zero, dstate_Clusters = None, dstate_Hosts = None,
    dstate_Storages = None, dstate_Disks = None, dstate_Networks = None, dstate_Services = None,
    dstate_ZFSPools = None, dstate_Guests = None, dstate_Snapshots = None, dstate_Tasks = None,
    dstate_BackupJobs = None, dstate_Replications = None, dstate_HAResources = None,
    dstate_Certificates = None, dstate_StorageItems = None, dstate_MetricTrends = None,
    dstate_ClusterOptions = None, dstate_CephClusters = None, dstate_Capabilities = None,
    dstate_Updates = None, dstate_Repositories = None, dstate_Subscriptions = None,
    dstate_Alerts = None\<rparr>"

record detailstate =
  detailstate_Schema :: string
  detailstate_GeneratedAt :: gotime
  detailstate_Stale :: bool
  detailstate_ZFSPools :: "zfspool slice"
  detailstate_Certificates :: "certificate slice"
  detailstate_StorageItems :: "storageitem slice"
  detailstate_MetricTrends :: "metrictrend slice"
  detailstate_ClusterOptions :: "clusteroption slice"
  detailstate_CephClusters :: "cephcluster slice"
  detailstate_Capabilities :: "capability slice"

definition detailstate_zero :: detailstate where
  "detailstate_zero = \<lparr>
    detailstate_Schema = '''', detailstate_GeneratedAt = zero_time, detailstate_Stale = False,
    detailstate_ZFSPools = None, detailstate_Certificates = None,
    detailstate_StorageItems = None, detailstate_MetricTrends = None,
    detailstate_ClusterOptions = None, detailstate_CephClusters = None,
    detailstate_Capabilities = None\<rparr>"

end
