(* ===== verification/Values.thy ===== *)
theory Values
  imports Go_Values Display_Types
begin

text \<open>
  The conversion helpers of \<open>internal/proxmox/provider.go\<close>: loose values of the Proxmox API to
  booleans, integers, strings and percentages, and the health order.  Whatever converts a float
  to an integer takes the architecture the bridge runs on.
\<close>

section \<open>Loose values\<close>

definition truth_text :: "string \<Rightarrow> bool" where
  "truth_text s \<longleftrightarrow>
     (let text = to_lower (trim_space s)
      in text = ''1'' \<or> text = ''true'' \<or> text = ''yes'' \<or> text = ''on'')"

fun boolValue :: "any \<Rightarrow> bool" where
  "boolValue (ABool v) = v"
| "boolValue (AInt v) = (v \<noteq> 0)"
| "boolValue (AInt64 v) = (v \<noteq> 0)"
| "boolValue (AFloat v) = (v \<noteq> Fin 0)"
| "boolValue (AStr v) = truth_text v"
| "boolValue _ = False"

fun int64Value :: "arch \<Rightarrow> any \<Rightarrow> int" where
  "int64Value a (AInt v) = v"
| "int64Value a (AInt64 v) = v"
| "int64Value a (AFloat v) = f_to_int a v"
| "int64Value a (AStr v) = fst (parse_int64 (trim_space v))"
| "int64Value a _ = 0"

definition intValue :: "arch \<Rightarrow> any \<Rightarrow> int" where
  "intValue a v = int64Value a v"

text \<open>No decoded value implements \<open>fmt.Stringer\<close>, so that case of the switch does not arise.\<close>

fun stringValue :: "any \<Rightarrow> string" where
  "stringValue (AStr v) = trim_space v"
| "stringValue ANil = []"
| "stringValue v = trim_space (sprint v)"

definition stringify :: "any \<Rightarrow> string" where
  "stringify v = (let text = stringValue v in if text = ''<nil>'' then [] else text)"

fun firstNonEmpty :: "string list \<Rightarrow> string" where
  "firstNonEmpty [] = []"
| "firstNonEmpty (v # vs) = (if trim_space v \<noteq> [] then v else firstNonEmpty vs)"

definition compactValue :: "any \<Rightarrow> string" where
  "compactValue v =
     (case v of
        AMap _ \<Rightarrow> (case json_marshal v of Some s \<Rightarrow> s | None \<Rightarrow> stringValue v)
      | AArr _ \<Rightarrow> (case json_marshal v of Some s \<Rightarrow> s | None \<Rightarrow> stringValue v)
      | _ \<Rightarrow> stringValue v)"

definition displayName :: "string \<Rightarrow> string \<Rightarrow> string" where
  "displayName sourceName nodeName =
     (if sourceName = [] \<or> sourceName = nodeName then nodeName
      else sourceName @ '' / '' @ nodeName)"

section \<open>Health\<close>

fun severityRank :: "health \<Rightarrow> int" where
  "severityRank HealthCritical = 3"
| "severityRank HealthWarning = 2"
| "severityRank HealthOK = 1"
| "severityRank _ = 0"

definition maxHealth :: "health \<Rightarrow> health \<Rightarrow> health" where
  "maxHealth a b = (if severityRank b > severityRank a then b else a)"

definition healthFromText :: "string \<Rightarrow> health" where
  "healthFromText value =
     (let text = to_lower (trim_space value)
      in if text = [] \<or> text = ''unknown'' then HealthUnknown
         else if contains text ''online'' \<or> contains text ''active'' \<or> contains text ''ok'' \<or>
                 contains text ''pass'' \<or> contains text ''healthy'' then HealthOK
         else if contains text ''degraded'' \<or> contains text ''warn'' then HealthWarning
         else if contains text ''fault'' \<or> contains text ''fail'' \<or> contains text ''error'' \<or>
                 contains text ''critical'' \<or> contains text ''offline'' then HealthCritical
         else HealthUnknown)"

section \<open>Percentages and rates\<close>

definition maxInt64 :: "int \<Rightarrow> int \<Rightarrow> int" where
  "maxInt64 a b = (if b > a then b else a)"

definition clampPct :: "int \<Rightarrow> int" where
  "clampPct value = (if value < 0 then 0 else if value > 100 then 100 else value)"

definition pctFloat :: "arch \<Rightarrow> f64 \<Rightarrow> int" where
  "pctFloat a v =
     (if f_le v (Fin 0) then 0 else clampPct (f_to_int a (f_round (f_mul v (Fin 100)))))"

definition pctInt64 :: "arch \<Rightarrow> int \<Rightarrow> int \<Rightarrow> int" where
  "pctInt64 a used whole =
     (if used \<le> 0 \<or> whole \<le> 0 then 0
      else clampPct (f_to_int a (f_round (f_mul (f_div (f_of_int used) (f_of_int whole)) (Fin 100)))))"

definition pctFloatRatio :: "arch \<Rightarrow> f64 \<Rightarrow> f64 \<Rightarrow> int" where
  "pctFloatRatio a used whole =
     (if f_le used (Fin 0) \<or> f_le whole (Fin 0) then 0
      else clampPct (f_to_int a (f_round (f_mul (f_div used whole) (Fin 100)))))"

definition pct_of_float :: "arch \<Rightarrow> f64 \<Rightarrow> int" where
  "pct_of_float a v = (if f_less (Fin 1) v then clampPct (f_to_int a (f_round v)) else pctFloat a v)"

definition pctAny :: "arch \<Rightarrow> any \<Rightarrow> int" where
  "pctAny a value =
     (case value of
        AFloat v \<Rightarrow> pct_of_float a v
      | AStr v \<Rightarrow> pct_of_float a (parse_float (trim_space v))
      | _ \<Rightarrow> pctFloatRatio a (f_of_int (int64Value a value)) (Fin 100))"

fun firstPositiveFloat :: "f64 list \<Rightarrow> f64" where
  "firstPositiveFloat [] = Fin 0"
| "firstPositiveFloat (v # vs) = (if f_less (Fin 0) v then v else firstPositiveFloat vs)"

definition kibRate :: "arch \<Rightarrow> f64 \<Rightarrow> int" where
  "kibRate a v = (if f_le v (Fin 0) then 0 else f_to_int a (f_round (f_div v (Fin 1024))))"

section \<open>Facts\<close>

lemma clampPct_bounds [simp]: "0 \<le> clampPct n" "clampPct n \<le> 100"
  by (simp_all add: clampPct_def)

lemma clampPct_mono: "m \<le> n \<Longrightarrow> clampPct m \<le> clampPct n"
  by (simp add: clampPct_def)

definition is_pct :: "int \<Rightarrow> bool" where
  "is_pct n \<longleftrightarrow> 0 \<le> n \<and> n \<le> 100"

lemma is_pct_simps [simp]:
  "is_pct 0" "is_pct (clampPct n)" "is_pct (pctFloat a v)" "is_pct (pctInt64 a used whole)"
  "is_pct (pctFloatRatio a x y)" "is_pct (pct_of_float a v)" "is_pct (pctAny a w)"
proof -
  show clamp: "is_pct (clampPct n)" for n by (simp add: is_pct_def)
  show zero: "is_pct 0" by (simp add: is_pct_def)
  show f: "is_pct (pctFloat a v)" for v
    by (simp add: pctFloat_def clamp zero)
  show r: "is_pct (pctFloatRatio a x y)" for x y
    by (simp add: pctFloatRatio_def clamp zero)
  show "is_pct (pctInt64 a used whole)"
    by (simp add: pctInt64_def clamp zero)
  show p: "is_pct (pct_of_float a v)" for v
    by (simp add: pct_of_float_def clamp f)
  show "is_pct (pctAny a w)"
    by (cases w) (auto simp: pctAny_def p r)
qed

text \<open>\<open>maxHealth\<close> is the maximum of the health order, the two unknown values counting as least.\<close>

lemma severityRank_mono: "a \<le> b \<Longrightarrow> severityRank a \<le> severityRank b"
  by (cases a; cases b) (simp_all add: less_eq_health_def health_index_def)

lemma maxHealth_rank: "severityRank (maxHealth a b) = max (severityRank a) (severityRank b)"
  by (simp add: maxHealth_def max_def)

lemma maxHealth_max:
  "HealthOK \<le> a \<or> HealthOK \<le> b \<Longrightarrow> maxHealth a b = max a b"
  by (cases a; cases b) (simp_all add: maxHealth_def max_def less_eq_health_def health_index_def)

lemma maxHealth_idem [simp]: "maxHealth a a = a"
  by (simp add: maxHealth_def)

lemma maxHealth_assoc: "maxHealth (maxHealth a b) c = maxHealth a (maxHealth b c)"
  by (simp add: maxHealth_def)

lemma maxHealth_Critical [simp]: "maxHealth a HealthCritical = HealthCritical"
    "maxHealth HealthCritical a = HealthCritical"
  by (cases a; simp add: maxHealth_def)+

lemma firstNonEmpty_in: "firstNonEmpty vs \<noteq> [] \<Longrightarrow> firstNonEmpty vs \<in> set vs"
  by (induction vs) (auto split: if_splits)

lemma firstNonEmpty_blank: "firstNonEmpty vs = [] \<longleftrightarrow> (\<forall>v\<in>set vs. trim_space v = [])"
  by (induction vs) auto

lemma firstNonEmpty_first:
  "trim_space v \<noteq> [] \<Longrightarrow> firstNonEmpty (v # vs) = v"
  by simp

lemma stringValue_trimmed [simp]: "trimmed (stringValue v)"
  by (cases v) (simp_all add: trimmedI)

section \<open>Accuracy of a percentage\<close>

text \<open>A double close to a positive rational: relative error at most \<open>k\<close> units of \<open>2 ^ - 53\<close>.\<close>

definition near :: "rat \<Rightarrow> rat \<Rightarrow> rat \<Rightarrow> bool" where
  "near k y x \<longleftrightarrow> \<bar>y - x\<bar> \<le> k * x / 2 ^ 53"

lemma near_rnd: "2 powi (- 1022) \<le> x \<Longrightarrow> near 1 (rnd x) x"
  using rnd_rel_error [of x] by (simp add: near_def)

lemma near_bounds:
  "near k y x \<longleftrightarrow> (1 - k / 2 ^ 53) * x \<le> y \<and> y \<le> (1 + k / 2 ^ 53) * x"
proof -
  have "(1 + k / 2 ^ 53) * x = x + k * x / 2 ^ 53" and "(1 - k / 2 ^ 53) * x = x - k * x / 2 ^ 53"
    by (simp_all add: algebra_simps)
  then show ?thesis unfolding near_def by (metis abs_diff_le_iff)
qed

lemma near_trans:
  assumes "near 1 z y" and "near k y x" and "0 < x" and "0 \<le> k" and "k \<le> 8"
  shows "near (k + 2) z x"
proof -
  have y: "0 \<le> y"
  proof -
    have "0 \<le> (1 - k / 2 ^ 53) * x" using assms by (intro mult_nonneg_nonneg) simp_all
    then show ?thesis using assms(2) by (simp add: near_bounds)
  qed
  have up: "y \<le> (1 + k / 2 ^ 53) * x" and lo: "(1 - k / 2 ^ 53) * x \<le> y"
    using assms(2) by (simp_all add: near_bounds)
  have c: "(1 + 1 / 2 ^ 53) * (1 + k / 2 ^ 53) \<le> 1 + (k + 2) / 2 ^ 53"
    using assms(4,5) by (simp add: field_simps)
  have d: "1 - (k + 2) / 2 ^ 53 \<le> (1 - 1 / 2 ^ 53) * (1 - k / 2 ^ 53)"
    using assms(4,5) by (simp add: field_simps)
  have "z \<le> (1 + 1 / 2 ^ 53) * y" using assms(1) by (simp add: near_bounds)
  also have "\<dots> \<le> (1 + 1 / 2 ^ 53) * ((1 + k / 2 ^ 53) * x)"
    by (rule mult_left_mono [OF up]) simp
  also have "\<dots> \<le> (1 + (k + 2) / 2 ^ 53) * x"
    unfolding mult.assoc [symmetric] using c assms(3) by (intro mult_right_mono) simp_all
  finally have "z \<le> (1 + (k + 2) / 2 ^ 53) * x" .
  moreover have "(1 - (k + 2) / 2 ^ 53) * x \<le> z"
  proof -
    have "(1 - (k + 2) / 2 ^ 53) * x \<le> (1 - 1 / 2 ^ 53) * (1 - k / 2 ^ 53) * x"
      using d assms(3) by (intro mult_right_mono) simp_all
    also have "\<dots> \<le> (1 - 1 / 2 ^ 53) * y"
      unfolding mult.assoc by (rule mult_left_mono [OF lo]) simp
    also have "\<dots> \<le> z" using assms(1) by (simp add: near_bounds)
    finally show ?thesis .
  qed
  ultimately show ?thesis by (simp add: near_bounds)
qed

lemma near_divide:
  assumes "near 1 a x" and "near 1 b y" and "0 < x" and "0 < y"
  shows "near 3 (a / b) (x / y)"
proof -
  have b: "0 < b"
  proof -
    have "0 < (1 - 1 / 2 ^ 53) * y" using assms(4) by simp
    then show ?thesis using assms(2) unfolding near_bounds by linarith
  qed
  have "a \<le> (1 + 1 / 2 ^ 53) * x" and "(1 - 1 / 2 ^ 53) * x \<le> a"
    and "b \<le> (1 + 1 / 2 ^ 53) * y" and "(1 - 1 / 2 ^ 53) * y \<le> b"
    using assms(1,2) by (simp_all add: near_bounds)
  note ab = this
  have "a * y \<le> (1 + 1 / 2 ^ 53) * x * y"
    using ab(1) assms(4) by (intro mult_right_mono) simp_all
  also have "\<dots> \<le> (1 + 3 / 2 ^ 53) * (1 - 1 / 2 ^ 53) * (x * y)"
    using assms(3,4) by (simp add: mult.assoc)
  also have "\<dots> = (1 + 3 / 2 ^ 53) * x * ((1 - 1 / 2 ^ 53) * y)" by simp
  also have "\<dots> \<le> (1 + 3 / 2 ^ 53) * x * b"
    using ab(4) assms(3) by (intro mult_left_mono) simp_all
  finally have up: "a / b \<le> (1 + 3 / 2 ^ 53) * (x / y)"
    using b assms(4) by (simp add: divide_le_eq) (simp add: field_simps)
  have "(1 - 3 / 2 ^ 53) * x * b \<le> (1 - 3 / 2 ^ 53) * x * ((1 + 1 / 2 ^ 53) * y)"
    using ab(3) assms(3) by (intro mult_left_mono) simp_all
  also have "\<dots> = (1 - 3 / 2 ^ 53) * (1 + 1 / 2 ^ 53) * (x * y)" by simp
  also have "\<dots> \<le> (1 - 1 / 2 ^ 53) * (x * y)"
    using assms(3,4) by (intro mult_right_mono) simp_all
  also have "\<dots> \<le> a * y"
    using ab(2) assms(4) by (simp add: mult.assoc [symmetric] del: mult_le_cancel_right)
  finally have "(1 - 3 / 2 ^ 53) * (x / y) \<le> a / b"
    using b assms(4) by (simp add: le_divide_eq) (simp add: field_simps)
  with up show ?thesis by (simp add: near_bounds)
qed

text \<open>The value of a ratio that neither under- nor overflows, the same on both architectures.\<close>

lemma ratio_value:
  assumes "0 < x" and "0 < y" and "x / y \<le> 2 powi 50"
  shows "pctFloatRatio a (Fin x) (Fin y) = clampPct (round_away (rnd (rnd (x / y) * 100)))"
proof -
  let ?q = "rnd (x / y)"
  let ?p = "rnd (?q * 100)"
  have "to_f64 (x / y) = Fin ?q \<and> 0 \<le> ?q \<and> ?q \<le> 2 powi 50"
    using assms by (intro to_f64_bounded) simp_all
  then have q: "to_f64 (x / y) = Fin ?q" "0 \<le> ?q" "?q \<le> 2 powi 50" by simp_all
  have "?q * 100 \<le> 2 powi 57" using q(3) by (simp add: power_int_def)
  then have "to_f64 (?q * 100) = Fin ?p \<and> 0 \<le> ?p \<and> ?p \<le> 2 powi 57"
    using q(2) by (intro to_f64_bounded) simp_all
  then have p: "to_f64 (?q * 100) = Fin ?p" "0 \<le> ?p" "?p \<le> of_int (2 ^ 57)"
    by (simp_all add: power_int_def)
  have "round_away ?p \<le> round_away (of_int (2 ^ 57))" and "round_away (of_int 0) \<le> round_away ?p"
    using p(2,3) by (intro round_away_mono; simp)+
  then have "0 \<le> round_away ?p \<and> round_away ?p \<le> 2 ^ 57"
    unfolding round_away_of_int by simp
  then have "f_to_int a (Fin (of_int (round_away ?p))) = round_away ?p"
    by (cases a) (simp_all add: in_i64_def)
  with assms(1,2) p(1) q(1) show ?thesis
    by (simp add: pctFloatRatio_def f_le_def)
qed

lemma f_of_int_near:
  assumes "0 < n" and "in_i64 n"
  shows "f_of_int n = Fin (rnd (of_int n)) \<and> near 1 (rnd (of_int n)) (of_int n) \<and>
         1 \<le> rnd (of_int n) \<and> rnd (of_int n) \<le> 2 powi 63"
proof -
  have n: "(1 :: rat) \<le> of_int n" using assms(1) by simp
  have "(of_int n :: rat) \<le> of_int (2 ^ 63)" unfolding of_int_le_iff using assms(2) by (simp add: in_i64_def)
  then have up: "(of_int n :: rat) \<le> 2 powi 63" by (simp add: power_int_def)
  have "rnd 1 \<le> rnd (of_int n)" using n by (intro rnd_mono) simp_all
  moreover have "(2 :: rat) powi (- 1022) \<le> of_int n"
    using n two_powi_mono [of "- 1022" 0] by simp
  ultimately show ?thesis
    using to_f64_bounded [of "of_int n" 63] n up rnd_int [of 1] near_rnd by (simp add: f_of_int_def)
qed

lemma pctInt64_ratio:
  assumes "0 < used" and "in_i64 used" and "0 < whole" and "in_i64 whole"
  shows "pctInt64 a used whole
           = pctFloatRatio a (Fin (rnd (of_int used))) (Fin (rnd (of_int whole)))"
  using f_of_int_near [OF assms(1,2)] f_of_int_near [OF assms(3,4)] assms(1,3)
  by (simp add: pctInt64_def pctFloatRatio_def f_le_def)

text \<open>With exact arithmetic the percentage would be off by a half; the doubles add at most \<open>2 ^ - 43\<close>.\<close>

lemma near_scale: "0 < c \<Longrightarrow> near k y x \<Longrightarrow> near k (y * c) (x * c)"
proof -
  assume "0 < c" and "near k y x"
  then have "\<bar>y - x\<bar> * c \<le> k * x / 2 ^ 53 * c"
    unfolding near_def by (intro mult_right_mono) simp_all
  moreover have "\<bar>y * c - x * c\<bar> = \<bar>y - x\<bar> * c"
    using \<open>0 < c\<close> by (simp add: abs_mult_pos left_diff_distrib)
  ultimately show ?thesis by (simp add: near_def)
qed

lemma clampPct_closer:
  "0 \<le> c \<Longrightarrow> c \<le> 100 \<Longrightarrow> \<bar>of_int (clampPct n) - c\<bar> \<le> \<bar>of_int n - c\<bar>" for c :: rat
  by (auto simp: clampPct_def abs_if)

lemma pctInt64_accurate:
  assumes "0 < used" and "used \<le> whole" and "in_i64 whole"
  shows "\<bar>of_int (pctInt64 a used whole) - 100 * of_int used / of_int whole\<bar> \<le> (1 / 2 + 1 / 2 ^ 43 :: rat)"
proof -
  have u: "in_i64 used" using assms by (simp add: in_i64_def)
  have w: "0 < whole" using assms by simp
  let ?x = "rnd (of_int used)" and ?y = "rnd (of_int whole)"
  let ?r = "of_int used / of_int whole :: rat"
  note fx = f_of_int_near [OF assms(1) u] and fy = f_of_int_near [OF w assms(3)]
  have xy: "?x \<le> ?y" using assms by (intro rnd_mono) simp_all
  have q: "near 3 (?x / ?y) ?r"
    using fx fy assms(1) w by (intro near_divide) simp_all
  have r: "0 < ?r" "?r \<le> 1" using assms w by simp_all
  have small: "2 powi (- 1022) \<le> ?x / ?y"
  proof -
    have "(2 :: rat) powi (- 1022) \<le> 2 powi (- 63)" by (simp only: two_powi_le_iff)
    also have "\<dots> = 1 / 2 powi 63" by (simp only: power_int_minus divide_inverse mult_1_left)
    also have "\<dots> \<le> ?x / ?y" using fx fy by (intro frac_le) linarith+
    finally show ?thesis .
  qed
  have rq: "near 5 (rnd (?x / ?y)) ?r"
    using near_trans [OF near_rnd [OF small] q r(1)] by simp
  then have rq100: "near 5 (rnd (?x / ?y) * 100) (?r * 100)"
    by (rule near_scale [rotated]) simp
  have "2 powi (- 1022) \<le> rnd (?x / ?y) * 100"
  proof -
    have "(2 :: rat) powi (- 1022) = rnd (2 powi (- 1022))" by (simp only: rnd_power)
    also have "\<dots> \<le> rnd (?x / ?y)" using small by (intro rnd_mono) simp_all
    also have "\<dots> \<le> rnd (?x / ?y) * 100"
      using rnd_nonneg [of "?x / ?y"] fx fy by simp
    finally show ?thesis .
  qed
  from near_rnd [OF this] have "near (5 + 2) (rnd (rnd (?x / ?y) * 100)) (?r * 100)"
    by (rule near_trans [OF _ rq100]) (use assms(1) w in simp_all)
  then have "near 7 (rnd (rnd (?x / ?y) * 100)) (?r * 100)" by simp
  then have "\<bar>rnd (rnd (?x / ?y) * 100) - ?r * 100\<bar> \<le> 1 / 2 ^ 43"
  proof -
    have "7 * (?r * 100) \<le> 700" using r(2) by simp
    then have "7 * (?r * 100) / 2 ^ 53 \<le> 700 / 2 ^ 53" by (rule divide_right_mono) simp
    also have "(700 / 2 ^ 53 :: rat) \<le> 1 / 2 ^ 43" by simp
    finally show ?thesis
      using \<open>near 7 _ _\<close> unfolding near_def by (rule order_trans [rotated])
  qed
  with round_away_close [of "rnd (rnd (?x / ?y) * 100)"]
  have close: "\<bar>of_int (round_away (rnd (rnd (?x / ?y) * 100))) - ?r * 100\<bar> \<le> 1 / 2 + 1 / 2 ^ 43"
    by linarith
  have pct: "pctInt64 a used whole = clampPct (round_away (rnd (rnd (?x / ?y) * 100)))"
  proof -
    have "?x / ?y \<le> 1" using xy fy by simp
    also have "(1 :: rat) \<le> 2 powi 50" by (simp add: power_int_def)
    finally show ?thesis
      using pctInt64_ratio [OF assms(1) u w assms(3)] fx fy by (simp add: ratio_value)
  qed
  have "0 \<le> ?r * 100" using r(1) by (intro mult_nonneg_nonneg) simp_all
  moreover have "?r * 100 \<le> 100" using mult_right_mono [OF r(2), of 100] by simp
  ultimately have "\<bar>of_int (pctInt64 a used whole) - ?r * 100\<bar> \<le> 1 / 2 + 1 / 2 ^ 43"
    unfolding pct by (rule order_trans [OF clampPct_closer close])
  moreover have "?r * 100 = 100 * of_int used / of_int whole" by simp
  ultimately show ?thesis by (simp only:)
qed

text \<open>More use never shows a smaller percentage, more capacity never a larger one.\<close>

lemma pctInt64_mono:
  assumes "0 < used" and "used \<le> used'" and "used' \<le> whole" and "whole' \<le> whole"
    and "used' \<le> whole'" and "in_i64 whole"
  shows "pctInt64 a used whole \<le> pctInt64 a used' whole'"
proof -
  have i: "in_i64 used" "in_i64 used'" "in_i64 whole'" "0 < whole" "0 < whole'" "0 < used'"
    using assms by (simp_all add: in_i64_def)
  let ?f = "\<lambda>n :: int. rnd (of_int n)"
  have f: "?f used \<le> ?f used'" "?f used \<le> ?f whole" "?f used' \<le> ?f whole'" "?f whole' \<le> ?f whole"
    using assms i by (auto intro!: rnd_mono)
  have pos: "1 \<le> ?f used" "1 \<le> ?f used'" "1 \<le> ?f whole" "1 \<le> ?f whole'"
    using f_of_int_near assms i by blast+
  have one: "(1 :: rat) \<le> 2 powi 50" by (simp add: power_int_def)
  have "?f used / ?f whole \<le> ?f used' / ?f whole'"
    using f pos by (intro frac_le) simp_all
  then have "rnd (?f used / ?f whole) \<le> rnd (?f used' / ?f whole')"
    using pos by (intro rnd_mono) simp_all
  moreover have "rnd (p * 100) \<le> rnd (p' * 100)" if "0 \<le> p" "p \<le> p'" for p p' :: rat
  proof (cases "p = 0")
    case True
    with that show ?thesis using rnd_nonneg [of "p' * 100"] by simp
  next
    case False
    with that show ?thesis by (intro rnd_mono) simp_all
  qed
  ultimately have "round_away (rnd (rnd (?f used / ?f whole) * 100))
      \<le> round_away (rnd (rnd (?f used' / ?f whole') * 100))"
    using rnd_nonneg [of "?f used / ?f whole"] pos by (intro round_away_mono) simp
  moreover have "?f used / ?f whole \<le> 2 powi 50" "?f used' / ?f whole' \<le> 2 powi 50"
    using f pos one by (auto intro: order_trans [of _ 1])
  ultimately show ?thesis
    using pos i assms by (simp add: pctInt64_ratio ratio_value clampPct_mono)
qed

section \<open>Properties\<close>

text \<open>
  C31: Every percentage the bridge computes lies between 0 and 100 on both architectures, whatever
  the API sends: negative or infinite numbers, not-a-number, text, or more used than there is.
\<close>

theorem percentages_in_range:
  "is_pct (pctFloat a v) \<and> is_pct (pctInt64 a used whole) \<and> is_pct (pctFloatRatio a x y) \<and>
   is_pct (pctAny a w)"
  by simp

text \<open>
  C32: The percentage of two byte counts is the exact percentage rounded to an integer, up to the
  double-precision error: it is off by at most a half and \<open>2 ^ - 43\<close>, for all positive 64-bit counts
  of which no more is used than there is.
\<close>

theorem percentage_accuracy:
  assumes "0 < used" and "used \<le> whole" and "in_i64 whole"
  shows "\<bar>of_int (pctInt64 a used whole) - 100 * of_int used / of_int whole\<bar> \<le> (1 / 2 + 1 / 2 ^ 43 :: rat)"
  using assms by (rule pctInt64_accurate)

lemma percentage_accuracy_witness:
  "\<bar>of_int (pctInt64 ARM64 3 8) - 75 / 2\<bar> \<le> (1 / 2 + 1 / 2 ^ 43 :: rat)"
  using percentage_accuracy [of 3 8 ARM64] by (simp add: in_i64_def)

text \<open>
  The percentage is monotone: more used or less capacity never shows a lower percentage, so
  no threshold is missed because of rounding.
\<close>

theorem percentage_monotone:
  assumes "0 < used" and "used \<le> used'" and "used' \<le> whole" and "whole' \<le> whole"
    and "used' \<le> whole'" and "in_i64 whole"
  shows "pctInt64 a used whole \<le> pctInt64 a used' whole'"
  using assms by (rule pctInt64_mono)

lemma percentage_monotone_witness: "pctInt64 AMD64 3 8 \<le> pctInt64 AMD64 4 7"
  using percentage_monotone [of 3 4 8 7 AMD64] by (simp add: in_i64_def)

text \<open>
  \<open>maxHealth\<close> combines severities as a maximum: it never lowers a severity, does not depend on
  the order of a sequence of updates beyond the two ways of saying unknown, and agrees with the
  order of \<^typ>\<open>health\<close> as soon as one argument is known.
\<close>

theorem maxHealth_is_maximum:
  "severityRank (maxHealth a b) = max (severityRank a) (severityRank b) \<and>
   maxHealth (maxHealth a b) c = maxHealth a (maxHealth b c) \<and> maxHealth a a = a \<and>
   (HealthOK \<le> max a b \<longrightarrow> maxHealth a b = max a b)"
  using maxHealth_max [of a b] by (auto simp: maxHealth_rank maxHealth_assoc le_max_iff_disj)

lemma maxHealth_is_maximum_witness: "maxHealth HealthOK HealthWarning = HealthWarning"
  using maxHealth_is_maximum [of HealthOK HealthWarning]
  by (simp add: less_eq_health_def health_index_def max_def)

end
