(* ===== verification/Client.thy ===== *)
theory Client
  imports Config
begin

text \<open>
  The Proxmox API client (\<open>internal/proxmox/client.go\<close>) and the connection test
  (\<open>internal/proxmox/diagnostics.go\<close>).  The network, TLS, JSON decoding, URL parsing and
  SHA-256 are arguments; what the client sends, which certificates it accepts and which error
  it returns are the definitions.
\<close>

datatype go_error =
    APIError string int string
  | MissingEnvelope string
  | OtherError string

text \<open>\<open>Error()\<close> of the three kinds of error.\<close>

fun error_text :: "go_error \<Rightarrow> string" where
  "error_text (APIError source code body) =
     ''proxmox '' @ source @ '' returned HTTP '' @ itoa code @ '': '' @ trim_space body"
| "error_text (MissingEnvelope source) = ''proxmox '' @ source @ '' response missing data envelope''"
| "error_text (OtherError msg) = msg"

section \<open>TLS\<close>

text \<open>\<open>tp_RootCAs\<close> is the PEM data added to the system roots; \<open>tp_Pin\<close> the expected fingerprint.\<close>

record tls_policy =
  tp_MinVersion :: int
  tp_InsecureSkipVerify :: bool
  tp_RootCAs :: "string option"
  tp_Pin :: "string option"

definition parseFingerprint :: "string \<Rightarrow> go_error + string" where
  "parseFingerprint input =
     (let value = trim_prefix (trim_space input) ''SHA256:'';
          value = to_lower (replace_all value '':'' '''')
      in if length value \<noteq> 64 then Inl (OtherError ''SHA256 fingerprint must be 64 hex chars'')
         else if \<not> list_all is_hex value then Inl (OtherError ''encoding/hex: invalid byte'')
         else Inr value)"

definition transportForTLS ::
    "(string \<Rightarrow> go_error + string) \<Rightarrow> (string \<Rightarrow> bool) \<Rightarrow> tls_config \<Rightarrow> go_error + tls_policy" where
  "transportForTLS readFile pem_ok cfg =
     (let base = \<lparr>tp_MinVersion = 0x0303, tp_InsecureSkipVerify = False, tp_RootCAs = None, tp_Pin = None\<rparr>;
          mode = tls_Mode cfg
      in if mode = ''system'' \<or> mode = '''' then Inr base
         else if mode = ''insecure'' then Inr (base\<lparr>tp_InsecureSkipVerify := True\<rparr>)
         else if mode = ''ca_file'' then
           (case readFile (tls_CAFile cfg) of
              Inl e \<Rightarrow> Inl e
            | Inr pem \<Rightarrow>
                if \<not> pem_ok pem then Inl (OtherError (''failed to parse ca_file '' @ tls_CAFile cfg))
                else Inr (base\<lparr>tp_RootCAs := Some pem\<rparr>))
         else if mode = ''fingerprint'' then
           (case parseFingerprint (tls_Fingerprint cfg) of
              Inl e \<Rightarrow> Inl e
            | Inr expected \<Rightarrow> Inr (base\<lparr>tp_InsecureSkipVerify := True, tp_Pin := Some expected\<rparr>))
         else Inl (OtherError (''unsupported tls mode '' @ mode)))"

text \<open>The hook \<open>VerifyPeerCertificate\<close> of a pinned connection; certificates are byte strings.\<close>

definition VerifyPeerCertificate ::
    "(nat list \<Rightarrow> nat list) \<Rightarrow> string \<Rightarrow> nat list list \<Rightarrow> go_error option" where
  "VerifyPeerCertificate sha256 expected rawCerts =
     (case rawCerts of
        [] \<Rightarrow> Some (OtherError ''server did not present a certificate'')
      | leaf # _ \<Rightarrow>
          (let actual = to_lower (hex_encode (sha256 leaf))
           in if actual \<noteq> expected
              then Some (OtherError (''certificate fingerprint mismatch: got SHA256:'' @ actual))
              else None))"

text \<open>
  Which chains \<open>crypto/tls\<close> accepts under a policy: chain verification (\<open>chain_ok\<close>, with the
  extra roots) unless it is skipped, then the hook.
\<close>

definition tls_accepts ::
    "(nat list \<Rightarrow> nat list) \<Rightarrow> (string option \<Rightarrow> nat list list \<Rightarrow> bool) \<Rightarrow> tls_policy \<Rightarrow> nat list list \<Rightarrow> bool"
where
  "tls_accepts sha256 chain_ok p certs \<longleftrightarrow>
     (tp_InsecureSkipVerify p \<or> chain_ok (tp_RootCAs p) certs) \<and>
     (case tp_Pin p of None \<Rightarrow> True | Some e \<Rightarrow> VerifyPeerCertificate sha256 e certs = None)"

section \<open>The client\<close>

record client =
  client_id :: string
  client_name :: string
  client_baseURL :: string
  client_token :: string
  client_tls :: tls_policy

definition tokenForHost :: "(string \<Rightarrow> string) \<Rightarrow> proxmox_host \<Rightarrow> string" where
  "tokenForHost getenv host =
     (if pve_TokenValue host \<noteq> '''' then pve_TokenValue host else getenv (pve_TokenEnv host))"

definition NewClient ::
    "(string \<Rightarrow> string) \<Rightarrow> (string \<Rightarrow> go_error + string) \<Rightarrow> (string \<Rightarrow> bool) \<Rightarrow> proxmox_host
      \<Rightarrow> go_error + client" where
  "NewClient getenv readFile pem_ok host =
     (case transportForTLS readFile pem_ok (pve_TLS host) of
        Inl e \<Rightarrow> Inl e
      | Inr transport \<Rightarrow>
          Inr \<lparr>client_id = pve_ID host, client_name = pve_Name host,
               client_baseURL = trim_right_char (CHR ''/'') (pve_BaseURL host),
               client_token = NormalizeToken (tokenForHost getenv host),
               client_tls = transport\<rparr>)"

record http_request =
  rq_Method :: string
  rq_URL :: string
  rq_Header :: "(string \<times> string) list"

text \<open>The body is what reading it to the end gives, possibly an error.\<close>

record http_response =
  rsp_StatusCode :: int
  rsp_Body :: "go_error + string"

text \<open>
  The network seen by a client: \<open>net_url_ok\<close> is the check of \<open>http.NewRequest\<close>,
  \<open>net_do\<close> is \<open>http.Client.Do\<close> on a connection with the given TLS policy, and
  \<open>net_envelope\<close> decodes the envelope \<open>{"data": ...}\<close> to the raw bytes of its data.
\<close>

record network_env =
  net_url_ok :: "string \<Rightarrow> go_error option"
  net_do :: "tls_policy \<Rightarrow> http_request \<Rightarrow> go_error + http_response"
  net_envelope :: "string \<Rightarrow> go_error + string"

definition get_request :: "client \<Rightarrow> string \<Rightarrow> http_request" where
  "get_request c path =
     \<lparr>rq_Method = ''GET'', rq_URL = client_baseURL c @ path,
      rq_Header = [(''Authorization'', client_token c), (''Accept'', ''application/json'')]\<rparr>"

text \<open>
  \<open>Client.Get(ctx, path, &out)\<close>: the new value of \<open>out\<close>, which starts as \<open>zero\<close>, and the
  error.  Decoding (\<open>decode\<close>) may fill \<open>out\<close> in part and still return an error.
\<close>

definition Get ::
    "network_env \<Rightarrow> (string \<Rightarrow> 'a \<times> go_error option) \<Rightarrow> 'a \<Rightarrow> client \<Rightarrow> string \<Rightarrow> 'a \<times> go_error option"
where
  "Get net decode zero c path =
     (case net_url_ok net (client_baseURL c @ path) of
        Some e \<Rightarrow> (zero, Some e)
      | None \<Rightarrow>
     (case net_do net (client_tls c) (get_request c path) of
        Inl e \<Rightarrow> (zero, Some e)
      | Inr resp \<Rightarrow>
     (case rsp_Body resp of
        Inl e \<Rightarrow> (zero, Some e)
      | Inr body \<Rightarrow>
          if rsp_StatusCode resp < 200 \<or> rsp_StatusCode resp > 299
          then (zero, Some (APIError (client_id c) (rsp_StatusCode resp) body))
          else (case net_envelope net body of
                  Inl e \<Rightarrow> (zero, Some e)
                | Inr dat \<Rightarrow>
                    if dat = '''' then (zero, Some (MissingEnvelope (client_id c)))
                    else decode dat))))"

text \<open>The result of a call whose value is used only when there is no error.\<close>

definition checked :: "'a \<times> go_error option \<Rightarrow> go_error + 'a" where
  "checked r = (case snd r of None \<Rightarrow> Inr (fst r) | Some e \<Rightarrow> Inl e)"

section \<open>The connection test\<close>

record parsed_url =
  url_Scheme :: string
  url_Host :: string
  url_Hostname :: string

text \<open>
  The environment of the test: \<open>url.Parse\<close>, \<open>net.ParseIP(h) != nil\<close>, a TLS dial to an
  address with a server name that returns the certificates presented, and SHA-256.
\<close>

record dial_env =
  dial_url :: "string \<Rightarrow> go_error + parsed_url"
  dial_is_ip :: "string \<Rightarrow> bool"
  dial_tls :: "string \<Rightarrow> string \<Rightarrow> go_error + nat list list"
  dial_sha256 :: "nat list \<Rightarrow> nat list"

definition serverName :: "(string \<Rightarrow> bool) \<Rightarrow> string \<Rightarrow> string" where
  "serverName is_ip host = (if is_ip host then '''' else host)"

definition DetectFingerprint :: "dial_env \<Rightarrow> string \<Rightarrow> go_error + string" where
  "DetectFingerprint env baseURL =
     (case dial_url env (trim_space baseURL) of
        Inl e \<Rightarrow> Inl e
      | Inr parsed \<Rightarrow>
          if url_Scheme parsed \<noteq> ''https''
          then Inl (OtherError ''fingerprint detection requires an https URL'')
          else
            (let host = (if contains (url_Host parsed) '':'' then url_Host parsed
                         else url_Host parsed @ '':443'')
             in case dial_tls env host (serverName (dial_is_ip env) (url_Hostname parsed)) of
                  Inl e \<Rightarrow> Inl e
                | Inr [] \<Rightarrow> Inl (OtherError ''server did not present a certificate'')
                | Inr (leaf # _) \<Rightarrow>
                    Inr (''SHA256:'' @ to_lower (hex_encode (dial_sha256 env leaf)))))"

record test_result =
  test_Version :: string
  test_Release :: string
  test_Fingerprint :: string

definition TestHost ::
    "(string \<Rightarrow> string) \<Rightarrow> (string \<Rightarrow> go_error + string) \<Rightarrow> (string \<Rightarrow> bool) \<Rightarrow> dial_env \<Rightarrow> network_env
      \<Rightarrow> (string \<Rightarrow> (string \<times> string) \<times> go_error option) \<Rightarrow> proxmox_host \<Rightarrow> test_result \<times> go_error option"
where
  "TestHost getenv readFile pem_ok env net decode_version host =
     (let result = \<lparr>test_Version = '''', test_Release = '''', test_Fingerprint = ''''\<rparr>;
          detect = tls_Mode (pve_TLS host) = ''fingerprint'' \<and> trim_space (tls_Fingerprint (pve_TLS host)) = ''''
      in case (if detect then DetectFingerprint env (pve_BaseURL host) else Inr '''') of
           Inl e \<Rightarrow> (result, Some e)
         | Inr detected \<Rightarrow>
             (let host = (if detect
                          then host\<lparr>pve_TLS := (pve_TLS host)\<lparr>tls_Fingerprint := detected\<rparr>\<rparr> else host);
                  result = result\<lparr>test_Fingerprint := detected\<rparr>
              in case NewClient getenv readFile pem_ok host of
                   Inl e \<Rightarrow> (result, Some e)
                 | Inr c \<Rightarrow>
                     (case Get net decode_version ('''', '''') c ''/api2/json/version'' of
                        (_, Some e) \<Rightarrow> (result, Some e)
                      | ((version, release), None) \<Rightarrow>
                          (let result = result\<lparr>test_Version := version, test_Release := release\<rparr>
                           in (if test_Fingerprint result = '''' \<and> tls_Mode (pve_TLS host) = ''fingerprint''
                               then result\<lparr>test_Fingerprint := tls_Fingerprint (pve_TLS host)\<rparr>
                               else result, None)))))"

section \<open>Facts\<close>

lemma to_lower_no_upper: "c \<in> set (to_lower s) \<Longrightarrow> \<not> (CHR ''A'' \<le> c \<and> c \<le> CHR ''Z'')"
proof (induction s rule: to_lower.induct)
  case (2 x xs)
  then show ?case
    by (auto simp: ascii_lower_def less_eq_char_def of_char_of split: if_splits)
qed simp

lemma hex_lower: "is_hex c \<Longrightarrow> \<not> (CHR ''A'' \<le> c \<and> c \<le> CHR ''Z'') \<Longrightarrow> c \<in> hex_alphabet"
proof -
  assume c: "is_hex c" "\<not> (CHR ''A'' \<le> c \<and> c \<le> CHR ''Z'')"
  define n where "n = (of_char c :: nat)"
  have "n \<in> {48..57} \<union> {97..102}"
    using c by (auto simp: n_def is_hex_def is_digit_def less_eq_char_def)
  moreover have "c = char_of n" by (simp add: n_def)
  moreover have "\<forall>n\<in>{48..57} \<union> {97..102 :: nat}. char_of n \<in> hex_alphabet"
    unfolding hex_alphabet_def by code_simp
  ultimately show ?thesis by blast
qed

lemma parseFingerprint_shape:
  "parseFingerprint s = Inr v \<Longrightarrow> length v = 64 \<and> set v \<subseteq> hex_alphabet"
  by (auto simp: parseFingerprint_def Let_def list_all_iff split: if_splits
      dest: to_lower_no_upper intro!: hex_lower)

lemma hex_text_id:
  assumes "set h \<subseteq> hex_alphabet"
  shows "to_lower h = h" and "replace_all h '':'' '''' = h" and "trimmed h" and "list_all is_hex h"
proof -
  have h: "is_hex c \<and> ascii_lower c = c \<and> c < CHR 0x80 \<and> c \<noteq> CHR '':'' \<and> c \<notin> space_bytes"
    if "c \<in> set h" for c
    using assms that by (blast dest: hex_alphabet_facts)
  then show "to_lower h = h" by (simp add: to_lower_ascii map_idI)
  show "replace_all h '':'' '''' = h" by (rule replace_all_absent) (use h in blast)
  show "trimmed h" by (rule trimmedI) (use h in blast)
  show "list_all is_hex h" using h by (simp add: list_all_iff)
qed

lemma has_prefix_hd: "has_prefix s p \<Longrightarrow> p \<noteq> [] \<Longrightarrow> hd p = hd s"
  by (cases s; cases p) (auto simp: has_prefix_def)

text \<open>A detected fingerprint parses back to the digest it was printed from.\<close>

lemma parseFingerprint_print:
  assumes "length d = 32"
  shows "parseFingerprint (''SHA256:'' @ hex_encode d) = Inr (hex_encode d)"
proof -
  let ?h = "hex_encode d"
  note h = hex_text_id [OF hex_encode_chars [of d]]
  have "\<not> has_prefix (''SHA256:'' @ ?h) p" if "p \<in> set space_runes" for p
    using that by (auto simp: space_runes_def has_prefix_def)
  moreover have "\<not> has_prefix (rev (''SHA256:'' @ ?h)) p" if p: "p \<in> set (map rev space_runes)" for p
  proof
    assume *: "has_prefix (rev (''SHA256:'' @ ?h)) p"
    obtain q where q: "p = rev q" "q \<in> set space_runes" using p unfolding set_map by blast
    then have "q \<noteq> []" using space_runes_nonempty by auto
    with q(2) have "last q \<in> space_bytes" unfolding space_bytes_def by (blast intro: last_in_set)
    moreover have "hd p = last q" using q(1) \<open>q \<noteq> []\<close> by (simp add: hd_rev)
    moreover have "?h \<noteq> []"
    proof
      assume "?h = []"
      then have "2 * length d = 0" by (metis length_hex_encode list.size(3))
      with assms show False by simp
    qed
    then have "hd (rev (''SHA256:'' @ ?h)) = last ?h" by (simp add: hd_append hd_rev)
    moreover have "hd p = hd (rev (''SHA256:'' @ ?h))"
      using * q(1) \<open>q \<noteq> []\<close> by (intro has_prefix_hd) simp_all
    ultimately show False
      using hex_encode_chars [of d] hex_alphabet_facts last_in_set [OF \<open>?h \<noteq> []\<close>]
      by (metis subsetD)
  qed
  ultimately have "trimmed (''SHA256:'' @ ?h)"
    unfolding trimmed_def drop_any_None_iff by blast
  then have "trim_prefix (trim_space (''SHA256:'' @ ?h)) ''SHA256:'' = ?h"
    by (simp only: trim_space_id trim_prefix_append)
  then show ?thesis
    unfolding parseFingerprint_def Let_def using h assms by simp
qed

lemma hex_digit_inj: "m < 16 \<Longrightarrow> n < 16 \<Longrightarrow> hex_digit m = hex_digit n \<Longrightarrow> m = n"
proof -
  have "map hex_digit [0..<16] = ''0123456789abcdef''" by code_simp
  moreover have "distinct ''0123456789abcdef''" by simp
  ultimately have "inj_on hex_digit (set [0..<16])" by (metis distinct_map)
  then show "m < 16 \<Longrightarrow> n < 16 \<Longrightarrow> hex_digit m = hex_digit n \<Longrightarrow> m = n"
    by (simp add: inj_on_def)
qed

lemma hex_encode_inj:
  "length a = length b \<Longrightarrow> \<forall>x\<in>set a \<union> set b. x < 256 \<Longrightarrow> hex_encode a = hex_encode b \<Longrightarrow> a = b"
proof (induction a b rule: list_induct2)
  case (Cons x xs y ys)
  have "x div 16 < 16" "y div 16 < 16" using Cons.prems(1) by auto
  with Cons.prems(2) have "x div 16 = y div 16" and "x mod 16 = y mod 16"
    and "hex_encode xs = hex_encode ys"
    using hex_digit_inj [of "x div 16" "y div 16"] hex_digit_inj [of "x mod 16" "y mod 16"]
    by (auto simp: hex_encode_def)
  moreover from this(1,2) have "x = y" by (metis div_mult_mod_eq)
  ultimately show ?case using Cons by simp
qed simp

text \<open>A pinned connection is accepted exactly when the leaf certificate has the pinned digest.\<close>

lemma verify_pinned:
  "VerifyPeerCertificate sha256 expected certs = None \<longleftrightarrow>
     (\<exists>leaf rest. certs = leaf # rest \<and> hex_encode (sha256 leaf) = expected)"
  by (cases certs) (auto simp: VerifyPeerCertificate_def Let_def hex_text_id [OF hex_encode_chars])

section \<open>Properties\<close>

text \<open>
  C28: Trust on first use: the fingerprint the bridge detects is the SHA-256 digest of the leaf, the
  first certificate of the chain that the https address of the URL presents (at port 443 if it names
  none); it is accepted as a configuration value, and a client pinned to it then accepts a chain
  exactly when its leaf has the same digest.
\<close>

theorem detected_fingerprint_pins:
  assumes "DetectFingerprint env url = Inr fp" and "\<forall>b. length (dial_sha256 env b) = 32"
    and "tls_Mode cfg = ''fingerprint''" and "tls_Fingerprint cfg = fp"
  shows "\<exists>u leaf rest p. dial_url env (trim_space url) = Inr u \<and> url_Scheme u = ''https'' \<and>
           dial_tls env (if contains (url_Host u) '':'' then url_Host u else url_Host u @ '':443'')
             (if dial_is_ip env (url_Hostname u) then '''' else url_Hostname u) = Inr (leaf # rest) \<and>
           fp = ''SHA256:'' @ hex_encode (dial_sha256 env leaf) \<and>
           transportForTLS readFile pem_ok cfg = Inr p \<and>
           (\<forall>certs. tls_accepts (dial_sha256 env) chain_ok p certs \<longleftrightarrow>
              (\<exists>leaf' rest. certs = leaf' # rest \<and>
                 hex_encode (dial_sha256 env leaf') = hex_encode (dial_sha256 env leaf)))"
proof -
  obtain u leaf rest where dialled: "dial_url env (trim_space url) = Inr u" "url_Scheme u = ''https''"
    "dial_tls env (if contains (url_Host u) '':'' then url_Host u else url_Host u @ '':443'')
       (if dial_is_ip env (url_Hostname u) then '''' else url_Hostname u) = Inr (leaf # rest)"
    and leaf: "fp = ''SHA256:'' @ hex_encode (dial_sha256 env leaf)"
    using assms(1)
    by (auto simp: DetectFingerprint_def serverName_def Let_def hex_text_id [OF hex_encode_chars] simp del: contains.simps
        split: sum.splits if_splits list.splits)
  then have "parseFingerprint fp = Inr (hex_encode (dial_sha256 env leaf))"
    using assms(2) by (simp only: parseFingerprint_print)
  then have "transportForTLS readFile pem_ok cfg =
      Inr \<lparr>tp_MinVersion = 0x0303, tp_InsecureSkipVerify = True, tp_RootCAs = None,
           tp_Pin = Some (hex_encode (dial_sha256 env leaf))\<rparr>"
    using assms(3,4) by (simp add: transportForTLS_def Let_def)
  with dialled leaf show ?thesis by (fastforce simp: tls_accepts_def verify_pinned)
qed

definition sample_dial :: dial_env where
  "sample_dial =
     \<lparr>dial_url = \<lambda>u. Inr \<lparr>url_Scheme = ''https'', url_Host = ''pve:8006'', url_Hostname = ''pve''\<rparr>,
      dial_is_ip = \<lambda>h. False, dial_tls = \<lambda>addr name. Inr [[1, 2, 3]],
      dial_sha256 = \<lambda>bs. replicate 32 (sum_list bs mod 256)\<rparr>"

lemma detected_fingerprint_pins_witness:
  "\<exists>p. transportForTLS (\<lambda>_. Inr []) (\<lambda>_. True)
          \<lparr>tls_Mode = ''fingerprint'', tls_Fingerprint = ''SHA256:'' @ hex_encode (replicate 32 6),
           tls_CAFile = ''''\<rparr> = Inr p"
proof -
  have "DetectFingerprint sample_dial ''https://pve:8006'' = Inr (''SHA256:'' @ hex_encode (replicate 32 6))"
    by (simp add: DetectFingerprint_def sample_dial_def contains.simps has_prefix_def
        hex_text_id [OF hex_encode_chars])
  from detected_fingerprint_pins [OF this, of "\<lparr>tls_Mode = ''fingerprint'',
      tls_Fingerprint = ''SHA256:'' @ hex_encode (replicate 32 6), tls_CAFile = ''''\<rparr>" "\<lambda>_. Inr []" "\<lambda>_. True"]
  show ?thesis by (simp add: sample_dial_def) blast
qed

text \<open>
  C29: A request delivers a decoded value without an error only from a 2xx answer with a data
  envelope that decodes; any other answer is an error, and a status outside 2xx is reported with
  the source and the status.
\<close>

theorem Get_outcome:
  "(snd (Get net decode zero c path) = None \<longrightarrow>
     (\<exists>resp body dat. net_do net (client_tls c) (get_request c path) = Inr resp \<and>
        200 \<le> rsp_StatusCode resp \<and> rsp_StatusCode resp \<le> 299 \<and> rsp_Body resp = Inr body \<and>
        net_envelope net body = Inr dat \<and> dat \<noteq> '''' \<and> decode dat = (fst (Get net decode zero c path), None))) \<and>
   (net_url_ok net (client_baseURL c @ path) = None \<longrightarrow>
    net_do net (client_tls c) (get_request c path) = Inr resp \<longrightarrow> rsp_Body resp = Inr body \<longrightarrow>
    rsp_StatusCode resp < 200 \<or> rsp_StatusCode resp > 299 \<longrightarrow>
    Get net decode zero c path = (zero, Some (APIError (client_id c) (rsp_StatusCode resp) body)))"
proof (intro conjI impI)
  assume "snd (Get net decode zero c path) = None"
  then show "\<exists>resp body dat. net_do net (client_tls c) (get_request c path) = Inr resp \<and>
      200 \<le> rsp_StatusCode resp \<and> rsp_StatusCode resp \<le> 299 \<and> rsp_Body resp = Inr body \<and>
      net_envelope net body = Inr dat \<and> dat \<noteq> '''' \<and> decode dat = (fst (Get net decode zero c path), None)"
    by (auto simp: Get_def prod_eq_iff split: option.splits sum.splits if_splits)
qed (simp add: Get_def)

definition sample_net :: "int \<Rightarrow> network_env" where
  "sample_net code =
     \<lparr>net_url_ok = \<lambda>u. None, net_do = \<lambda>p r. Inr \<lparr>rsp_StatusCode = code, rsp_Body = Inr ''denied''\<rparr>,
      net_envelope = \<lambda>b. Inr b\<rparr>"

definition sample_client :: client where
  "sample_client =
     \<lparr>client_id = ''lab'', client_name = ''Lab'', client_baseURL = ''https://pve:8006'',
      client_token = ''PVEAPIToken=root@pam!t=secret'',
      client_tls = \<lparr>tp_MinVersion = 0x0303, tp_InsecureSkipVerify = False, tp_RootCAs = None, tp_Pin = None\<rparr>\<rparr>"

lemma Get_outcome_witness:
  "Get (sample_net 403) (\<lambda>s. (s, None)) '''' sample_client ''/api2/json/version''
     = ('''', Some (APIError ''lab'' 403 ''denied''))"
  using Get_outcome [of "sample_net 403" "\<lambda>s. (s, None)" "''''" sample_client "''/api2/json/version''"
      "\<lparr>rsp_StatusCode = 403, rsp_Body = Inr ''denied''\<rparr>" "''denied''"]
  by (simp add: sample_net_def sample_client_def)

end
