(* ===== verification/Normalize.thy ===== *)
theory Normalize
  imports Api_Types Values Client Display_Types
begin

text \<open>
  From one record of the Proxmox API to one record of the display state: the conversion
  functions of \<open>internal/proxmox/provider.go\<close> for cluster, node and storage items, and the
  alerts a host or a storage raises.  A Go map of guests is a partial function on guest IDs.
\<close>

type_synonym guest_map = "string \<Rightarrow> guest option"

section \<open>GPUs\<close>

definition isGPUClass :: "string \<Rightarrow> bool" where
  "isGPUClass class =
     (let v = trim_prefix (to_lower (trim_space class)) ''0x''
      in has_prefix v ''03'' \<or> contains v ''vga'' \<or> contains v ''display'' \<or>
         contains v ''3d controller'')"

definition gpuName :: "pciDevice \<Rightarrow> string" where
  "gpuName d =
     (let vendor = trim_space (firstNonEmpty [pciDevice_VendorName d, pciDevice_SubsystemVendorName d]);
          name = trim_space (firstNonEmpty [pciDevice_DeviceName d, pciDevice_SubsystemDeviceName d,
                                            pciDevice_ID d])
      in if vendor = '''' then name
         else if name = '''' then vendor
         else if contains (to_lower name) (to_lower vendor) then name
         else vendor @ '' '' @ name)"

definition summarizeGPUs :: "pciDevice list \<Rightarrow> int \<times> string" where
  "summarizeGPUs devices =
     (let names = map gpuName (filter (\<lambda>d. isGPUClass (pciDevice_Class d)) devices)
      in case names of
           [] \<Rightarrow> (0, '''')
         | first # _ \<Rightarrow>
             (int (length names),
              if length names > 1 then first @ '' +'' @ itoa (int (length names) - 1) else first))"

section \<open>Cluster\<close>

text \<open>The loop of \<open>applyClusterStatus\<close> over the entries of the answer.\<close>

definition cluster_status_step :: "clusterStatus \<Rightarrow> cluster \<Rightarrow> cluster" where
  "cluster_status_step s cl =
     (if clusterStatus_Type s = ''cluster'' then
        cl\<lparr>cluster_Name := firstNonEmpty [clusterStatus_Name s, cluster_Name cl],
           cluster_Quorate := (clusterStatus_Quorate s \<noteq> 0),
           cluster_Version := clusterStatus_Version s,
           cluster_NodesExpected := clusterStatus_Expected s\<rparr>
      else if clusterStatus_Type s = ''node'' then
        cl\<lparr>cluster_NodesTotal := cluster_NodesTotal cl + 1,
           cluster_NodesOnline :=
             cluster_NodesOnline cl + (if clusterStatus_Online s \<noteq> 0 then 1 else 0)\<rparr>
      else cl)"

definition applyClusterStatus :: "clusterStatus list \<Rightarrow> cluster \<Rightarrow> cluster" where
  "applyClusterStatus statuses cl =
     (let cl = fold cluster_status_step statuses (cl\<lparr>cluster_NodesTotal := 0, cluster_NodesOnline := 0\<rparr>);
          cl = (if cluster_NodesTotal cl = 0
                then cl\<lparr>cluster_NodesTotal := cluster_NodesExpected cl\<rparr> else cl)
      in if cluster_NodesTotal cl > 0 \<and> cluster_NodesOnline cl < cluster_NodesTotal cl
         then cl\<lparr>cluster_Health := maxHealth (cluster_Health cl) HealthWarning\<rparr> else cl)"

definition clusterOptionsDisplay :: "client \<Rightarrow> json_map \<Rightarrow> clusteroption list" where
  "clusterOptionsDisplay c opts =
     (let keys = sort_strings (filter (\<lambda>k. k \<noteq> ''digest'') (map fst opts))
      in map (\<lambda>k. clusteroption_zero\<lparr>clusteroption_ID := client_id c @ ''/'' @ k,
                 clusteroption_SourceID := client_id c, clusteroption_Key := k,
                 clusteroption_Value := compactValue (lookup_any opts k)\<rparr>) keys)"

section \<open>Certificates\<close>

text \<open>
  \<open>time.Unix(s, 0)\<close> (its second count wraps), \<open>t.Sub(u)\<close> (saturating) and
  \<open>Duration.Hours()\<close>, the whole hours plus the rest as a float.
\<close>

definition time_unix :: "int \<Rightarrow> gotime" where
  "time_unix s = (i64 (s + 62135596800) - 62135596800) * 1000000000"

definition time_sub :: "gotime \<Rightarrow> gotime \<Rightarrow> int" where
  "time_sub t u = max (- (2 ^ 63)) (min (2 ^ 63 - 1) (t - u))"

definition go_quot :: "int \<Rightarrow> int \<Rightarrow> int" where
  "go_quot a b = (if a < 0 then - ((- a) div b) else a div b)"

definition hours :: "int \<Rightarrow> f64" where
  "hours d =
     (let hour = go_quot d 3600000000000; nsec = d - hour * 3600000000000
      in f_add (f_of_int hour) (f_div (f_of_int nsec) (f_of_int 3600000000000)))"

definition days_left :: "arch \<Rightarrow> int \<Rightarrow> int" where
  "days_left a d = f_to_int a (f_floor (f_div (hours d) (Fin 24)))"

definition certificateDisplay ::
    "arch \<Rightarrow> client \<Rightarrow> host \<Rightarrow> nodeCertificate \<Rightarrow> gotime \<Rightarrow> certificate" where
  "certificateDisplay a c h cert now =
     (let remaining = (if nodeCertificate_NotAfter cert > 0
                       then days_left a (time_sub (time_unix (nodeCertificate_NotAfter cert)) now)
                       else 0);
          health = (if nodeCertificate_NotAfter cert > 0
                    then if nodeCertificate_NotAfter cert \<le> unix now then HealthCritical
                         else if remaining \<le> 30 then HealthWarning else HealthOK
                    else HealthOK);
          filename = firstNonEmpty [nodeCertificate_Filename cert, nodeCertificate_Fingerprint cert,
                                    ''certificate'']
      in certificate_zero\<lparr>
           certificate_ID := client_id c @ ''/'' @ host_Node h @ ''/'' @ filename,
           certificate_SourceID := client_id c, certificate_HostID := host_ID h,
           certificate_HostName := host_Name h, certificate_Node := host_Node h,
           certificate_Filename := filename, certificate_Subject := nodeCertificate_Subject cert,
           certificate_Issuer := nodeCertificate_Issuer cert,
           certificate_SANs := nodeCertificate_SANs cert,
           certificate_Fingerprint := nodeCertificate_Fingerprint cert,
           certificate_PublicKeyType := nodeCertificate_PublicKeyType cert,
           certificate_PublicKeyBits := nodeCertificate_PublicKeyBits cert,
           certificate_NotBefore := nodeCertificate_NotBefore cert,
           certificate_NotAfter := nodeCertificate_NotAfter cert,
           certificate_DaysRemaining := remaining, certificate_Health := health\<rparr>)"

section \<open>Storage\<close>

definition applyStorageConfig :: "storageConfig \<Rightarrow> storage \<Rightarrow> storage" where
  "applyStorageConfig cfg s = s
     \<lparr>storage_PluginType := firstNonEmpty [storage_PluginType s, storageConfig_Type cfg],
      storage_Content := firstNonEmpty [storage_Content s, storageConfig_Content cfg],
      storage_Path := storageConfig_Path cfg,
      storage_Pool := storageConfig_Pool cfg,
      storage_Mountpoint := storageConfig_Mountpoint cfg,
      storage_Shared := (storage_Shared s \<or> boolValue (storageConfig_Shared cfg))\<rparr>"

definition storageContentQueryable :: "storage \<Rightarrow> bool" where
  "storageContentQueryable s =
     (if storage_Name s = '''' then False
      else let status = to_lower (storage_Status s)
           in if status \<noteq> '''' \<and> status \<noteq> ''available'' \<and> status \<noteq> ''ok'' then False
              else storage_Content s \<noteq> '''')"

definition verificationState :: "storageContent \<Rightarrow> string" where
  "verificationState item =
     (let state = stringValue (lookup_any (storageContent_Verification item) ''state'')
      in if state \<noteq> '''' then state
         else if storageContent_Verified item > 0 then ''verified'' else '''')"

definition storageItemDisplay :: "client \<Rightarrow> storage \<Rightarrow> storageContent \<Rightarrow> storageitem" where
  "storageItemDisplay c s item =
     (let vmid = stringValue (storageContent_VMID item);
          verification = verificationState item;
          health = (if equal_fold verification ''failed'' \<or> equal_fold verification ''error''
                    then HealthWarning else HealthOK)
      in storageitem_zero\<lparr>
           storageitem_ID := client_id c @ ''/'' @ storage_Node s @ ''/'' @ storageContent_VolID item,
           storageitem_SourceID := client_id c, storageitem_HostID := storage_HostID s,
           storageitem_HostName := storage_HostName s, storageitem_Node := storage_Node s,
           storageitem_Storage := storage_Name s,
           storageitem_Content := storageContent_Content item,
           storageitem_VolID := storageContent_VolID item, storageitem_VMID := vmid,
           storageitem_Format := storageContent_Format item,
           storageitem_SizeBytes := storageContent_Size item,
           storageitem_CreatedAt := storageContent_CTime item,
           storageitem_Notes := storageContent_Notes item,
           storageitem_Protected := (storageContent_Protected item \<noteq> 0),
           storageitem_VerificationState := verification, storageitem_Health := health\<rparr>)"

definition applyStorageItemSummary :: "storageitem \<Rightarrow> storage \<Rightarrow> storage" where
  "applyStorageItemSummary item s =
     (let s = s\<lparr>storage_ContentItems := storage_ContentItems s + 1\<rparr>;
          content = storageitem_Content item
      in if content = ''backup'' then s\<lparr>storage_BackupCount := storage_BackupCount s + 1\<rparr>
         else if content = ''iso'' then s\<lparr>storage_ISOCount := storage_ISOCount s + 1\<rparr>
         else if content = ''vztmpl'' then s\<lparr>storage_TemplateCount := storage_TemplateCount s + 1\<rparr>
         else if content = ''images'' then s\<lparr>storage_ImageCount := storage_ImageCount s + 1\<rparr>
         else if content = ''rootdir'' then s\<lparr>storage_RootdirCount := storage_RootdirCount s + 1\<rparr>
         else s)"

section \<open>Network and services\<close>

definition networkDisplay :: "client \<Rightarrow> host \<Rightarrow> networkInterface \<Rightarrow> network" where
  "networkDisplay c h n =
     (let health = (if networkInterface_Active n = 0 \<and> networkInterface_Autostart n \<noteq> 0
                    then HealthWarning else HealthOK)
      in network_zero\<lparr>
           network_ID := client_id c @ ''/'' @ host_Node h @ ''/'' @ networkInterface_Iface n,
           network_SourceID := client_id c, network_HostID := host_ID h,
           network_HostName := host_Name h, network_Node := host_Node h,
           network_Iface := networkInterface_Iface n, network_Type := networkInterface_Type n,
           network_Active := (networkInterface_Active n \<noteq> 0),
           network_Autostart := (networkInterface_Autostart n \<noteq> 0),
           network_Method := networkInterface_Method n,
           network_Address := networkInterface_Address n, network_CIDR := networkInterface_CIDR n,
           network_Gateway := networkInterface_Gateway n,
           network_BridgePorts := networkInterface_BridgePorts n,
           network_Slaves := networkInterface_Slaves n,
           network_VLANAware := (networkInterface_VLANAware n \<noteq> 0),
           network_Comments := networkInterface_Comments n, network_Health := health\<rparr>)"

definition serviceDisplay :: "client \<Rightarrow> host \<Rightarrow> nodeService \<Rightarrow> service" where
  "serviceDisplay c h s =
     (let name = firstNonEmpty [nodeService_Name s, nodeService_Service s];
          state = to_lower (firstNonEmpty [nodeService_State s, nodeService_UnitState s]);
          health = (if contains state ''failed'' then HealthWarning else HealthOK)
      in service_zero\<lparr>service_ID := client_id c @ ''/'' @ host_Node h @ ''/'' @ name,
           service_SourceID := client_id c, service_HostID := host_ID h,
           service_HostName := host_Name h, service_Node := host_Node h, service_Name := name,
           service_State := nodeService_State s, service_UnitState := nodeService_UnitState s,
           service_Description := nodeService_Description s, service_Health := health\<rparr>)"

definition network_step :: "networkInterface \<Rightarrow> int \<times> int \<times> string \<Rightarrow> int \<times> int \<times> string" where
  "network_step n acc =
     (case acc of (all, active, primary) \<Rightarrow>
        if networkInterface_Iface n = '''' \<or> networkInterface_Iface n = ''lo'' then (all, active, primary)
        else
          (let address = firstNonEmpty [networkInterface_Address n, networkInterface_CIDR n]
           in (all + 1,
               active + (if networkInterface_Active n \<noteq> 0 then 1 else 0),
               if primary = '''' \<and> networkInterface_Active n \<noteq> 0 \<and> address \<noteq> '''' then address
               else primary)))"

definition summarizeNetwork :: "networkInterface list \<Rightarrow> int \<times> int \<times> string" where
  "summarizeNetwork networks = fold network_step networks (0, 0, '''')"

definition service_step :: "nodeService \<Rightarrow> int \<times> int \<times> int \<Rightarrow> int \<times> int \<times> int" where
  "service_step s acc =
     (case acc of (all, running, failed) \<Rightarrow>
        if firstNonEmpty [nodeService_Name s, nodeService_Service s] = '''' then (all, running, failed)
        else
          (let state = to_lower (firstNonEmpty [nodeService_State s, nodeService_UnitState s])
           in (all + 1,
               running + (if contains state ''running'' \<or> contains state ''active'' then 1 else 0),
               failed + (if contains state ''failed'' then 1 else 0))))"

definition summarizeServices :: "nodeService list \<Rightarrow> int \<times> int \<times> int" where
  "summarizeServices services = fold service_step services (0, 0, 0)"

section \<open>ZFS\<close>

definition zfsPoolDisplay :: "client \<Rightarrow> host \<Rightarrow> zfsPool \<Rightarrow> zfspool" where
  "zfsPoolDisplay c h p =
     (let name = firstNonEmpty [zfsPool_Name p, zfsPool_Pool p];
          health = healthFromText (firstNonEmpty [zfsPool_Health p, zfsPool_Status p])
      in zfspool_zero\<lparr>zfspool_ID := client_id c @ ''/'' @ host_Node h @ ''/'' @ name,
           zfspool_SourceID := client_id c, zfspool_HostID := host_ID h,
           zfspool_HostName := host_Name h, zfspool_Node := host_Node h, zfspool_Name := name,
           zfspool_HealthText := zfsPool_Health p, zfspool_Status := zfsPool_Status p,
           zfspool_State := zfsPool_Health p, zfspool_SizeBytes := zfsPool_Size p,
           zfspool_AllocatedBytes := zfsPool_Alloc p, zfspool_FreeBytes := zfsPool_Free p,
           zfspool_FragmentationPct := zfsPool_Frag p,
           zfspool_DedupRatio := stringValue (zfsPool_Dedup p), zfspool_Health := health\<rparr>)"

text \<open>What the walk counts at one node of the device tree.\<close>

definition zfs_node_counts :: "zfsPoolDetail \<Rightarrow> int \<times> int \<Rightarrow> int \<times> int" where
  "zfs_node_counts d acc =
     (case acc of (devices, issues) \<Rightarrow>
        if zfsPoolDetail_Leaf d \<noteq> 0 \<or> zfsPoolDetail_Children d = [] then
          (let state = to_upper (trim_space (zfsPoolDetail_State d))
           in (devices + (if zfsPoolDetail_Name d \<noteq> '''' then 1 else 0),
               issues + (if state \<noteq> '''' \<and> state \<noteq> ''ONLINE'' \<and> state \<noteq> ''AVAIL'' then 1 else 0)
                      + (if zfsPoolDetail_Read d > 0 \<or> zfsPoolDetail_Write d > 0 \<or>
                            zfsPoolDetail_Checksum d > 0 then 1 else 0)))
        else (devices, issues))"

fun zfs_walk :: "zfsPoolDetail \<Rightarrow> int \<times> int \<Rightarrow> int \<times> int" where
  "zfs_walk (ZfsPoolDetail name state status scan errors leaf rd wr cks children) acc =
     fold zfs_walk children
       (zfs_node_counts (ZfsPoolDetail name state status scan errors leaf rd wr cks children) acc)"

definition zfsDeviceCounts :: "zfsPoolDetail \<Rightarrow> int \<times> int" where
  "zfsDeviceCounts detail = fold zfs_walk (zfsPoolDetail_Children detail) (0, 0)"

definition applyZFSPoolDetail :: "zfsPoolDetail \<Rightarrow> zfspool \<Rightarrow> zfspool" where
  "applyZFSPoolDetail detail p =
     (case zfsDeviceCounts detail of (devices, issues) \<Rightarrow>
        let p = p\<lparr>zfspool_State := firstNonEmpty [zfsPoolDetail_State detail, zfspool_State p],
                  zfspool_Status := firstNonEmpty [zfsPoolDetail_Status detail, zfspool_Status p],
                  zfspool_Scan := zfsPoolDetail_Scan detail,
                  zfspool_Errors := zfsPoolDetail_Errors detail,
                  zfspool_DeviceCount := devices, zfspool_IssueCount := issues\<rparr>;
            p = (if issues > 0 then p\<lparr>zfspool_Health := maxHealth (zfspool_Health p) HealthWarning\<rparr> else p)
        in if zfspool_State p \<noteq> ''''
           then p\<lparr>zfspool_Health := maxHealth (zfspool_Health p) (healthFromText (zfspool_State p))\<rparr>
           else p)"

section \<open>Jobs, high availability, replication\<close>

definition backupJobDisplay :: "client \<Rightarrow> backupJob \<Rightarrow> backupjob" where
  "backupJobDisplay c job =
     (let id = firstNonEmpty [backupJob_ID job, backupJob_Storage job @ ''/'' @ backupJob_Schedule job];
          enabled = (backupJob_Enabled job \<noteq> 0);
          health = (if \<not> enabled then HealthWarning else HealthOK)
      in backupjob_zero\<lparr>backupjob_ID := client_id c @ ''/'' @ id,
           backupjob_SourceID := client_id c, backupjob_Storage := backupJob_Storage job,
           backupjob_Schedule := backupJob_Schedule job, backupjob_Mode := backupJob_Mode job,
           backupjob_Enabled := enabled, backupjob_All := (backupJob_All job \<noteq> 0),
           backupjob_VMIDs := backupJob_VMID job, backupjob_Compress := backupJob_Compress job,
           backupjob_MailTo := backupJob_MailTo job, backupjob_Health := health\<rparr>)"

definition haResourceDisplay :: "client \<Rightarrow> haResource \<Rightarrow> haresource" where
  "haResourceDisplay c r =
     (let state = to_lower (firstNonEmpty [haResource_State r, haResource_RequestState r]);
          health = (if contains state ''error'' \<or> contains state ''fail'' \<or> contains state ''fence''
                    then HealthCritical
                    else if state \<noteq> '''' \<and> \<not> contains state ''started'' \<and>
                            \<not> contains state ''disabled'' \<and> \<not> contains state ''ignored''
                    then HealthWarning else HealthOK)
      in haresource_zero\<lparr>haresource_ID := client_id c @ ''/'' @ haResource_SID r,
           haresource_SourceID := client_id c, haresource_SID := haResource_SID r,
           haresource_Type := haResource_Type r, haresource_State := haResource_State r,
           haresource_RequestState := haResource_RequestState r,
           haresource_Group := haResource_Group r, haresource_Node := haResource_Node r,
           haresource_MaxRestart := haResource_MaxRestart r,
           haresource_MaxRelocate := haResource_MaxRelocate r, haresource_Health := health\<rparr>)"

definition replicationDisplay :: "client \<Rightarrow> replicationJob \<Rightarrow> guest_map \<Rightarrow> replication" where
  "replicationDisplay c r guests =
     (let vmid = itoa (replicationJob_Guest r);
          vmid = (if vmid = ''0'' then '''' else vmid);
          guestID = (if vmid \<noteq> '''' then client_id c @ ''/'' @ vmid else '''');
          guestName = (if vmid \<noteq> ''''
                       then (case guests guestID of None \<Rightarrow> '''' | Some g \<Rightarrow> guest_Name g) else '''');
          text = to_lower (firstNonEmpty [replicationJob_Status r, replicationJob_State r]);
          health = (if replicationJob_Error r \<noteq> '''' \<or> replicationJob_FailCount r > 0 then HealthWarning
                    else if text \<noteq> '''' \<and> text \<noteq> ''ok'' then HealthWarning else HealthOK)
      in replication_zero\<lparr>replication_ID := client_id c @ ''/'' @ replicationJob_ID r,
           replication_SourceID := client_id c, replication_GuestID := guestID,
           replication_GuestName := guestName, replication_VMID := vmid,
           replication_SourceNode := replicationJob_Source r,
           replication_TargetNode := replicationJob_Target r,
           replication_Schedule := replicationJob_Schedule r,
           replication_Rate := replicationJob_Rate r,
           replication_Enabled := (replicationJob_Disable r = 0),
           replication_Status := replicationJob_Status r,
           replication_State := replicationJob_State r,
           replication_DurationSec := replicationJob_Duration r,
           replication_FailCount := replicationJob_FailCount r,
           replication_LastSync := replicationJob_LastSync r,
           replication_NextSync := replicationJob_NextSync r,
           replication_LastSyncStatus := replicationJob_LastSyncStatus r,
           replication_Error := replicationJob_Error r, replication_Health := health\<rparr>)"

definition applyReplicationStatus :: "replicationStatus \<Rightarrow> replicationJob \<Rightarrow> replicationJob" where
  "applyReplicationStatus s r = r
     \<lparr>replicationJob_Status := firstNonEmpty [replicationStatus_Status s, replicationJob_Status r],
      replicationJob_State := firstNonEmpty [replicationStatus_State s, replicationJob_State r],
      replicationJob_Duration := (if replicationStatus_Duration s > 0 then replicationStatus_Duration s
                                  else replicationJob_Duration r),
      replicationJob_FailCount := (if replicationStatus_FailCount s > 0 then replicationStatus_FailCount s
                                   else replicationJob_FailCount r),
      replicationJob_LastSync := (if replicationStatus_LastSync s > 0 then replicationStatus_LastSync s
                                  else replicationJob_LastSync r),
      replicationJob_NextSync := (if replicationStatus_NextSync s > 0 then replicationStatus_NextSync s
                                  else replicationJob_NextSync r),
      replicationJob_LastSyncStatus :=
        firstNonEmpty [replicationStatus_LastSyncStatus s, replicationJob_LastSyncStatus r],
      replicationJob_Error := firstNonEmpty [replicationStatus_Error s, replicationJob_Error r]\<rparr>"

section \<open>Updates, repositories, subscription, snapshots\<close>

definition updateDisplay :: "client \<Rightarrow> host \<Rightarrow> aptUpdate \<Rightarrow> update" where
  "updateDisplay c h u =
     (let pkg = firstNonEmpty [aptUpdate_Package u, aptUpdate_Title u]
      in update_zero\<lparr>update_ID := client_id c @ ''/'' @ host_Node h @ ''/'' @ pkg,
           update_SourceID := client_id c, update_HostID := host_ID h,
           update_HostName := host_Name h, update_Node := host_Node h, update_Package := pkg,
           update_Title := aptUpdate_Title u, update_CurrentVersion := aptUpdate_CurrentVersion u,
           update_CandidateVersion := aptUpdate_CandidateVersion u,
           update_Origin := aptUpdate_Origin u, update_Section := aptUpdate_Section u,
           update_Priority := aptUpdate_Priority u, update_Health := HealthWarning\<rparr>)"

text \<open>The notes on repositories by path and index; the last note with a key is the one kept.\<close>

definition repository_infos :: "aptRepositoryInfo list \<Rightarrow> string \<Rightarrow> aptRepositoryInfo" where
  "repository_infos infos key =
     (case map_of (rev (map (\<lambda>i. (aptRepositoryInfo_Path i @ ''/'' @ stringValue (aptRepositoryInfo_Index i), i))
                          infos)) key of
        None \<Rightarrow> aptRepositoryInfo_zero | Some i \<Rightarrow> i)"

definition repository_display ::
    "client \<Rightarrow> host \<Rightarrow> string \<Rightarrow> string \<Rightarrow> aptRepositoryInfo \<Rightarrow> aptRepositoryEntry \<Rightarrow> repository" where
  "repository_display c h path index info repo =
     (let health = (if equal_fold (aptRepositoryInfo_Status info) ''warning'' \<or>
                       equal_fold (aptRepositoryInfo_Status info) ''error'' \<or>
                       aptRepositoryInfo_Message info \<noteq> '''' then HealthWarning else HealthOK)
      in repository_zero\<lparr>
           repository_ID := client_id c @ ''/'' @ host_Node h @ ''/'' @ path @ ''/'' @ index,
           repository_SourceID := client_id c, repository_HostID := host_ID h,
           repository_HostName := host_Name h, repository_Node := host_Node h,
           repository_File := path,
           repository_Types := join_with '','' (aptRepositoryEntry_Types repo),
           repository_URIs := join_with '','' (aptRepositoryEntry_URIs repo),
           repository_Suites := join_with '','' (aptRepositoryEntry_Suites repo),
           repository_Components := join_with '','' (aptRepositoryEntry_Components repo),
           repository_Enabled := boolValue (aptRepositoryEntry_Enabled repo),
           repository_Status := aptRepositoryInfo_Status info,
           repository_Warning := aptRepositoryInfo_Message info, repository_Health := health\<rparr>)"

definition repositoriesDisplay :: "client \<Rightarrow> host \<Rightarrow> aptRepositories \<Rightarrow> repository list" where
  "repositoriesDisplay c h repos =
     concat (map (\<lambda>f. map (\<lambda>(i, repo).
         let index = itoa (int i);
             info = repository_infos (aptRepositories_Infos repos) (aptRepositoryFile_Path f @ ''/'' @ index)
         in repository_display c h (aptRepositoryFile_Path f) index info repo)
       (enumerate 0 (aptRepositoryFile_Repositories f))) (aptRepositories_Files repos))"

definition subscriptionDisplay :: "client \<Rightarrow> host \<Rightarrow> subscriptionInfo \<Rightarrow> subscription" where
  "subscriptionDisplay c h s =
     (let health = (if subscriptionInfo_Status s \<noteq> '''' \<and> subscriptionInfo_Status s \<noteq> ''Active'' \<and>
                       subscriptionInfo_Status s \<noteq> ''active'' then HealthWarning else HealthOK)
      in subscription_zero\<lparr>subscription_ID := client_id c @ ''/'' @ host_Node h,
           subscription_SourceID := client_id c, subscription_HostID := host_ID h,
           subscription_HostName := host_Name h, subscription_Node := host_Node h,
           subscription_Status := subscriptionInfo_Status s,
           subscription_Level := subscriptionInfo_Level s,
           subscription_ProductName := subscriptionInfo_ProductName s,
           subscription_ServerID := subscriptionInfo_ServerID s,
           subscription_NextDueDate := subscriptionInfo_NextDueDate s,
           subscription_Health := health\<rparr>)"

definition snapshotDisplay :: "client \<Rightarrow> guest \<Rightarrow> guestSnapshot \<Rightarrow> snapshot" where
  "snapshotDisplay c g s =
     snapshot_zero\<lparr>
       snapshot_ID := client_id c @ ''/'' @ guest_HostName g @ ''/'' @ guest_VMID g @ ''/'' @ guestSnapshot_Name s,
       snapshot_SourceID := client_id c, snapshot_HostID := guest_HostID g,
       snapshot_HostName := guest_HostName g, snapshot_GuestID := guest_ID g,
       snapshot_GuestName := guest_Name g, snapshot_VMID := guest_VMID g,
       snapshot_Type := guest_Type g, snapshot_Name := guestSnapshot_Name s,
       snapshot_Description := guestSnapshot_Description s,
       snapshot_SnapTime := guestSnapshot_SnapTime s, snapshot_Parent := guestSnapshot_Parent s,
       snapshot_VMState := (guestSnapshot_VMState s \<noteq> 0), snapshot_Health := HealthOK\<rparr>"

section \<open>Disks and tasks\<close>

definition diskName :: "nodeDisk \<Rightarrow> string" where
  "diskName d =
     (let name = trim_prefix (firstNonEmpty [nodeDisk_DevPath d, nodeDisk_Device d]) ''/dev/''
      in if name = '''' then ''disk'' else name)"

definition diskHealth :: "string \<Rightarrow> int \<Rightarrow> health" where
  "diskHealth smartHealth wearout =
     (let v = to_lower (trim_space smartHealth)
      in if contains v ''fail'' \<or> contains v ''bad'' \<or> contains v ''critical'' then HealthCritical
         else if contains v ''warn'' then HealthWarning
         else if contains v ''pass'' \<or> contains v ''ok'' \<or> contains v ''healthy'' then HealthOK
         else HealthUnknown)"

definition taskDisplay :: "client \<Rightarrow> host \<Rightarrow> nodeTask \<Rightarrow> guest_map \<Rightarrow> int \<Rightarrow> task" where
  "taskDisplay c h t guests now =
     (let isNum = (atoi (nodeTask_ID t) \<noteq> None \<and> nodeTask_ID t \<noteq> '''');
          found = (if isNum then guests (client_id c @ ''/'' @ nodeTask_ID t) else None);
          vmid = (if isNum then nodeTask_ID t else '''');
          guestName = (case found of None \<Rightarrow> '''' | Some g \<Rightarrow> guest_Name g);
          target = (case found of None \<Rightarrow> nodeTask_ID t | Some g \<Rightarrow> guest_VMID g @ '' '' @ guest_Name g);
          status = firstNonEmpty [nodeTask_Status t, ''running''];
          health = (if nodeTask_Status t \<noteq> '''' \<and> to_upper (nodeTask_Status t) \<noteq> ''OK''
                    then HealthWarning else HealthOK);
          duration = (if nodeTask_EndTime t > 0 \<and> nodeTask_StartTime t > 0
                      then i64 (nodeTask_EndTime t - nodeTask_StartTime t) else 0);
          startedAge = (if nodeTask_StartTime t > 0 then maxInt64 0 (i64 (now - nodeTask_StartTime t)) else 0);
          id = firstNonEmpty [nodeTask_UPID t,
                 host_ID h @ ''/'' @ nodeTask_Type t @ ''/'' @ itoa (nodeTask_StartTime t)]
      in task_zero\<lparr>task_ID := id, task_SourceID := client_id c, task_HostID := host_ID h,
           task_HostName := host_Name h, task_Node := host_Node h, task_Type := nodeTask_Type t,
           task_User := nodeTask_User t, task_Status := status, task_Target := target,
           task_VMID := vmid, task_GuestName := guestName, task_StartedAt := nodeTask_StartTime t,
           task_StartedAgeSec := startedAge, task_EndedAt := nodeTask_EndTime t,
           task_DurationSec := duration, task_Health := health\<rparr>)"

section \<open>Facts\<close>

subsection \<open>Cluster\<close>

definition node_entries :: "clusterStatus list \<Rightarrow> clusterStatus list" where
  "node_entries = filter (\<lambda>s. clusterStatus_Type s = ''node'')"

definition node_online :: "clusterStatus \<Rightarrow> bool" where
  "node_online s \<longleftrightarrow> clusterStatus_Online s \<noteq> 0"

lemma cluster_status_counts:
  "cluster_NodesTotal (fold cluster_status_step ss cl)
     = cluster_NodesTotal cl + int (length (node_entries ss)) \<and>
   cluster_NodesOnline (fold cluster_status_step ss cl)
     = cluster_NodesOnline cl + int (length (filter node_online (node_entries ss))) \<and>
   cluster_Health (fold cluster_status_step ss cl) = cluster_Health cl \<and>
   cluster_DataWarnings (fold cluster_status_step ss cl) = cluster_DataWarnings cl \<and>
   cluster_ID (fold cluster_status_step ss cl) = cluster_ID cl \<and>
   cluster_SourceID (fold cluster_status_step ss cl) = cluster_SourceID cl"
  by (induction ss arbitrary: cl)
    (simp_all add: node_entries_def node_online_def cluster_status_step_def)

text \<open>An offline node is noticed: it shows in the counts and degrades the cluster.\<close>

lemma applyClusterStatus_nodes:
  assumes "node_entries ss \<noteq> []"
  shows "cluster_NodesTotal (applyClusterStatus ss cl) = int (length (node_entries ss)) \<and>
         cluster_NodesOnline (applyClusterStatus ss cl)
           = int (length (filter node_online (node_entries ss))) \<and>
         cluster_Health (applyClusterStatus ss cl) =
           (if \<forall>s\<in>set (node_entries ss). node_online s then cluster_Health cl
            else maxHealth (cluster_Health cl) HealthWarning)"
proof -
  let ?cl = "fold cluster_status_step ss (cl\<lparr>cluster_NodesTotal := 0, cluster_NodesOnline := 0\<rparr>)"
  let ?all = "node_entries ss"
  have counts: "cluster_NodesTotal ?cl = int (length ?all)"
      "cluster_NodesOnline ?cl = int (length (filter node_online ?all))"
      "cluster_Health ?cl = cluster_Health cl"
    by (simp_all add: cluster_status_counts)
  have "length (filter node_online ?all) < length ?all \<longleftrightarrow> \<not> (\<forall>s\<in>set ?all. node_online s)"
    by (metis filter_True length_filter_less less_irrefl)
  then show ?thesis
    unfolding applyClusterStatus_def Let_def using assms
    by (cases "\<forall>s\<in>set ?all. node_online s") (auto simp: counts)
qed

text \<open>The options come out sorted by key, in the same order whatever order the map is visited in.\<close>

lemma clusterOptions_order:
  assumes "distinct (map fst opts)" and "mset opts = mset opts'"
  shows "clusterOptionsDisplay c opts = clusterOptionsDisplay c opts'"
proof -
  have keys: "mset (map fst opts) = mset (map fst opts')" using assms(2) by (metis mset_map)
  then have d: "distinct (map fst opts')" using assms(1) by (metis mset_eq_imp_distinct_iff)
  have m: "map_of opts = map_of opts'"
    using assms(1) d assms(2) by (metis map_of_inject_set set_mset_mset)
  have "mset (filter (\<lambda>k. k \<noteq> ''digest'') (map fst opts))
      = mset (filter (\<lambda>k. k \<noteq> ''digest'') (map fst opts'))"
    unfolding mset_filter by (simp only: keys)
  moreover have "distinct (filter (\<lambda>k. k \<noteq> ''digest'') (map fst opts))" using assms(1) by simp
  ultimately have "sort_strings (filter (\<lambda>k. k \<noteq> ''digest'') (map fst opts))
      = sort_strings (filter (\<lambda>k. k \<noteq> ''digest'') (map fst opts'))"
    unfolding sort_strings_def by (intro string_order.stable_perm) (simp_all add: inj_on_def)
  then show ?thesis by (simp add: clusterOptionsDisplay_def m lookup_any_def)
qed

subsection \<open>Network and services\<close>

definition named_service :: "nodeService \<Rightarrow> bool" where
  "named_service s \<longleftrightarrow> firstNonEmpty [nodeService_Name s, nodeService_Service s] \<noteq> ''''"

definition service_text :: "nodeService \<Rightarrow> string" where
  "service_text s = to_lower (firstNonEmpty [nodeService_State s, nodeService_UnitState s])"

lemma service_fold:
  "fold service_step ss (a, r, f) =
     (a + int (length (filter named_service ss)),
      r + int (length (filter (\<lambda>s. contains (service_text s) ''running'' \<or> contains (service_text s) ''active'')
                        (filter named_service ss))),
      f + int (length (filter (\<lambda>s. contains (service_text s) ''failed'') (filter named_service ss))))"
proof (induction ss arbitrary: a r f)
  case (Cons s ss)
  then show ?case
    by (simp add: service_step_def named_service_def service_text_def Let_def del: firstNonEmpty.simps)
qed simp

lemmas summarizeServices_eq = service_fold [of _ 0 0 0, folded summarizeServices_def, simplified]

definition real_interface :: "networkInterface \<Rightarrow> bool" where
  "real_interface n \<longleftrightarrow> networkInterface_Iface n \<noteq> '''' \<and> networkInterface_Iface n \<noteq> ''lo''"

definition interface_up :: "networkInterface \<Rightarrow> bool" where
  "interface_up n \<longleftrightarrow> networkInterface_Active n \<noteq> 0"

definition interface_address :: "networkInterface \<Rightarrow> string" where
  "interface_address n = firstNonEmpty [networkInterface_Address n, networkInterface_CIDR n]"

text \<open>The first address of an active interface.\<close>

definition first_address :: "networkInterface list \<Rightarrow> string" where
  "first_address ns =
     (case filter (\<lambda>n. real_interface n \<and> interface_up n \<and> interface_address n \<noteq> '''') ns of
        [] \<Rightarrow> '''' | n # _ \<Rightarrow> interface_address n)"

lemma network_fold:
  "fold network_step ns (a, k, p) =
     (a + int (length (filter real_interface ns)),
      k + int (length (filter interface_up (filter real_interface ns))),
      if p = '''' then first_address ns else p)"
proof (induction ns arbitrary: a k p)
  case Nil
  then show ?case by (simp add: first_address_def)
next
  case (Cons n ns)
  have "first_address (n # ns) =
      (if real_interface n \<and> interface_up n \<and> interface_address n \<noteq> ''''
       then interface_address n else first_address ns)"
    by (simp add: first_address_def)
  with Cons show ?case
    by (simp add: network_step_def real_interface_def interface_up_def interface_address_def Let_def
        del: firstNonEmpty.simps)
qed

lemmas summarizeNetwork_eq = network_fold [of _ 0 0 "''''", folded summarizeNetwork_def, simplified]

subsection \<open>ZFS\<close>

text \<open>The nodes the walk visits, in its order.\<close>

fun zfs_nodes :: "zfsPoolDetail \<Rightarrow> zfsPoolDetail list" where
  "zfs_nodes (ZfsPoolDetail name state status scan errors leaf rd wr cks children) =
     ZfsPoolDetail name state status scan errors leaf rd wr cks children
       # concat (map zfs_nodes children)"

definition zfs_devices :: "zfsPoolDetail \<Rightarrow> zfsPoolDetail list" where
  "zfs_devices d =
     filter (\<lambda>n. zfsPoolDetail_Leaf n \<noteq> 0 \<or> zfsPoolDetail_Children n = [])
       (concat (map zfs_nodes (zfsPoolDetail_Children d)))"

definition zfs_bad_state :: "zfsPoolDetail \<Rightarrow> bool" where
  "zfs_bad_state n \<longleftrightarrow> to_upper (trim_space (zfsPoolDetail_State n)) \<notin> {'''', ''ONLINE'', ''AVAIL''}"

definition zfs_has_errors :: "zfsPoolDetail \<Rightarrow> bool" where
  "zfs_has_errors n \<longleftrightarrow>
     zfsPoolDetail_Read n > 0 \<or> zfsPoolDetail_Write n > 0 \<or> zfsPoolDetail_Checksum n > 0"

lemma zfs_walk_fold: "zfs_walk d acc = fold zfs_node_counts (zfs_nodes d) acc"
proof (induction d arbitrary: acc)
  case (ZfsPoolDetail name state status scan errors leaf rd wr cks children)
  have "fold zfs_walk xs acc = fold zfs_node_counts (concat (map zfs_nodes xs)) acc"
    if "set xs \<subseteq> set children" for xs acc
    using that ZfsPoolDetail by (induction xs arbitrary: acc) simp_all
  then show ?case by simp
qed

lemma zfs_fold:
  "fold zfs_node_counts ns (d, i) =
     (let dev = filter (\<lambda>n. zfsPoolDetail_Leaf n \<noteq> 0 \<or> zfsPoolDetail_Children n = []) ns
      in (d + int (length (filter (\<lambda>n. zfsPoolDetail_Name n \<noteq> '''') dev)),
          i + int (length (filter zfs_bad_state dev)) + int (length (filter zfs_has_errors dev))))"
  by (induction ns arbitrary: d i)
    (simp_all add: zfs_node_counts_def zfs_bad_state_def zfs_has_errors_def Let_def)

lemma zfsDeviceCounts_eq:
  "zfsDeviceCounts d =
     (int (length (filter (\<lambda>n. zfsPoolDetail_Name n \<noteq> '''') (zfs_devices d))),
      int (length (filter zfs_bad_state (zfs_devices d))) +
      int (length (filter zfs_has_errors (zfs_devices d))))"
proof -
  have "fold zfs_walk xs acc = fold zfs_node_counts (concat (map zfs_nodes xs)) acc" for xs acc
    by (induction xs arbitrary: acc) (simp_all add: zfs_walk_fold)
  then show ?thesis by (simp add: zfsDeviceCounts_def zfs_fold zfs_devices_def Let_def)
qed

text \<open>A pool has issues exactly when a device is in a bad state or counts errors.\<close>

lemma zfs_issues_iff:
  "0 < snd (zfsDeviceCounts d) \<longleftrightarrow> (\<exists>n\<in>set (zfs_devices d). zfs_bad_state n \<or> zfs_has_errors n)"
proof -
  have pos: "0 < int (length (filter P xs)) + int (length (filter Q xs)) \<longleftrightarrow> (\<exists>n\<in>set xs. P n \<or> Q n)"
    for P Q :: "zfsPoolDetail \<Rightarrow> bool" and xs
    by (induction xs) auto
  show ?thesis by (simp add: zfsDeviceCounts_eq pos)
qed

lemma applyZFSPoolDetail_issues:
  "0 < snd (zfsDeviceCounts d) \<Longrightarrow> HealthWarning \<le> zfspool_Health (applyZFSPoolDetail d p)"
proof -
  have "HealthWarning \<le> maxHealth (maxHealth h HealthWarning) k" "HealthWarning \<le> maxHealth h HealthWarning"
    for h k
    by (cases h; cases k; simp add: maxHealth_def less_eq_health_def health_index_def)+
  then show "0 < snd (zfsDeviceCounts d) \<Longrightarrow> ?thesis"
    by (simp add: applyZFSPoolDetail_def Let_def split_beta)
qed

subsection \<open>Certificates\<close>

lemma rnd_mono0: "0 \<le> x \<Longrightarrow> x \<le> y \<Longrightarrow> rnd x \<le> rnd y"
  by (cases "x = 0") (simp_all add: rnd_nonneg rnd_mono)

lemma f_of_int_exact: "0 \<le> n \<Longrightarrow> n \<le> 2 ^ 53 \<Longrightarrow> f_of_int n = Fin (of_int n)"
proof -
  assume n: "0 \<le> n" "n \<le> 2 ^ 53"
  then have "(of_int n :: rat) \<le> of_int (2 ^ 53)" by (simp only: of_int_le_iff)
  then have "(of_int n :: rat) \<le> 2 powi 53" by (simp add: power_int_def)
  with n show ?thesis
    using to_f64_bounded [of "of_int n" 53] rnd_int [OF n] by (simp add: f_of_int_def)
qed

text \<open>The hours of a duration that is not negative, as a rational.\<close>

definition hours_rat :: "int \<Rightarrow> rat" where
  "hours_rat d = rnd (of_int (d div 3600000000000) + rnd (of_int (d mod 3600000000000) / 3600000000000))"

lemma hours_parts:
  assumes "0 \<le> d" and "d < 2 ^ 63"
  shows "0 \<le> d div 3600000000000 \<and> d div 3600000000000 < 2 ^ 22 \<and>
         0 \<le> rnd (of_int (d mod 3600000000000) / 3600000000000) \<and>
         rnd (of_int (d mod 3600000000000) / 3600000000000) \<le> 1"
proof -
  have "d div 3600000000000 < 2 ^ 22" using assms by simp
  moreover have "(of_int (d mod 3600000000000) :: rat) \<le> of_int 3600000000000"
    unfolding of_int_le_iff by (simp add: less_imp_le)
  then have "(of_int (d mod 3600000000000) / 3600000000000 :: rat) \<le> 1" by simp
  then have "rnd (of_int (d mod 3600000000000) / 3600000000000) \<le> rnd 1"
    by (intro rnd_mono0) simp_all
  then have "rnd (of_int (d mod 3600000000000) / 3600000000000) \<le> 1"
    using rnd_int [of 1] by simp
  ultimately show ?thesis using assms by (simp add: rnd_nonneg)
qed

lemma hours_value:
  assumes "0 \<le> d" and "d < 2 ^ 63"
  shows "hours d = Fin (hours_rat d) \<and> 0 \<le> hours_rat d \<and> hours_rat d \<le> 2 powi 23"
proof -
  let ?h = "d div 3600000000000" and ?n = "d mod 3600000000000"
  let ?r = "rnd (of_int ?n / 3600000000000)"
  note parts = hours_parts [OF assms]
  have "?n < 3600000000000" by simp
  also have "(3600000000000 :: int) \<le> 2 ^ 53" by simp
  finally have "?n \<le> 2 ^ 53" by (rule less_imp_le)
  then have n: "f_of_int ?n = Fin (of_int ?n)" by (intro f_of_int_exact) simp_all
  have k: "f_of_int 3600000000000 = Fin 3600000000000"
    using f_of_int_exact [of 3600000000000] by simp
  have h: "f_of_int ?h = Fin (of_int ?h)" using parts by (intro f_of_int_exact) simp_all
  have "(of_int ?n / 3600000000000 :: rat) \<le> 1"
  proof -
    have "(of_int ?n :: rat) \<le> of_int 3600000000000" unfolding of_int_le_iff by (simp add: less_imp_le)
    then show ?thesis by simp
  qed
  then have div: "to_f64 (of_int ?n / 3600000000000) = Fin ?r"
    using to_f64_bounded [of "of_int ?n / 3600000000000" 0] by simp
  have "(of_int ?h :: rat) \<le> of_int (2 ^ 22)"
    unfolding of_int_le_iff using parts by (blast intro: less_imp_le)
  then have "of_int ?h + ?r \<le> 2 powi 23" using parts by (simp add: power_int_def)
  then have sum: "to_f64 (of_int ?h + ?r) = Fin (hours_rat d) \<and> 0 \<le> hours_rat d \<and> hours_rat d \<le> 2 powi 23"
    using to_f64_bounded [of "of_int ?h + ?r" 23] parts by (simp add: hours_rat_def)
  have "hours d = f_add (f_of_int ?h) (f_div (f_of_int ?n) (f_of_int 3600000000000))"
    using assms by (simp add: hours_def go_quot_def Let_def minus_div_mult_eq_mod)
  then show ?thesis using n k h div sum by simp
qed

lemma days_left_value:
  assumes "0 \<le> d" and "d < 2 ^ 63"
  shows "days_left a d = \<lfloor>rnd (hours_rat d / 24)\<rfloor>"
proof -
  note h = hours_value [OF assms]
  have "hours_rat d / 24 \<le> 2 powi 23" and "0 \<le> hours_rat d / 24" using h by simp_all
  then have q: "to_f64 (hours_rat d / 24) = Fin (rnd (hours_rat d / 24))"
      "0 \<le> rnd (hours_rat d / 24)" "rnd (hours_rat d / 24) \<le> of_int (2 ^ 23)"
    using to_f64_bounded [of "hours_rat d / 24" 23] by (simp_all add: power_int_def)
  then have "0 \<le> \<lfloor>rnd (hours_rat d / 24)\<rfloor>" and "\<lfloor>rnd (hours_rat d / 24)\<rfloor> \<le> 2 ^ 23"
    using floor_mono [OF q(3)] by (simp_all only: floor_of_int zero_le_floor)
  then show ?thesis
    using h q(1) by (cases a) (simp_all add: days_left_def in_i64_def)
qed

lemma hours_rat_mono:
  assumes "0 \<le> d" and "d \<le> d'" and "d' < 2 ^ 63"
  shows "hours_rat d \<le> hours_rat d'"
proof -
  let ?r = "\<lambda>d. rnd (of_int (d mod 3600000000000) / 3600000000000)"
  have p: "0 \<le> ?r d" "?r d \<le> 1" "0 \<le> ?r d'" "0 \<le> d div 3600000000000"
    using hours_parts assms by simp_all
  have le: "d div 3600000000000 \<le> d' div 3600000000000" using assms(2) by (simp add: zdiv_mono1)
  have "of_int (d div 3600000000000) + ?r d \<le> of_int (d' div 3600000000000) + ?r d'"
  proof (cases "d div 3600000000000 = d' div 3600000000000")
    case True
    then have "d mod 3600000000000 \<le> d' mod 3600000000000"
      using assms(2) by (metis add_le_cancel_left mult_div_mod_eq)
    then have "?r d \<le> ?r d'" by (intro rnd_mono0 divide_right_mono) simp_all
    with True show ?thesis by simp
  next
    case False
    with le have "d div 3600000000000 + 1 \<le> d' div 3600000000000" by simp
    then have "(of_int (d div 3600000000000 + 1) :: rat) \<le> of_int (d' div 3600000000000)"
      by (simp only: of_int_le_iff)
    with p show ?thesis by simp
  qed
  then show ?thesis
    unfolding hours_rat_def using p by (intro rnd_mono0) simp_all
qed

lemma days_left_mono:
  assumes "0 \<le> d" and "d \<le> d'" and "d' < 2 ^ 63"
  shows "days_left a d \<le> days_left a d'"
proof -
  have "rnd (hours_rat d / 24) \<le> rnd (hours_rat d' / 24)"
    using hours_rat_mono [OF assms] hours_value [of d] assms by (intro rnd_mono0) simp_all
  then show ?thesis using assms by (simp add: days_left_value floor_mono)
qed

text \<open>Thirty-one days are 31, a second less is 30.\<close>

lemma days_left_31: "days_left a (31 * 86400 * 1000000000) = 31"
proof -
  have "hours_rat (31 * 86400 * 1000000000) = 744"
    using rnd_int [of 744] by (simp add: hours_rat_def)
  then show ?thesis using rnd_int [of 31] by (simp add: days_left_value)
qed

lemma rnd_up: "1 / 2 \<le> x \<Longrightarrow> rnd x \<le> x * (1 + 1 / 2 ^ 53)"
proof -
  assume x: "1 / 2 \<le> x"
  have "(2 :: rat) powi (- 1022) \<le> 2 powi (- 1)" by (simp only: two_powi_le_iff)
  also have "\<dots> \<le> x" using x by (simp add: power_int_minus)
  finally have "\<bar>rnd x - x\<bar> \<le> x / 2 ^ 53" by (rule rnd_rel_error)
  then have "rnd x \<le> x + x / 2 ^ 53" by linarith
  also have "\<dots> = x * (1 + 1 / 2 ^ 53)" by (simp add: distrib_left)
  finally show ?thesis .
qed

lemma rnd_below: "1 / 2 \<le> x \<Longrightarrow> x * (1 + 1 / 2 ^ 53) \<le> y \<Longrightarrow> rnd x \<le> y"
  using rnd_up by (rule order_trans)

lemma days_left_30: "days_left a (31 * 86400 * 1000000000 - 1000000000) \<le> 30"
proof -
  let ?d = "31 * 86400 * 1000000000 - 1000000000 :: int"
  have "rnd (3599 / 3600) \<le> 35991 / 36000" by (rule rnd_below) simp_all
  moreover have "1 / 2 \<le> rnd (3599 / 3600)"
    using rnd_mono [of "2 powi (- 1)" "3599 / 3600"] rnd_power [of "- 1"] by (simp add: power_int_minus)
  ultimately have "rnd (743 + rnd (3599 / 3600)) \<le> 743 + 35992 / 36000"
    by (intro rnd_below) simp_all
  then have "hours_rat ?d \<le> 743 + 35992 / 36000" by (simp add: hours_rat_def)
  moreover have "0 \<le> hours_rat ?d" using hours_value [of ?d] by simp
  ultimately have "rnd (hours_rat ?d / 24) \<le> rnd ((743 + 35992 / 36000) / 24)"
    by (intro rnd_mono0 divide_right_mono) simp_all
  also have "\<dots> \<le> 30 + 9999991 / 10000000" by (rule rnd_below) simp_all
  finally have "\<lfloor>rnd (hours_rat ?d / 24)\<rfloor> < 31" by (simp add: floor_less_iff)
  then show ?thesis by (simp add: days_left_value)
qed

lemma certificate_expired:
  "0 < nodeCertificate_NotAfter cert \<Longrightarrow>
   certificate_Health (certificateDisplay a c h cert now) = HealthCritical \<longleftrightarrow>
     nodeCertificate_NotAfter cert \<le> unix now"
  by (simp add: certificateDisplay_def Let_def)

lemma certificate_far:
  assumes "0 < nodeCertificate_NotAfter cert" and "in_i64 (nodeCertificate_NotAfter cert + 62135596800)"
    and "31 * 86400 * 1000000000 \<le> nodeCertificate_NotAfter cert * 1000000000 - now"
  shows "certificate_Health (certificateDisplay a c h cert now) = HealthOK"
proof -
  let ?d = "time_sub (time_unix (nodeCertificate_NotAfter cert)) now"
  have "time_unix (nodeCertificate_NotAfter cert) = nodeCertificate_NotAfter cert * 1000000000"
    using assms(2) by (simp add: time_unix_def i64_id)
  then have "31 * 86400 * 1000000000 \<le> ?d" and "?d < 2 ^ 63"
    using assms(3) by (simp_all add: time_sub_def)
  then have "days_left a (31 * 86400 * 1000000000) \<le> days_left a ?d"
    by (intro days_left_mono) simp_all
  then have "31 \<le> days_left a ?d" by (simp only: days_left_31)
  moreover have "\<not> nodeCertificate_NotAfter cert \<le> unix now"
    using assms(3) by (simp add: unix_def)
  ultimately show ?thesis using assms(1) by (simp add: certificateDisplay_def Let_def)
qed

lemma certificate_near:
  assumes "0 < nodeCertificate_NotAfter cert" and "in_i64 (nodeCertificate_NotAfter cert + 62135596800)"
    and "nodeCertificate_NotAfter cert * 1000000000 - now \<le> 31 * 86400 * 1000000000 - 1000000000"
  shows "HealthWarning \<le> certificate_Health (certificateDisplay a c h cert now)"
proof (cases "nodeCertificate_NotAfter cert \<le> unix now")
  case False
  let ?d = "time_sub (time_unix (nodeCertificate_NotAfter cert)) now"
  have t: "time_unix (nodeCertificate_NotAfter cert) = nodeCertificate_NotAfter cert * 1000000000"
    using assms(2) by (simp add: time_unix_def i64_id)
  have "0 \<le> nodeCertificate_NotAfter cert * 1000000000 - now"
    using False by (simp add: unix_def)
  with t assms(3) have "0 \<le> ?d" and "?d \<le> 31 * 86400 * 1000000000 - 1000000000"
    by (simp_all add: time_sub_def)
  then have "days_left a ?d \<le> days_left a (31 * 86400 * 1000000000 - 1000000000)"
    by (intro days_left_mono) simp_all
  then have "days_left a ?d \<le> 30" using days_left_30 by (rule order_trans)
  with assms(1) False show ?thesis by (simp add: certificateDisplay_def Let_def)
qed (use assms in \<open>simp add: certificateDisplay_def Let_def\<close>)

section \<open>Properties\<close>

text \<open>
  A certificate turns critical exactly when its last second is reached, warns from 31 days
  before (less one second, the resolution of the API) and is fine before that; a certificate
  without an expiry is never reported.  The floating-point day count does not move the boundary.
\<close>

theorem certificate_thresholds:
  assumes "nodeCertificate_NotAfter cert = t" and "in_i64 (t + 62135596800)"
  shows "(certificate_Health (certificateDisplay a c h cert now) = HealthCritical \<longleftrightarrow> 0 < t \<and> t \<le> unix now) \<and>
         (0 < t \<and> t * 1000000000 - now \<le> 31 * 86400 * 1000000000 - 1000000000
            \<longrightarrow> HealthWarning \<le> certificate_Health (certificateDisplay a c h cert now)) \<and>
         (t \<le> 0 \<or> 31 * 86400 * 1000000000 \<le> t * 1000000000 - now
            \<longrightarrow> certificate_Health (certificateDisplay a c h cert now) = HealthOK)"
proof (cases "0 < t")
  case True
  then show ?thesis
    using assms certificate_expired [of cert a c h now] certificate_near [of cert now a c h]
      certificate_far [of cert now a c h] by simp
qed (use assms in \<open>simp add: certificateDisplay_def Let_def\<close>)

lemma certificate_thresholds_witness:
  "certificate_Health (certificateDisplay AMD64 \<lparr>client_id = ''pve'', client_name = ''PVE'',
     client_baseURL = '''', client_token = '''', client_tls = \<lparr>tp_MinVersion = 0,
     tp_InsecureSkipVerify = False, tp_RootCAs = None, tp_Pin = None\<rparr>\<rparr> host_zero
     (nodeCertificate_zero\<lparr>nodeCertificate_NotAfter := 1700000000\<rparr>) 1690000000000000000) = HealthOK"
  by (subst certificate_thresholds [of _ 1700000000, THEN conjunct2, THEN conjunct2, THEN mp])
    (simp_all add: in_i64_def)

text \<open>
  C35: Damage anywhere in a pool's device tree shows on the pool: as soon as one leaf device, at any
  depth, has a state other than online or available or counts an error, the pool's health is at
  least a warning.
\<close>

theorem zfs_damage_shows:
  assumes "n \<in> set (zfs_devices d)" and "zfs_bad_state n \<or> zfs_has_errors n"
  shows "0 < snd (zfsDeviceCounts d) \<and> HealthWarning \<le> zfspool_Health (applyZFSPoolDetail d p)"
  using assms zfs_issues_iff [of d] applyZFSPoolDetail_issues [of d p] by blast

lemma zfs_damage_shows_witness:
  "let leaf = ZfsPoolDetail ''sdb'' ''DEGRADED'' '''' '''' '''' 1 0 0 0 [];
       mirror = ZfsPoolDetail ''mirror-0'' ''ONLINE'' '''' '''' '''' 0 0 0 0 [leaf];
       pool = ZfsPoolDetail ''tank'' ''ONLINE'' '''' '''' '''' 0 0 0 0 [mirror]
   in HealthWarning \<le> zfspool_Health (applyZFSPoolDetail pool zfspool_zero)"
proof -
  let ?leaf = "ZfsPoolDetail ''sdb'' ''DEGRADED'' '''' '''' '''' 1 0 0 0 []"
  let ?pool = "ZfsPoolDetail ''tank'' ''ONLINE'' '''' '''' '''' 0 0 0 0
    [ZfsPoolDetail ''mirror-0'' ''ONLINE'' '''' '''' '''' 0 0 0 0 [?leaf]]"
  have "?leaf \<in> set (zfs_devices ?pool)" by (simp add: zfs_devices_def)
  moreover have "zfs_bad_state ?leaf" unfolding zfs_bad_state_def by code_simp
  ultimately show ?thesis
    unfolding Let_def using zfs_damage_shows [of ?leaf ?pool zfspool_zero] by blast
qed

text \<open>
  The cluster row counts the nodes of the status answer, and one node that is not online
  degrades a healthy cluster to a warning without ever improving its health.
\<close>

theorem offline_node_degrades_cluster:
  assumes "node_entries ss \<noteq> []"
  shows "cluster_NodesTotal (applyClusterStatus ss cl) = int (length (node_entries ss)) \<and>
         cluster_NodesOnline (applyClusterStatus ss cl) = int (length (filter node_online (node_entries ss))) \<and>
         cluster_Health (applyClusterStatus ss cl) =
           (if \<forall>s\<in>set (node_entries ss). node_online s then cluster_Health cl
            else maxHealth (cluster_Health cl) HealthWarning)"
  using assms by (rule applyClusterStatus_nodes)

lemma offline_node_degrades_cluster_witness:
  "let ss = [clusterStatus_zero\<lparr>clusterStatus_Type := ''cluster'', clusterStatus_Expected := 2\<rparr>,
             clusterStatus_zero\<lparr>clusterStatus_Type := ''node'', clusterStatus_Online := 1\<rparr>,
             clusterStatus_zero\<lparr>clusterStatus_Type := ''node''\<rparr>];
       cl = cluster_zero\<lparr>cluster_Health := HealthOK\<rparr>
   in cluster_Health (applyClusterStatus ss cl) = HealthWarning"
  unfolding Let_def
  by (subst offline_node_degrades_cluster [THEN conjunct2, THEN conjunct2])
    (simp_all add: node_entries_def node_online_def clusterStatus_zero_def cluster_zero_def maxHealth_def)

end
