(* ===== verification/Display.thy ===== *)
theory Display
  imports Display_Types Go_Sort
begin

text \<open>
  The operations of package \<open>display\<close> (\<open>internal/display/state.go\<close>): \<open>NewState\<close>,
  \<open>Finalize\<close> (the only writer of the summary), the compact view and the bounded detail view.
\<close>

definition Schema :: string where
  "Schema = ''proxmox-desk-display.v1''"

definition MaxDetailZFSPools :: nat where "MaxDetailZFSPools = 24"
definition MaxDetailCertificates :: nat where "MaxDetailCertificates = 24"
definition MaxDetailStorageItems :: nat where "MaxDetailStorageItems = 48"
definition MaxDetailMetricTrends :: nat where "MaxDetailMetricTrends = 64"
definition MaxDetailClusterOptions :: nat where "MaxDetailClusterOptions = 32"
definition MaxDetailCephClusters :: nat where "MaxDetailCephClusters = 8"
definition MaxDetailCapabilities :: nat where "MaxDetailCapabilities = 64"

lemmas detail_caps = MaxDetailZFSPools_def MaxDetailCertificates_def MaxDetailStorageItems_def
  MaxDetailMetricTrends_def MaxDetailClusterOptions_def MaxDetailCephClusters_def
  MaxDetailCapabilities_def

definition NewState :: "gotime \<Rightarrow> dstate" where
  "NewState now = dstate_zero
     \<lparr>dstate_Schema := Schema, dstate_GeneratedAt := now,
      dstate_Summary := summary_zero\<lparr>summary_Health := HealthOK\<rparr>\<rparr>"

section \<open>Finalize\<close>

definition non_nil :: "'a slice \<Rightarrow> 'a slice" where
  "non_nil s = (case s of None \<Rightarrow> Some [] | Some xs \<Rightarrow> Some xs)"

lemma elems_non_nil [simp]: "elems (non_nil s) = elems s"
  by (simp add: non_nil_def split: option.split)

lemma non_nil_not_None [simp]: "non_nil s \<noteq> None"
  by (simp add: non_nil_def split: option.split)

lemma non_nil_Some [simp]: "non_nil (Some xs) = Some xs"
  by (simp add: non_nil_def)

lemma non_nil_idem [simp]: "non_nil (non_nil s) = non_nil s"
  by (simp add: non_nil_def split: option.split)

text \<open>The 23 nil checks at the start of \<open>Finalize\<close>.\<close>

definition fill_nil :: "dstate \<Rightarrow> dstate" where
  "fill_nil s = s
     \<lparr>dstate_Hosts := non_nil (dstate_Hosts s), dstate_Clusters := non_nil (dstate_Clusters s),
      dstate_Storages := non_nil (dstate_Storages s), dstate_Disks := non_nil (dstate_Disks s),
      dstate_Networks := non_nil (dstate_Networks s), dstate_Services := non_nil (dstate_Services s),
      dstate_ZFSPools := non_nil (dstate_ZFSPools s), dstate_Guests := non_nil (dstate_Guests s),
      dstate_Snapshots := non_nil (dstate_Snapshots s), dstate_Tasks := non_nil (dstate_Tasks s),
      dstate_BackupJobs := non_nil (dstate_BackupJobs s),
      dstate_Replications := non_nil (dstate_Replications s),
      dstate_HAResources := non_nil (dstate_HAResources s),
      dstate_Certificates := non_nil (dstate_Certificates s),
      dstate_StorageItems := non_nil (dstate_StorageItems s),
      dstate_MetricTrends := non_nil (dstate_MetricTrends s),
      dstate_ClusterOptions := non_nil (dstate_ClusterOptions s),
      dstate_CephClusters := non_nil (dstate_CephClusters s),
      dstate_Capabilities := non_nil (dstate_Capabilities s),
      dstate_Updates := non_nil (dstate_Updates s),
      dstate_Repositories := non_nil (dstate_Repositories s),
      dstate_Subscriptions := non_nil (dstate_Subscriptions s),
      dstate_Alerts := non_nil (dstate_Alerts s)\<rparr>"

definition count_host :: "summary \<Rightarrow> host \<Rightarrow> summary" where
  "count_host m h =
     (if host_Online h then m\<lparr>summary_HostsOnline := summary_HostsOnline m + 1\<rparr> else m)"

definition count_guest :: "summary \<Rightarrow> guest \<Rightarrow> summary" where
  "count_guest m g =
     (if guest_Status g = ''running'' then m\<lparr>summary_GuestsRunning := summary_GuestsRunning m + 1\<rparr>
      else m\<lparr>summary_GuestsStopped := summary_GuestsStopped m + 1\<rparr>)"

text \<open>The alert loop: a critical alert returns from \<open>Finalize\<close> at once (\<open>True\<close>).\<close>

fun alert_loop :: "health \<Rightarrow> alert list \<Rightarrow> health \<times> bool" where
  "alert_loop h [] = (h, False)"
| "alert_loop h (a # as) =
     (if alert_Severity a = HealthCritical then (HealthCritical, True)
      else if alert_Severity a = HealthWarning then alert_loop HealthWarning as
      else alert_loop h as)"

definition Finalize :: "dstate \<Rightarrow> dstate" where
  "Finalize s0 =
     (let s = fill_nil (s0\<lparr>dstate_Schema := Schema\<rparr>);
          m = summary_zero\<lparr>summary_Health := HealthOK,
                summary_HostsTotal := int (length (elems (dstate_Hosts s))),
                summary_Alerts := int (length (elems (dstate_Alerts s)))\<rparr>;
          m = foldl count_host m (elems (dstate_Hosts s));
          m = foldl count_guest m (elems (dstate_Guests s));
          m = m\<lparr>summary_Updates := int (length (elems (dstate_Updates s)))\<rparr>
      in case alert_loop (summary_Health m) (elems (dstate_Alerts s)) of
           (h, True) \<Rightarrow> s\<lparr>dstate_Summary := m\<lparr>summary_Health := h\<rparr>\<rparr>
         | (h, False) \<Rightarrow>
             (if summary_HostsTotal m > 0 \<and> summary_HostsOnline m < summary_HostsTotal m
              then s\<lparr>dstate_Summary := m\<lparr>summary_Health := HealthCritical\<rparr>\<rparr>
              else s\<lparr>dstate_Summary := m\<lparr>summary_Health := h\<rparr>\<rparr>))"

section \<open>The compact and the detail view\<close>

definition CompactForDisplay :: "dstate \<Rightarrow> dstate" where
  "CompactForDisplay s = Finalize (s
     \<lparr>dstate_Certificates := Some [], dstate_StorageItems := Some [], dstate_MetricTrends := Some [],
      dstate_ClusterOptions := Some [], dstate_CephClusters := Some [], dstate_Capabilities := Some []\<rparr>)"

definition firstN :: "'a slice \<Rightarrow> nat \<Rightarrow> 'a slice" where
  "firstN vs n =
     (case vs of None \<Rightarrow> Some []
      | Some xs \<Rightarrow> if length xs \<le> n then Some xs else Some (take n xs))"

definition capabilityRank :: "string \<Rightarrow> int" where
  "capabilityRank status =
     (if status = ''error'' then 5
      else if status = ''forbidden'' \<or> status = ''unauthorized'' then 4
      else if status = ''not_available'' \<or> status = ''not_found'' then 3
      else if status = ''ok'' then 1
      else 2)"

definition capability_less :: "capability \<Rightarrow> capability \<Rightarrow> bool" where
  "capability_less a b =
     (let left = capabilityRank (capability_Status a);
          right = capabilityRank (capability_Status b)
      in if left \<noteq> right then left > right
         else if capability_SourceID a \<noteq> capability_SourceID b
           then capability_SourceID a < capability_SourceID b
         else if capability_Name a \<noteq> capability_Name b then capability_Name a < capability_Name b
         else capability_Endpoint a < capability_Endpoint b)"

definition prioritizedCapabilities :: "capability slice \<Rightarrow> nat \<Rightarrow> capability slice" where
  "prioritizedCapabilities vs n =
     (case vs of None \<Rightarrow> Some []
      | Some xs \<Rightarrow> firstN (append_slice None (slice_stable capability_less xs)) n)"

definition DetailForDisplay :: "dstate \<Rightarrow> detailstate" where
  "DetailForDisplay s =
     \<lparr>detailstate_Schema = dstate_Schema s,
      detailstate_GeneratedAt = dstate_GeneratedAt s,
      detailstate_Stale = dstate_Stale s,
      detailstate_ZFSPools = firstN (dstate_ZFSPools s) MaxDetailZFSPools,
      detailstate_Certificates = firstN (dstate_Certificates s) MaxDetailCertificates,
      detailstate_StorageItems = firstN (dstate_StorageItems s) MaxDetailStorageItems,
      detailstate_MetricTrends = firstN (dstate_MetricTrends s) MaxDetailMetricTrends,
      detailstate_ClusterOptions = firstN (dstate_ClusterOptions s) MaxDetailClusterOptions,
      detailstate_CephClusters = firstN (dstate_CephClusters s) MaxDetailCephClusters,
      detailstate_Capabilities =
        prioritizedCapabilities (dstate_Capabilities s) MaxDetailCapabilities\<rparr>"

section \<open>What Finalize establishes\<close>

text \<open>
  The summary, stated from the inventory alone: the health is critical when some alert is
  critical or some host is not online, else warning when some alert is a warning, else ok.
\<close>

definition inventory_health :: "host list \<Rightarrow> alert list \<Rightarrow> health" where
  "inventory_health hs as =
     (if (\<exists>a\<in>set as. alert_Severity a = HealthCritical) \<or> (\<exists>h\<in>set hs. \<not> host_Online h)
      then HealthCritical
      else if \<exists>a\<in>set as. alert_Severity a = HealthWarning then HealthWarning
      else HealthOK)"

definition summary_of :: "dstate \<Rightarrow> summary" where
  "summary_of s =
     \<lparr>summary_Health = inventory_health (elems (dstate_Hosts s)) (elems (dstate_Alerts s)),
      summary_HostsOnline = int (length (filter host_Online (elems (dstate_Hosts s)))),
      summary_HostsTotal = int (length (elems (dstate_Hosts s))),
      summary_GuestsRunning =
        int (length (filter (\<lambda>g. guest_Status g = ''running'') (elems (dstate_Guests s)))),
      summary_GuestsStopped =
        int (length (filter (\<lambda>g. guest_Status g \<noteq> ''running'') (elems (dstate_Guests s)))),
      summary_Alerts = int (length (elems (dstate_Alerts s))),
      summary_Updates = int (length (elems (dstate_Updates s)))\<rparr>"

definition no_nil :: "dstate \<Rightarrow> bool" where
  "no_nil s \<longleftrightarrow> dstate_Hosts s \<noteq> None \<and> dstate_Clusters s \<noteq> None \<and> dstate_Storages s \<noteq> None
     \<and> dstate_Disks s \<noteq> None \<and> dstate_Networks s \<noteq> None \<and> dstate_Services s \<noteq> None
     \<and> dstate_ZFSPools s \<noteq> None \<and> dstate_Guests s \<noteq> None \<and> dstate_Snapshots s \<noteq> None
     \<and> dstate_Tasks s \<noteq> None \<and> dstate_BackupJobs s \<noteq> None \<and> dstate_Replications s \<noteq> None
     \<and> dstate_HAResources s \<noteq> None \<and> dstate_Certificates s \<noteq> None \<and> dstate_StorageItems s \<noteq> None
     \<and> dstate_MetricTrends s \<noteq> None \<and> dstate_ClusterOptions s \<noteq> None \<and> dstate_CephClusters s \<noteq> None
     \<and> dstate_Capabilities s \<noteq> None \<and> dstate_Updates s \<noteq> None \<and> dstate_Repositories s \<noteq> None
     \<and> dstate_Subscriptions s \<noteq> None \<and> dstate_Alerts s \<noteq> None"

definition finalized :: "dstate \<Rightarrow> bool" where
  "finalized s \<longleftrightarrow> dstate_Schema s = Schema \<and> no_nil s \<and> dstate_Summary s = summary_of s"

lemma alert_loop_snd: "snd (alert_loop h as) \<longleftrightarrow> (\<exists>a\<in>set as. alert_Severity a = HealthCritical)"
  by (induction h as rule: alert_loop.induct) auto

lemma alert_loop_fst:
  "fst (alert_loop h as) =
     (if \<exists>a\<in>set as. alert_Severity a = HealthCritical then HealthCritical
      else if \<exists>a\<in>set as. alert_Severity a = HealthWarning then HealthWarning else h)"
  by (induction h as rule: alert_loop.induct) auto

lemma alert_loop_eq:
  "alert_loop h as =
     (if \<exists>a\<in>set as. alert_Severity a = HealthCritical then (HealthCritical, True)
      else if \<exists>a\<in>set as. alert_Severity a = HealthWarning then (HealthWarning, False)
      else (h, False))"
  using alert_loop_snd [of h as] alert_loop_fst [of h as] by (cases "alert_loop h as") auto

lemma count_host_fold:
  "foldl count_host m hs =
     m\<lparr>summary_HostsOnline := summary_HostsOnline m + int (length (filter host_Online hs))\<rparr>"
  by (induction hs arbitrary: m) (simp_all add: count_host_def)

lemma count_guest_fold:
  "foldl count_guest m gs = m
     \<lparr>summary_GuestsRunning := summary_GuestsRunning m
        + int (length (filter (\<lambda>g. guest_Status g = ''running'') gs)),
      summary_GuestsStopped := summary_GuestsStopped m
        + int (length (filter (\<lambda>g. guest_Status g \<noteq> ''running'') gs))\<rparr>"
  by (induction gs arbitrary: m) (simp_all add: count_guest_def)

lemma filter_short_iff: "length (filter P xs) < length xs \<longleftrightarrow> (\<exists>x\<in>set xs. \<not> P x)"
  by (induction xs) (auto simp: less_Suc_eq_le le_less)

lemma fill_nil_elems [simp]:
  "elems (dstate_Hosts (fill_nil s)) = elems (dstate_Hosts s)"
  "elems (dstate_Guests (fill_nil s)) = elems (dstate_Guests s)"
  "elems (dstate_Updates (fill_nil s)) = elems (dstate_Updates s)"
  "elems (dstate_Alerts (fill_nil s)) = elems (dstate_Alerts s)"
  by (simp_all add: fill_nil_def)

lemma Finalize_eq:
  "Finalize s = fill_nil (s\<lparr>dstate_Schema := Schema\<rparr>)\<lparr>dstate_Summary := summary_of s\<rparr>"
  by (simp add: Finalize_def Let_def count_host_fold count_guest_fold alert_loop_eq summary_of_def
      inventory_health_def summary_zero_def filter_short_iff)

lemma Finalize_Summary [simp]: "dstate_Summary (Finalize s) = summary_of s"
  by (simp add: Finalize_eq)

lemma summary_of_fill [simp]: "summary_of (fill_nil s) = summary_of s"
  by (simp add: summary_of_def fill_nil_def)

lemma summary_of_frame [simp]:
  "summary_of (s\<lparr>dstate_Schema := x\<rparr>) = summary_of s"
  "summary_of (s\<lparr>dstate_Summary := m\<rparr>) = summary_of s"
  "summary_of (s\<lparr>dstate_Stale := b\<rparr>) = summary_of s"
  by (simp_all add: summary_of_def)

lemma no_nil_fill [simp]: "no_nil (fill_nil s)"
  by (simp add: no_nil_def fill_nil_def)

lemma no_nil_frame [simp]:
  "no_nil (s\<lparr>dstate_Schema := x\<rparr>) = no_nil s"
  "no_nil (s\<lparr>dstate_Summary := m\<rparr>) = no_nil s"
  "no_nil (s\<lparr>dstate_Stale := b\<rparr>) = no_nil s"
  by (simp_all add: no_nil_def)

lemma finalized_Finalize [simp]: "finalized (Finalize s)"
  by (simp add: finalized_def Finalize_eq) (simp add: fill_nil_def)

lemma finalized_Stale [simp]: "finalized (s\<lparr>dstate_Stale := b\<rparr>) = finalized s"
  by (simp add: finalized_def)

lemma fill_nil_id: "no_nil s \<Longrightarrow> fill_nil s = s"
  by (auto simp: no_nil_def fill_nil_def)

lemma Finalize_id: "finalized s \<Longrightarrow> Finalize s = s"
  by (simp add: finalized_def Finalize_eq fill_nil_id)

lemma Finalize_frame [simp]:
  "dstate_GeneratedAt (Finalize s) = dstate_GeneratedAt s"
  "dstate_Stale (Finalize s) = dstate_Stale s"
  "dstate_Schema (Finalize s) = Schema"
  by (simp_all add: Finalize_eq fill_nil_def)

lemma Finalize_elems [simp]:
  "elems (dstate_Hosts (Finalize s)) = elems (dstate_Hosts s)"
  "elems (dstate_Guests (Finalize s)) = elems (dstate_Guests s)"
  "elems (dstate_Storages (Finalize s)) = elems (dstate_Storages s)"
  "elems (dstate_Alerts (Finalize s)) = elems (dstate_Alerts s)"
  "elems (dstate_Tasks (Finalize s)) = elems (dstate_Tasks s)"
  "elems (dstate_Capabilities (Finalize s)) = elems (dstate_Capabilities s)"
  by (simp_all add: Finalize_eq fill_nil_def)

section \<open>The two views\<close>

lemma summary_of_detail_fields [simp]:
  "summary_of (s\<lparr>dstate_Certificates := a\<rparr>) = summary_of s"
  "summary_of (s\<lparr>dstate_StorageItems := b\<rparr>) = summary_of s"
  "summary_of (s\<lparr>dstate_MetricTrends := c\<rparr>) = summary_of s"
  "summary_of (s\<lparr>dstate_ClusterOptions := d\<rparr>) = summary_of s"
  "summary_of (s\<lparr>dstate_CephClusters := e\<rparr>) = summary_of s"
  "summary_of (s\<lparr>dstate_Capabilities := f\<rparr>) = summary_of s"
  by (simp_all add: summary_of_def)

lemma compact_finalized: "finalized (CompactForDisplay s)"
  by (simp add: CompactForDisplay_def)

lemma compact_summary: "dstate_Summary (CompactForDisplay s) = summary_of s"
  by (simp add: CompactForDisplay_def)

lemma firstN_elems [simp]: "elems (firstN vs n) = take n (elems vs)"
  by (simp add: firstN_def split: option.split)

lemma firstN_not_None [simp]: "firstN vs n \<noteq> None"
  by (simp add: firstN_def split: option.split)

interpretation capability_order: less_key capability_less
  "\<lambda>c. (capabilityRank (capability_Status c), capability_SourceID c, capability_Name c,
        capability_Endpoint c)"
  by unfold_locales (auto simp: capability_less_def Let_def split: if_splits)

lemma prioritized_elems:
  "elems (prioritizedCapabilities vs n) = take n (slice_stable capability_less (elems vs))"
  by (simp add: prioritizedCapabilities_def split: option.split)

lemma capability_less_rank:
  "\<not> capability_less b a \<Longrightarrow>
   capabilityRank (capability_Status b) \<le> capabilityRank (capability_Status a)"
  by (auto simp: capability_less_def Let_def split: if_splits)

lemma sorted_wrt_take_drop:
  "sorted_wrt P xs \<Longrightarrow> x \<in> set (take n xs) \<Longrightarrow> y \<in> set (drop n xs) \<Longrightarrow> P x y"
  by (metis append_take_drop_id sorted_wrt_append)

section \<open>Properties\<close>

text \<open>
  C4: \<open>Finalize\<close> recomputes the summary from the inventory (whatever the old summary said),
  leaves no nil slice for the JSON encoder, and changes nothing when it is applied again.
\<close>

theorem Finalize_summarises:
  "dstate_Summary (Finalize s) = summary_of s \<and> no_nil (Finalize s) \<and>
   dstate_Schema (Finalize s) = Schema \<and> Finalize (Finalize s) = Finalize s"
proof (intro conjI)
  show "no_nil (Finalize s)"
    using finalized_Finalize [of s] unfolding finalized_def by blast
  show "Finalize (Finalize s) = Finalize s" by (rule Finalize_id [OF finalized_Finalize])
qed simp_all

text \<open>
  C5: The overall health is critical exactly when some alert is critical or some host is not
  online; neither the early return of the alert loop nor a warning alert can hide it, and the
  compact view that the device receives shows the same summary.
\<close>

theorem critical_never_hidden:
  "(summary_Health (dstate_Summary (Finalize s)) = HealthCritical \<longleftrightarrow>
     (\<exists>a\<in>set (elems (dstate_Alerts s)). alert_Severity a = HealthCritical) \<or>
     (\<exists>h\<in>set (elems (dstate_Hosts s)). \<not> host_Online h)) \<and>
   dstate_Summary (CompactForDisplay s) = dstate_Summary (Finalize s)"
  by (simp add: summary_of_def inventory_health_def compact_summary)

text \<open>
  The detail view is bounded, and each of its lists is a prefix of the state's list (the
  capabilities a prefix of the list ordered by priority).
\<close>

theorem detail_view_bounded:
  "length (elems (detailstate_ZFSPools (DetailForDisplay s))) \<le> 24 \<and>
   length (elems (detailstate_Certificates (DetailForDisplay s))) \<le> 24 \<and>
   length (elems (detailstate_StorageItems (DetailForDisplay s))) \<le> 48 \<and>
   length (elems (detailstate_MetricTrends (DetailForDisplay s))) \<le> 64 \<and>
   length (elems (detailstate_ClusterOptions (DetailForDisplay s))) \<le> 32 \<and>
   length (elems (detailstate_CephClusters (DetailForDisplay s))) \<le> 8 \<and>
   length (elems (detailstate_Capabilities (DetailForDisplay s))) \<le> 64 \<and>
   elems (detailstate_StorageItems (DetailForDisplay s)) = take 48 (elems (dstate_StorageItems s)) \<and>
   elems (detailstate_Capabilities (DetailForDisplay s))
     = take 64 (slice_stable capability_less (elems (dstate_Capabilities s)))"
  by (simp add: DetailForDisplay_def detail_caps prioritized_elems)

text \<open>
  Truncating the capabilities drops the least urgent ones: whatever is dropped has a rank no
  higher than anything that is kept.
\<close>

theorem kept_capabilities_most_urgent:
  assumes "x \<in> set (elems (prioritizedCapabilities vs n))"
    and "y \<in> set (elems vs)" and "y \<notin> set (elems (prioritizedCapabilities vs n))"
  shows "capabilityRank (capability_Status y) \<le> capabilityRank (capability_Status x)"
proof -
  let ?s = "slice_stable capability_less (elems vs)"
  have "set ?s = set (take n ?s) \<union> set (drop n ?s)" by (metis append_take_drop_id set_append)
  with assms have "x \<in> set (take n ?s)" and "y \<in> set (drop n ?s)"
    by (auto simp: prioritized_elems)
  then have "\<not> capability_less y x"
    by (rule sorted_wrt_take_drop [OF capability_order.stable_sorted])
  then show ?thesis by (rule capability_less_rank)
qed

definition sample_capability :: "string \<Rightarrow> capability" where
  "sample_capability status = capability_zero\<lparr>capability_Status := status\<rparr>"

lemma kept_capabilities_most_urgent_witness:
  "capabilityRank ''ok'' \<le> capabilityRank ''error''"
proof -
  let ?vs = "Some [sample_capability ''ok'', sample_capability ''error'']"
  have kept: "elems (prioritizedCapabilities ?vs 1) = [sample_capability ''error'']"
    by (simp add: prioritized_elems sample_capability_def capability_zero_def capability_less_def
        capabilityRank_def)
  have "capabilityRank (capability_Status (sample_capability ''ok''))
      \<le> capabilityRank (capability_Status (sample_capability ''error''))"
  proof (rule kept_capabilities_most_urgent [of _ ?vs 1])
    show "sample_capability ''error'' \<in> set (elems (prioritizedCapabilities ?vs 1))"
      by (simp only: kept) simp
    show "sample_capability ''ok'' \<in> set (elems ?vs)" by simp
    show "sample_capability ''ok'' \<notin> set (elems (prioritizedCapabilities ?vs 1))"
      by (simp only: kept) (simp add: sample_capability_def capability_zero_def)
  qed
  then show ?thesis by (simp add: sample_capability_def capability_zero_def)
qed

end
