(* ===== verification/Alerts.thy ===== *)
theory Alerts
  imports Normalize Display
begin

text \<open>
  What the collector records beside the items (\<open>internal/proxmox/provider.go\<close>): the capability
  list, the data warnings of a host or cluster, and the alerts for hosts and storages that pass
  a threshold of the configuration.
\<close>

definition maxDisplayTasks :: nat where "maxDisplayTasks = 48"
definition maxDisplayUpdates :: nat where "maxDisplayUpdates = 64"
definition maxDisplayRepos :: nat where "maxDisplayRepos = 48"
definition maxDisplaySnapshots :: nat where "maxDisplaySnapshots = 96"
definition maxDisplayServices :: nat where "maxDisplayServices = 96"
definition maxDisplayNetworks :: nat where "maxDisplayNetworks = 64"
definition maxStorageItems :: nat where "maxStorageItems = 256"
definition maxMetricTrends :: nat where "maxMetricTrends = 384"
definition maxTrendSamples :: nat where "maxTrendSamples = 24"
definition maxCapabilities :: nat where "maxCapabilities = 512"
definition maxClusterOptions :: nat where "maxClusterOptions = 64"
definition maxGuestDisks :: nat where "maxGuestDisks = 12"
definition maxGuestNICs :: nat where "maxGuestNICs = 8"
definition maxGuestIPs :: nat where "maxGuestIPs = 8"
definition maxGuestFilesystems :: nat where "maxGuestFilesystems = 8"

lemmas collector_caps =
  maxDisplayTasks_def maxDisplayUpdates_def maxDisplayRepos_def maxDisplaySnapshots_def
  maxDisplayServices_def maxDisplayNetworks_def maxStorageItems_def maxMetricTrends_def
  maxTrendSamples_def maxCapabilities_def maxClusterOptions_def

section \<open>Capabilities and warnings\<close>

definition capability_status :: "go_error option \<Rightarrow> string \<times> int \<times> string" where
  "capability_status err =
     (case err of
        None \<Rightarrow> (''ok'', 200, '''')
      | Some (APIError source code body) \<Rightarrow>
          (if code = 403 \<or> code = 401 then ''forbidden''
           else if code = 404 then ''not_found''
           else if code = 501 then ''not_available''
           else if code \<ge> 500 then ''not_available'' else ''error'',
           code, ''HTTP '' @ itoa code)
      | Some e \<Rightarrow> (''error'', 0, error_text e))"

definition addCapability ::
    "string \<Rightarrow> string \<Rightarrow> string \<Rightarrow> string \<Rightarrow> string \<Rightarrow> go_error option \<Rightarrow> dstate \<Rightarrow> dstate" where
  "addCapability sourceID hostID guestID name endpoint err state =
     (if length (elems (dstate_Capabilities state)) \<ge> maxCapabilities then state
      else (case capability_status err of (status, httpStatus, message) \<Rightarrow>
        let id = sourceID @ ''/'' @ name @ ''/'' @
                 trim_char (CHR ''/'') (replace_all endpoint ''/api2/json/'' '''')
        in state\<lparr>dstate_Capabilities := append_slice (dstate_Capabilities state)
             [capability_zero\<lparr>capability_ID := id, capability_SourceID := sourceID,
                capability_HostID := hostID, capability_GuestID := guestID, capability_Name := name,
                capability_Endpoint := endpoint, capability_Status := status,
                capability_HTTPStatus := httpStatus, capability_Message := message\<rparr>]\<rparr>))"

definition addClusterWarning :: "string \<Rightarrow> cluster \<Rightarrow> cluster" where
  "addClusterWarning message cl =
     (if message \<in> set (cluster_DataWarnings cl) then cl
      else cl\<lparr>cluster_DataWarnings := cluster_DataWarnings cl @ [message]\<rparr>)"

definition addDataWarning :: "string \<Rightarrow> host \<Rightarrow> host" where
  "addDataWarning message h =
     (if message \<in> set (host_DataWarnings h) then h
      else h\<lparr>host_DataWarnings := host_DataWarnings h @ [message]\<rparr>)"

section \<open>Alerts\<close>

definition add_alert :: "alert \<Rightarrow> dstate \<Rightarrow> dstate" where
  "add_alert a state = state\<lparr>dstate_Alerts := append_slice (dstate_Alerts state) [a]\<rparr>"

definition alertForHost :: "host \<Rightarrow> health \<Rightarrow> string \<Rightarrow> string \<Rightarrow> alert" where
  "alertForHost h severity title message = alert_zero
     \<lparr>alert_ID := host_ID h @ ''/'' @ replace_all title '' '' ''-'',
      alert_SourceID := host_SourceID h, alert_HostID := host_ID h, alert_Severity := severity,
      alert_Title := host_Name h @ '' '' @ title, alert_Message := message\<rparr>"

definition pct_message :: "string \<Rightarrow> int \<Rightarrow> string" where
  "pct_message what n = what @ '' is '' @ itoa n @ ''%''"

text \<open>The memory part and the storage part of \<open>applyHostAlerts\<close>.\<close>

definition host_memory_alerts :: "alert_config \<Rightarrow> dstate \<times> host \<Rightarrow> dstate \<times> host" where
  "host_memory_alerts cfg sh =
     (case sh of (state, h) \<Rightarrow>
        if host_MemoryPct h \<ge> alr_MemoryCriticalPct cfg then
          (let h = h\<lparr>host_Health := maxHealth (host_Health h) HealthCritical\<rparr>
           in (add_alert (alertForHost h HealthCritical ''memory critical''
                            (pct_message ''memory'' (host_MemoryPct h))) state, h))
        else if host_MemoryPct h \<ge> alr_MemoryWarningPct cfg then
          (let h = h\<lparr>host_Health := maxHealth (host_Health h) HealthWarning\<rparr>
           in (add_alert (alertForHost h HealthWarning ''memory warning''
                            (pct_message ''memory'' (host_MemoryPct h))) state, h))
        else (state, h))"

definition host_storage_pct :: "host \<Rightarrow> int" where
  "host_storage_pct h =
     (if host_StorageMaxPct h > host_StoragePct h then host_StorageMaxPct h else host_StoragePct h)"

definition host_storage_alerts :: "alert_config \<Rightarrow> dstate \<times> host \<Rightarrow> dstate \<times> host" where
  "host_storage_alerts cfg sh =
     (case sh of (state, h) \<Rightarrow>
        let storagePct = host_storage_pct h
        in if storagePct \<ge> alr_StorageCriticalPct cfg then
             (let h = h\<lparr>host_Health := maxHealth (host_Health h) HealthCritical\<rparr>
              in (if host_StorageMaxName h = ''''
                  then add_alert (alertForHost h HealthCritical ''storage critical''
                                    (pct_message ''storage'' storagePct)) state else state, h))
           else if storagePct \<ge> alr_StorageWarningPct cfg then
             (let h = h\<lparr>host_Health := maxHealth (host_Health h) HealthWarning\<rparr>
              in (if host_StorageMaxName h = ''''
                  then add_alert (alertForHost h HealthWarning ''storage warning''
                                    (pct_message ''storage'' storagePct)) state else state, h))
           else (state, h))"

definition host_offline_alert :: "host \<Rightarrow> alert" where
  "host_offline_alert h = alert_zero
     \<lparr>alert_ID := host_ID h @ ''/offline'', alert_SourceID := host_SourceID h,
      alert_HostID := host_ID h, alert_Severity := HealthCritical,
      alert_Title := host_Name h @ '' offline'', alert_Message := ''Proxmox node is not online''\<rparr>"

definition applyHostAlerts :: "alert_config \<Rightarrow> dstate \<times> host \<Rightarrow> dstate \<times> host" where
  "applyHostAlerts cfg sh =
     (case sh of (state, h) \<Rightarrow>
        if \<not> host_Online h then (add_alert (host_offline_alert h) state, h)
        else host_storage_alerts cfg (host_memory_alerts cfg (state, h)))"

definition storage_alert :: "storage \<Rightarrow> string \<Rightarrow> health \<Rightarrow> string \<Rightarrow> string \<Rightarrow> alert" where
  "storage_alert s kind severity title message = alert_zero
     \<lparr>alert_ID := storage_ID s @ kind, alert_SourceID := storage_SourceID s,
      alert_HostID := storage_HostID s, alert_Severity := severity, alert_Title := title,
      alert_Message := message\<rparr>"

definition applyStorageAlerts :: "alert_config \<Rightarrow> dstate \<times> storage \<Rightarrow> dstate \<times> storage" where
  "applyStorageAlerts cfg ss =
     (let (state, s) = ss;
          (state, s) =
            (if storage_Status s \<noteq> ''available'' \<and> storage_Status s \<noteq> ''ok'' \<and> storage_Status s \<noteq> ''''
             then (add_alert (storage_alert s ''/status'' HealthWarning
                               (storage_HostName s @ '' storage '' @ storage_Name s)
                               (''status is '' @ storage_Status s)) state,
                   s\<lparr>storage_Health := HealthWarning\<rparr>)
             else (state, s))
      in if storage_DiskPct s \<ge> alr_StorageCriticalPct cfg
         then (add_alert (storage_alert s ''/critical'' HealthCritical
                            (storage_HostName s @ '' '' @ storage_Name s @ '' critical'')
                            (pct_message ''storage'' (storage_DiskPct s))) state,
               s\<lparr>storage_Health := HealthCritical\<rparr>)
         else if storage_DiskPct s \<ge> alr_StorageWarningPct cfg \<and> storage_Health s \<noteq> HealthCritical
         then (add_alert (storage_alert s ''/warning'' HealthWarning
                            (storage_HostName s @ '' '' @ storage_Name s @ '' warning'')
                            (pct_message ''storage'' (storage_DiskPct s))) state,
               s\<lparr>storage_Health := HealthWarning\<rparr>)
         else (state, s))"

section \<open>Ceph\<close>

definition ceph_display :: "arch \<Rightarrow> client \<Rightarrow> cephStatus \<Rightarrow> cephDF \<Rightarrow> cephcluster" where
  "ceph_display a c status df =
     (let healthText = trim_prefix (cephStatus_Health_Status status) ''HEALTH_'';
          healthText = (if healthText = '''' then cephStatus_Health_Status status else healthText);
          used = cephDF_Summary_TotalUsedBytes df;
          whole = cephDF_Summary_TotalBytes df
      in cephcluster_zero\<lparr>cephcluster_ID := client_id c @ ''/ceph'', cephcluster_SourceID := client_id c,
           cephcluster_FSID := cephStatus_FSID status, cephcluster_HealthText := healthText,
           cephcluster_TotalBytes := whole, cephcluster_UsedBytes := used,
           cephcluster_AvailableBytes := cephDF_Summary_TotalAvailBytes df,
           cephcluster_UsagePct := pctInt64 a used whole,
           cephcluster_OSDs := cephStatus_OSDMap_OSDMap_NumOSDs status,
           cephcluster_OSDsUp := cephStatus_OSDMap_OSDMap_NumUp status,
           cephcluster_OSDsIn := cephStatus_OSDMap_OSDMap_NumIn status,
           cephcluster_PGs := cephStatus_PGMap_NumPGs status,
           cephcluster_Health := healthFromText healthText\<rparr>)"

section \<open>Facts\<close>

lemma add_alert_simps [simp]:
  "elems (dstate_Alerts (add_alert a s)) = elems (dstate_Alerts s) @ [a]"
  "dstate_Hosts (add_alert a s) = dstate_Hosts s"
  "dstate_Storages (add_alert a s) = dstate_Storages s"
  by (simp_all add: add_alert_def)

text \<open>The capability list never grows past its cap.\<close>

lemma addCapability_cap:
  "length (elems (dstate_Capabilities s)) \<le> maxCapabilities \<Longrightarrow>
   length (elems (dstate_Capabilities (addCapability a b c d e err s))) \<le> maxCapabilities"
  by (simp add: addCapability_def Let_def split_beta)

lemma addCapability_Alerts [simp]: "dstate_Alerts (addCapability a b c d e err s) = dstate_Alerts s"
  by (simp add: addCapability_def Let_def split_beta)

lemma addDataWarning_keeps [simp]:
  "host_Health (addDataWarning m h) = host_Health h" "host_ID (addDataWarning m h) = host_ID h"
  "set (host_DataWarnings (addDataWarning m h)) = insert m (set (host_DataWarnings h))"
  "distinct (host_DataWarnings (addDataWarning m h)) = distinct (host_DataWarnings h)"
  by (auto simp: addDataWarning_def)

text \<open>A threshold level: what a percentage means under two thresholds.\<close>

definition level :: "int \<Rightarrow> int \<Rightarrow> int \<Rightarrow> health" where
  "level warn crit n = (if n \<ge> crit then HealthCritical else if n \<ge> warn then HealthWarning else HealthZero)"

lemma maxHealth_Zero [simp]: "maxHealth h HealthZero = h"
  by (simp add: maxHealth_def) (cases h; simp)

lemma applyHostAlerts_offline:
  "\<not> host_Online h \<Longrightarrow> applyHostAlerts cfg (s, h) = (add_alert (host_offline_alert h) s, h)"
  by (simp add: applyHostAlerts_def)

text \<open>The health of an online host is raised to the worse of its memory and storage levels.\<close>

lemma applyHostAlerts_health:
  "host_Online h \<Longrightarrow>
   host_Health (snd (applyHostAlerts cfg (s, h))) =
     maxHealth (maxHealth (host_Health h)
                  (level (alr_MemoryWarningPct cfg) (alr_MemoryCriticalPct cfg) (host_MemoryPct h)))
       (level (alr_StorageWarningPct cfg) (alr_StorageCriticalPct cfg) (host_storage_pct h))"
  by (simp add: applyHostAlerts_def host_memory_alerts_def host_storage_alerts_def level_def Let_def
      host_storage_pct_def)

text \<open>The alerts it adds: one for the memory level, one for the storage level of an unnamed storage.\<close>

lemma applyHostAlerts_alerts:
  "host_Online h \<Longrightarrow>
   map alert_Severity (elems (dstate_Alerts (fst (applyHostAlerts cfg (s, h))))) =
     map alert_Severity (elems (dstate_Alerts s)) @
     filter (\<lambda>l. l \<noteq> HealthZero)
       [level (alr_MemoryWarningPct cfg) (alr_MemoryCriticalPct cfg) (host_MemoryPct h),
        if host_StorageMaxName h = ''''
        then level (alr_StorageWarningPct cfg) (alr_StorageCriticalPct cfg) (host_storage_pct h)
        else HealthZero]"
  by (simp add: applyHostAlerts_def host_memory_alerts_def host_storage_alerts_def level_def Let_def
      host_storage_pct_def alertForHost_def)

lemma applyStorageAlerts_health:
  "storage_Health s \<noteq> HealthCritical \<Longrightarrow>
   storage_Health (snd (applyStorageAlerts cfg (d, s))) =
     (if storage_DiskPct s \<ge> alr_StorageCriticalPct cfg then HealthCritical
      else if storage_DiskPct s \<ge> alr_StorageWarningPct cfg \<or>
              storage_Status s \<notin> {''available'', ''ok'', ''''} then HealthWarning
      else storage_Health s)"
  by (simp add: applyStorageAlerts_def Let_def)

lemma applyStorageAlerts_only_alerts [simp]:
  "dstate_Storages (fst (applyStorageAlerts cfg (d, s))) = dstate_Storages d"
  "storage_ID (snd (applyStorageAlerts cfg (d, s))) = storage_ID s"
  "storage_DiskPct (snd (applyStorageAlerts cfg (d, s))) = storage_DiskPct s"
  by (simp_all add: applyStorageAlerts_def Let_def)

section \<open>Properties\<close>

text \<open>
  C34: Host alerts follow the thresholds exactly: an offline host raises one critical alert and
  nothing else; an online one is raised to the worse of its memory and storage levels, with one
  alert for its memory level and one for its storage level (the latter only when no single
  storage is named, which has its own alert).
\<close>

theorem host_alerts_follow_thresholds:
  "(\<not> host_Online h \<and> applyHostAlerts cfg (s, h) = (add_alert (host_offline_alert h) s, h)) \<or>
   (host_Online h \<and>
    host_Health (snd (applyHostAlerts cfg (s, h))) =
      maxHealth (maxHealth (host_Health h)
                   (level (alr_MemoryWarningPct cfg) (alr_MemoryCriticalPct cfg) (host_MemoryPct h)))
        (level (alr_StorageWarningPct cfg) (alr_StorageCriticalPct cfg) (host_storage_pct h)) \<and>
    map alert_Severity (elems (dstate_Alerts (fst (applyHostAlerts cfg (s, h))))) =
      map alert_Severity (elems (dstate_Alerts s)) @
      filter (\<lambda>l. l \<noteq> HealthZero)
        [level (alr_MemoryWarningPct cfg) (alr_MemoryCriticalPct cfg) (host_MemoryPct h),
         if host_StorageMaxName h = ''''
         then level (alr_StorageWarningPct cfg) (alr_StorageCriticalPct cfg) (host_storage_pct h)
         else HealthZero])"
  by (cases "host_Online h") (simp_all add: applyHostAlerts_offline applyHostAlerts_health applyHostAlerts_alerts)

end
