(* ===== verification/Guest_View.thy ===== *)
theory Guest_View
  imports Alerts
begin

text \<open>
  What the bridge knows of a guest (\<open>internal/proxmox/provider.go\<close>): its configuration (a JSON
  object of loose values), its status, the answers of the guest agent and of the container
  interfaces.  A configuration is a list of members in the order in which a \<open>range\<close> over the
  Go map visits them; \<open>perm\<close> is the algorithm of \<open>sort.Slice\<close>.
\<close>

section \<open>Configuration\<close>

text \<open>The loops over the option parts; the result of \<open>parseOptions\<close> is read with a default of \<open>""\<close>.\<close>

definition parse_option :: "string \<Rightarrow> (string \<times> string) option" where
  "parse_option part = cut_char (CHR ''='') (trim_space part)"

definition parseOptions :: "string list \<Rightarrow> string \<Rightarrow> string" where
  "parseOptions parts key =
     (case map_of (rev (List.map_filter parse_option parts)) key of None \<Rightarrow> '''' | Some v \<Rightarrow> v)"

definition isGuestDiskKey :: "string \<Rightarrow> bool" where
  "isGuestDiskKey key \<longleftrightarrow>
     list_ex (has_prefix key) [''scsi'', ''virtio'', ''sata'', ''ide'', ''mp'', ''unused''] \<or>
     key = ''rootfs''"

definition guest_disk :: "string \<Rightarrow> any \<Rightarrow> guestdisk option" where
  "guest_disk key v =
     (if \<not> isGuestDiskKey key then None
      else let text = stringValue v
      in if text = '''' then None
      else let parts = split_char (CHR '','') text;
               volume = trim_space (hd parts);
               opts = parseOptions (tl parts);
               storage = (case index_of volume '':'' of
                            None \<Rightarrow> ''''
                          | Some split \<Rightarrow> if split > 0 then take split volume else '''')
      in Some (guestdisk_zero\<lparr>guestdisk_Name := key, guestdisk_Storage := storage,
           guestdisk_Volume := volume, guestdisk_Size := opts ''size'',
           guestdisk_Format := opts ''format'', guestdisk_Backup := boolValue (AStr (opts ''backup'')),
           guestdisk_Replicate := boolValue (AStr (opts ''replicate'')),
           guestdisk_SSD := boolValue (AStr (opts ''ssd''))\<rparr>))"

type_synonym sorter = "nat \<Rightarrow> (nat \<Rightarrow> nat \<Rightarrow> bool) \<Rightarrow> nat list"

definition guestDisks :: "sorter \<Rightarrow> json_map \<Rightarrow> guestdisk list" where
  "guestDisks perm cfg =
     (let disks = SortSlice perm (less_by guestdisk_Name) (List.map_filter (\<lambda>(k, v). guest_disk k v) cfg)
      in if length disks > maxGuestDisks then take maxGuestDisks disks else disks)"

text \<open>The first part that looks like \<open>model=mac\<close>.\<close>

fun nic_model :: "string list \<Rightarrow> string \<times> string" where
  "nic_model [] = ('''', '''')"
| "nic_model (part # parts) =
     (case parse_option part of
        Some (k, v) \<Rightarrow> if contains v '':'' \<and> k \<noteq> ''bridge'' then (k, v) else nic_model parts
      | None \<Rightarrow> nic_model parts)"

definition guest_nic :: "string \<Rightarrow> any \<Rightarrow> guestnic option" where
  "guest_nic key v =
     (if \<not> has_prefix key ''net'' then None
      else let text = stringValue v
      in if text = '''' then None
      else let parts = split_char (CHR '','') text;
               opts = parseOptions parts
      in (case nic_model parts of (model, mac) \<Rightarrow>
           Some (guestnic_zero\<lparr>guestnic_Name := key, guestnic_Model := model, guestnic_MAC := mac,
             guestnic_Bridge := opts ''bridge'', guestnic_Firewall := boolValue (AStr (opts ''firewall'')),
             guestnic_Tag := opts ''tag'', guestnic_Rate := opts ''rate''\<rparr>)))"

definition guestNICs :: "sorter \<Rightarrow> json_map \<Rightarrow> guestnic list" where
  "guestNICs perm cfg =
     (let nics = SortSlice perm (less_by guestnic_Name) (List.map_filter (\<lambda>(k, v). guest_nic k v) cfg)
      in if length nics > maxGuestNICs then take maxGuestNICs nics else nics)"

fun ip_part :: "string list \<Rightarrow> string option" where
  "ip_part [] = None"
| "ip_part (part # parts) =
     (let part = trim_space part
      in if has_prefix part ''ip='' then Some (trim_prefix part ''ip='') else ip_part parts)"

fun ip_of_keys :: "json_map \<Rightarrow> string list \<Rightarrow> string" where
  "ip_of_keys cfg [] = ''''"
| "ip_of_keys cfg (key # keys) =
     (let v = stringValue (lookup_any cfg key)
      in if v = '''' then ip_of_keys cfg keys
         else case ip_part (split_char (CHR '','') v) of
                Some ip \<Rightarrow> ip | None \<Rightarrow> ip_of_keys cfg keys)"

definition guestIPAddress :: "json_map \<Rightarrow> string" where
  "guestIPAddress cfg = ip_of_keys cfg [''ipconfig0'', ''ipconfig1'', ''net0'', ''net1'']"

definition placeholderIPAddress :: "string \<Rightarrow> bool" where
  "placeholderIPAddress v \<longleftrightarrow>
     (let text = to_lower (trim_space v)
      in text = '''' \<or> text = ''dhcp'' \<or> has_prefix text ''dhcp/'')"

definition agentEnabled :: "any \<Rightarrow> bool" where
  "agentEnabled v \<longleftrightarrow>
     boolValue v \<or>
     (let text = to_lower (stringValue v)
      in contains text ''enabled=1'' \<or> contains text ''enabled=true'')"

definition applyGuestConfig :: "arch \<Rightarrow> sorter \<Rightarrow> json_map \<Rightarrow> guest \<Rightarrow> guest" where
  "applyGuestConfig a perm cfg g =
     (let text = \<lambda>k. stringValue (lookup_any cfg k);
          flag = \<lambda>k. boolValue (lookup_any cfg k);
          cores = intValue a (lookup_any cfg ''cores'');
          memoryMB = int64Value a (lookup_any cfg ''memory'')
      in g\<lparr>guest_Tags := (if text ''tags'' \<noteq> '''' \<and> guest_Tags g = '''' then text ''tags'' else guest_Tags g),
           guest_MaxCPU := (if cores > 0 \<and> guest_MaxCPU g = 0 then cores else guest_MaxCPU g),
           guest_MemoryTotalBytes :=
             (if memoryMB > 0 \<and> guest_MemoryTotalBytes g = 0 then i64 (memoryMB * 1024 * 1024)
              else guest_MemoryTotalBytes g),
           guest_OSType := firstNonEmpty [text ''ostype'', text ''arch''],
           guest_CPUType := text ''cpu'', guest_BIOS := text ''bios'', guest_Machine := text ''machine'',
           guest_BootOrder := text ''boot'', guest_Startup := text ''startup'',
           guest_Nameserver := text ''nameserver'', guest_SearchDomain := text ''searchdomain'',
           guest_Features := text ''features'', guest_OnBoot := flag ''onboot'',
           guest_Protection := flag ''protection'', guest_Template := flag ''template'',
           guest_Unprivileged := flag ''unprivileged'',
           guest_AgentEnabled := agentEnabled (lookup_any cfg ''agent''),
           guest_IPAddress := guestIPAddress cfg, guest_Disks := guestDisks perm cfg,
           guest_NICs := guestNICs perm cfg\<rparr>)"

section \<open>Status\<close>

definition positive_or :: "int \<Rightarrow> int \<Rightarrow> int" where
  "positive_or n old = (if n > 0 then n else old)"

definition applyGuestStatus :: "arch \<Rightarrow> guestStatus \<Rightarrow> guest \<Rightarrow> guest" where
  "applyGuestStatus a s g =
     (let mem = guestStatus_MaxMem s > 0; swap = guestStatus_MaxSwap s > 0; disk = guestStatus_MaxDisk s > 0
      in g\<lparr>guest_Status := firstNonEmpty [guestStatus_Status s, guest_Status g],
           guest_CPUPct := (if f_less (Fin 0) (guestStatus_CPU s) then pctFloat a (guestStatus_CPU s)
                            else guest_CPUPct g),
           guest_MaxCPU := positive_or (guestStatus_CPUs s) (guest_MaxCPU g),
           guest_MemoryPct := (if mem then pctInt64 a (guestStatus_Mem s) (guestStatus_MaxMem s)
                               else guest_MemoryPct g),
           guest_MemoryUsedBytes := (if mem then guestStatus_Mem s else guest_MemoryUsedBytes g),
           guest_MemoryTotalBytes := (if mem then guestStatus_MaxMem s else guest_MemoryTotalBytes g),
           guest_MemoryHostBytes := positive_or (guestStatus_MemHost s) (guest_MemoryHostBytes g),
           guest_SwapPct := (if swap then pctInt64 a (guestStatus_Swap s) (guestStatus_MaxSwap s)
                             else guest_SwapPct g),
           guest_SwapUsedBytes := (if swap then guestStatus_Swap s else guest_SwapUsedBytes g),
           guest_SwapTotalBytes := (if swap then guestStatus_MaxSwap s else guest_SwapTotalBytes g),
           guest_DiskPct := (if disk then pctInt64 a (guestStatus_Disk s) (guestStatus_MaxDisk s)
                             else guest_DiskPct g),
           guest_DiskUsedBytes := (if disk then guestStatus_Disk s else guest_DiskUsedBytes g),
           guest_DiskTotalBytes := (if disk then guestStatus_MaxDisk s else guest_DiskTotalBytes g),
           guest_UptimeSec := positive_or (guestStatus_Uptime s) (guest_UptimeSec g),
           guest_NetInBytes := positive_or (guestStatus_NetIn s) (guest_NetInBytes g),
           guest_NetOutBytes := positive_or (guestStatus_NetOut s) (guest_NetOutBytes g),
           guest_DiskReadBytes := positive_or (guestStatus_DiskRead s) (guest_DiskReadBytes g),
           guest_DiskWriteBytes := positive_or (guestStatus_DiskWrite s) (guest_DiskWriteBytes g),
           guest_Tags := (if guestStatus_Tags s \<noteq> '''' \<and> guest_Tags g = '''' then guestStatus_Tags s
                          else guest_Tags g),
           guest_PID := guestStatus_PID s, guest_QMPStatus := guestStatus_QMPStatus s,
           guest_RunningQEMU := guestStatus_RunningQEMU s,
           guest_HAManaged := (guestStatus_HA_Managed s \<noteq> 0),
           guest_PressureCPUSomePct := pctAny a (guestStatus_PressureCPUSome s),
           guest_PressureCPUFullPct := pctAny a (guestStatus_PressureCPUFull s),
           guest_PressureIOSomePct := pctAny a (guestStatus_PressureIOSome s),
           guest_PressureIOFullPct := pctAny a (guestStatus_PressureIOFull s),
           guest_PressureMemorySomePct := pctAny a (guestStatus_PressureMemorySome s),
           guest_PressureMemoryFullPct := pctAny a (guestStatus_PressureMemoryFull s)\<rparr>)"

section \<open>Addresses and filesystems\<close>

text \<open>
  The loops that gather addresses: a candidate is dropped when it was seen, and the loop ends
  when there are \<open>maxGuestIPs\<close> of them.
\<close>

fun take_ips :: "string list \<Rightarrow> string list \<Rightarrow> string list" where
  "take_ips acc [] = acc"
| "take_ips acc (c # cs) =
     (let acc = (if c \<in> set acc then acc else acc @ [c])
      in if length acc \<ge> maxGuestIPs then acc else take_ips acc cs)"

definition agent_candidates :: "agentNetworkInterfacesItem \<Rightarrow> string list" where
  "agent_candidates iface =
     (if agentNetworkInterfacesItem_Name iface = ''lo'' then []
      else List.map_filter (\<lambda>ip.
             let address = agentNetworkInterfacesIP_IPAddress ip
             in if address = '''' \<or> has_prefix address ''127.'' \<or> address = ''::1'' then None
                else Some (if agentNetworkInterfacesIP_Prefix ip > 0
                           then address @ ''/'' @ itoa (agentNetworkInterfacesIP_Prefix ip) else address))
             (agentNetworkInterfacesItem_IPAddresses iface))"

definition agentIPAddresses :: "agentNetworkInterfaces \<Rightarrow> string list" where
  "agentIPAddresses networks =
     take_ips [] (concat (map agent_candidates (agentNetworkInterfaces_Result networks)))"

definition agentFilesystems :: "agentFSInfo \<Rightarrow> guestfilesystem list" where
  "agentFilesystems info =
     take maxGuestFilesystems (map (\<lambda>fs. guestfilesystem_zero
       \<lparr>guestfilesystem_Name := agentFSInfoItem_Name fs,
        guestfilesystem_Mountpoint := agentFSInfoItem_Mountpoint fs,
        guestfilesystem_Type := agentFSInfoItem_Type fs,
        guestfilesystem_UsedBytes := agentFSInfoItem_UsedBytes fs,
        guestfilesystem_TotalBytes := agentFSInfoItem_TotalBytes fs\<rparr>) (agentFSInfo_Result info))"

text \<open>The closure \<open>add\<close> of \<open>containerIPAddresses\<close>: the trimmed address, unless it is skipped.\<close>

definition container_address :: "string \<Rightarrow> string option" where
  "container_address address =
     (let address = trim_space address
      in if address = '''' \<or> has_prefix address ''127.'' \<or> address = ''::1'' \<or> has_prefix address ''fe80:''
         then None else Some address)"

definition container_candidates :: "arch \<Rightarrow> containerInterface \<Rightarrow> string list" where
  "container_candidates a iface =
     (if containerInterface_Name iface = ''lo'' then []
      else List.map_filter container_address
             (map (\<lambda>ip. let prefix = intValue a (containerInterfaceIP_Prefix ip)
                        in if prefix > 0
                           then containerInterfaceIP_IPAddress ip @ ''/'' @ itoa prefix
                           else containerInterfaceIP_IPAddress ip)
                  (filter (\<lambda>ip. containerInterfaceIP_IPAddress ip \<noteq> '''') (containerInterface_IPAddresses iface))
              @ [containerInterface_Inet iface, containerInterface_Inet6 iface]))"

definition containerIPAddresses :: "arch \<Rightarrow> containerInterface list \<Rightarrow> string list" where
  "containerIPAddresses a interfaces = take_ips [] (concat (map (container_candidates a) interfaces))"

section \<open>The guest agent\<close>

text \<open>
  \<open>applyGuestAgent\<close> on the answers to its five requests.  The second failure replaces the
  error of the first, the later ones do not.
\<close>

record agent_answers =
  ans_info :: "go_error + agentInfo"
  ans_hostname :: "go_error + agentHostname"
  ans_osinfo :: "go_error + agentOSInfo"
  ans_network :: "go_error + agentNetworkInterfaces"
  ans_fsinfo :: "go_error + agentFSInfo"

definition agent_networks :: "agentNetworkInterfaces \<Rightarrow> guest \<Rightarrow> guest" where
  "agent_networks networks g =
     (let g = g\<lparr>guest_AgentAvailable := True, guest_IPAddresses := agentIPAddresses networks\<rparr>
      in case guest_IPAddresses g of
           [] \<Rightarrow> g
         | ip # _ \<Rightarrow> if placeholderIPAddress (guest_IPAddress g) then g\<lparr>guest_IPAddress := ip\<rparr> else g)"

definition first_error :: "go_error option \<Rightarrow> go_error \<Rightarrow> go_error option" where
  "first_error err e = (case err of None \<Rightarrow> Some e | Some e' \<Rightarrow> Some e')"

definition applyGuestAgent :: "agent_answers \<Rightarrow> guest \<Rightarrow> guest \<times> go_error option" where
  "applyGuestAgent ans g =
     (let (g, err) = (case ans_info ans of
              Inr info \<Rightarrow> (g\<lparr>guest_AgentAvailable := True,
                 guest_AgentVersion := agentInfo_Result_Version info,
                 guest_AgentCommandCount := int (length (agentInfo_Result_SupportedCommands info))\<rparr>, None)
            | Inl e \<Rightarrow> (g, Some e));
          (g, err) = (case ans_hostname ans of
              Inr hostname \<Rightarrow> (g\<lparr>guest_AgentAvailable := True,
                 guest_AgentHostname := agentHostname_Result_HostName hostname\<rparr>, err)
            | Inl e \<Rightarrow> (g, Some e));
          (g, err) = (case ans_osinfo ans of
              Inr osInfo \<Rightarrow> (g\<lparr>guest_AgentAvailable := True,
                 guest_AgentOS := firstNonEmpty [agentOSInfo_Result_PrettyName osInfo,
                   agentOSInfo_Result_Name osInfo, agentOSInfo_Result_ID osInfo]\<rparr>, err)
            | Inl e \<Rightarrow> (g, first_error err e));
          (g, err) = (case ans_network ans of
              Inr networks \<Rightarrow> (agent_networks networks g, err)
            | Inl e \<Rightarrow> (g, first_error err e));
          (g, err) = (case ans_fsinfo ans of
              Inr fsInfo \<Rightarrow> (g\<lparr>guest_AgentAvailable := True, guest_Filesystems := agentFilesystems fsInfo\<rparr>, err)
            | Inl e \<Rightarrow> (g, first_error err e))
      in (g, if guest_AgentAvailable g then None else err))"

section \<open>Facts\<close>

lemma map_filter_set: "set (List.map_filter f xs) = {y. \<exists>x\<in>set xs. f x = Some y}"
  by (induction xs) (auto simp: List.map_filter_simps split: option.splits)

lemma map_filter_mset: "mset xs = mset ys \<Longrightarrow> mset (List.map_filter f xs) = mset (List.map_filter f ys)"
  by (simp only: List.map_filter_def mset_map mset_filter)

lemma guest_disk_Name: "guest_disk k v = Some d \<Longrightarrow> guestdisk_Name d = k"
  by (auto simp: guest_disk_def Let_def split: if_splits)

lemma guest_nic_Name: "guest_nic k v = Some n \<Longrightarrow> guestnic_Name n = k"
  by (auto simp: guest_nic_def Let_def split: if_splits prod.splits)

text \<open>Items named after their keys have distinct names.\<close>

lemma map_filter_names:
  assumes "\<And>k v y. f k v = Some y \<Longrightarrow> name y = k" and "distinct (map fst m)"
  shows "inj_on name (set (List.map_filter (\<lambda>(k, v). f k v) m))"
proof (rule inj_onI)
  fix y z
  assume "y \<in> set (List.map_filter (\<lambda>(k, v). f k v) m)" "z \<in> set (List.map_filter (\<lambda>(k, v). f k v) m)"
    and n: "name y = name z"
  then obtain k v k' v' where m: "(k, v) \<in> set m" "(k', v') \<in> set m" and y: "f k v = Some y" "f k' v' = Some z"
    by (auto simp: map_filter_set)
  with assms(1) n have "k = k'" by metis
  with m assms(2) have "v = v'" by (metis eq_key_imp_eq_value)
  with y \<open>k = k'\<close> show "y = z" by simp
qed

lemma lookup_any_mset:
  "distinct (map fst m) \<Longrightarrow> mset m = mset m' \<Longrightarrow> lookup_any m = lookup_any m'"
proof -
  assume d: "distinct (map fst m)" and eq: "mset m = mset m'"
  then have "distinct (map fst m')" by (metis mset_eq_imp_distinct_iff mset_map)
  with d eq have "map_of m = map_of m'" by (metis map_of_inject_set set_mset_mset)
  then show ?thesis by (simp add: fun_eq_iff lookup_any_def)
qed

lemma ip_of_keys_mset:
  "distinct (map fst m) \<Longrightarrow> mset m = mset m' \<Longrightarrow> ip_of_keys m ks = ip_of_keys m' ks"
  by (induction ks) (simp_all add: lookup_any_mset [of m m'] Let_def split: option.split)

context sort_algorithm
begin

text \<open>Disks and NICs do not depend on the order in which the map is visited, nor on the sort.\<close>

lemma guestDisks_order:
  assumes "distinct (map fst cfg)" and "mset cfg = mset cfg'"
  shows "guestDisks perm cfg = guestDisks insertion_perm cfg'"
proof -
  let ?ds = "List.map_filter (\<lambda>(k, v). guest_disk k v)"
  have inj: "inj_on guestdisk_Name (set (?ds cfg))"
    using assms(1) guest_disk_Name by (rule map_filter_names [rotated])
  have m: "mset (?ds cfg) = mset (?ds cfg')" using assms(2) by (rule map_filter_mset)
  have "SortSlice perm (less_by guestdisk_Name) (?ds cfg) = slice_stable (less_by guestdisk_Name) (?ds cfg')"
    by (rule slice_determined [OF less_by_key inj m])
  moreover have "SortSlice insertion_perm (less_by guestdisk_Name) (?ds cfg')
      = slice_stable (less_by guestdisk_Name) (?ds cfg')"
    by (rule insertion.slice_determined [OF less_by_key _ refl])
      (use inj m in \<open>metis set_mset_mset\<close>)
  ultimately show ?thesis by (simp add: guestDisks_def Let_def)
qed

lemma guestNICs_order:
  assumes "distinct (map fst cfg)" and "mset cfg = mset cfg'"
  shows "guestNICs perm cfg = guestNICs insertion_perm cfg'"
proof -
  let ?ns = "List.map_filter (\<lambda>(k, v). guest_nic k v)"
  have inj: "inj_on guestnic_Name (set (?ns cfg))"
    using assms(1) guest_nic_Name by (rule map_filter_names [rotated])
  have m: "mset (?ns cfg) = mset (?ns cfg')" using assms(2) by (rule map_filter_mset)
  have "SortSlice perm (less_by guestnic_Name) (?ns cfg) = slice_stable (less_by guestnic_Name) (?ns cfg')"
    by (rule slice_determined [OF less_by_key inj m])
  moreover have "SortSlice insertion_perm (less_by guestnic_Name) (?ns cfg')
      = slice_stable (less_by guestnic_Name) (?ns cfg')"
    by (rule insertion.slice_determined [OF less_by_key _ refl])
      (use inj m in \<open>metis set_mset_mset\<close>)
  ultimately show ?thesis by (simp add: guestNICs_def Let_def)
qed

lemma applyGuestConfig_order:
  assumes "distinct (map fst cfg)" and "mset cfg = mset cfg'"
  shows "applyGuestConfig a perm cfg g = applyGuestConfig a insertion_perm cfg' g"
  unfolding applyGuestConfig_def guestIPAddress_def
  by (simp only: guestDisks_order [OF assms] guestNICs_order [OF assms] lookup_any_mset [OF assms]
      ip_of_keys_mset [OF assms])

end

lemma guestDisks_cap: "length (guestDisks perm cfg) \<le> maxGuestDisks"
  by (simp add: guestDisks_def Let_def)

lemma guestNICs_cap: "length (guestNICs perm cfg) \<le> maxGuestNICs"
  by (simp add: guestNICs_def Let_def)

text \<open>First occurrences, and the gathered addresses as the first eight of them.\<close>

fun uniq :: "'a list \<Rightarrow> 'a list" where
  "uniq [] = []"
| "uniq (x # xs) = x # filter (\<lambda>y. y \<noteq> x) (uniq xs)"

lemma set_uniq [simp]: "set (uniq xs) = set xs"
  by (induction xs) auto

lemma distinct_uniq [simp]: "distinct (uniq xs)"
  by (induction xs) auto

lemma take_ips_eq:
  "length acc < maxGuestIPs \<Longrightarrow>
   take_ips acc cs = take maxGuestIPs (acc @ filter (\<lambda>c. c \<notin> set acc) (uniq cs))"
proof (induction cs arbitrary: acc)
  case Nil
  then show ?case by simp
next
  case (Cons c cs)
  have f: "filter (\<lambda>y. y \<notin> set acc) (filter (\<lambda>y. y \<noteq> c) (uniq cs))
      = filter (\<lambda>y. y \<notin> set (if c \<in> set acc then acc else acc @ [c])) (uniq cs)"
    by (auto simp: intro!: filter_cong)
  show ?case
  proof (cases "c \<in> set acc")
    case True
    with Cons f show ?thesis by (simp add: Let_def)
  next
    case new: False
    show ?thesis
    proof (cases "length acc + 1 \<ge> maxGuestIPs")
      case True
      with Cons.prems have "length acc + 1 = maxGuestIPs" by simp
      with new show ?thesis by (simp add: Let_def) (simp add: take_Cons')
    next
      case False
      with new f Cons.IH [of "acc @ [c]"] show ?thesis by (simp add: Let_def)
    qed
  qed
qed

lemma take_ips_first: "take_ips [] cs = take maxGuestIPs (uniq cs)"
  by (simp add: take_ips_eq maxGuestIPs_def)

text \<open>The agent counts as available exactly when one of the five requests is answered.\<close>

lemma applyGuestAgent_available:
  "\<not> guest_AgentAvailable g \<Longrightarrow>
   snd (applyGuestAgent ans g) = None \<longleftrightarrow>
     (\<exists>x. ans_info ans = Inr x) \<or> (\<exists>x. ans_hostname ans = Inr x) \<or> (\<exists>x. ans_osinfo ans = Inr x) \<or>
     (\<exists>x. ans_network ans = Inr x) \<or> (\<exists>x. ans_fsinfo ans = Inr x)"
  by (cases "ans_info ans"; cases "ans_hostname ans"; cases "ans_osinfo ans"; cases "ans_network ans";
      cases "ans_fsinfo ans")
    (simp_all add: applyGuestAgent_def agent_networks_def first_error_def Let_def split: list.splits)

section \<open>Properties\<close>

text \<open>
  The view of a guest's configuration is deterministic although the configuration is a Go map
  visited in random order and sorted with an unstable sort: two visits of the same map, with any
  two sorting algorithms, give the same guest, with at most 12 disks and 8 network interfaces.
\<close>

theorem guest_config_deterministic:
  assumes "sort_algorithm perm" and "sort_algorithm perm'"
    and "distinct (map fst cfg)" and "mset cfg = mset cfg'"
  shows "applyGuestConfig a perm cfg g = applyGuestConfig a perm' cfg' g \<and>
         length (guestDisks perm cfg) \<le> 12 \<and> length (guestNICs perm cfg) \<le> 8"
proof -
  have "distinct (map fst cfg')" using assms(3,4) by (metis mset_eq_imp_distinct_iff mset_map)
  then have "applyGuestConfig a perm' cfg' g = applyGuestConfig a insertion_perm cfg' g"
    using assms(2) by (intro sort_algorithm.applyGuestConfig_order) simp_all
  then show ?thesis
    using sort_algorithm.applyGuestConfig_order [OF assms(1,3,4)] guestDisks_cap guestNICs_cap
    by (metis maxGuestDisks_def maxGuestNICs_def)
qed

lemma guest_config_deterministic_witness:
  "applyGuestConfig AMD64 insertion_perm [(''net0'', AStr ''virtio=BC:24'') , (''scsi0'', AStr ''local:1'')] guest_zero
     = applyGuestConfig AMD64 insertion_perm [(''scsi0'', AStr ''local:1''), (''net0'', AStr ''virtio=BC:24'')] guest_zero"
  by (rule guest_config_deterministic [OF insertion.sort_algorithm_axioms insertion.sort_algorithm_axioms,
        THEN conjunct1]) simp_all

text \<open>
  The addresses shown for a guest are the first eight distinct ones the agent (or the container
  runtime) reports, in its order; loopback interfaces and addresses are left out.
\<close>

theorem guest_addresses_first_distinct:
  "agentIPAddresses networks =
     take maxGuestIPs (uniq (concat (map agent_candidates (agentNetworkInterfaces_Result networks)))) \<and>
   containerIPAddresses a ifaces = take maxGuestIPs (uniq (concat (map (container_candidates a) ifaces))) \<and>
   distinct (agentIPAddresses networks) \<and> length (agentIPAddresses networks) \<le> 8 \<and>
   distinct (containerIPAddresses a ifaces) \<and> length (containerIPAddresses a ifaces) \<le> 8"
  by (simp add: agentIPAddresses_def containerIPAddresses_def take_ips_first maxGuestIPs_def)

end
