(* ===== verification/Trends.thy ===== *)
theory Trends
  imports Alerts
begin

text \<open>
  Metric trends (\<open>internal/proxmox/provider.go\<close>): at most 24 samples taken evenly from the RRD
  points of a node or guest.  The index of a sample is computed in floating point; an index
  outside the slice would panic, which is the value \<open>None\<close>.
\<close>

text \<open>\<open>float64(i) * float64(n-1) / float64(samples-1)\<close>, rounded.\<close>

definition sample_index :: "arch \<Rightarrow> int \<Rightarrow> int \<Rightarrow> int \<Rightarrow> int" where
  "sample_index a samples n i =
     (if samples > 1
      then f_to_int a (f_round (f_div (f_mul (f_of_int i) (f_of_int (n - 1))) (f_of_int (samples - 1))))
      else 0)"

fun trend_loop :: "arch \<Rightarrow> 'p list \<Rightarrow> ('p \<Rightarrow> int) \<Rightarrow> int \<Rightarrow> nat list \<Rightarrow> int list option" where
  "trend_loop a points f samples [] = Some []"
| "trend_loop a points f samples (i # is) =
     (let idx = sample_index a samples (int (length points)) (int i)
      in if idx < 0 \<or> idx \<ge> int (length points) then None
         else map_option ((#) (f (points ! nat idx))) (trend_loop a points f samples is))"

definition trendValues :: "arch \<Rightarrow> 'p list \<Rightarrow> ('p \<Rightarrow> int) \<Rightarrow> int list option" where
  "trendValues a points f =
     (if points = [] then Some []
      else let samples = (if length points < maxTrendSamples then length points else maxTrendSamples)
           in trend_loop a points f (int samples) [0..<samples])"

record trend_base =
  base_sourceID :: string
  base_hostID :: string
  base_guestID :: string
  base_resourceType :: string
  base_resourceName :: string
  base_timeframe :: string

definition trend ::
    "arch \<Rightarrow> trend_base \<Rightarrow> string \<Rightarrow> string \<Rightarrow> rrdPoint list \<Rightarrow> (rrdPoint \<Rightarrow> int) \<Rightarrow> metrictrend option" where
  "trend a base metric unit points f =
     (case trendValues a points f of
        None \<Rightarrow> None
      | Some values \<Rightarrow>
          Some (metrictrend_zero
            \<lparr>metrictrend_ID := join_with ''/'' [base_sourceID base, base_resourceType base,
                                                base_resourceName base, metric],
             metrictrend_SourceID := base_sourceID base, metrictrend_HostID := base_hostID base,
             metrictrend_GuestID := base_guestID base,
             metrictrend_ResourceType := base_resourceType base,
             metrictrend_ResourceName := base_resourceName base, metrictrend_Metric := metric,
             metrictrend_Unit := unit, metrictrend_Timeframe := base_timeframe base,
             metrictrend_Last := (if values = [] then 0 else last values),
             metrictrend_Values := values\<rparr>))"

definition nodeMetricTrends ::
    "arch \<Rightarrow> client \<Rightarrow> host \<Rightarrow> rrdPoint list \<Rightarrow> metrictrend list option" where
  "nodeMetricTrends a c h points =
     (let base = \<lparr>base_sourceID = client_id c, base_hostID = host_ID h, base_guestID = '''',
                  base_resourceType = ''host'', base_resourceName = host_Name h,
                  base_timeframe = ''hour''\<rparr>
      in options
           [trend a base ''cpu_pct'' ''%'' points (\<lambda>p. pctFloat a (rrdPoint_CPU p)),
            trend a base ''memory_pct'' ''%'' points (\<lambda>p.
              pctFloatRatio a (firstPositiveFloat [rrdPoint_MemUsed p, rrdPoint_Mem p])
                (firstPositiveFloat [rrdPoint_MemTotal p, rrdPoint_MaxMem p])),
            trend a base ''root_pct'' ''%'' points (\<lambda>p. pctFloatRatio a (rrdPoint_RootUsed p) (rrdPoint_RootTotal p)),
            trend a base ''net_in_kib_s'' ''KiB/s'' points (\<lambda>p. kibRate a (rrdPoint_NetIn p)),
            trend a base ''net_out_kib_s'' ''KiB/s'' points (\<lambda>p. kibRate a (rrdPoint_NetOut p)),
            trend a base ''iowait_pct'' ''%'' points (\<lambda>p. pctFloat a (rrdPoint_IOWait p))])"

definition guestMetricTrends ::
    "arch \<Rightarrow> client \<Rightarrow> guest \<Rightarrow> rrdPoint list \<Rightarrow> metrictrend list option" where
  "guestMetricTrends a c g points =
     (let base = \<lparr>base_sourceID = client_id c, base_hostID = guest_HostID g, base_guestID = guest_ID g,
                  base_resourceType = guest_Type g, base_resourceName = guest_Name g,
                  base_timeframe = ''hour''\<rparr>
      in options
           [trend a base ''cpu_pct'' ''%'' points (\<lambda>p. pctFloat a (rrdPoint_CPU p)),
            trend a base ''memory_pct'' ''%'' points (\<lambda>p. pctFloatRatio a (rrdPoint_Mem p) (rrdPoint_MaxMem p)),
            trend a base ''disk_pct'' ''%'' points (\<lambda>p. pctFloatRatio a (rrdPoint_Disk p) (rrdPoint_MaxDisk p)),
            trend a base ''net_in_kib_s'' ''KiB/s'' points (\<lambda>p. kibRate a (rrdPoint_NetIn p)),
            trend a base ''net_out_kib_s'' ''KiB/s'' points (\<lambda>p. kibRate a (rrdPoint_NetOut p)),
            trend a base ''disk_read_kib_s'' ''KiB/s'' points (\<lambda>p. kibRate a (rrdPoint_DiskRead p)),
            trend a base ''disk_write_kib_s'' ''KiB/s'' points (\<lambda>p. kibRate a (rrdPoint_DiskWrite p))])"

section \<open>Facts\<close>

text \<open>The exact index: with at most \<open>2 ^ 48\<close> points the product and its quotient by 23 stay exact enough.\<close>

lemma sample_index_value:
  assumes "1 < s" and "s \<le> 24" and "s \<le> n" and "n \<le> 2 ^ 48" and "0 \<le> i" and "i < s"
  shows "sample_index a s n i = round_away (rnd (of_int (i * (n - 1)) / of_int (s - 1))) \<and>
         0 \<le> rnd (of_int (i * (n - 1)) / of_int (s - 1)) \<and>
         rnd (of_int (i * (n - 1)) / of_int (s - 1)) \<le> of_int (n - 1)"
proof -
  let ?x = "of_int (i * (n - 1)) / of_int (s - 1) :: rat"
  have prod: "0 \<le> i * (n - 1)" "i * (n - 1) \<le> (s - 1) * (n - 1)"
    using assms by (auto intro: mult_right_mono)
  have "(s - 1) * (n - 1) \<le> 23 * (2 ^ 48)" using assms by (intro mult_mono) simp_all
  then have "i * (n - 1) \<le> 2 ^ 53" using prod by simp
  with prod have p: "f_of_int (i * (n - 1)) = Fin (of_int (i * (n - 1)))"
      "to_f64 (of_int i * of_int (n - 1)) = Fin (of_int (i * (n - 1)))"
    using f_of_int_exact [of "i * (n - 1)"] by (simp_all add: f_of_int_def)
  have e: "f_of_int i = Fin (of_int i)" "f_of_int (n - 1) = Fin (of_int (n - 1))"
      "f_of_int (s - 1) = Fin (of_int (s - 1))"
    using assms by (intro f_of_int_exact; simp)+
  have "?x \<le> of_int ((s - 1) * (n - 1)) / of_int (s - 1)"
    using prod assms by (intro divide_right_mono) (simp_all only: of_int_le_iff of_int_0_le_iff)
  also have "\<dots> = of_int (n - 1)" using assms by simp
  finally have x: "?x \<le> of_int (n - 1)" .
  have x0: "0 \<le> ?x" using prod assms by simp
  have n1: "0 \<le> n - 1" "n - 1 \<le> 2 ^ 53" using assms by simp_all
  have "rnd ?x \<le> rnd (of_int (n - 1))" using x x0 by (intro rnd_mono0)
  then have up: "rnd ?x \<le> of_int (n - 1)" using rnd_int [OF n1] by simp
  have "(of_int (n - 1) :: rat) \<le> of_int (2 ^ 53)" using n1(2) by (simp only: of_int_le_iff)
  with x have "?x \<le> 2 powi 53" by (simp add: power_int_def)
  then have q: "to_f64 ?x = Fin (rnd ?x)" "0 \<le> rnd ?x"
    using to_f64_bounded [of ?x 53] x0 by simp_all
  have "round_away (rnd ?x) \<le> round_away (of_int (n - 1))" "round_away (of_int 0) \<le> round_away (rnd ?x)"
    using up q(2) by (intro round_away_mono; simp)+
  then have "0 \<le> round_away (rnd ?x)" "round_away (rnd ?x) \<le> n - 1"
    unfolding round_away_of_int by simp_all
  then have "in_i64 (round_away (rnd ?x))" using n1(2) by (simp add: in_i64_def)
  then have "sample_index a s n i = round_away (rnd ?x)"
    using e p q(1) assms by (cases a) (simp_all add: sample_index_def)
  with q(2) up show ?thesis by simp
qed

lemma sample_index_range:
  assumes "0 < s" and "s \<le> 24" and "s \<le> n" and "n \<le> 2 ^ 48" and "0 \<le> i" and "i < s"
  shows "0 \<le> sample_index a s n i \<and> sample_index a s n i \<le> n - 1"
proof (cases "1 < s")
  case True
  let ?x = "rnd (of_int (i * (n - 1)) / of_int (s - 1))"
  note v = sample_index_value [OF True assms(2-6), of a]
  have "round_away ?x \<le> round_away (of_int (n - 1))" "round_away (of_int 0) \<le> round_away ?x"
    using v by (intro round_away_mono; simp)+
  then have "0 \<le> round_away ?x" and "round_away ?x \<le> n - 1"
    unfolding round_away_of_int by blast+
  with v show ?thesis by (simp only:)
qed (use assms in \<open>simp add: sample_index_def\<close>)

text \<open>The first sample is the first point, the last sample the last point.\<close>

lemma sample_index_ends:
  assumes "1 < s" and "s \<le> 24" and "s \<le> n" and "n \<le> 2 ^ 48"
  shows "sample_index a s n 0 = 0 \<and> sample_index a s n (s - 1) = n - 1"
proof -
  have "(of_int ((s - 1) * (n - 1)) / of_int (s - 1) :: rat) = of_int (n - 1)"
    using assms by simp
  moreover have "rnd (of_int (n - 1)) = of_int (n - 1)" using assms by (intro rnd_int) simp_all
  ultimately have "rnd (of_int ((s - 1) * (n - 1)) / of_int (s - 1)) = of_int (n - 1)"
    by (simp only:)
  then have last: "round_away (rnd (of_int ((s - 1) * (n - 1)) / of_int (s - 1))) = n - 1"
    by (simp only: round_away_of_int)
  moreover have "round_away 0 = 0" using round_away_of_int [of 0] by simp
  ultimately show ?thesis
    using sample_index_value [OF assms, of 0 a] sample_index_value [OF assms, of "s - 1" a] assms(1)
    by simp
qed

lemma sample_index_mono:
  assumes "1 < s" and "s \<le> 24" and "s \<le> n" and "n \<le> 2 ^ 48" and "0 \<le> i" and "i \<le> j" and "j < s"
  shows "sample_index a s n i \<le> sample_index a s n j"
proof -
  have "(of_int (i * (n - 1)) / of_int (s - 1) :: rat) \<le> of_int (j * (n - 1)) / of_int (s - 1)"
    using assms by (intro divide_right_mono) (simp_all add: mult_right_mono)
  then have "rnd (of_int (i * (n - 1)) / of_int (s - 1)) \<le> rnd (of_int (j * (n - 1)) / of_int (s - 1))"
    using assms by (intro rnd_mono0) simp_all
  then show ?thesis
    using sample_index_value [of s n i a] sample_index_value [of s n j a] assms
    by (simp add: round_away_mono)
qed

text \<open>Up to 24 points are all shown.\<close>

lemma sample_index_all:
  assumes "1 < n" and "n \<le> 24" and "0 \<le> i" and "i < n"
  shows "sample_index a n n i = i"
proof -
  have "(of_int (i * (n - 1)) / of_int (n - 1) :: rat) = of_int i" using assms by simp
  moreover have "rnd (of_int i) = of_int i" using assms by (intro rnd_int) simp_all
  ultimately have "rnd (of_int (i * (n - 1)) / of_int (n - 1)) = of_int i" by (simp only:)
  then show ?thesis using sample_index_value [of n n i a] assms by simp
qed

lemma trend_loop_ok:
  "(\<forall>i\<in>set is. 0 \<le> sample_index a s (int (length points)) (int i) \<and>
                sample_index a s (int (length points)) (int i) < int (length points)) \<Longrightarrow>
   trend_loop a points f s is =
     Some (map (\<lambda>i. f (points ! nat (sample_index a s (int (length points)) (int i)))) is)"
  by (induction "is") (auto simp: Let_def)

text \<open>The loop never leaves the slice: the samples always exist.\<close>

definition sample_count :: "'p list \<Rightarrow> nat" where
  "sample_count points = min maxTrendSamples (length points)"

lemma trendValues_some:
  assumes "length points \<le> 2 ^ 48"
  shows "trendValues a points f =
     Some (map (\<lambda>i. f (points ! nat (sample_index a (int (sample_count points)) (int (length points)) (int i))))
             [0..<sample_count points])"
proof (cases "points = []")
  case True
  then show ?thesis by (simp add: trendValues_def sample_count_def)
next
  case False
  let ?s = "sample_count points" and ?n = "int (length points)"
  have s: "(if length points < maxTrendSamples then length points else maxTrendSamples) = ?s"
    by (simp add: sample_count_def)
  have "0 < ?s" "?s \<le> 24" "?s \<le> length points"
    using False by (simp_all add: sample_count_def maxTrendSamples_def)
  moreover have "?n \<le> 2 ^ 48" using assms by (metis of_nat_le_iff of_nat_numeral of_nat_power)
  ultimately have "\<forall>i\<in>set [0..<?s]. 0 \<le> sample_index a (int ?s) ?n (int i) \<and>
      sample_index a (int ?s) ?n (int i) < ?n"
    using sample_index_range [of "int ?s" ?n] by fastforce
  then have "trend_loop a points f (int ?s) [0..<?s] =
      Some (map (\<lambda>i. f (points ! nat (sample_index a (int ?s) ?n (int i)))) [0..<?s])"
    by (rule trend_loop_ok)
  with False s show ?thesis unfolding trendValues_def Let_def by simp
qed

lemma trendValues_all:
  "length points \<le> 24 \<Longrightarrow> trendValues a points f = Some (map f points)"
proof -
  assume n: "length points \<le> 24"
  have "nat (sample_index a (int (length points)) (int (length points)) (int i)) = i"
    if "i < length points" for i
  proof (cases "length points = 1")
    case True
    with that show ?thesis by (simp add: sample_index_def)
  next
    case False
    with that n sample_index_all [of "int (length points)" "int i" a] show ?thesis by simp
  qed
  moreover have "sample_count points = length points"
    using n by (simp add: sample_count_def maxTrendSamples_def)
  moreover have "length points \<le> 2 ^ 48" using n by simp
  note some = trendValues_some [OF this, of a f]
  ultimately show ?thesis
    unfolding some by (intro arg_cong [of _ _ Some] nth_equalityI) simp_all
qed

text \<open>The sampled indices: in order, inside the series, from its first to its last point.\<close>

lemma sample_indices:
  assumes "points \<noteq> []" and "length points \<le> 2 ^ 48"
  defines "s \<equiv> int (sample_count points)" and "n \<equiv> int (length points)"
  shows "\<forall>i<sample_count points. 0 \<le> sample_index a s n (int i) \<and> sample_index a s n (int i) < n"
    and "\<forall>j<sample_count points. \<forall>i\<le>j. sample_index a s n (int i) \<le> sample_index a s n (int j)"
    and "sample_index a s n 0 = 0" and "sample_index a s n (s - 1) = n - 1"
proof -
  have s: "0 < s" "s \<le> 24" "s \<le> n"
    using assms(1) by (simp_all add: s_def n_def sample_count_def maxTrendSamples_def)
  have n: "n \<le> 2 ^ 48" unfolding n_def using assms(2) by (metis of_nat_le_iff of_nat_numeral of_nat_power)
  show "\<forall>i<sample_count points. 0 \<le> sample_index a s n (int i) \<and> sample_index a s n (int i) < n"
    using sample_index_range [OF s n] by (fastforce simp: s_def)
  show "\<forall>j<sample_count points. \<forall>i\<le>j. sample_index a s n (int i) \<le> sample_index a s n (int j)"
  proof (cases "1 < s")
    case True
    then show ?thesis using sample_index_mono [OF True s(2,3) n] by (simp add: s_def)
  next
    case False
    with s have "sample_count points = 1" by (simp add: s_def)
    then show ?thesis by simp
  qed
  have "sample_index a s n 0 = 0 \<and> sample_index a s n (s - 1) = n - 1"
  proof (cases "1 < s")
    case True
    then show ?thesis using s n by (intro sample_index_ends)
  next
    case False
    then have "s = 1" using s by simp
    then have "n = 1" using assms(1)
      by (auto simp: s_def n_def sample_count_def maxTrendSamples_def min_def split: if_splits)
    with \<open>s = 1\<close> show ?thesis by (simp add: sample_index_def)
  qed
  then show "sample_index a s n 0 = 0" and "sample_index a s n (s - 1) = n - 1" by blast+
qed

lemma trendValues_samples:
  assumes "length points \<le> 2 ^ 48"
  shows "\<exists>idx. trendValues a points f = Some (map (\<lambda>i. f (points ! i)) idx) \<and>
           length idx = min 24 (length points) \<and> sorted idx \<and> set idx \<subseteq> {..<length points} \<and>
           (length points \<le> 24 \<longrightarrow> idx = [0..<length points]) \<and>
           (points \<noteq> [] \<longrightarrow> hd idx = 0 \<and> last idx = length points - 1)"
proof (cases "points = []")
  case True
  then show ?thesis by (simp add: trendValues_def)
next
  case False
  let ?s = "int (sample_count points)" and ?n = "int (length points)"
  let ?ix = "\<lambda>i. nat (sample_index a ?s ?n (int i))"
  let ?idx = "map ?ix [0..<sample_count points]"
  note ix = sample_indices [OF False assms, of a]
  have c: "0 < sample_count points" "sample_count points = min 24 (length points)"
    using False by (simp_all add: sample_count_def maxTrendSamples_def)
  have "trendValues a points f = Some (map (\<lambda>i. f (points ! i)) ?idx)"
    using trendValues_some [OF assms, of a f] by (simp add: comp_def)
  moreover have "sorted ?idx"
    unfolding sorted_map
    by (rule sorted_wrt_mono_rel [OF _ sorted_wrt_upt]) (use ix(2) in \<open>auto intro!: nat_mono\<close>)
  moreover have "set ?idx \<subseteq> {..<length points}"
    using ix(1) by (auto simp: nat_less_iff)
  moreover have "?idx = [0..<length points]" if short: "length points \<le> 24"
  proof -
    have "?ix i = i" if "i < length points" for i
    proof (cases "length points = 1")
      case True
      with that c(2) show ?thesis by (simp add: sample_index_def)
    next
      case no: False
      with that short c(2) sample_index_all [of ?n "int i" a] show ?thesis by simp
    qed
    then show ?thesis using c(2) short by (simp only: min_absorb2, intro map_idI) simp
  qed
  moreover have "hd ?idx = 0"
    using c(1) ix(3) by (simp add: hd_map)
  moreover have "last ?idx = length points - 1"
    using c(1) ix(4) by (simp add: last_map of_nat_diff nat_diff_distrib)
  ultimately show ?thesis using c(2) by (intro exI [of _ ?idx]) simp
qed

section \<open>Properties\<close>

text \<open>
  C33: Sampling a series never indexes outside it and so never panics (up to 2 ^ 48 points): it gives
  every point of a series of up to 24, and otherwise exactly 24 samples of points in their order,
  among them the first and the last point.
\<close>

theorem trend_samples:
  assumes "length points \<le> 2 ^ 48"
  shows "\<exists>idx. trendValues a points f = Some (map (\<lambda>i. f (points ! i)) idx) \<and>
           length idx = min 24 (length points) \<and> sorted idx \<and> set idx \<subseteq> {..<length points} \<and>
           (length points \<le> 24 \<longrightarrow> idx = [0..<length points]) \<and>
           (points \<noteq> [] \<longrightarrow> hd idx = 0 \<and> last idx = length points - 1)"
  using assms by (rule trendValues_samples)

lemma trend_samples_witness: "\<exists>vs. trendValues AMD64 (replicate 100 rrdPoint_zero) (\<lambda>_. 0) = Some vs"
  using trend_samples [of "replicate 100 rrdPoint_zero" AMD64 "\<lambda>_. 0"] by auto

end
