(* ===== verification/Proxmox_Api.thy ===== *)
theory Proxmox_Api
  imports Guest_View Trends
begin

text \<open>
  The requests of the collector (\<open>internal/proxmox/provider.go\<close>): one function per endpoint,
  each a \<open>Client.Get\<close> on a path built from escaped segments.  The environment \<open>env\<close> holds
  what the bridge does not compute itself: the network, the JSON decoder of each answer type
  (which may fill its value in part and still return an error), the architecture, the sorting
  algorithm, the clock, and the order in which a \<open>range\<close> over the map of hosts visits its keys.
  Within one collection a server answers one path in one way.
\<close>

section \<open>The environment\<close>

record codec =
  json_clusterResources :: "string \<Rightarrow> resource list \<times> go_error option"
  json_clusterStatus :: "string \<Rightarrow> clusterStatus list \<times> go_error option"
  json_clusterBackupJobs :: "string \<Rightarrow> backupJob list \<times> go_error option"
  json_clusterHAResources :: "string \<Rightarrow> haResource list \<times> go_error option"
  json_clusterReplications :: "string \<Rightarrow> replicationJob list \<times> go_error option"
  json_clusterOptions :: "string \<Rightarrow> json_map \<times> go_error option"
  json_clusterStorage :: "string \<Rightarrow> storageConfig list \<times> go_error option"
  json_nodeStatus :: "string \<Rightarrow> nodeStatus \<times> go_error option"
  json_nodePCI :: "string \<Rightarrow> pciDevice list \<times> go_error option"
  json_nodeNetwork :: "string \<Rightarrow> networkInterface list \<times> go_error option"
  json_nodeServices :: "string \<Rightarrow> nodeService list \<times> go_error option"
  json_nodeDisks :: "string \<Rightarrow> nodeDisk list \<times> go_error option"
  json_nodeTasks :: "string \<Rightarrow> nodeTask list \<times> go_error option"
  json_replicationStatus :: "string \<Rightarrow> replicationStatus \<times> go_error option"
  json_nodeZFSPools :: "string \<Rightarrow> zfsPool list \<times> go_error option"
  json_nodeZFSPoolDetail :: "string \<Rightarrow> zfsPoolDetail \<times> go_error option"
  json_nodeCertificates :: "string \<Rightarrow> nodeCertificate list \<times> go_error option"
  json_nodeRRDData :: "string \<Rightarrow> rrdPoint list \<times> go_error option"
  json_nodeAPTUpdates :: "string \<Rightarrow> aptUpdate list \<times> go_error option"
  json_nodeAPTRepositories :: "string \<Rightarrow> aptRepositories \<times> go_error option"
  json_nodeSubscription :: "string \<Rightarrow> subscriptionInfo \<times> go_error option"
  json_guestConfig :: "string \<Rightarrow> json_map \<times> go_error option"
  json_guestSnapshots :: "string \<Rightarrow> guestSnapshot list \<times> go_error option"
  json_guestStatus :: "string \<Rightarrow> guestStatus \<times> go_error option"
  json_guestRRDData :: "string \<Rightarrow> rrdPoint list \<times> go_error option"
  json_containerInterfaces :: "string \<Rightarrow> containerInterface list \<times> go_error option"
  json_storageContent :: "string \<Rightarrow> storageContent list \<times> go_error option"
  json_cephStatus :: "string \<Rightarrow> cephStatus \<times> go_error option"
  json_cephDF :: "string \<Rightarrow> cephDF \<times> go_error option"
  json_agentInfo :: "string \<Rightarrow> agentInfo \<times> go_error option"
  json_agentHostname :: "string \<Rightarrow> agentHostname \<times> go_error option"
  json_agentOSInfo :: "string \<Rightarrow> agentOSInfo \<times> go_error option"
  json_agentNetworkInterfaces :: "string \<Rightarrow> agentNetworkInterfaces \<times> go_error option"
  json_agentFSInfo :: "string \<Rightarrow> agentFSInfo \<times> go_error option"

text \<open>
  \<open>env_order k\<close> is the visiting order of the \<open>k\<close>-th \<open>range\<close> over the hosts; \<open>env_clock\<close>
  gives each call of \<open>time.Now\<close>, named by its place and its turn, a reading of its own.
\<close>

record env =
  env_net :: network_env
  env_codec :: codec
  env_arch :: arch
  env_sort :: sorter
  env_clock :: "string \<Rightarrow> nat \<Rightarrow> gotime"
  env_order :: "nat \<Rightarrow> string list \<Rightarrow> string list"

section \<open>Paths\<close>

text \<open>\<open>url.PathEscape\<close>: unreserved characters and \<open>$&+:=@\<close> stay, every other byte is escaped.\<close>

definition path_char :: "char \<Rightarrow> bool" where
  "path_char c \<longleftrightarrow>
     is_digit c \<or> c \<in> set ''-_.~$&+:=@'' \<or> (CHR ''A'' \<le> c \<and> c \<le> CHR ''Z'') \<or>
     (CHR ''a'' \<le> c \<and> c \<le> CHR ''z'')"

definition escape_char :: "char \<Rightarrow> string" where
  "escape_char c =
     (if path_char c then [c]
      else [CHR 0x25, ascii_upper (hex_digit (of_char c div 16)),
            ascii_upper (hex_digit (of_char c mod 16))])"

definition path_escape :: "string \<Rightarrow> string" where
  "path_escape s = concat (map escape_char s)"

definition node_path :: "string \<Rightarrow> string \<Rightarrow> string" where
  "node_path node rest = ''/api2/json/nodes/'' @ path_escape node @ rest"

definition guest_path :: "string \<Rightarrow> string \<Rightarrow> string \<Rightarrow> string \<Rightarrow> string" where
  "guest_path node type vmid rest =
     node_path node (''/'' @ (if type = ''lxc'' then ''lxc'' else ''qemu'') @ ''/'' @ path_escape vmid @ rest)"

definition zfsPoolDetail_zero :: zfsPoolDetail where
  "zfsPoolDetail_zero = ZfsPoolDetail [] [] [] [] [] 0 0 0 0 []"

section \<open>Endpoints\<close>

definition clusterResources :: "env \<Rightarrow> client \<Rightarrow> go_error + resource list" where
  "clusterResources env c =
     checked (Get (env_net env) (json_clusterResources (env_codec env)) [] c
       (''/api2/json/cluster/resources''))"

definition clusterStatus :: "env \<Rightarrow> client \<Rightarrow> go_error + clusterStatus list" where
  "clusterStatus env c =
     checked (Get (env_net env) (json_clusterStatus (env_codec env)) [] c
       (''/api2/json/cluster/status''))"

definition clusterBackupJobs :: "env \<Rightarrow> client \<Rightarrow> go_error + backupJob list" where
  "clusterBackupJobs env c =
     checked (Get (env_net env) (json_clusterBackupJobs (env_codec env)) [] c
       (''/api2/json/cluster/backup''))"

definition clusterHAResources :: "env \<Rightarrow> client \<Rightarrow> go_error + haResource list" where
  "clusterHAResources env c =
     checked (Get (env_net env) (json_clusterHAResources (env_codec env)) [] c
       (''/api2/json/cluster/ha/resources''))"

definition clusterReplications :: "env \<Rightarrow> client \<Rightarrow> go_error + replicationJob list" where
  "clusterReplications env c =
     checked (Get (env_net env) (json_clusterReplications (env_codec env)) [] c
       (''/api2/json/cluster/replication''))"

definition clusterOptions :: "env \<Rightarrow> client \<Rightarrow> go_error + json_map" where
  "clusterOptions env c =
     checked (Get (env_net env) (json_clusterOptions (env_codec env)) [] c
       (''/api2/json/cluster/options''))"

definition clusterStorage :: "env \<Rightarrow> client \<Rightarrow> go_error + storageConfig list" where
  "clusterStorage env c =
     checked (Get (env_net env) (json_clusterStorage (env_codec env)) [] c
       (''/api2/json/storage''))"

definition nodeStatus :: "env \<Rightarrow> client \<Rightarrow> string \<Rightarrow> go_error + nodeStatus" where
  "nodeStatus env c node =
     checked (Get (env_net env) (json_nodeStatus (env_codec env)) nodeStatus_zero c
       (node_path node ''/status''))"

definition nodePCI :: "env \<Rightarrow> client \<Rightarrow> string \<Rightarrow> go_error + pciDevice list" where
  "nodePCI env c node =
     checked (Get (env_net env) (json_nodePCI (env_codec env)) [] c
       (node_path node ''/hardware/pci''))"

definition nodeNetwork :: "env \<Rightarrow> client \<Rightarrow> string \<Rightarrow> go_error + networkInterface list" where
  "nodeNetwork env c node =
     checked (Get (env_net env) (json_nodeNetwork (env_codec env)) [] c
       (node_path node ''/network''))"

definition nodeServices :: "env \<Rightarrow> client \<Rightarrow> string \<Rightarrow> go_error + nodeService list" where
  "nodeServices env c node =
     checked (Get (env_net env) (json_nodeServices (env_codec env)) [] c
       (node_path node ''/services''))"

definition nodeDisks :: "env \<Rightarrow> client \<Rightarrow> string \<Rightarrow> go_error + nodeDisk list" where
  "nodeDisks env c node =
     checked (Get (env_net env) (json_nodeDisks (env_codec env)) [] c
       (node_path node ''/disks/list''))"

definition nodeTasks :: "env \<Rightarrow> client \<Rightarrow> string \<Rightarrow> go_error + nodeTask list" where
  "nodeTasks env c node =
     checked (Get (env_net env) (json_nodeTasks (env_codec env)) [] c
       (node_path node ''/tasks?limit=25''))"

definition replicationStatus :: "env \<Rightarrow> client \<Rightarrow> string \<Rightarrow> string \<Rightarrow> go_error + replicationStatus" where
  "replicationStatus env c node job =
     checked (Get (env_net env) (json_replicationStatus (env_codec env)) replicationStatus_zero c
       (node_path node (''/replication/'' @ path_escape job @ ''/status'')))"

definition nodeZFSPools :: "env \<Rightarrow> client \<Rightarrow> string \<Rightarrow> go_error + zfsPool list" where
  "nodeZFSPools env c node =
     checked (Get (env_net env) (json_nodeZFSPools (env_codec env)) [] c
       (node_path node ''/disks/zfs''))"

definition nodeZFSPoolDetail :: "env \<Rightarrow> client \<Rightarrow> string \<Rightarrow> string \<Rightarrow> go_error + zfsPoolDetail" where
  "nodeZFSPoolDetail env c node pool =
     checked (Get (env_net env) (json_nodeZFSPoolDetail (env_codec env)) zfsPoolDetail_zero c
       (node_path node (''/disks/zfs/'' @ path_escape pool)))"

definition nodeCertificates :: "env \<Rightarrow> client \<Rightarrow> string \<Rightarrow> go_error + nodeCertificate list" where
  "nodeCertificates env c node =
     checked (Get (env_net env) (json_nodeCertificates (env_codec env)) [] c
       (node_path node ''/certificates/info''))"

definition nodeRRDData :: "env \<Rightarrow> client \<Rightarrow> string \<Rightarrow> go_error + rrdPoint list" where
  "nodeRRDData env c node =
     checked (Get (env_net env) (json_nodeRRDData (env_codec env)) [] c
       (node_path node ''/rrddata?timeframe=hour&cf=AVERAGE''))"

definition nodeAPTUpdates :: "env \<Rightarrow> client \<Rightarrow> string \<Rightarrow> go_error + aptUpdate list" where
  "nodeAPTUpdates env c node =
     checked (Get (env_net env) (json_nodeAPTUpdates (env_codec env)) [] c
       (node_path node ''/apt/update''))"

definition nodeAPTRepositories :: "env \<Rightarrow> client \<Rightarrow> string \<Rightarrow> go_error + aptRepositories" where
  "nodeAPTRepositories env c node =
     checked (Get (env_net env) (json_nodeAPTRepositories (env_codec env)) aptRepositories_zero c
       (node_path node ''/apt/repositories''))"

definition nodeSubscription :: "env \<Rightarrow> client \<Rightarrow> string \<Rightarrow> go_error + subscriptionInfo" where
  "nodeSubscription env c node =
     checked (Get (env_net env) (json_nodeSubscription (env_codec env)) subscriptionInfo_zero c
       (node_path node ''/subscription''))"

definition guestConfig :: "env \<Rightarrow> client \<Rightarrow> string \<Rightarrow> string \<Rightarrow> string \<Rightarrow> go_error + json_map" where
  "guestConfig env c node type vmid =
     checked (Get (env_net env) (json_guestConfig (env_codec env)) [] c
       (guest_path node type vmid ''/config''))"

definition guestSnapshots :: "env \<Rightarrow> client \<Rightarrow> string \<Rightarrow> string \<Rightarrow> string \<Rightarrow> go_error + guestSnapshot list" where
  "guestSnapshots env c node type vmid =
     checked (Get (env_net env) (json_guestSnapshots (env_codec env)) [] c
       (guest_path node type vmid ''/snapshot''))"

definition guestStatus :: "env \<Rightarrow> client \<Rightarrow> string \<Rightarrow> string \<Rightarrow> string \<Rightarrow> go_error + guestStatus" where
  "guestStatus env c node type vmid =
     checked (Get (env_net env) (json_guestStatus (env_codec env)) guestStatus_zero c
       (guest_path node type vmid ''/status/current''))"

definition guestRRDData :: "env \<Rightarrow> client \<Rightarrow> string \<Rightarrow> string \<Rightarrow> string \<Rightarrow> go_error + rrdPoint list" where
  "guestRRDData env c node type vmid =
     checked (Get (env_net env) (json_guestRRDData (env_codec env)) [] c
       (guest_path node type vmid ''/rrddata?timeframe=hour&cf=AVERAGE''))"

definition containerInterfaces :: "env \<Rightarrow> client \<Rightarrow> string \<Rightarrow> string \<Rightarrow> go_error + containerInterface list" where
  "containerInterfaces env c node vmid =
     checked (Get (env_net env) (json_containerInterfaces (env_codec env)) [] c
       (node_path node (''/lxc/'' @ path_escape vmid @ ''/interfaces'')))"

definition storageContent :: "env \<Rightarrow> client \<Rightarrow> string \<Rightarrow> string \<Rightarrow> go_error + storageContent list" where
  "storageContent env c node storage =
     checked (Get (env_net env) (json_storageContent (env_codec env)) [] c
       (node_path node (''/storage/'' @ path_escape storage @ ''/content'')))"

text \<open>The capacity request of \<open>cephCluster\<close> may fail; what was decoded is used all the same.\<close>

definition cephCluster :: "env \<Rightarrow> client \<Rightarrow> go_error + cephcluster" where
  "cephCluster env c =
     (case checked (Get (env_net env) (json_cephStatus (env_codec env)) cephStatus_zero c
                      ''/api2/json/cluster/ceph/status'') of
        Inl e \<Rightarrow> Inl e
      | Inr status \<Rightarrow>
          Inr (ceph_display (env_arch env) c status
                 (fst (Get (env_net env) (json_cephDF (env_codec env)) cephDF_zero c
                         ''/api2/json/cluster/ceph/df''))))"

definition agent_path :: "string \<Rightarrow> string \<Rightarrow> string \<Rightarrow> string" where
  "agent_path node vmid rest = node_path node (''/qemu/'' @ path_escape vmid @ rest)"

definition agent_requests :: "env \<Rightarrow> client \<Rightarrow> string \<Rightarrow> string \<Rightarrow> agent_answers" where
  "agent_requests env c node vmid =
     (let net = env_net env; codec = env_codec env; path = agent_path node vmid
      in \<lparr>ans_info = checked (Get net (json_agentInfo codec) agentInfo_zero c (path ''/agent/info'')),
          ans_hostname = checked (Get net (json_agentHostname codec) agentHostname_zero c (path ''/agent/get-host-name'')),
          ans_osinfo = checked (Get net (json_agentOSInfo codec) agentOSInfo_zero c (path ''/agent/get-osinfo'')),
          ans_network = checked (Get net (json_agentNetworkInterfaces codec) agentNetworkInterfaces_zero c (path ''/agent/network-get-interfaces'')),
          ans_fsinfo = checked (Get net (json_agentFSInfo codec) agentFSInfo_zero c (path ''/agent/get-fsinfo''))\<rparr>)"

section \<open>Facts\<close>

text \<open>An escaped segment cannot leave its place in the path or start a query.\<close>

definition reserved :: "char set" where
  "reserved = set ''/?#''"

lemma escape_char_safe: "set (escape_char c) \<inter> reserved = {}"
proof (cases "path_char c")
  case True
  then have "c \<notin> reserved"
    by (auto simp: path_char_def is_digit_def less_eq_char_def reserved_def)
  with True show ?thesis by (simp add: escape_char_def)
next
  case False
  have hex: "ascii_upper x \<notin> reserved" if "x \<in> hex_alphabet" for x
    using that unfolding hex_alphabet_def reserved_def
    by (auto simp: ascii_upper_def less_eq_char_def char_of_def)
  have "of_char c div 16 < (16 :: nat)" "of_char c mod 16 < (16 :: nat)"
    using nat_of_char_less_256 [of c] by linarith+
  note hex [OF hex_digit_less16, OF this(1)] hex [OF hex_digit_less16, OF this(2)]
  moreover have "CHR 0x25 \<notin> reserved" by (simp add: reserved_def)
  ultimately show ?thesis using False by (simp add: escape_char_def)
qed

lemma path_escape_safe: "set (path_escape s) \<inter> reserved = {}"
  using escape_char_safe by (auto simp: path_escape_def)

text \<open>Escaping loses nothing: different names have different escapes.\<close>

lemma hex_upper_inj:
  "m < 16 \<Longrightarrow> n < 16 \<Longrightarrow> ascii_upper (hex_digit m) = ascii_upper (hex_digit n) \<Longrightarrow> m = n"
proof -
  have "map (ascii_upper \<circ> hex_digit) [0..<16] = ''0123456789ABCDEF''" by code_simp
  moreover have "distinct ''0123456789ABCDEF''" by simp
  ultimately have "inj_on (ascii_upper \<circ> hex_digit) (set [0..<16])" by (metis distinct_map)
  then show "m < 16 \<Longrightarrow> n < 16 \<Longrightarrow> ascii_upper (hex_digit m) = ascii_upper (hex_digit n) \<Longrightarrow> m = n"
    by (simp add: inj_on_def)
qed

lemma percent_not_path_char: "\<not> path_char (CHR 0x25)"
  by (simp add: path_char_def is_digit_def less_eq_char_def)

lemma escape_char_append:
  assumes "escape_char c @ r = escape_char d @ s"
  shows "c = d \<and> r = s"
proof (cases "path_char c \<or> path_char d")
  case True
  then show ?thesis
    using assms percent_not_path_char by (auto simp: escape_char_def split: if_splits)
next
  case False
  have lt: "of_char x div 16 < (16 :: nat)" "of_char x mod 16 < (16 :: nat)" for x :: char
    using nat_of_char_less_256 [of x] by linarith+
  from False assms have "of_char c div 16 = (of_char d div 16 :: nat)" "of_char c mod 16 = (of_char d mod 16 :: nat)"
      and rs: "r = s"
    by (auto simp: escape_char_def intro!: hex_upper_inj lt)
  then have "(of_char c :: nat) = of_char d" by (metis div_mult_mod_eq)
  then show ?thesis using rs by simp
qed

lemma path_escape_inj: "path_escape s = path_escape t \<Longrightarrow> s = t"
proof (induction s arbitrary: t)
  case Nil
  then show ?case by (cases t) (auto simp: path_escape_def escape_char_def split: if_splits)
next
  case (Cons c s)
  then obtain d t' where t: "t = d # t'"
    by (cases t) (auto simp: path_escape_def escape_char_def split: if_splits)
  with Cons.prems have "escape_char c @ path_escape s = escape_char d @ path_escape t'"
    by (simp add: path_escape_def)
  then show ?case using Cons.IH t escape_char_append by blast
qed

text \<open>A segment followed by a slash is determined by the path.\<close>

lemma segment_append:
  assumes "path_escape s @ CHR ''/'' # r = path_escape t @ CHR ''/'' # r'"
  shows "s = t \<and> r = r'"
proof -
  have "CHR ''/'' \<notin> set (path_escape x)" for x
    using path_escape_safe [of x] by (auto simp: reserved_def)
  then have "takeWhile (\<lambda>c. c \<noteq> CHR ''/'') (path_escape x @ CHR ''/'' # y) = path_escape x" for x y
    by (subst takeWhile_append2) auto
  then have "path_escape s = path_escape t" using assms by metis
  then show ?thesis using assms path_escape_inj by simp
qed

section \<open>Properties\<close>

text \<open>
  Each guest has endpoints of its own: whatever characters the names of its node and its ID
  contain, two requests of the same kind go to the same path only if they are for the same node,
  the same kind of guest and the same ID.  No name can redirect a request to another guest.
\<close>

theorem guest_endpoints_distinct:
  assumes "guest_path node type vmid (CHR ''/'' # rest) = guest_path node' type' vmid' (CHR ''/'' # rest)"
  shows "node = node' \<and> (type = ''lxc'' \<longleftrightarrow> type' = ''lxc'') \<and> vmid = vmid'"
proof -
  let ?k = "\<lambda>t::string. if t = ''lxc'' then ''lxc'' else ''qemu''"
  have *: "path_escape node @ CHR ''/'' # ?k type @ CHR ''/'' # path_escape vmid @ CHR ''/'' # rest
      = path_escape node' @ CHR ''/'' # ?k type' @ CHR ''/'' # path_escape vmid' @ CHR ''/'' # rest"
    using assms unfolding guest_path_def node_path_def by (simp only: append_Cons append_Nil list.inject simp_thms)
  note n = segment_append [OF *]
  then have k: "?k type = ?k type'" and v: "path_escape vmid @ CHR ''/'' # rest = path_escape vmid' @ CHR ''/'' # rest"
    by (auto split: if_splits)
  show ?thesis using n k segment_append [OF v] by (simp split: if_splits)
qed

lemma guest_endpoints_distinct_witness:
  "guest_path ''a/b'' ''qemu'' ''2'' ''/config'' = guest_path ''a/b'' ''kvm'' ''2'' ''/config'' \<and>
   (''qemu'' = ''lxc'' \<longleftrightarrow> ''kvm'' = ''lxc'')"
  using guest_endpoints_distinct [of "''a/b''" "''qemu''" "''2''" "''config''" "''a/b''" "''kvm''" "''2''"]
  by (simp add: guest_path_def)

end
