(* ===== verification/Collect_Source.thy ===== *)
theory Collect_Source
  imports Proxmox_Api "HOL-Library.AList"
begin

text \<open>
  \<open>collectSource\<close> (\<open>internal/proxmox/provider.go\<close>): everything the collector asks one Proxmox
  source, phase by phase.  The state under construction, the cluster row and the map of hosts by
  node are threaded through; \<open>hostByNode\<close> is an association list whose visiting order is the
  environment's.  The result is \<open>None\<close> when the Go program panics, which only the sampling of a
  series could do.  Every failed request leaves a capability record or a warning and goes on.
\<close>

section \<open>The collector\<close>

record source_collector =
  col_cfg :: config
  col_clients :: "client list"
  col_pinned :: "string \<Rightarrow> pinned_guest option"

text \<open>\<open>NewClient\<close> as an argument: it depends on the process environment and on files.\<close>

fun new_clients :: "(proxmox_host \<Rightarrow> go_error + client) \<Rightarrow> proxmox_host list \<Rightarrow> string + client list" where
  "new_clients mk [] = Inr []"
| "new_clients mk (h # hs) =
     (case mk h of
        Inl e \<Rightarrow> Inl (''create client '' @ pve_ID h @ '': '' @ error_text e)
      | Inr c \<Rightarrow> (case new_clients mk hs of Inl e \<Rightarrow> Inl e | Inr cs \<Rightarrow> Inr (c # cs)))"

definition pinned_map :: "pinned_guest list \<Rightarrow> string \<Rightarrow> pinned_guest option" where
  "pinned_map gs = fold (\<lambda>g m. m(pin_Source g @ ''/'' @ pin_ID g \<mapsto> g)) gs Map.empty"

definition NewCollector :: "(proxmox_host \<Rightarrow> go_error + client) \<Rightarrow> config \<Rightarrow> string + source_collector" where
  "NewCollector mk cfg =
     (case new_clients mk (cfg_Proxmox cfg) of
        Inl e \<Rightarrow> Inl e
      | Inr cs \<Rightarrow> Inr \<lparr>col_cfg = cfg, col_clients = cs,
                     col_pinned = pinned_map (gst_Pinned (cfg_Guests cfg))\<rparr>)"

section \<open>The source cannot be reached\<close>

definition unreachable_host :: "client \<Rightarrow> string \<Rightarrow> host" where
  "unreachable_host c msg = host_zero
     \<lparr>host_ID := client_id c @ ''/unreachable'', host_Name := client_name c,
      host_SourceID := client_id c, host_Node := client_name c, host_Online := False,
      host_Health := HealthCritical, host_Error := Some msg\<rparr>"

definition unreachable_alert :: "client \<Rightarrow> string \<Rightarrow> alert" where
  "unreachable_alert c msg = alert_zero
     \<lparr>alert_ID := client_id c @ ''/source-offline'', alert_SourceID := client_id c,
      alert_HostID := client_id c @ ''/unreachable'', alert_Severity := HealthCritical,
      alert_Title := client_name c @ '' offline'', alert_Message := msg\<rparr>"

definition source_unreachable :: "client \<Rightarrow> go_error \<Rightarrow> dstate \<Rightarrow> dstate" where
  "source_unreachable c err s =
     (let s = s\<lparr>dstate_Hosts := append_slice (dstate_Hosts s) [unreachable_host c (error_text err)]\<rparr>
      in add_alert (unreachable_alert c (error_text err)) s)"

section \<open>Cluster\<close>

definition base_cluster :: "client \<Rightarrow> cluster" where
  "base_cluster c = cluster_zero
     \<lparr>cluster_ID := client_id c, cluster_SourceID := client_id c, cluster_Name := client_name c,
      cluster_Health := HealthOK, cluster_Quorate := True\<rparr>"

definition cluster_capability :: "client \<Rightarrow> string \<Rightarrow> string \<Rightarrow> go_error option \<Rightarrow> dstate \<Rightarrow> dstate" where
  "cluster_capability c name endpoint err = addCapability (client_id c) '''' '''' name endpoint err"

definition quorum_alert :: "client \<Rightarrow> alert" where
  "quorum_alert c = alert_zero
     \<lparr>alert_ID := client_id c @ ''/cluster-quorum'', alert_SourceID := client_id c,
      alert_Severity := HealthCritical, alert_Title := client_name c @ '' quorum'',
      alert_Message := ''cluster is not quorate''\<rparr>"

definition collect_cluster_status :: "env \<Rightarrow> client \<Rightarrow> dstate \<times> cluster \<Rightarrow> dstate \<times> cluster" where
  "collect_cluster_status env c sc =
     (let (s, cl) = sc; cap = cluster_capability c ''cluster_status'' ''/api2/json/cluster/status''
      in case clusterStatus env c of
           Inr statuses \<Rightarrow>
             (let s = cap None s; cl = applyClusterStatus statuses cl
              in if \<not> cluster_Quorate cl
                 then (add_alert (quorum_alert c) s, cl\<lparr>cluster_Health := HealthCritical\<rparr>)
                 else (s, cl))
         | Inl e \<Rightarrow> (cap (Some e) s, addClusterWarning ''cluster status unavailable'' cl))"

definition collect_cluster_options :: "env \<Rightarrow> client \<Rightarrow> dstate \<times> cluster \<Rightarrow> dstate \<times> cluster" where
  "collect_cluster_options env c sc =
     (let (s, cl) = sc; cap = cluster_capability c ''cluster_options'' ''/api2/json/cluster/options''
      in case clusterOptions env c of
           Inr opts \<Rightarrow>
             (let s = cap None s
              in (s\<lparr>dstate_ClusterOptions := append_slice (dstate_ClusterOptions s) (clusterOptionsDisplay c opts)\<rparr>,
                  cl))
         | Inl e \<Rightarrow> (cap (Some e) s, addClusterWarning ''cluster options unavailable'' cl))"

definition collect_backup_jobs :: "env \<Rightarrow> client \<Rightarrow> dstate \<times> cluster \<Rightarrow> dstate \<times> cluster" where
  "collect_backup_jobs env c sc =
     (let (s, cl) = sc; cap = cluster_capability c ''backup_jobs'' ''/api2/json/cluster/backup''
      in case clusterBackupJobs env c of
           Inr jobs \<Rightarrow>
             (let s = cap None s
              in (s\<lparr>dstate_BackupJobs := append_slice (dstate_BackupJobs s) (map (backupJobDisplay c) jobs)\<rparr>, cl))
         | Inl e \<Rightarrow> (cap (Some e) s, addClusterWarning ''backup jobs unavailable'' cl))"

text \<open>The health values that raise an alert.\<close>

definition is_issue :: "health \<Rightarrow> bool" where
  "is_issue h \<longleftrightarrow> h = HealthWarning \<or> h = HealthCritical"

definition ha_alert :: "client \<Rightarrow> haresource \<Rightarrow> alert" where
  "ha_alert c d = alert_zero
     \<lparr>alert_ID := haresource_ID d @ ''/ha'', alert_SourceID := client_id c,
      alert_Severity := haresource_Health d, alert_Title := client_name c @ '' HA '' @ haresource_SID d,
      alert_Message := firstNonEmpty [haresource_State d, haresource_RequestState d, ''not ok'']\<rparr>"

definition ha_step :: "client \<Rightarrow> haResource \<Rightarrow> dstate \<times> cluster \<Rightarrow> dstate \<times> cluster" where
  "ha_step c r sc =
     (let (s, cl) = sc; d = haResourceDisplay c r;
          (s, cl) = (if is_issue (haresource_Health d)
                     then (add_alert (ha_alert c d) s,
                           cl\<lparr>cluster_Health := maxHealth (cluster_Health cl) (haresource_Health d)\<rparr>)
                     else (s, cl))
      in (s\<lparr>dstate_HAResources := append_slice (dstate_HAResources s) [d]\<rparr>, cl))"

definition collect_ha :: "env \<Rightarrow> client \<Rightarrow> dstate \<times> cluster \<Rightarrow> dstate \<times> cluster" where
  "collect_ha env c sc =
     (let (s, cl) = sc; cap = cluster_capability c ''ha_resources'' ''/api2/json/cluster/ha/resources''
      in case clusterHAResources env c of
           Inr rs \<Rightarrow> fold (ha_step c) rs (cap None s, cl)
         | Inl e \<Rightarrow> (cap (Some e) s, addClusterWarning ''HA unavailable'' cl))"

definition ceph_alert :: "client \<Rightarrow> cephcluster \<Rightarrow> alert" where
  "ceph_alert c d = alert_zero
     \<lparr>alert_ID := cephcluster_ID d @ ''/health'', alert_SourceID := client_id c,
      alert_Severity := cephcluster_Health d, alert_Title := client_name c @ '' Ceph'',
      alert_Message := firstNonEmpty [cephcluster_HealthText d, ''not healthy'']\<rparr>"

definition collect_ceph :: "env \<Rightarrow> client \<Rightarrow> dstate \<times> cluster \<Rightarrow> dstate \<times> cluster" where
  "collect_ceph env c sc =
     (let (s, cl) = sc; cap = cluster_capability c ''ceph'' ''/api2/json/cluster/ceph/status''
      in case cephCluster env c of
           Inr d \<Rightarrow>
             (let s = cap None s;
                  (s, cl) = (if is_issue (cephcluster_Health d)
                             then (add_alert (ceph_alert c d) s,
                                   cl\<lparr>cluster_Health := maxHealth (cluster_Health cl) (cephcluster_Health d)\<rparr>)
                             else (s, cl))
              in (s\<lparr>dstate_CephClusters := append_slice (dstate_CephClusters s) [d]\<rparr>, cl))
         | Inl e \<Rightarrow> (cap (Some e) s, cl))"

text \<open>The storage configurations by name; a later entry replaces an earlier one.\<close>

definition collect_storage_config ::
    "env \<Rightarrow> client \<Rightarrow> dstate \<times> cluster \<Rightarrow> (dstate \<times> cluster) \<times> (string \<Rightarrow> storageConfig option)" where
  "collect_storage_config env c sc =
     (let (s, cl) = sc; cap = cluster_capability c ''storage_config'' ''/api2/json/storage''
      in case clusterStorage env c of
           Inr configs \<Rightarrow>
             ((cap None s, cl), fold (\<lambda>cfg m. m(storageConfig_Storage cfg \<mapsto> cfg)) configs Map.empty)
         | Inl e \<Rightarrow> ((cap (Some e) s, addClusterWarning ''storage config unavailable'' cl), Map.empty))"

definition collect_cluster ::
    "env \<Rightarrow> client \<Rightarrow> dstate \<Rightarrow> (dstate \<times> cluster) \<times> (string \<Rightarrow> storageConfig option)" where
  "collect_cluster env c s =
     collect_storage_config env c (collect_ceph env c (collect_ha env c (collect_backup_jobs env c
       (collect_cluster_options env c (collect_cluster_status env c (s, base_cluster c))))))"

section \<open>Hosts\<close>

type_synonym host_map = "(string \<times> host) list"

definition base_host :: "arch \<Rightarrow> client \<Rightarrow> resource \<Rightarrow> host" where
  "base_host a c r =
     (let nodeName = firstNonEmpty [resource_Node r, resource_Name r];
          nodeName = (if nodeName = '''' then client_name c else nodeName);
          online = (resource_Status r = ''online'' \<or> resource_Status r = '''')
      in host_zero
           \<lparr>host_ID := client_id c @ ''/'' @ nodeName, host_Name := displayName (client_name c) nodeName,
            host_SourceID := client_id c, host_Node := nodeName, host_Online := online,
            host_CPUPct := pctFloat a (resource_CPU r), host_MaxCPU := resource_MaxCPU r,
            host_MemoryPct := pctInt64 a (resource_Mem r) (resource_MaxMem r),
            host_MemoryUsedBytes := resource_Mem r, host_MemoryTotalBytes := resource_MaxMem r,
            host_StoragePct := pctInt64 a (resource_Disk r) (resource_MaxDisk r),
            host_StorageUsedBytes := resource_Disk r, host_StorageTotalBytes := resource_MaxDisk r,
            host_StorageMaxPct := pctInt64 a (resource_Disk r) (resource_MaxDisk r),
            host_UptimeSec := resource_Uptime r,
            host_Health := (if online then HealthOK else HealthCritical)\<rparr>)"

definition base_hosts :: "arch \<Rightarrow> client \<Rightarrow> resource list \<Rightarrow> host_map" where
  "base_hosts a c resources =
     fold (\<lambda>r hosts. let h = base_host a c r in AList.update (host_Node h) h hosts)
       (filter (\<lambda>r. resource_Type r = ''node'') resources) []"

section \<open>One node\<close>

text \<open>The endpoint named in a capability record is the unescaped path.\<close>

definition node_capability ::
    "client \<Rightarrow> host \<Rightarrow> string \<Rightarrow> string \<Rightarrow> go_error option \<Rightarrow> dstate \<Rightarrow> dstate" where
  "node_capability c h name endpoint err =
     addCapability (client_id c) (host_ID h) '''' name endpoint err"

definition node_endpoint :: "string \<Rightarrow> string \<Rightarrow> string" where
  "node_endpoint node rest = ''/api2/json/nodes/'' @ node @ rest"

definition apply_node_status :: "arch \<Rightarrow> nodeStatus \<Rightarrow> host \<Rightarrow> host" where
  "apply_node_status a st h =
     (let memory = nodeStatus_Memory_Total st > 0; swap = nodeStatus_Swap_Total st > 0;
          root = nodeStatus_RootFS_Total st > 0
      in h\<lparr>host_CPUPct := (case nodeStatus_CPU st of None \<Rightarrow> host_CPUPct h | Some v \<Rightarrow> pctFloat a v),
           host_MemoryPct := (if memory then pctInt64 a (nodeStatus_Memory_Used st) (nodeStatus_Memory_Total st)
                              else host_MemoryPct h),
           host_MemoryUsedBytes := (if memory then nodeStatus_Memory_Used st else host_MemoryUsedBytes h),
           host_MemoryTotalBytes := (if memory then nodeStatus_Memory_Total st else host_MemoryTotalBytes h),
           host_MemoryAvailableBytes := (if memory then nodeStatus_Memory_Available st
                                         else host_MemoryAvailableBytes h),
           host_SwapPct := (if swap then pctInt64 a (nodeStatus_Swap_Used st) (nodeStatus_Swap_Total st)
                            else host_SwapPct h),
           host_SwapUsedBytes := (if swap then nodeStatus_Swap_Used st else host_SwapUsedBytes h),
           host_SwapTotalBytes := (if swap then nodeStatus_Swap_Total st else host_SwapTotalBytes h),
           host_StoragePct := (if root then pctInt64 a (nodeStatus_RootFS_Used st) (nodeStatus_RootFS_Total st)
                               else host_StoragePct h),
           host_StorageUsedBytes := (if root then nodeStatus_RootFS_Used st else host_StorageUsedBytes h),
           host_StorageTotalBytes := (if root then nodeStatus_RootFS_Total st else host_StorageTotalBytes h),
           host_IOWaitPct := pctFloat a (nodeStatus_Wait st),
           host_KSMSharedBytes := nodeStatus_KSM_Shared st,
           host_UptimeSec := positive_or (nodeStatus_Uptime st) (host_UptimeSec h),
           host_MaxCPU := positive_or (nodeStatus_CPUInfo_CPUs st) (host_MaxCPU h),
           host_CPUModel := nodeStatus_CPUInfo_Model st, host_LoadAvg := nodeStatus_LoadAvg st,
           host_PVEVersion := nodeStatus_PVEVersion st,
           host_KernelVersion := firstNonEmpty [nodeStatus_KVersion st, nodeStatus_CurrentKernel_Release st]\<rparr>)"

definition collect_node_status :: "env \<Rightarrow> client \<Rightarrow> string \<Rightarrow> host \<Rightarrow> host" where
  "collect_node_status env c node h =
     (case Proxmox_Api.nodeStatus env c node of
        Inr st \<Rightarrow> apply_node_status (env_arch env) st h
      | Inl _ \<Rightarrow> h)"

text \<open>An alert about a host; \<open>raise_host\<close> is \<open>host.Health = maxHealth(host.Health, ...)\<close>.\<close>

definition host_alert :: "string \<Rightarrow> string \<Rightarrow> string \<Rightarrow> health \<Rightarrow> string \<Rightarrow> string \<Rightarrow> alert" where
  "host_alert ident source hostID severity title message = alert_zero
     \<lparr>alert_ID := ident, alert_SourceID := source, alert_HostID := hostID, alert_Severity := severity,
      alert_Title := title, alert_Message := message\<rparr>"

definition raise_host :: "health \<Rightarrow> host \<Rightarrow> host" where
  "raise_host v h = h\<lparr>host_Health := maxHealth (host_Health h) v\<rparr>"

definition certificate_step ::
    "env \<Rightarrow> client \<Rightarrow> string \<Rightarrow> nat \<times> nodeCertificate \<Rightarrow> dstate \<times> host \<Rightarrow> dstate \<times> host" where
  "certificate_step env c node ic sh =
     (let (s, h) = sh;
          d = certificateDisplay (env_arch env) c h (snd ic) (env_clock env (''certificate/'' @ node) (fst ic));
          v = certificate_Health d;
          (s, h) = (if is_issue v
                    then let h = raise_host v h
                         in (add_alert (host_alert (certificate_ID d @ ''/expiry'') (client_id c) (host_ID h) v
                               (host_Name h @ '' cert '' @ certificate_Filename d)
                               (''expires in '' @ itoa (certificate_DaysRemaining d) @ '' days'')) s, h)
                    else (s, h))
      in (s\<lparr>dstate_Certificates := append_slice (dstate_Certificates s) [d]\<rparr>, h))"

definition collect_certificates :: "env \<Rightarrow> client \<Rightarrow> string \<Rightarrow> dstate \<times> host \<Rightarrow> dstate \<times> host" where
  "collect_certificates env c node sh =
     (let (s, h) = sh;
          cap = node_capability c h ''node_certificates'' (node_endpoint node ''/certificates/info'')
      in case nodeCertificates env c node of
           Inr certs \<Rightarrow> fold (certificate_step env c node) (enumerate 0 certs) (cap None s, h)
         | Inl e \<Rightarrow> (cap (Some e) s, addDataWarning ''certificates unavailable'' h))"

definition collect_node_rrd :: "env \<Rightarrow> client \<Rightarrow> string \<Rightarrow> dstate \<times> host \<Rightarrow> (dstate \<times> host) option" where
  "collect_node_rrd env c node sh =
     (let (s, h) = sh; cap = node_capability c h ''node_rrd'' (node_endpoint node ''/rrddata'')
      in case nodeRRDData env c node of
           Inr rrd \<Rightarrow>
             (case nodeMetricTrends (env_arch env) c h rrd of
                None \<Rightarrow> None
              | Some ts \<Rightarrow>
                  (let s = cap None s
                   in Some (s\<lparr>dstate_MetricTrends := append_slice (dstate_MetricTrends s) ts\<rparr>, h)))
         | Inl e \<Rightarrow> Some (cap (Some e) s, addDataWarning ''node trend unavailable'' h))"

definition collect_pci :: "env \<Rightarrow> client \<Rightarrow> string \<Rightarrow> host \<Rightarrow> host" where
  "collect_pci env c node h =
     (case nodePCI env c node of
        Inr devices \<Rightarrow>
          (case summarizeGPUs devices of (n, summary) \<Rightarrow> h\<lparr>host_GPUCount := n, host_GPUSummary := summary\<rparr>)
      | Inl _ \<Rightarrow> addDataWarning ''pci unavailable'' h)"

definition collect_network :: "env \<Rightarrow> client \<Rightarrow> string \<Rightarrow> dstate \<times> host \<Rightarrow> dstate \<times> host" where
  "collect_network env c node sh =
     (let (s, h) = sh
      in case nodeNetwork env c node of
           Inr ns \<Rightarrow>
             (case summarizeNetwork ns of (whole, active, primary) \<Rightarrow>
                let h = h\<lparr>host_NetworkTotal := whole, host_NetworkActive := active,
                          host_PrimaryAddress := primary\<rparr>;
                    shown = filter (\<lambda>n. \<not> (networkInterface_Iface n = '''' \<or> networkInterface_Iface n = ''lo'')) ns
                in (s\<lparr>dstate_Networks := append_slice (dstate_Networks s) (map (networkDisplay c h) shown)\<rparr>, h))
         | Inl _ \<Rightarrow> (s, addDataWarning ''network unavailable'' h))"

definition collect_services :: "env \<Rightarrow> client \<Rightarrow> string \<Rightarrow> dstate \<times> host \<Rightarrow> dstate \<times> host" where
  "collect_services env c node sh =
     (let (s, h) = sh
      in case nodeServices env c node of
           Inr ss \<Rightarrow>
             (case summarizeServices ss of (whole, running, failed) \<Rightarrow>
                let h = h\<lparr>host_ServicesTotal := whole, host_ServicesRunning := running,
                          host_ServicesFailed := failed\<rparr>;
                    shown = filter (\<lambda>d. service_Name d \<noteq> '''') (map (serviceDisplay c h) ss);
                    s = s\<lparr>dstate_Services := append_slice (dstate_Services s) shown\<rparr>
                in if failed > 0
                   then let h = raise_host HealthWarning h
                        in (add_alert (host_alert (host_ID h @ ''/services-failed'') (host_SourceID h) (host_ID h)
                              HealthWarning (host_Name h @ '' services'') (itoa failed @ '' failed services'')) s, h)
                   else (s, h))
         | Inl _ \<Rightarrow> (s, addDataWarning ''services unavailable'' h))"

definition zfs_pool_with_detail :: "env \<Rightarrow> client \<Rightarrow> string \<Rightarrow> host \<Rightarrow> zfsPool \<Rightarrow> dstate \<Rightarrow> dstate \<times> zfspool" where
  "zfs_pool_with_detail env c node h pool s =
     (let d = zfsPoolDisplay c h pool
      in case nodeZFSPoolDetail env c node (zfspool_Name d) of
           Inr detail \<Rightarrow> (s, applyZFSPoolDetail detail d)
         | Inl e \<Rightarrow> (node_capability c h ''zfs_pool_detail''
                        (node_endpoint node (''/disks/zfs/'' @ zfspool_Name d)) (Some e) s, d))"

definition zfs_step :: "env \<Rightarrow> client \<Rightarrow> string \<Rightarrow> zfsPool \<Rightarrow> dstate \<times> host \<Rightarrow> dstate \<times> host" where
  "zfs_step env c node pool sh =
     (let (s, h) = sh; (s, d) = zfs_pool_with_detail env c node h pool s; v = zfspool_Health d;
          (s, h) = (if is_issue v
                    then let h = raise_host v h
                         in (add_alert (host_alert (zfspool_ID d @ ''/zfs'') (client_id c) (host_ID h) v
                               (host_Name h @ '' ZFS '' @ zfspool_Name d)
                               (firstNonEmpty [zfspool_HealthText d, zfspool_Status d, ''not healthy''])) s, h)
                    else (s, h))
      in (s\<lparr>dstate_ZFSPools := append_slice (dstate_ZFSPools s) [d]\<rparr>, h))"

definition collect_zfs :: "env \<Rightarrow> client \<Rightarrow> string \<Rightarrow> dstate \<times> host \<Rightarrow> dstate \<times> host" where
  "collect_zfs env c node sh =
     (let (s, h) = sh; cap = node_capability c h ''zfs_pools'' (node_endpoint node ''/disks/zfs'')
      in case nodeZFSPools env c node of
           Inr pools \<Rightarrow> fold (zfs_step env c node) pools (cap None s, h)
         | Inl e \<Rightarrow> (cap (Some e) s, addDataWarning ''zfs unavailable'' h))"

definition collect_updates :: "env \<Rightarrow> client \<Rightarrow> string \<Rightarrow> dstate \<times> host \<Rightarrow> dstate \<times> host" where
  "collect_updates env c node sh =
     (let (s, h) = sh; cap = node_capability c h ''apt_updates'' (node_endpoint node ''/apt/update'')
      in case nodeAPTUpdates env c node of
           Inr us \<Rightarrow>
             (let s = cap None s; h = h\<lparr>host_UpdatesAvailable := int (length us)\<rparr>
              in (s\<lparr>dstate_Updates := append_slice (dstate_Updates s) (map (updateDisplay c h) us)\<rparr>, h))
         | Inl e \<Rightarrow> (cap (Some e) s, addDataWarning ''updates unavailable'' h))"

definition collect_repositories :: "env \<Rightarrow> client \<Rightarrow> string \<Rightarrow> dstate \<times> host \<Rightarrow> dstate \<times> host" where
  "collect_repositories env c node sh =
     (let (s, h) = sh; cap = node_capability c h ''apt_repositories'' (node_endpoint node ''/apt/repositories'')
      in case nodeAPTRepositories env c node of
           Inr repos \<Rightarrow>
             (let s = cap None s
              in (s\<lparr>dstate_Repositories := append_slice (dstate_Repositories s) (repositoriesDisplay c h repos)\<rparr>, h))
         | Inl e \<Rightarrow> (cap (Some e) s, addDataWarning ''repositories unavailable'' h))"

definition collect_subscription :: "env \<Rightarrow> client \<Rightarrow> string \<Rightarrow> dstate \<times> host \<Rightarrow> dstate \<times> host" where
  "collect_subscription env c node sh =
     (let (s, h) = sh; cap = node_capability c h ''subscription'' (node_endpoint node ''/subscription'')
      in case nodeSubscription env c node of
           Inr sub \<Rightarrow>
             (let s = cap None s; d = subscriptionDisplay c h sub;
                  h = h\<lparr>host_SubscriptionStatus := subscription_Status d\<rparr>;
                  h = (if subscription_Health d = HealthWarning then raise_host HealthWarning h else h)
              in (s\<lparr>dstate_Subscriptions := append_slice (dstate_Subscriptions s) [d]\<rparr>, h))
         | Inl e \<Rightarrow> (cap (Some e) s, addDataWarning ''subscription unavailable'' h))"

definition disk_display :: "client \<Rightarrow> string \<Rightarrow> host \<Rightarrow> nodeDisk \<Rightarrow> disk" where
  "disk_display c node h d =
     (let smart = firstNonEmpty [nodeDisk_Health d, nodeDisk_SMARTHealth d]
      in disk_zero
           \<lparr>disk_ID := client_id c @ ''/'' @ node @ ''/'' @ diskName d, disk_SourceID := client_id c,
            disk_HostID := host_ID h, disk_HostName := host_Name h, disk_Node := node,
            disk_Name := diskName d, disk_Model := firstNonEmpty [nodeDisk_Model d, nodeDisk_Vendor d],
            disk_Serial := nodeDisk_Serial d, disk_Type := nodeDisk_Type d,
            disk_UsedBy := stringify (nodeDisk_Used d), disk_SizeBytes := nodeDisk_Size d,
            disk_SMARTHealth := smart, disk_WearoutPct := nodeDisk_Wearout d,
            disk_Health := diskHealth smart (nodeDisk_Wearout d)\<rparr>)"

definition disk_step :: "client \<Rightarrow> string \<Rightarrow> nodeDisk \<Rightarrow> dstate \<times> host \<Rightarrow> dstate \<times> host" where
  "disk_step c node d sh =
     (let (s, h) = sh; dd = disk_display c node h d; v = disk_Health dd;
          h = h\<lparr>host_DiskCount := host_DiskCount h + 1\<rparr>;
          h = (if is_issue v then raise_host v (h\<lparr>host_DiskIssues := host_DiskIssues h + 1\<rparr>) else h)
      in (s\<lparr>dstate_Disks := append_slice (dstate_Disks s) [dd]\<rparr>, h))"

definition collect_disks :: "env \<Rightarrow> client \<Rightarrow> string \<Rightarrow> dstate \<times> host \<Rightarrow> dstate \<times> host" where
  "collect_disks env c node sh =
     (let (s, h) = sh
      in case nodeDisks env c node of
           Inr ds \<Rightarrow> fold (disk_step c node) ds (s, h)
         | Inl _ \<Rightarrow> (s, addDataWarning ''disks unavailable'' h))"

text \<open>The body of the first loop over the hosts, in the order of the code.\<close>

definition collect_node :: "env \<Rightarrow> client \<Rightarrow> string \<Rightarrow> dstate \<times> host \<Rightarrow> (dstate \<times> host) option" where
  "collect_node env c node sh =
     (let (s, h) = sh; h = collect_node_status env c node h
      in case collect_node_rrd env c node (collect_certificates env c node (s, h)) of
           None \<Rightarrow> None
         | Some (s, h) \<Rightarrow>
             Some (collect_disks env c node (collect_subscription env c node
               (collect_repositories env c node (collect_updates env c node (collect_zfs env c node
                 (collect_services env c node (collect_network env c node (s, collect_pci env c node h)))))))))"

fun collect_nodes ::
    "env \<Rightarrow> client \<Rightarrow> string list \<Rightarrow> dstate \<times> host_map \<Rightarrow> (dstate \<times> host_map) option" where
  "collect_nodes env c [] sh = Some sh"
| "collect_nodes env c (node # nodes) (s, hosts) =
     (case map_of hosts node of
        None \<Rightarrow> collect_nodes env c nodes (s, hosts)
      | Some h \<Rightarrow>
          (case collect_node env c node (s, h) of
             None \<Rightarrow> None
           | Some (s, h) \<Rightarrow> collect_nodes env c nodes (s, AList.update node h hosts)))"

section \<open>Storages\<close>

definition base_storage :: "arch \<Rightarrow> client \<Rightarrow> resource \<Rightarrow> storage" where
  "base_storage a c r =
     (let nodeName = firstNonEmpty [resource_Node r, ''pve''];
          storageName = firstNonEmpty [resource_Storage r,
                          trim_prefix (resource_ID r) (''storage/'' @ nodeName @ ''/'')]
      in storage_zero
           \<lparr>storage_ID := client_id c @ ''/'' @ nodeName @ ''/'' @ storageName, storage_Name := storageName,
            storage_SourceID := client_id c, storage_HostID := client_id c @ ''/'' @ nodeName,
            storage_HostName := displayName (client_name c) nodeName, storage_Node := nodeName,
            storage_Status := firstNonEmpty [resource_Status r, ''unknown''],
            storage_PluginType := resource_PluginType r, storage_Content := resource_Content r,
            storage_Shared := (resource_Shared r \<noteq> 0),
            storage_DiskPct := pctInt64 a (resource_Disk r) (resource_MaxDisk r),
            storage_DiskUsedBytes := resource_Disk r, storage_DiskTotalBytes := resource_MaxDisk r,
            storage_Health := HealthOK\<rparr>)"

definition storage_item_step :: "client \<Rightarrow> storageContent \<Rightarrow> dstate \<times> storage \<Rightarrow> dstate \<times> storage" where
  "storage_item_step c item ss =
     (let (s, st) = ss; d = storageItemDisplay c st item
      in (s\<lparr>dstate_StorageItems := append_slice (dstate_StorageItems s) [d]\<rparr>, applyStorageItemSummary d st))"

definition collect_storage_content :: "env \<Rightarrow> client \<Rightarrow> dstate \<times> storage \<Rightarrow> dstate \<times> storage" where
  "collect_storage_content env c ss =
     (let (s, st) = ss;
          cap = addCapability (client_id c) (storage_HostID st) '''' ''storage_content''
                  (node_endpoint (storage_Node st) (''/storage/'' @ storage_Name st @ ''/content''))
      in if storageContentQueryable st
         then case Proxmox_Api.storageContent env c (storage_Node st) (storage_Name st) of
                Inr items \<Rightarrow> fold (storage_item_step c) items (cap None s, st)
              | Inl e \<Rightarrow> (cap (Some e) s, st)
         else (s, st))"

text \<open>The fullest storage of a node shows on its host.\<close>

definition storage_on_host :: "storage \<Rightarrow> host_map \<Rightarrow> host_map" where
  "storage_on_host st hosts =
     (case map_of hosts (storage_Node st) of
        None \<Rightarrow> hosts
      | Some h \<Rightarrow>
          if storage_DiskPct st \<ge> host_StorageMaxPct h
          then AList.update (storage_Node st)
                 (h\<lparr>host_StorageMaxPct := storage_DiskPct st, host_StorageMaxName := storage_Name st\<rparr>) hosts
          else hosts)"

definition collect_storage ::
    "env \<Rightarrow> source_collector \<Rightarrow> client \<Rightarrow> (string \<Rightarrow> storageConfig option) \<Rightarrow> resource
      \<Rightarrow> dstate \<times> host_map \<Rightarrow> dstate \<times> host_map" where
  "collect_storage env col c configs r sh =
     (let (s, hosts) = sh; st = base_storage (env_arch env) c r;
          st = (case configs (storage_Name st) of None \<Rightarrow> st | Some cfg \<Rightarrow> applyStorageConfig cfg st);
          (s, st) = collect_storage_content env c (s, st);
          (s, st) = applyStorageAlerts (cfg_Alerts (col_cfg col)) (s, st);
          hosts = storage_on_host st hosts
      in (s\<lparr>dstate_Storages := append_slice (dstate_Storages s) [st]\<rparr>, hosts))"

section \<open>Guests\<close>

definition guest_vmid :: "resource \<Rightarrow> string" where
  "guest_vmid r =
     (let vmid = itoa (resource_VMID r)
      in if vmid = ''0'' \<and> resource_ID r \<noteq> '''' then trim_prefix (resource_ID r) (resource_Type r @ ''/'')
         else vmid)"

definition pin_zero :: pinned_guest where
  "pin_zero = \<lparr>pin_Source = '''', pin_ID = '''', pin_Label = '''', pin_Expected = ''''\<rparr>"

definition base_guest :: "arch \<Rightarrow> client \<Rightarrow> pinned_guest option \<Rightarrow> resource \<Rightarrow> guest" where
  "base_guest a c pinned r =
     (let vmid = guest_vmid r; pin = (case pinned of None \<Rightarrow> pin_zero | Some p \<Rightarrow> p)
      in guest_zero
           \<lparr>guest_ID := client_id c @ ''/'' @ vmid, guest_VMID := vmid,
            guest_Name := firstNonEmpty [pin_Label pin, resource_Name r, vmid],
            guest_Type := resource_Type r, guest_HostID := client_id c @ ''/'' @ resource_Node r,
            guest_HostName := displayName (client_name c) (resource_Node r),
            guest_SourceID := client_id c, guest_Status := firstNonEmpty [resource_Status r, ''unknown''],
            guest_CPUPct := pctFloat a (resource_CPU r), guest_MaxCPU := resource_MaxCPU r,
            guest_MemoryPct := pctInt64 a (resource_Mem r) (resource_MaxMem r),
            guest_MemoryUsedBytes := resource_Mem r, guest_MemoryTotalBytes := resource_MaxMem r,
            guest_DiskPct := pctInt64 a (resource_Disk r) (resource_MaxDisk r),
            guest_DiskUsedBytes := resource_Disk r, guest_DiskTotalBytes := resource_MaxDisk r,
            guest_UptimeSec := resource_Uptime r, guest_NetInBytes := resource_NetIn r,
            guest_NetOutBytes := resource_NetOut r, guest_DiskReadBytes := resource_DiskRead r,
            guest_DiskWriteBytes := resource_DiskWrite r, guest_Tags := resource_Tags r,
            guest_Pinned := (pinned \<noteq> None), guest_Expected := pin_Expected pin,
            guest_Health := HealthOK\<rparr>)"

definition guest_capability ::
    "client \<Rightarrow> guest \<Rightarrow> string \<Rightarrow> string \<Rightarrow> go_error option \<Rightarrow> dstate \<Rightarrow> dstate" where
  "guest_capability c g name endpoint err =
     addCapability (client_id c) (guest_HostID g) (guest_ID g) name endpoint err"

definition guest_endpoint :: "resource \<Rightarrow> string \<Rightarrow> string \<Rightarrow> string" where
  "guest_endpoint r vmid rest =
     node_endpoint (resource_Node r) (''/'' @ resource_Type r @ ''/'' @ vmid @ rest)"

definition collect_guest_config :: "env \<Rightarrow> client \<Rightarrow> resource \<Rightarrow> guest \<Rightarrow> guest" where
  "collect_guest_config env c r g =
     (case guestConfig env c (resource_Node r) (resource_Type r) (guest_VMID g) of
        Inr cfg \<Rightarrow> applyGuestConfig (env_arch env) (env_sort env) cfg g
      | Inl _ \<Rightarrow> g\<lparr>guest_ConfigWarning := ''config unavailable''\<rparr>)"

definition collect_guest_status :: "env \<Rightarrow> client \<Rightarrow> resource \<Rightarrow> dstate \<times> guest \<Rightarrow> dstate \<times> guest" where
  "collect_guest_status env c r sg =
     (let (s, g) = sg;
          cap = guest_capability c g ''guest_status'' (guest_endpoint r (guest_VMID g) ''/status/current'')
      in case Proxmox_Api.guestStatus env c (resource_Node r) (resource_Type r) (guest_VMID g) of
           Inr current \<Rightarrow> (cap None s, applyGuestStatus (env_arch env) current g)
         | Inl e \<Rightarrow> (cap (Some e) s,
                     g\<lparr>guest_ConfigWarning := firstNonEmpty [guest_ConfigWarning g, ''status unavailable'']\<rparr>))"

definition collect_guest_rrd :: "env \<Rightarrow> client \<Rightarrow> resource \<Rightarrow> guest \<Rightarrow> dstate \<Rightarrow> dstate option" where
  "collect_guest_rrd env c r g s =
     (let cap = guest_capability c g ''guest_rrd'' (guest_endpoint r (guest_VMID g) ''/rrddata'')
      in case guestRRDData env c (resource_Node r) (resource_Type r) (guest_VMID g) of
           Inr rrd \<Rightarrow>
             (case guestMetricTrends (env_arch env) c g rrd of
                None \<Rightarrow> None
              | Some ts \<Rightarrow>
                  (let s = cap None s
                   in Some (s\<lparr>dstate_MetricTrends := append_slice (dstate_MetricTrends s) ts\<rparr>)))
         | Inl e \<Rightarrow> Some (cap (Some e) s))"

definition collect_snapshots :: "env \<Rightarrow> client \<Rightarrow> resource \<Rightarrow> dstate \<times> guest \<Rightarrow> dstate \<times> guest" where
  "collect_snapshots env c r sg =
     (let (s, g) = sg
      in case guestSnapshots env c (resource_Node r) (resource_Type r) (guest_VMID g) of
           Inr ss \<Rightarrow>
             (s\<lparr>dstate_Snapshots := append_slice (dstate_Snapshots s)
                  (map (snapshotDisplay c g) (filter (\<lambda>x. guestSnapshot_Name x \<noteq> ''current'') ss))\<rparr>, g)
         | Inl _ \<Rightarrow>
             (s, g\<lparr>guest_ConfigWarning := firstNonEmpty [guest_ConfigWarning g, ''snapshots unavailable'']\<rparr>))"

definition collect_agent :: "env \<Rightarrow> client \<Rightarrow> resource \<Rightarrow> dstate \<times> guest \<Rightarrow> dstate \<times> guest" where
  "collect_agent env c r sg =
     (let (s, g) = sg;
          cap = guest_capability c g ''qemu_guest_agent''
                  (node_endpoint (resource_Node r) (''/qemu/'' @ guest_VMID g @ ''/agent''))
      in if guest_Type g = ''qemu'' \<and> guest_Status g = ''running'' \<and> guest_AgentEnabled g
         then case applyGuestAgent (agent_requests env c (resource_Node r) (guest_VMID g)) g of
                (g, Some e) \<Rightarrow> (cap (Some e) s, g\<lparr>guest_AgentWarning := ''agent unavailable''\<rparr>)
              | (g, None) \<Rightarrow> (cap None s, g)
         else (s, g))"

definition container_addresses :: "string list \<Rightarrow> guest \<Rightarrow> guest" where
  "container_addresses ips g =
     (case ips of
        [] \<Rightarrow> g
      | ip # _ \<Rightarrow>
          g\<lparr>guest_IPAddresses := ips,
            guest_IPAddress := (if placeholderIPAddress (guest_IPAddress g) then ip else guest_IPAddress g)\<rparr>)"

definition collect_interfaces :: "env \<Rightarrow> client \<Rightarrow> resource \<Rightarrow> dstate \<times> guest \<Rightarrow> dstate \<times> guest" where
  "collect_interfaces env c r sg =
     (let (s, g) = sg;
          cap = guest_capability c g ''lxc_interfaces''
                  (node_endpoint (resource_Node r) (''/lxc/'' @ guest_VMID g @ ''/interfaces''))
      in if guest_Type g = ''lxc'' \<and> guest_Status g = ''running''
         then case containerInterfaces env c (resource_Node r) (guest_VMID g) of
                Inr ifaces \<Rightarrow> (cap None s, container_addresses (containerIPAddresses (env_arch env) ifaces) g)
              | Inl e \<Rightarrow> (cap (Some e) s, g)
         else (s, g))"

definition unexpected_status_alert :: "guest \<Rightarrow> alert" where
  "unexpected_status_alert g = alert_zero
     \<lparr>alert_ID := guest_ID g @ ''/unexpected-status'', alert_SourceID := guest_SourceID g,
      alert_HostID := guest_HostID g, alert_GuestID := guest_ID g, alert_Severity := HealthWarning,
      alert_Title := guest_Name g @ '' is '' @ guest_Status g,
      alert_Message := ''expected '' @ guest_Expected g\<rparr>"

text \<open>\<open>guest_Expected\<close> of the row is the \<open>Expected\<close> of its pin, empty for a guest that is not pinned.\<close>

definition check_expected :: "dstate \<times> guest \<Rightarrow> dstate \<times> guest" where
  "check_expected sg =
     (let (s, g) = sg
      in if guest_Pinned g \<and> guest_Expected g \<noteq> '''' \<and> guest_Status g \<noteq> guest_Expected g
         then (add_alert (unexpected_status_alert g) s, g\<lparr>guest_Health := HealthWarning\<rparr>)
         else (s, g))"

definition guest_on_host :: "string \<Rightarrow> guest \<Rightarrow> host_map \<Rightarrow> host_map" where
  "guest_on_host node g hosts =
     (case map_of hosts node of
        None \<Rightarrow> hosts
      | Some h \<Rightarrow>
          AList.update node
            (if guest_Status g = ''running'' then h\<lparr>host_GuestsRunning := host_GuestsRunning h + 1\<rparr>
             else h\<lparr>host_GuestsStopped := host_GuestsStopped h + 1\<rparr>) hosts)"

definition collect_guest ::
    "env \<Rightarrow> source_collector \<Rightarrow> client \<Rightarrow> resource \<Rightarrow> dstate \<times> host_map \<times> guest_map
      \<Rightarrow> (dstate \<times> host_map \<times> guest_map) option" where
  "collect_guest env col c r shg =
     (let (s, hosts, guests) = shg;
          g = base_guest (env_arch env) c (col_pinned col (client_id c @ ''/'' @ guest_vmid r)) r;
          g = collect_guest_config env c r g;
          (s, g) = collect_guest_status env c r (s, g)
      in case collect_guest_rrd env c r g s of
           None \<Rightarrow> None
         | Some s \<Rightarrow>
             (let (s, g) = check_expected (collect_interfaces env c r (collect_agent env c r
                             (collect_snapshots env c r (s, g))));
                  s = s\<lparr>dstate_Guests := append_slice (dstate_Guests s) [g]\<rparr>
              in Some (s, guest_on_host (resource_Node r) g hosts, guests(guest_ID g \<mapsto> g))))"

fun collect_guests ::
    "env \<Rightarrow> source_collector \<Rightarrow> client \<Rightarrow> resource list \<Rightarrow> dstate \<times> host_map \<times> guest_map
      \<Rightarrow> (dstate \<times> host_map \<times> guest_map) option" where
  "collect_guests env col c [] shg = Some shg"
| "collect_guests env col c (r # rs) shg =
     (case collect_guest env col c r shg of
        None \<Rightarrow> None
      | Some shg \<Rightarrow> collect_guests env col c rs shg)"

section \<open>Replications\<close>

definition replication_alert :: "client \<Rightarrow> replication \<Rightarrow> alert" where
  "replication_alert c d = alert_zero
     \<lparr>alert_ID := replication_ID d @ ''/replication'', alert_SourceID := client_id c,
      alert_GuestID := replication_GuestID d, alert_Severity := replication_Health d,
      alert_Title := client_name c @ '' replication '' @ replication_ID d,
      alert_Message := firstNonEmpty [replication_Error d, ''not healthy'']\<rparr>"

definition replication_with_status ::
    "env \<Rightarrow> client \<Rightarrow> replicationJob \<Rightarrow> dstate \<Rightarrow> dstate \<times> replicationJob" where
  "replication_with_status env c r s =
     (let source = replicationJob_Source r; job = replicationJob_ID r;
          cap = addCapability (client_id c) (client_id c @ ''/'' @ source) '''' ''replication_status''
                  (node_endpoint source (''/replication/'' @ job @ ''/status''))
      in if source \<noteq> '''' \<and> job \<noteq> ''''
         then case Proxmox_Api.replicationStatus env c source job of
                Inr status \<Rightarrow> (cap None s, applyReplicationStatus status r)
              | Inl e \<Rightarrow> (cap (Some e) s, r)
         else (s, r))"

definition replication_step ::
    "env \<Rightarrow> client \<Rightarrow> guest_map \<Rightarrow> replicationJob \<Rightarrow> dstate \<times> cluster \<Rightarrow> dstate \<times> cluster" where
  "replication_step env c guests r sc =
     (let (s, cl) = sc; (s, r) = replication_with_status env c r s;
          d = replicationDisplay c r guests; v = replication_Health d;
          (s, cl) = (if is_issue v
                     then (add_alert (replication_alert c d) s,
                           cl\<lparr>cluster_Health := maxHealth (cluster_Health cl) v\<rparr>)
                     else (s, cl))
      in (s\<lparr>dstate_Replications := append_slice (dstate_Replications s) [d]\<rparr>, cl))"

definition collect_replications ::
    "env \<Rightarrow> client \<Rightarrow> guest_map \<Rightarrow> dstate \<times> cluster \<Rightarrow> dstate \<times> cluster" where
  "collect_replications env c guests sc =
     (let (s, cl) = sc; cap = cluster_capability c ''replication'' ''/api2/json/cluster/replication''
      in case clusterReplications env c of
           Inr rs \<Rightarrow> fold (replication_step env c guests) rs (cap None s, cl)
         | Inl e \<Rightarrow> (cap (Some e) s, addClusterWarning ''replication unavailable'' cl))"

section \<open>Tasks\<close>

text \<open>
  The state of the task loop: the state, the host, and \<open>lastBackupStarted\<close>, a Go map whose
  missing entries read as 0.
\<close>

definition task_on_host :: "int \<Rightarrow> task \<Rightarrow> host \<times> (string \<Rightarrow> int) \<Rightarrow> host \<times> (string \<Rightarrow> int)" where
  "task_on_host now d hl =
     (let (h, started) = hl;
          (h, started) =
            (if task_Type d = ''vzdump'' \<and> task_StartedAt d \<ge> started (host_ID h)
             then let h = h\<lparr>host_LastBackupStatus := task_Status d\<rparr>
                  in if task_StartedAt d > 0
                     then (h\<lparr>host_LastBackupAgeSec := i64 (now - task_StartedAt d)\<rparr>,
                           started(host_ID h := task_StartedAt d))
                     else (h, started)
             else (h, started))
      in (if task_Health d = HealthWarning \<and> task_EndedAt d > 0 \<and> i64 (now - task_EndedAt d) \<le> 86400
          then h\<lparr>host_FailedTasks24h := host_FailedTasks24h h + 1\<rparr> else h, started))"

definition task_step ::
    "client \<Rightarrow> guest_map \<Rightarrow> int \<Rightarrow> nodeTask \<Rightarrow> dstate \<times> host \<times> (string \<Rightarrow> int)
      \<Rightarrow> dstate \<times> host \<times> (string \<Rightarrow> int)" where
  "task_step c guests now t shl =
     (let (s, h, started) = shl; d = taskDisplay c h t guests now
      in (s\<lparr>dstate_Tasks := append_slice (dstate_Tasks s) [d]\<rparr>, task_on_host now d (h, started)))"

definition failed_tasks_alert :: "host \<Rightarrow> alert" where
  "failed_tasks_alert h =
     host_alert (host_ID h @ ''/tasks-failed-24h'') (host_SourceID h) (host_ID h) HealthWarning
       (host_Name h @ '' failed tasks'') (itoa (host_FailedTasks24h h) @ '' failed in 24h'')"

definition collect_node_tasks ::
    "env \<Rightarrow> client \<Rightarrow> guest_map \<Rightarrow> int \<Rightarrow> string \<Rightarrow> dstate \<times> host \<times> (string \<Rightarrow> int)
      \<Rightarrow> dstate \<times> host \<times> (string \<Rightarrow> int)" where
  "collect_node_tasks env c guests now node shl =
     (let (s, h, started) = shl
      in case nodeTasks env c node of
           Inl _ \<Rightarrow> (s, addDataWarning ''tasks unavailable'' h, started)
         | Inr tasks \<Rightarrow>
             (let (s, h, started) = fold (task_step c guests now) tasks (s, h, started)
              in if host_FailedTasks24h h > 0
                 then let h = raise_host HealthWarning h in (add_alert (failed_tasks_alert h) s, h, started)
                 else (s, h, started)))"

fun collect_tasks ::
    "env \<Rightarrow> client \<Rightarrow> guest_map \<Rightarrow> int \<Rightarrow> string list \<Rightarrow> dstate \<times> host_map \<times> (string \<Rightarrow> int)
      \<Rightarrow> dstate \<times> host_map" where
  "collect_tasks env c guests now [] (s, hosts, started) = (s, hosts)"
| "collect_tasks env c guests now (node # nodes) (s, hosts, started) =
     (case map_of hosts node of
        None \<Rightarrow> collect_tasks env c guests now nodes (s, hosts, started)
      | Some h \<Rightarrow>
          (case collect_node_tasks env c guests now node (s, h, started) of
             (s, h, started) \<Rightarrow> collect_tasks env c guests now nodes (s, AList.update node h hosts, started)))"

section \<open>The whole source\<close>

fun finish_hosts :: "alert_config \<Rightarrow> string list \<Rightarrow> host_map \<Rightarrow> dstate \<Rightarrow> dstate" where
  "finish_hosts cfg [] hosts s = s"
| "finish_hosts cfg (node # nodes) hosts s =
     (case map_of hosts node of
        None \<Rightarrow> finish_hosts cfg nodes hosts s
      | Some h \<Rightarrow>
          (let (s, h) = applyHostAlerts cfg (s, h)
           in finish_hosts cfg nodes hosts (s\<lparr>dstate_Hosts := append_slice (dstate_Hosts s) [h]\<rparr>)))"

definition visit :: "env \<Rightarrow> nat \<Rightarrow> host_map \<Rightarrow> string list" where
  "visit env k hosts = env_order env k (map fst hosts)"

definition collect_resources ::
    "env \<Rightarrow> source_collector \<Rightarrow> client \<Rightarrow> resource list \<Rightarrow> dstate \<Rightarrow> dstate option" where
  "collect_resources env col c resources s =
     (let ((s, cl), configs) = collect_cluster env c s;
          hosts = base_hosts (env_arch env) c resources
      in case collect_nodes env c (visit env 0 hosts) (s, hosts) of
           None \<Rightarrow> None
         | Some (s, hosts) \<Rightarrow>
        (let (s, hosts) = fold (collect_storage env col c configs)
                            (filter (\<lambda>r. resource_Type r = ''storage'') resources) (s, hosts)
         in case collect_guests env col c
                   (filter (\<lambda>r. resource_Type r = ''qemu'' \<or> resource_Type r = ''lxc'') resources)
                   (s, hosts, Map.empty) of
              None \<Rightarrow> None
            | Some (s, hosts, guests) \<Rightarrow>
                (let (s, cl) = collect_replications env c guests (s, cl);
                     s = s\<lparr>dstate_Clusters := append_slice (dstate_Clusters s) [cl]\<rparr>;
                     now = unix (env_clock env ''tasks'' 0);
                     (s, hosts) = collect_tasks env c guests now (visit env 1 hosts) (s, hosts, \<lambda>_. 0)
                 in Some (finish_hosts (cfg_Alerts (col_cfg col)) (visit env 2 hosts) hosts s))))"

text \<open>The error of the Go function is always nil: a source that cannot be reached is a state too.\<close>

definition collectSource :: "env \<Rightarrow> source_collector \<Rightarrow> client \<Rightarrow> dstate option" where
  "collectSource env col c =
     (let s = NewState (env_clock env ''state'' 0)
      in case clusterResources env c of
           Inl e \<Rightarrow> Some (source_unreachable c e s)
         | Inr resources \<Rightarrow> collect_resources env col c resources s)"

section \<open>Frames\<close>

text \<open>
  What most steps leave alone: the hosts, guests and storages collected so far, and the
  identity, counters and percentages of the host at hand.
\<close>

definition inventory :: "dstate \<Rightarrow> host slice \<times> guest slice \<times> storage slice" where
  "inventory s = (dstate_Hosts s, dstate_Guests s, dstate_Storages s)"

definition host_core ::
    "host \<Rightarrow> (string \<times> string \<times> string \<times> bool) \<times> (int \<times> int) \<times> (int \<times> int \<times> int \<times> int \<times> int \<times> int)" where
  "host_core h =
     ((host_ID h, host_SourceID h, host_Node h, host_Online h), (host_GuestsRunning h, host_GuestsStopped h),
      (host_CPUPct h, host_MemoryPct h, host_SwapPct h, host_IOWaitPct h, host_StoragePct h, host_StorageMaxPct h))"

definition frame :: "dstate \<times> host \<Rightarrow> _" where
  "frame sh = (inventory (fst sh), host_core (snd sh))"

lemma inventory_updates [simp]:
  "inventory (add_alert al s) = inventory s"
  "inventory (addCapability a b c d e err s) = inventory s"
  "inventory (cluster_capability cc d e err s) = inventory s"
  "inventory (node_capability cc h d e err s) = inventory s"
  "inventory (guest_capability cc g d e err s) = inventory s"
  "inventory (s\<lparr>dstate_ClusterOptions := x1\<rparr>) = inventory s"
  "inventory (s\<lparr>dstate_BackupJobs := x2\<rparr>) = inventory s"
  "inventory (s\<lparr>dstate_HAResources := x3\<rparr>) = inventory s"
  "inventory (s\<lparr>dstate_CephClusters := x4\<rparr>) = inventory s"
  "inventory (s\<lparr>dstate_Certificates := x5\<rparr>) = inventory s"
  "inventory (s\<lparr>dstate_MetricTrends := x6\<rparr>) = inventory s"
  "inventory (s\<lparr>dstate_Networks := x7\<rparr>) = inventory s"
  "inventory (s\<lparr>dstate_Services := x8\<rparr>) = inventory s"
  "inventory (s\<lparr>dstate_ZFSPools := x9\<rparr>) = inventory s"
  "inventory (s\<lparr>dstate_Updates := x10\<rparr>) = inventory s"
  "inventory (s\<lparr>dstate_Repositories := x11\<rparr>) = inventory s"
  "inventory (s\<lparr>dstate_Subscriptions := x12\<rparr>) = inventory s"
  "inventory (s\<lparr>dstate_Disks := x13\<rparr>) = inventory s"
  "inventory (s\<lparr>dstate_StorageItems := x14\<rparr>) = inventory s"
  "inventory (s\<lparr>dstate_Snapshots := x15\<rparr>) = inventory s"
  "inventory (s\<lparr>dstate_Replications := x16\<rparr>) = inventory s"
  "inventory (s\<lparr>dstate_Clusters := x17\<rparr>) = inventory s"
  "inventory (s\<lparr>dstate_Tasks := x18\<rparr>) = inventory s"
  by (simp_all add: inventory_def add_alert_def addCapability_def cluster_capability_def
      node_capability_def guest_capability_def Let_def split: prod.split)

lemma host_core_updates [simp]:
  "host_core (raise_host v h) = host_core h"
  "host_core (addDataWarning m h) = host_core h"
  "host_core (h\<lparr>host_GPUCount := n, host_GPUSummary := t\<rparr>) = host_core h"
  "host_core (h\<lparr>host_NetworkTotal := n, host_NetworkActive := n', host_PrimaryAddress := t\<rparr>) = host_core h"
  "host_core (h\<lparr>host_ServicesTotal := n, host_ServicesRunning := n', host_ServicesFailed := n''\<rparr>) = host_core h"
  "host_core (h\<lparr>host_UpdatesAvailable := n\<rparr>) = host_core h"
  "host_core (h\<lparr>host_SubscriptionStatus := t\<rparr>) = host_core h"
  "host_core (h\<lparr>host_DiskCount := n\<rparr>) = host_core h"
  "host_core (h\<lparr>host_DiskIssues := n\<rparr>) = host_core h"
  "host_core (h\<lparr>host_LastBackupStatus := t\<rparr>) = host_core h"
  "host_core (h\<lparr>host_LastBackupAgeSec := n\<rparr>) = host_core h"
  "host_core (h\<lparr>host_FailedTasks24h := n\<rparr>) = host_core h"
  by (simp_all add: host_core_def raise_host_def addDataWarning_def)

lemma frame_pair [simp]: "frame (s, h) = (inventory s, host_core h)"
  by (simp add: frame_def)

lemma fold_keeps: "(\<And>x y. P (f x y) = P y) \<Longrightarrow> P (fold f xs y) = P y"
  by (induction xs arbitrary: y) simp_all

named_theorems frames

lemma frame_certificate_step [frames]: "frame (certificate_step env c node ic sh) = frame sh"
  by (cases sh) (simp add: certificate_step_def Let_def split_beta)

lemma frame_certificates [frames]: "frame (collect_certificates env c node sh) = frame sh"
  by (cases sh) (simp add: collect_certificates_def Let_def fold_keeps [of frame] frame_certificate_step
      split: sum.split)

lemma frame_node_rrd [frames]: "collect_node_rrd env c node sh = Some sh' \<Longrightarrow> frame sh' = frame sh"
  by (cases sh) (auto simp: collect_node_rrd_def Let_def split: sum.splits option.splits)

lemma frame_network [frames]: "frame (collect_network env c node sh) = frame sh"
  by (cases sh) (simp add: collect_network_def Let_def split: sum.split prod.split)

lemma frame_services [frames]: "frame (collect_services env c node sh) = frame sh"
  by (cases sh) (simp add: collect_services_def Let_def split: sum.split prod.split)

lemma inventory_zfs_detail [simp]:
  "inventory (fst (zfs_pool_with_detail env c node h pool s)) = inventory s"
  by (simp add: zfs_pool_with_detail_def Let_def split: sum.split)

lemma frame_zfs_step [frames]: "frame (zfs_step env c node pool sh) = frame sh"
  by (cases sh) (simp add: zfs_step_def Let_def split_beta)

lemma frame_zfs [frames]: "frame (collect_zfs env c node sh) = frame sh"
  by (cases sh) (simp add: collect_zfs_def Let_def fold_keeps [of frame] frame_zfs_step split: sum.split)

lemma frame_updates [frames]: "frame (collect_updates env c node sh) = frame sh"
  by (cases sh) (simp add: collect_updates_def Let_def split: sum.split)

lemma frame_repositories [frames]: "frame (collect_repositories env c node sh) = frame sh"
  by (cases sh) (simp add: collect_repositories_def Let_def split: sum.split)

lemma frame_subscription [frames]: "frame (collect_subscription env c node sh) = frame sh"
  by (cases sh) (simp add: collect_subscription_def Let_def split: sum.split)

lemma frame_disk_step [frames]: "frame (disk_step c node d sh) = frame sh"
  by (cases sh) (simp add: disk_step_def Let_def split_beta)

lemma frame_disks [frames]: "frame (collect_disks env c node sh) = frame sh"
  by (cases sh) (simp add: collect_disks_def fold_keeps [of frame] frame_disk_step split: sum.split)

lemma host_core_pci [simp]: "host_core (collect_pci env c node h) = host_core h"
  by (simp add: collect_pci_def split: sum.split prod.split)

text \<open>After a node is visited: the inventory is untouched, the host as its status left it.\<close>

lemma collect_node_frame:
  assumes "collect_node env c node (s, h) = Some (s', h')"
  shows "inventory s' = inventory s \<and> host_core h' = host_core (collect_node_status env c node h)"
proof -
  from assms obtain s1 h1 where
    r: "collect_node_rrd env c node (collect_certificates env c node (s, collect_node_status env c node h)) = Some (s1, h1)"
    and d: "(s', h') = collect_disks env c node (collect_subscription env c node
               (collect_repositories env c node (collect_updates env c node (collect_zfs env c node
                 (collect_services env c node (collect_network env c node (s1, collect_pci env c node h1)))))))"
    by (auto simp: collect_node_def Let_def split: option.splits)
  have "frame (s1, h1) = frame (s, collect_node_status env c node h)"
    using frame_node_rrd [OF r] by (simp only: frames)
  moreover have "frame (s', h') = frame (s1, collect_pci env c node h1)"
    unfolding d by (simp only: frames)
  ultimately show ?thesis by simp
qed

end
