(* ===== verification/Source_Invariants.thy ===== *)
theory Source_Invariants
  imports Collect_Source
begin

text \<open>
  What holds of the state built by \<open>collectSource\<close> after every phase: hosts are named after
  their nodes, every percentage is one, and the guest counters of a host agree with the guest
  rows.  Each phase preserves the invariant; the last section follows it through the source.
\<close>

section \<open>The invariant\<close>

definition host_pcts :: "host \<Rightarrow> bool" where
  "host_pcts h \<longleftrightarrow> is_pct (host_CPUPct h) \<and> is_pct (host_MemoryPct h) \<and> is_pct (host_SwapPct h) \<and>
     is_pct (host_IOWaitPct h) \<and> is_pct (host_StoragePct h) \<and> is_pct (host_StorageMaxPct h)"

definition guest_pcts :: "guest \<Rightarrow> bool" where
  "guest_pcts g \<longleftrightarrow> is_pct (guest_CPUPct g) \<and> is_pct (guest_MemoryPct g) \<and> is_pct (guest_SwapPct g) \<and>
     is_pct (guest_DiskPct g) \<and> is_pct (guest_PressureCPUSomePct g) \<and> is_pct (guest_PressureCPUFullPct g) \<and>
     is_pct (guest_PressureIOSomePct g) \<and> is_pct (guest_PressureIOFullPct g) \<and>
     is_pct (guest_PressureMemorySomePct g) \<and> is_pct (guest_PressureMemoryFullPct g)"

definition host_named :: "client \<Rightarrow> string \<Rightarrow> host \<Rightarrow> bool" where
  "host_named c node h \<longleftrightarrow>
     host_Node h = node \<and> host_ID h = client_id c @ ''/'' @ node \<and> host_SourceID h = client_id c \<and>
     host_pcts h"

text \<open>The running and the other guests of a host.\<close>

definition guests_on :: "host \<Rightarrow> bool \<Rightarrow> guest list \<Rightarrow> guest list" where
  "guests_on h running gs = filter (\<lambda>g. guest_HostID g = host_ID h \<and> (guest_Status g = ''running'') = running) gs"

definition host_counts :: "guest list \<Rightarrow> host \<Rightarrow> bool" where
  "host_counts gs h \<longleftrightarrow>
     host_GuestsRunning h = int (length (guests_on h True gs)) \<and>
     host_GuestsStopped h = int (length (guests_on h False gs))"

definition hosts_inv :: "client \<Rightarrow> guest list \<Rightarrow> host_map \<Rightarrow> bool" where
  "hosts_inv c gs hosts \<longleftrightarrow> distinct (map fst hosts) \<and>
     (\<forall>node h. map_of hosts node = Some h \<longrightarrow> host_named c node h \<and> host_counts gs h)"

definition rows_inv :: "client \<Rightarrow> dstate \<Rightarrow> bool" where
  "rows_inv c s \<longleftrightarrow>
     (\<forall>g\<in>set (elems (dstate_Guests s)). guest_pcts g \<and> guest_SourceID g = client_id c) \<and>
     (\<forall>st\<in>set (elems (dstate_Storages s)). is_pct (storage_DiskPct st) \<and> storage_SourceID st = client_id c)"

definition source_inv :: "client \<Rightarrow> dstate \<Rightarrow> host_map \<Rightarrow> bool" where
  "source_inv c s hosts \<longleftrightarrow>
     dstate_Hosts s = None \<and> rows_inv c s \<and> hosts_inv c (elems (dstate_Guests s)) hosts"

lemma host_core_named: "host_core h = host_core h' \<Longrightarrow> host_named c node h = host_named c node h'"
  by (simp add: host_core_def host_named_def host_pcts_def)

lemma host_core_counts: "host_core h = host_core h' \<Longrightarrow> host_counts gs h = host_counts gs h'"
  by (simp add: host_core_def host_counts_def guests_on_def)

lemma source_inv_inventory:
  "inventory s' = inventory s \<Longrightarrow> source_inv c s' hosts = source_inv c s hosts"
  by (simp add: inventory_def source_inv_def rows_inv_def)

lemma update_keys_in:
  "map_of hosts node = Some h \<Longrightarrow> map fst (AList.update node h' hosts) = map fst hosts"
  by (simp add: update_keys) (metis fst_conv image_eqI map_of_SomeD)

text \<open>Writing back a host that is still named and still counts right.\<close>

lemma hosts_inv_update:
  assumes "hosts_inv c gs hosts" and "map_of hosts node = Some h"
    and "host_named c node h'" and "host_counts gs h'"
  shows "hosts_inv c gs (AList.update node h' hosts)"
  using assms by (auto simp: hosts_inv_def update_keys_in update_conv')

lemma hosts_inv_core:
  assumes "hosts_inv c gs hosts" and "map_of hosts node = Some h" and "host_core h' = host_core h"
  shows "hosts_inv c gs (AList.update node h' hosts)"
  using assms by (intro hosts_inv_update)
    (auto simp: hosts_inv_def host_core_named [OF assms(3)] host_core_counts [OF assms(3)])

section \<open>Cluster and nodes\<close>

lemma inventory_cluster_steps [simp]:
  "inventory (fst (collect_cluster_status env c sc)) = inventory (fst sc)"
  "inventory (fst (collect_cluster_options env c sc)) = inventory (fst sc)"
  "inventory (fst (collect_backup_jobs env c sc)) = inventory (fst sc)"
  "inventory (fst (collect_ceph env c sc)) = inventory (fst sc)"
  "inventory (fst (ha_step c r sc)) = inventory (fst sc)"
  "inventory (fst (fst (collect_storage_config env c sc))) = inventory (fst sc)"
  by (cases sc; simp add: collect_cluster_status_def collect_cluster_options_def collect_backup_jobs_def
      collect_ceph_def ha_step_def collect_storage_config_def Let_def split: sum.split)+

lemma inventory_ha [simp]: "inventory (fst (collect_ha env c sc)) = inventory (fst sc)"
  by (cases sc) (simp add: collect_ha_def Let_def fold_keeps [of "\<lambda>x. inventory (fst x)"] split: sum.split)

lemma inventory_collect_cluster: "inventory (fst (fst (collect_cluster env c s))) = inventory s"
  by (simp add: collect_cluster_def)

lemma inventory_NewState [simp]: "inventory (NewState t) = (None, None, None)"
  by (simp add: inventory_def NewState_def dstate_zero_def)

lemma base_host_named: "host_named c (host_Node (base_host a c r)) (base_host a c r)"
  by (simp add: base_host_def host_named_def host_pcts_def host_zero_def Let_def)

lemma base_host_counts: "host_counts [] (base_host a c r)"
  by (simp add: base_host_def host_counts_def guests_on_def host_zero_def Let_def)

lemma base_hosts_inv: "hosts_inv c [] (base_hosts a c resources)"
proof -
  have *: "hosts_inv c [] (fold (\<lambda>r hosts. let h = base_host a c r in AList.update (host_Node h) h hosts) rs hosts)"
    if "hosts_inv c [] hosts" for rs hosts
    using that
  proof (induction rs arbitrary: hosts)
    case (Cons r rs)
    have "hosts_inv c [] (AList.update (host_Node (base_host a c r)) (base_host a c r) hosts)"
      using Cons.prems base_host_named [of c a r] base_host_counts [of a c r]
      by (auto simp: hosts_inv_def distinct_update update_conv')
    then show ?case using Cons.IH by (simp add: Let_def)
  qed simp
  show ?thesis unfolding base_hosts_def by (rule *) (simp add: hosts_inv_def)
qed

lemma apply_node_status_core:
  "host_core (apply_node_status a st h) =
     ((host_ID h, host_SourceID h, host_Node h, host_Online h), (host_GuestsRunning h, host_GuestsStopped h),
      (case nodeStatus_CPU st of None \<Rightarrow> host_CPUPct h | Some v \<Rightarrow> pctFloat a v,
       if nodeStatus_Memory_Total st > 0
       then pctInt64 a (nodeStatus_Memory_Used st) (nodeStatus_Memory_Total st) else host_MemoryPct h,
       if nodeStatus_Swap_Total st > 0
       then pctInt64 a (nodeStatus_Swap_Used st) (nodeStatus_Swap_Total st) else host_SwapPct h,
       pctFloat a (nodeStatus_Wait st),
       if nodeStatus_RootFS_Total st > 0
       then pctInt64 a (nodeStatus_RootFS_Used st) (nodeStatus_RootFS_Total st) else host_StoragePct h,
       host_StorageMaxPct h))"
  by (simp add: apply_node_status_def host_core_def Let_def)

lemma host_named_core:
  "host_named c node h \<longleftrightarrow>
     (case host_core h of ((i, src, n, _), _, (p1, p2, p3, p4, p5, p6)) \<Rightarrow>
        n = node \<and> i = client_id c @ ''/'' @ node \<and> src = client_id c \<and>
        is_pct p1 \<and> is_pct p2 \<and> is_pct p3 \<and> is_pct p4 \<and> is_pct p5 \<and> is_pct p6)"
  by (simp add: host_core_def host_named_def host_pcts_def)

lemma host_counts_core:
  "host_counts gs h \<longleftrightarrow>
     (case host_core h of ((i, _), (m, n), _) \<Rightarrow>
        m = int (length (filter (\<lambda>g. guest_HostID g = i \<and> guest_Status g = ''running'') gs)) \<and>
        n = int (length (filter (\<lambda>g. guest_HostID g = i \<and> guest_Status g \<noteq> ''running'') gs)))"
  by (simp add: host_core_def host_counts_def guests_on_def)

lemma node_status_named:
  "host_named c node h \<Longrightarrow> host_named c node (collect_node_status env c node h)"
  by (cases "Proxmox_Api.nodeStatus env c node")
    (simp_all add: collect_node_status_def host_named_core apply_node_status_core split: option.split,
     simp_all add: host_core_def)

lemma node_status_counts: "host_counts gs h \<Longrightarrow> host_counts gs (collect_node_status env c node h)"
  by (cases "Proxmox_Api.nodeStatus env c node")
    (simp_all add: collect_node_status_def host_counts_core apply_node_status_core,
     simp_all add: host_core_def)

lemma collect_node_inv:
  assumes "source_inv c s hosts" and "map_of hosts node = Some h"
    and "collect_node env c node (s, h) = Some (s', h')"
  shows "source_inv c s' (AList.update node h' hosts)"
proof -
  have f: "inventory s' = inventory s" "host_core h' = host_core (collect_node_status env c node h)"
    using collect_node_frame [OF assms(3)] by blast+
  have "hosts_inv c (elems (dstate_Guests s)) (AList.update node h' hosts)"
    using assms(1,2) by (intro hosts_inv_update)
      (auto simp: source_inv_def hosts_inv_def host_core_named [OF f(2)] host_core_counts [OF f(2)]
        intro: node_status_named node_status_counts)
  then have "source_inv c s (AList.update node h' hosts)" using assms(1) by (simp add: source_inv_def)
  then show ?thesis by (simp add: source_inv_inventory [OF f(1)])
qed

lemma collect_nodes_inv:
  "collect_nodes env c nodes (s, hosts) = Some (s', hosts') \<Longrightarrow> source_inv c s hosts \<Longrightarrow>
   source_inv c s' hosts' \<and> map fst hosts' = map fst hosts"
proof (induction nodes arbitrary: s hosts)
  case (Cons node nodes)
  show ?case
  proof (cases "map_of hosts node")
    case None
    with Cons show ?thesis by simp
  next
    case (Some h)
    with Cons.prems obtain s1 h1 where n: "collect_node env c node (s, h) = Some (s1, h1)"
        and rest: "collect_nodes env c nodes (s1, AList.update node h1 hosts) = Some (s', hosts')"
      by (auto split: option.splits)
    show ?thesis
      using Cons.IH [OF rest collect_node_inv [OF Cons.prems(2) Some n]] by (simp add: update_keys_in [OF Some])
  qed
qed simp

section \<open>Storages\<close>

text \<open>Storage steps: the inventory stays, the percentage and the names of the storage too.\<close>

definition storage_core :: "storage \<Rightarrow> string \<times> string \<times> string \<times> int" where
  "storage_core st = (storage_SourceID st, storage_Node st, storage_Name st, storage_DiskPct st)"

lemma storage_core_steps [simp]:
  "storage_core (applyStorageConfig cfg st) = storage_core st"
  "storage_core (applyStorageItemSummary d st) = storage_core st"
  "storage_core (snd (storage_item_step c item ss)) = storage_core (snd ss)"
  "inventory (fst (storage_item_step c item ss)) = inventory (fst ss)"
  "storage_core (snd (applyStorageAlerts al ss)) = storage_core (snd ss)"
  "inventory (fst (applyStorageAlerts al ss)) = inventory (fst ss)"
  by (cases ss; simp add: storage_core_def applyStorageConfig_def applyStorageItemSummary_def
      storage_item_step_def applyStorageAlerts_def Let_def)+

lemma storage_content_frame [simp]:
  "inventory (fst (collect_storage_content env c ss)) = inventory (fst ss)"
  "storage_core (snd (collect_storage_content env c ss)) = storage_core (snd ss)"
  by (cases ss; simp add: collect_storage_content_def Let_def fold_keeps [of "\<lambda>x. inventory (fst x)"]
      fold_keeps [of "\<lambda>x. storage_core (snd x)"] split: sum.split)+

lemma base_storage_core:
  "storage_SourceID (base_storage a c r) = client_id c" "is_pct (storage_DiskPct (base_storage a c r))"
  by (simp_all add: base_storage_def Let_def)

lemma storage_on_host_inv:
  assumes "hosts_inv c gs hosts" and "is_pct (storage_DiskPct st)"
  shows "hosts_inv c gs (storage_on_host st hosts) \<and> map fst (storage_on_host st hosts) = map fst hosts"
proof (cases "map_of hosts (storage_Node st)")
  case (Some h)
  let ?h = "h\<lparr>host_StorageMaxPct := storage_DiskPct st, host_StorageMaxName := storage_Name st\<rparr>"
  have "host_named c (storage_Node st) h" "host_counts gs h" using assms(1) Some by (simp_all add: hosts_inv_def)
  then have "hosts_inv c gs (AList.update (storage_Node st) ?h hosts)"
    using assms Some by (intro hosts_inv_update) (simp_all add: host_named_def host_pcts_def host_counts_def guests_on_def)
  then show ?thesis using assms(1) Some by (simp add: storage_on_host_def update_keys_in [OF Some])
qed (use assms in \<open>simp add: storage_on_host_def\<close>)

lemma collect_storage_shape:
  obtains s1 st where "collect_storage env col c configs r (s, hosts) =
      (s1\<lparr>dstate_Storages := append_slice (dstate_Storages s1) [st]\<rparr>, storage_on_host st hosts)"
    and "inventory s1 = inventory s" and "storage_core st = storage_core (base_storage (env_arch env) c r)"
proof -
  let ?st = "base_storage (env_arch env) c r"
  let ?st1 = "case configs (storage_Name ?st) of None \<Rightarrow> ?st | Some cfg \<Rightarrow> applyStorageConfig cfg ?st"
  have core: "storage_core ?st1 = storage_core ?st" by (simp split: option.split)
  obtain s2 st2 where 2: "collect_storage_content env c (s, ?st1) = (s2, st2)" by fastforce
  obtain s3 st3 where 3: "applyStorageAlerts (cfg_Alerts (col_cfg col)) (s2, st2) = (s3, st3)" by fastforce
  have "inventory s3 = inventory s" "storage_core st3 = storage_core ?st"
    using storage_content_frame [of env c "(s, ?st1)"] core
      storage_core_steps(5,6) [of "cfg_Alerts (col_cfg col)" "(s2, st2)"] by (simp_all add: 2 3)
  then show ?thesis
    using that [of s3 st3] by (simp add: collect_storage_def Let_def 2 3)
qed

lemma collect_storage_inv:
  assumes "source_inv c s hosts"
  shows "source_inv c (fst (collect_storage env col c configs r (s, hosts)))
           (snd (collect_storage env col c configs r (s, hosts))) \<and>
         map fst (snd (collect_storage env col c configs r (s, hosts))) = map fst hosts"
proof -
  obtain s1 st where eq: "collect_storage env col c configs r (s, hosts) =
      (s1\<lparr>dstate_Storages := append_slice (dstate_Storages s1) [st]\<rparr>, storage_on_host st hosts)"
    and i: "inventory s1 = inventory s" and k: "storage_core st = storage_core (base_storage (env_arch env) c r)"
    by (rule collect_storage_shape)
  have st: "storage_SourceID st = client_id c" "is_pct (storage_DiskPct st)"
    using k base_storage_core [of "env_arch env" c r] by (simp_all add: storage_core_def)
  have s1: "source_inv c s1 hosts" using assms by (simp add: source_inv_inventory [OF i])
  then have "hosts_inv c (elems (dstate_Guests s1)) (storage_on_host st hosts)"
      "map fst (storage_on_host st hosts) = map fst hosts"
    using storage_on_host_inv [of c "elems (dstate_Guests s1)" hosts, OF _ st(2)]
    by (simp_all add: source_inv_def)
  then show ?thesis using s1 st by (simp add: eq source_inv_def rows_inv_def)
qed

lemma collect_storages_inv:
  "source_inv c s hosts \<Longrightarrow> fold (collect_storage env col c configs) rs (s, hosts) = (s', hosts') \<Longrightarrow>
   source_inv c s' hosts' \<and> map fst hosts' = map fst hosts"
proof (induction rs arbitrary: s hosts)
  case (Cons r rs)
  obtain s1 hosts1 where 1: "collect_storage env col c configs r (s, hosts) = (s1, hosts1)" by fastforce
  with collect_storage_inv [OF Cons.prems(1), of env col configs r] Cons.IH [of s1 hosts1] Cons.prems(2)
  show ?case by simp
qed simp

section \<open>Guests\<close>

definition guest_core :: "guest \<Rightarrow> string \<times> string \<times> string \<times> string \<times> string" where
  "guest_core g = (guest_ID g, guest_VMID g, guest_HostID g, guest_SourceID g, guest_Type g)"

definition guest_frame :: "dstate \<times> guest \<Rightarrow> _" where
  "guest_frame sg = (inventory (fst sg), guest_core (snd sg), guest_pcts (snd sg))"

lemma guest_frame_pair [simp]: "guest_frame (s, g) = (inventory s, guest_core g, guest_pcts g)"
  by (simp add: guest_frame_def)

lemma base_guest_core:
  "guest_core (base_guest a c pin r) =
     (client_id c @ ''/'' @ guest_vmid r, guest_vmid r, client_id c @ ''/'' @ resource_Node r, client_id c,
      resource_Type r)"
  "guest_pcts (base_guest a c pin r)"
  by (simp_all add: base_guest_def guest_core_def guest_pcts_def guest_zero_def Let_def)

lemma guest_config_frame:
  "guest_core (collect_guest_config env c r g) = guest_core g"
  "guest_pcts (collect_guest_config env c r g) = guest_pcts g"
  by (simp_all add: collect_guest_config_def applyGuestConfig_def guest_core_def guest_pcts_def Let_def
      split: sum.split)

lemma guest_status_frame:
  "inventory (fst (collect_guest_status env c r sg)) = inventory (fst sg)"
  "guest_core (snd (collect_guest_status env c r sg)) = guest_core (snd sg)"
  "guest_pcts (snd sg) \<Longrightarrow> guest_pcts (snd (collect_guest_status env c r sg))"
  by (cases sg; simp add: collect_guest_status_def applyGuestStatus_def guest_core_def guest_pcts_def Let_def
      split: sum.split)+

lemma guest_rrd_frame: "collect_guest_rrd env c r g s = Some s' \<Longrightarrow> inventory s' = inventory s"
  by (auto simp: collect_guest_rrd_def Let_def split: sum.splits option.splits)

lemma snapshots_frame: "guest_frame (collect_snapshots env c r sg) = guest_frame sg"
  by (cases sg) (simp add: collect_snapshots_def guest_core_def guest_pcts_def split: sum.split)

lemma applyGuestAgent_frame:
  "guest_core (fst (applyGuestAgent ans g)) = guest_core g"
  "guest_pcts (fst (applyGuestAgent ans g)) = guest_pcts g"
  by (cases "ans_info ans"; cases "ans_hostname ans"; cases "ans_osinfo ans"; cases "ans_network ans";
      cases "ans_fsinfo ans";
      simp add: applyGuestAgent_def agent_networks_def guest_core_def guest_pcts_def Let_def split: list.split)+

lemma agent_frame: "guest_frame (collect_agent env c r sg) = guest_frame sg"
proof (cases sg)
  case (Pair s g)
  let ?r = "applyGuestAgent (agent_requests env c (resource_Node r) (guest_VMID g)) g"
  have "guest_core (fst ?r) = guest_core g" "guest_pcts (fst ?r) = guest_pcts g"
    by (rule applyGuestAgent_frame)+
  then show ?thesis
    by (cases ?r) (simp add: Pair collect_agent_def guest_core_def guest_pcts_def Let_def split: option.split)
qed

lemma interfaces_frame: "guest_frame (collect_interfaces env c r sg) = guest_frame sg"
  by (cases sg) (simp add: collect_interfaces_def container_addresses_def guest_core_def guest_pcts_def
      Let_def split: sum.split list.split)

lemma expected_frame: "guest_frame (check_expected sg) = guest_frame sg"
  by (cases sg) (simp add: check_expected_def guest_core_def guest_pcts_def)

text \<open>One guest adds one row and counts it on its host.\<close>

lemma collect_guest_shape:
  assumes "collect_guest env col c r (s, hosts, guests) = Some shg"
  obtains s1 g where
    "shg = (s1\<lparr>dstate_Guests := append_slice (dstate_Guests s1) [g]\<rparr>,
            guest_on_host (resource_Node r) g hosts, guests(guest_ID g \<mapsto> g))"
    and "inventory s1 = inventory s" and "guest_pcts g"
    and "guest_HostID g = client_id c @ ''/'' @ resource_Node r" and "guest_SourceID g = client_id c"
    and "guest_ID g = client_id c @ ''/'' @ guest_vmid r"
proof -
  let ?g0 = "base_guest (env_arch env) c (col_pinned col (client_id c @ ''/'' @ guest_vmid r)) r"
  let ?g1 = "collect_guest_config env c r ?g0"
  obtain s2 g2 where 2: "collect_guest_status env c r (s, ?g1) = (s2, g2)" by fastforce
  note unfold = collect_guest_def [of env col c r "(s, hosts, guests)", unfolded Let_def prod.case 2]
  from assms obtain s3 where 3: "collect_guest_rrd env c r g2 s2 = Some s3"
    by (cases "collect_guest_rrd env c r g2 s2") (simp_all add: unfold)
  obtain s4 g4 where 4: "check_expected (collect_interfaces env c r (collect_agent env c r
      (collect_snapshots env c r (s3, g2)))) = (s4, g4)" by fastforce
  have "guest_frame (s4, g4) = guest_frame (s3, g2)"
    unfolding 4 [symmetric] by (simp only: expected_frame interfaces_frame agent_frame snapshots_frame)
  moreover have "inventory s2 = inventory s" "guest_core g2 = guest_core ?g0" "guest_pcts g2"
    using guest_status_frame [where sg = "(s, ?g1)" and env = env and c = c and r = r] by (simp_all only: 2 fst_conv snd_conv guest_config_frame base_guest_core(2) simp_thms)
  ultimately have f: "inventory s4 = inventory s" "guest_core g4 = guest_core ?g0" "guest_pcts g4"
    using guest_rrd_frame [OF 3] by simp_all
  have "shg = (s4\<lparr>dstate_Guests := append_slice (dstate_Guests s4) [g4]\<rparr>,
            guest_on_host (resource_Node r) g4 hosts, guests(guest_ID g4 \<mapsto> g4))"
    using assms by (simp add: unfold 3 4)
  then show ?thesis
    using that [of s4 g4] f base_guest_core(1) [of "env_arch env" c] by (simp add: guest_core_def)
qed

lemma guests_on_append:
  "guests_on h b (gs @ [g]) =
     guests_on h b gs @ (if guest_HostID g = host_ID h \<and> (guest_Status g = ''running'') = b then [g] else [])"
  by (simp add: guests_on_def)

lemma guest_on_host_inv:
  assumes inv: "hosts_inv c gs hosts" and hid: "guest_HostID g = client_id c @ ''/'' @ node"
  shows "hosts_inv c (gs @ [g]) (guest_on_host node g hosts)"
proof -
  have other: "host_counts (gs @ [g]) h" if "map_of hosts n = Some h" "n \<noteq> node" for n h
  proof -
    have "host_counts gs h" "host_ID h = client_id c @ ''/'' @ n"
      using inv that(1) by (simp_all add: hosts_inv_def host_named_def)
    then show ?thesis using hid that(2) by (simp add: host_counts_def guests_on_append)
  qed
  show ?thesis
  proof (cases "map_of hosts node")
    case None
    then have "guest_on_host node g hosts = hosts" by (simp add: guest_on_host_def)
    then show ?thesis using inv other None unfolding hosts_inv_def by (metis option.distinct(1))
  next
    case (Some h)
    let ?h = "if guest_Status g = ''running'' then h\<lparr>host_GuestsRunning := host_GuestsRunning h + 1\<rparr>
              else h\<lparr>host_GuestsStopped := host_GuestsStopped h + 1\<rparr>"
    have h: "host_named c node h" "host_counts gs h" using inv Some by (simp_all add: hosts_inv_def)
    then have "host_named c node ?h" by (simp add: host_named_def host_pcts_def)
    moreover have "host_counts (gs @ [g]) ?h"
      using h hid by (simp add: host_counts_def host_named_def guests_on_append) (simp add: guests_on_def)
    moreover have "guest_on_host node g hosts = AList.update node ?h hosts"
      using Some by (simp add: guest_on_host_def)
    ultimately show ?thesis
      using inv other by (auto simp: hosts_inv_def update_conv' distinct_update)
  qed
qed

lemma guest_on_host_keys: "map fst (guest_on_host node g hosts) = map fst hosts"
  by (simp add: guest_on_host_def update_keys_in split: option.split)

lemma collect_guest_inv:
  assumes "source_inv c s hosts" and "collect_guest env col c r (s, hosts, guests) = Some (s', hosts', guests')"
  shows "source_inv c s' hosts' \<and> map fst hosts' = map fst hosts"
proof -
  obtain s1 g where eq: "(s', hosts', guests') = (s1\<lparr>dstate_Guests := append_slice (dstate_Guests s1) [g]\<rparr>,
      guest_on_host (resource_Node r) g hosts, guests(guest_ID g \<mapsto> g))"
    and i: "inventory s1 = inventory s" and g: "guest_pcts g" "guest_SourceID g = client_id c"
    and hid: "guest_HostID g = client_id c @ ''/'' @ resource_Node r"
    using assms(2) by (rule collect_guest_shape) blast
  have s1: "source_inv c s1 hosts" using assms(1) by (simp add: source_inv_inventory [OF i])
  then have "hosts_inv c (elems (dstate_Guests s1) @ [g]) (guest_on_host (resource_Node r) g hosts)"
    using hid by (intro guest_on_host_inv) (simp_all add: source_inv_def)
  then show ?thesis using s1 g eq by (simp add: source_inv_def rows_inv_def guest_on_host_keys)
qed

lemma collect_guests_inv:
  "collect_guests env col c rs (s, hosts, guests) = Some (s', hosts', guests') \<Longrightarrow> source_inv c s hosts \<Longrightarrow>
   source_inv c s' hosts' \<and> map fst hosts' = map fst hosts"
proof (induction rs arbitrary: s hosts guests)
  case (Cons r rs)
  then obtain s1 hosts1 guests1 where
    1: "collect_guest env col c r (s, hosts, guests) = Some (s1, hosts1, guests1)"
    and rest: "collect_guests env col c rs (s1, hosts1, guests1) = Some (s', hosts', guests')"
    by (auto split: option.splits)
  with collect_guest_inv [OF Cons.prems(2) 1] Cons.IH [OF rest] show ?case by simp
qed simp

section \<open>Replications, tasks and alerts\<close>

lemma inventory_replication_status [simp]:
  "inventory (fst (replication_with_status env c r s)) = inventory s"
  by (simp add: replication_with_status_def Let_def split: sum.split)

lemma inventory_replication_step: "inventory (fst (replication_step env c guests r sc)) = inventory (fst sc)"
  by (cases sc) (simp add: replication_step_def Let_def split_beta)

lemma inventory_replications: "inventory (fst (collect_replications env c guests sc)) = inventory (fst sc)"
  by (cases sc) (simp add: collect_replications_def Let_def inventory_replication_step
      fold_keeps [of "\<lambda>x. inventory (fst x)"] split: sum.split)

definition task_frame :: "dstate \<times> host \<times> (string \<Rightarrow> int) \<Rightarrow> _" where
  "task_frame shl = (inventory (fst shl), host_core (fst (snd shl)))"

lemma task_step_frame: "task_frame (task_step c guests now t shl) = task_frame shl"
  by (cases shl) (simp add: task_step_def task_on_host_def task_frame_def Let_def)

lemma node_tasks_frame:
  assumes "collect_node_tasks env c guests now node (s, h, started) = (s', h', started')"
  shows "inventory s' = inventory s \<and> host_core h' = host_core h"
proof -
  have "task_frame (fold (task_step c guests now) ts (s, h, started)) = task_frame (s, h, started)" for ts
    by (rule fold_keeps) (rule task_step_frame)
  then have "task_frame (collect_node_tasks env c guests now node (s, h, started)) = task_frame (s, h, started)"
    by (simp add: collect_node_tasks_def task_frame_def Let_def split_beta split: sum.split)
  then show ?thesis by (simp add: assms task_frame_def)
qed

lemma collect_tasks_inv:
  "collect_tasks env c guests now nodes (s, hosts, started) = (s', hosts') \<Longrightarrow> source_inv c s hosts \<Longrightarrow>
   source_inv c s' hosts' \<and> map fst hosts' = map fst hosts"
proof (induction nodes arbitrary: s hosts started)
  case (Cons node nodes)
  show ?case
  proof (cases "map_of hosts node")
    case None
    with Cons show ?thesis by simp
  next
    case (Some h)
    obtain s1 h1 started1 where 1: "collect_node_tasks env c guests now node (s, h, started) = (s1, h1, started1)"
      by (metis prod.exhaust)
    note f = node_tasks_frame [OF 1]
    have "hosts_inv c (elems (dstate_Guests s)) (AList.update node h1 hosts)"
      using Cons.prems(2) f by (intro hosts_inv_core [OF _ Some]) (simp_all add: source_inv_def)
    then have "source_inv c s (AList.update node h1 hosts)" using Cons.prems(2) by (simp add: source_inv_def)
    then have "source_inv c s1 (AList.update node h1 hosts)" using f by (simp add: source_inv_inventory [of s1 s])
    then show ?thesis
      using Cons.IH [of s1 "AList.update node h1 hosts" started1] Cons.prems(1) Some 1
      by (simp add: update_keys_in)
  qed
qed simp

section \<open>The hosts of the result\<close>

definition alerted :: "alert_config \<Rightarrow> host \<Rightarrow> host" where
  "alerted cfg h = snd (applyHostAlerts cfg (dstate_zero, h))"

lemma applyHostAlerts_frame:
  "inventory (fst (applyHostAlerts cfg (s, h))) = inventory s"
  "snd (applyHostAlerts cfg (s, h)) = alerted cfg h"
  "host_core (alerted cfg h) = host_core h"
  "set (elems (dstate_Alerts s)) \<subseteq> set (elems (dstate_Alerts (fst (applyHostAlerts cfg (s, h)))))"
  by (auto simp: alerted_def applyHostAlerts_def host_memory_alerts_def host_storage_alerts_def
      host_core_def Let_def)

definition visited :: "string list \<Rightarrow> host_map \<Rightarrow> host list" where
  "visited nodes hosts = List.map_filter (map_of hosts) nodes"

lemma visited_simps [simp]:
  "visited [] hosts = []"
  "visited (n # ns) hosts = (case map_of hosts n of None \<Rightarrow> visited ns hosts | Some h \<Rightarrow> h # visited ns hosts)"
  by (simp_all add: visited_def List.map_filter_simps split: option.split)

lemma set_visited: "set (visited nodes hosts) = {h. \<exists>n\<in>set nodes. map_of hosts n = Some h}"
  by (simp add: visited_def map_filter_set)

text \<open>Every visited host is a row of the result, and an offline one has its alert.\<close>

lemma finish_hosts_rows:
  "elems (dstate_Hosts (finish_hosts cfg nodes hosts s))
     = elems (dstate_Hosts s) @ map (alerted cfg) (visited nodes hosts) \<and>
   dstate_Guests (finish_hosts cfg nodes hosts s) = dstate_Guests s \<and>
   dstate_Storages (finish_hosts cfg nodes hosts s) = dstate_Storages s"
proof (induction nodes arbitrary: s)
  case (Cons n nodes)
  show ?case
  proof (cases "map_of hosts n")
    case (Some h)
    obtain s1 h1 where 1: "applyHostAlerts cfg (s, h) = (s1, h1)" by fastforce
    show ?thesis
      using applyHostAlerts_frame(1,2) [of cfg s h] Some
        Cons.IH [of "s1\<lparr>dstate_Hosts := append_slice (dstate_Hosts s1) [h1]\<rparr>"]
      by (simp add: 1 inventory_def)
  qed (use Cons in simp)
qed simp

lemma finish_hosts_alerts:
  "set (elems (dstate_Alerts s)) \<subseteq> set (elems (dstate_Alerts (finish_hosts cfg nodes hosts s))) \<and>
   (\<forall>h\<in>set (visited nodes hosts). \<not> host_Online h \<longrightarrow>
      host_offline_alert h \<in> set (elems (dstate_Alerts (finish_hosts cfg nodes hosts s))))"
proof (induction nodes arbitrary: s)
  case (Cons n nodes)
  show ?case
  proof (cases "map_of hosts n")
    case (Some h)
    obtain s1 h1 where 1: "applyHostAlerts cfg (s, h) = (s1, h1)" by fastforce
    let ?s = "s1\<lparr>dstate_Hosts := append_slice (dstate_Hosts s1) [h1]\<rparr>"
    have "set (elems (dstate_Alerts s)) \<subseteq> set (elems (dstate_Alerts ?s))"
      using applyHostAlerts_frame(4) [of s cfg h] by (simp add: 1)
    moreover have "\<not> host_Online h \<Longrightarrow> host_offline_alert h \<in> set (elems (dstate_Alerts ?s))"
      using applyHostAlerts_offline [of h cfg s] by (auto simp: 1)
    ultimately show ?thesis using Cons.IH [of ?s] Some by (auto simp: 1)
  qed (use Cons in simp)
qed simp

text \<open>What a collected source guarantees.\<close>

definition source_ok :: "client \<Rightarrow> dstate \<Rightarrow> bool" where
  "source_ok c s \<longleftrightarrow>
     distinct (map host_Node (elems (dstate_Hosts s))) \<and>
     (\<forall>h\<in>set (elems (dstate_Hosts s)). host_named c (host_Node h) h \<and>
        host_counts (elems (dstate_Guests s)) h \<and>
        (\<not> host_Online h \<longrightarrow> host_offline_alert h \<in> set (elems (dstate_Alerts s)))) \<and>
     rows_inv c s"

lemma visited_nodes:
  assumes "hosts_inv c gs hosts"
  shows "map host_Node (visited nodes hosts) = filter (\<lambda>n. n \<in> set (map fst hosts)) nodes"
proof (induction nodes)
  case (Cons n nodes)
  have "host_Node h = n" if "map_of hosts n = Some h" for h
    using assms that by (simp add: hosts_inv_def host_named_def)
  moreover have "map_of hosts n = None \<longleftrightarrow> n \<notin> set (map fst hosts)"
    by (simp add: map_of_eq_None_iff)
  ultimately show ?case using Cons by (cases "map_of hosts n") auto
qed simp

lemma finish_hosts_ok:
  assumes "source_inv c s hosts" and "distinct nodes"
  shows "source_ok c (finish_hosts cfg nodes hosts s) \<and>
         set (map host_Node (elems (dstate_Hosts (finish_hosts cfg nodes hosts s))))
           = set nodes \<inter> set (map fst hosts)"
proof -
  let ?f = "finish_hosts cfg nodes hosts s" and ?v = "visited nodes hosts"
  have inv: "dstate_Hosts s = None" "rows_inv c s" "hosts_inv c (elems (dstate_Guests s)) hosts"
    using assms(1) by (simp_all add: source_inv_def)
  have rows: "elems (dstate_Hosts ?f) = map (alerted cfg) ?v"
      "dstate_Guests ?f = dstate_Guests s" "dstate_Storages ?f = dstate_Storages s"
    using finish_hosts_rows [of cfg nodes hosts s] inv(1) by simp_all
  have core: "host_Node (alerted cfg h) = host_Node h" "host_Online (alerted cfg h) = host_Online h"
      "host_ID (alerted cfg h) = host_ID h" "host_SourceID (alerted cfg h) = host_SourceID h" for h
    using applyHostAlerts_frame(3) [of cfg h] by (simp_all add: host_core_def)
  have alert: "host_offline_alert (alerted cfg h) = host_offline_alert h" if "\<not> host_Online h" for h
    using applyHostAlerts_offline [OF that, of cfg dstate_zero] by (simp add: alerted_def)
  have nodes: "map host_Node (elems (dstate_Hosts ?f)) = filter (\<lambda>n. n \<in> set (map fst hosts)) nodes"
    using visited_nodes [OF inv(3), of nodes] by (simp add: rows core comp_def)
  have each: "host_named c (host_Node h) h \<and> host_counts (elems (dstate_Guests s)) h" if "h \<in> set ?v" for h
    using that inv(3) by (auto simp: set_visited hosts_inv_def host_named_def)
  have "source_ok c ?f"
    unfolding source_ok_def nodes using assms(2)
  proof (intro conjI ballI)
    fix h assume "h \<in> set (elems (dstate_Hosts ?f))"
    then obtain h0 where h: "h = alerted cfg h0" "h0 \<in> set ?v" by (auto simp: rows)
    show "host_named c (host_Node h) h"
      using each [OF h(2)] host_core_named [OF applyHostAlerts_frame(3), of c "host_Node h0" cfg h0]
      by (simp add: h(1) core)
    show "host_counts (elems (dstate_Guests ?f)) h"
      using each [OF h(2)] host_core_counts [OF applyHostAlerts_frame(3), of "elems (dstate_Guests s)" cfg h0]
      by (simp add: h(1) rows)
    show "\<not> host_Online h \<longrightarrow> host_offline_alert h \<in> set (elems (dstate_Alerts ?f))"
      using finish_hosts_alerts [of s cfg nodes hosts] h by (auto simp: core alert)
  next
    show "rows_inv c ?f" using inv(2) by (simp add: rows_inv_def rows)
  qed simp
  then show ?thesis unfolding nodes by auto
qed

section \<open>The whole source\<close>

definition fair_order :: "env \<Rightarrow> bool" where
  "fair_order env \<longleftrightarrow> (\<forall>k ks. distinct ks \<longrightarrow> distinct (env_order env k ks) \<and> set (env_order env k ks) = set ks)"

text \<open>
  The nodes a source reports: its resources of type node, by their node field, or their name if that
  is blank, or the name of the source if both are.
\<close>

definition reported_name :: "client \<Rightarrow> resource \<Rightarrow> string" where
  "reported_name c r =
     (if trim_space (resource_Node r) \<noteq> '''' then resource_Node r
      else if trim_space (resource_Name r) \<noteq> '''' then resource_Name r else client_name c)"

definition node_names :: "client \<Rightarrow> resource list \<Rightarrow> string set" where
  "node_names c resources = reported_name c ` {r \<in> set resources. resource_Type r = ''node''}"

lemma base_host_name [simp]: "host_Node (base_host a c r) = reported_name c r"
  by (auto simp: base_host_def reported_name_def Let_def trim_space_Nil)

lemma base_hosts_keys: "set (map fst (base_hosts a c resources)) = node_names c resources"
proof -
  have "set (map fst (fold (\<lambda>r hosts. let h = base_host a c r in AList.update (host_Node h) h hosts) rs hosts))
      = reported_name c ` set rs \<union> set (map fst hosts)" for rs hosts
    by (induction rs arbitrary: hosts) (auto simp: Let_def dom_update)
  then show ?thesis by (auto simp: base_hosts_def node_names_def)
qed

lemma collect_resources_ok:
  assumes fair: "fair_order env"
    and res: "collect_resources env col c resources s0 = Some s" and s0: "inventory s0 = (None, None, None)"
  shows "source_ok c s \<and>
         set (map host_Node (elems (dstate_Hosts s))) = node_names c resources"
proof -
  let ?hosts = "base_hosts (env_arch env) c resources"
  let ?guests = "filter (\<lambda>r. resource_Type r = ''qemu'' \<or> resource_Type r = ''lxc'') resources"
  obtain s1 cl configs where 1: "collect_cluster env c s0 = ((s1, cl), configs)" by (metis prod.exhaust)
  note unfold = collect_resources_def [of env col c resources s0, unfolded 1 Let_def prod.case]
  from res obtain s2 hosts2 where
    2: "collect_nodes env c (visit env 0 ?hosts) (s1, ?hosts) = Some (s2, hosts2)"
    by (auto simp: unfold split: option.splits)
  obtain s3 hosts3 where 3: "fold (collect_storage env col c configs)
      (filter (\<lambda>r. resource_Type r = ''storage'') resources) (s2, hosts2) = (s3, hosts3)" by fastforce
  from res obtain s4 hosts4 guests4 where
    4: "collect_guests env col c ?guests (s3, hosts3, Map.empty) = Some (s4, hosts4, guests4)"
    by (auto simp: unfold 2 3 split: option.splits)
  obtain s5 cl5 where 5: "collect_replications env c guests4 (s4, cl) = (s5, cl5)" by fastforce
  let ?s5 = "s5\<lparr>dstate_Clusters := append_slice (dstate_Clusters s5) [cl5]\<rparr>"
  obtain s6 hosts6 where 6: "collect_tasks env c guests4 (unix (env_clock env ''tasks'' 0)) (visit env 1 hosts4)
      (?s5, hosts4, \<lambda>_. 0) = (s6, hosts6)" by fastforce
  have s: "s = finish_hosts (cfg_Alerts (col_cfg col)) (visit env 2 hosts6) hosts6 s6"
  proof -
    have "collect_resources env col c resources s0
        = Some (finish_hosts (cfg_Alerts (col_cfg col)) (visit env 2 hosts6) hosts6 s6)"
      by (simp only: unfold 2 3 4 5 6 prod.case option.case)
    with res show ?thesis by simp
  qed
  have "inventory s1 = inventory s0" using inventory_collect_cluster [of env c s0] by (simp add: 1)
  then have "source_inv c s1 ?hosts"
    using s0 base_hosts_inv [of c "env_arch env" resources]
    by (simp add: source_inv_def rows_inv_def inventory_def)
  note inv2 = collect_nodes_inv [OF 2 this]
  note inv3 = collect_storages_inv [OF conjunct1 [OF inv2] 3]
  note inv4 = collect_guests_inv [OF 4 conjunct1 [OF inv3]]
  have "inventory ?s5 = inventory s4" using inventory_replications [of env c guests4 "(s4, cl)"] by (simp add: 5)
  then have "source_inv c ?s5 hosts4" using inv4 by (simp add: source_inv_inventory [of ?s5 s4])
  note inv6 = collect_tasks_inv [OF 6 this]
  have keys: "map fst hosts6 = map fst ?hosts" using inv2 inv3 inv4 inv6 by simp
  have "distinct (map fst hosts6)" using conjunct1 [OF inv6] unfolding source_inv_def hosts_inv_def by blast
  then have v: "distinct (visit env 2 hosts6)" "set (visit env 2 hosts6) = set (map fst ?hosts)"
    using fair keys by (simp_all add: visit_def fair_order_def)
  show ?thesis
    using finish_hosts_ok [OF conjunct1 [OF inv6] v(1), of "cfg_Alerts (col_cfg col)"] v(2) keys
    unfolding s base_hosts_keys [symmetric, where a = "env_arch env"] by simp
qed

section \<open>A source never panics\<close>

text \<open>The series of the API have at most \<open>2 ^ 48\<close> points; the bridge asks for one hour.\<close>

definition short_series :: "env \<Rightarrow> bool" where
  "short_series env \<longleftrightarrow>
     (\<forall>dat. length (fst (json_nodeRRDData (env_codec env) dat)) \<le> 2 ^ 48) \<and>
     (\<forall>dat. length (fst (json_guestRRDData (env_codec env) dat)) \<le> 2 ^ 48)"

lemma Get_decoded: "checked (Get net decode z c path) = Inr v \<Longrightarrow> \<exists>dat. v = fst (decode dat)"
  by (auto simp: checked_def Get_def split: option.splits sum.splits if_splits)

lemma trend_some: "length points \<le> 2 ^ 48 \<Longrightarrow> \<exists>t. trend a base metric unit points f = Some t"
  using trendValues_some [of points a f] by (simp add: trend_def)

lemma options_some: "\<forall>x\<in>set xs. x \<noteq> None \<Longrightarrow> \<exists>ys. options xs = Some ys"
  by (induction xs) auto

lemma node_trends_some: "length points \<le> 2 ^ 48 \<Longrightarrow> \<exists>ts. nodeMetricTrends a c h points = Some ts"
  unfolding nodeMetricTrends_def Let_def
  by (rule options_some) (use trend_some [of points a] in auto)

lemma guest_trends_some: "length points \<le> 2 ^ 48 \<Longrightarrow> \<exists>ts. guestMetricTrends a c g points = Some ts"
  unfolding guestMetricTrends_def Let_def
  by (rule options_some) (use trend_some [of points a] in auto)

lemma collect_node_some: "short_series env \<Longrightarrow> \<exists>r. collect_node env c node sh = Some r"
proof -
  assume short: "short_series env"
  have "collect_node_rrd env c node x \<noteq> None" for x
  proof (cases "nodeRRDData env c node")
    case (Inr rrd)
    then have "length rrd \<le> 2 ^ 48"
      using short by (auto simp: nodeRRDData_def short_series_def dest!: Get_decoded)
    then show ?thesis using node_trends_some [of rrd "env_arch env" c "snd x"] Inr
      by (cases x) (auto simp: collect_node_rrd_def Let_def)
  qed (cases x, simp add: collect_node_rrd_def)
  then show ?thesis by (cases sh) (simp add: collect_node_def Let_def split: option.split)
qed

lemma collect_nodes_some: "short_series env \<Longrightarrow> \<exists>r. collect_nodes env c nodes sh = Some r"
proof (induction nodes arbitrary: sh)
  case (Cons node nodes)
  obtain s hosts where sh: "sh = (s, hosts)" by fastforce
  show ?case
  proof (cases "map_of hosts node")
    case (Some h)
    with collect_node_some [OF Cons.prems, of c node "(s, h)"] Cons.IH [OF Cons.prems] sh
    show ?thesis by (auto split: prod.split)
  qed (use Cons sh in simp)
qed simp

lemma collect_guest_some: "short_series env \<Longrightarrow> \<exists>r. collect_guest env col c r0 shg = Some r"
proof -
  assume short: "short_series env"
  have rrd: "(collect_guest_rrd env c r0 g s = None) = False" for g s
  proof (cases "guestRRDData env c (resource_Node r0) (resource_Type r0) (guest_VMID g)")
    case (Inr rrd)
    then have "length rrd \<le> 2 ^ 48"
      using short by (auto simp: guestRRDData_def short_series_def dest!: Get_decoded)
    then show ?thesis using guest_trends_some [of rrd "env_arch env" c g] Inr
      by (auto simp: collect_guest_rrd_def Let_def)
  qed (simp add: collect_guest_rrd_def)
  obtain s hosts guests where shg: "shg = (s, hosts, guests)" by (rule prod_cases3)
  show ?thesis
    by (simp add: shg collect_guest_def Let_def rrd split_beta split: option.split del: not_None_eq)
qed

lemma collect_guests_some: "short_series env \<Longrightarrow> \<exists>r. collect_guests env col c rs shg = Some r"
proof (induction rs arbitrary: shg)
  case (Cons r rs)
  obtain x where "collect_guest env col c r shg = Some x" using collect_guest_some [OF Cons.prems] by blast
  then show ?case using Cons.IH [OF Cons.prems, of x] by (simp del: split_paired_Ex)
qed (simp del: split_paired_Ex)

lemma collect_resources_some: "short_series env \<Longrightarrow> \<exists>s. collect_resources env col c resources s0 = Some s"
proof -
  assume short: "short_series env"
  let ?hosts = "base_hosts (env_arch env) c resources"
  let ?guests = "filter (\<lambda>r. resource_Type r = ''qemu'' \<or> resource_Type r = ''lxc'') resources"
  obtain s1 cl configs where 1: "collect_cluster env c s0 = ((s1, cl), configs)" by (metis prod.exhaust)
  obtain s2 hosts2 where 2: "collect_nodes env c (visit env 0 ?hosts) (s1, ?hosts) = Some (s2, hosts2)"
    using collect_nodes_some [OF short, of c "visit env 0 ?hosts" "(s1, ?hosts)"] by auto
  obtain s3 hosts3 where 3: "fold (collect_storage env col c configs)
      (filter (\<lambda>r. resource_Type r = ''storage'') resources) (s2, hosts2) = (s3, hosts3)" by fastforce
  obtain s4 hosts4 guests4 where
    4: "collect_guests env col c ?guests (s3, hosts3, Map.empty) = Some (s4, hosts4, guests4)"
    using collect_guests_some [OF short, of col c ?guests "(s3, hosts3, Map.empty)"] by auto
  obtain s5 cl5 where 5: "collect_replications env c guests4 (s4, cl) = (s5, cl5)" by fastforce
  obtain s6 hosts6 where 6: "collect_tasks env c guests4 (unix (env_clock env ''tasks'' 0)) (visit env 1 hosts4)
      (s5\<lparr>dstate_Clusters := append_slice (dstate_Clusters s5) [cl5]\<rparr>, hosts4, \<lambda>_. 0) = (s6, hosts6)" by fastforce
  show ?thesis
    unfolding collect_resources_def Let_def 1 2 3 4 5 6 prod.case option.case by blast
qed

lemma collectSource_some: "short_series env \<Longrightarrow> \<exists>s. collectSource env col c = Some s"
  using collect_resources_some [of env col c] by (simp add: collectSource_def Let_def split: sum.split)

end
