(* ===== verification/Cache.thy ===== *)
theory Cache
  imports Display
begin

text \<open>
  Package \<open>store\<close> (\<open>internal/store/cache.go\<close>): the cache that owns the last collected state
  and serves it to the handlers while a refresh runs.  The cache only knows its collector through
  the interface \<open>Collector\<close>; collectors are values of a type \<open>'c\<close> and \<open>collect\<close> runs one in
  a world \<open>'w\<close> (the clock and the Proxmox servers).  \<open>Refresh\<close> takes the lock twice, so it is
  two atomic steps with the collection in between, and other steps may come between them.
\<close>

record ('c, 'e) cache =
  cache_collector :: 'c
  cache_pollInterval :: int
  cache_staleAfter :: int
  cache_state :: dstate
  cache_lastOK :: gotime
  cache_lastErr :: "'e option"
  cache_hasState :: bool

definition NewCache :: "'c \<Rightarrow> int \<Rightarrow> int \<Rightarrow> ('c, 'e) cache" where
  "NewCache collector poll stale =
     \<lparr>cache_collector = collector, cache_pollInterval = poll, cache_staleAfter = stale,
      cache_state = dstate_zero, cache_lastOK = zero_time, cache_lastErr = None,
      cache_hasState = False\<rparr>"

text \<open>The second critical section of \<open>Refresh\<close>: what it writes and the error it returns.\<close>

definition refresh_end ::
    "'e + dstate \<Rightarrow> gotime \<Rightarrow> ('c, 'e) cache \<Rightarrow> ('c, 'e) cache \<times> 'e option" where
  "refresh_end result now c =
     (case result of
        Inl err \<Rightarrow> (c\<lparr>cache_lastErr := Some err\<rparr>, Some err)
      | Inr state \<Rightarrow>
          (c\<lparr>cache_state := Finalize state, cache_lastOK := now, cache_lastErr := None,
             cache_hasState := True\<rparr>, None))"

definition Refresh ::
    "('c \<Rightarrow> 'w \<Rightarrow> 'e + dstate) \<Rightarrow> 'w \<Rightarrow> gotime \<Rightarrow> ('c, 'e) cache \<Rightarrow> ('c, 'e) cache \<times> 'e option" where
  "Refresh collect w now c = (let collector = cache_collector c
                              in refresh_end (collect collector w) now c)"

definition Reconfigure :: "'c \<Rightarrow> int \<Rightarrow> int \<Rightarrow> ('c, 'e) cache \<Rightarrow> ('c, 'e) cache" where
  "Reconfigure collector poll stale c =
     c\<lparr>cache_collector := collector, cache_pollInterval := poll, cache_staleAfter := stale\<rparr>"

text \<open>\<open>time.Since\<close>: the difference of two times saturates at the range of a duration.\<close>

definition since :: "gotime \<Rightarrow> gotime \<Rightarrow> int" where
  "since now t = max (- (2 ^ 63)) (min (2 ^ 63 - 1) (now - t))"

datatype 'e state_error = LastError 'e | NoStateYet

definition CacheState :: "gotime \<Rightarrow> ('c, 'e) cache \<Rightarrow> 'e state_error + dstate" where
  "CacheState now c =
     (if \<not> cache_hasState c
      then (case cache_lastErr c of Some e \<Rightarrow> Inl (LastError e) | None \<Rightarrow> Inl NoStateYet)
      else let state = cache_state c
           in Inr (if since now (cache_lastOK c) > cache_staleAfter c
                   then state\<lparr>dstate_Stale := True\<rparr> else state))"

text \<open>\<open>Metadata\<close>; the two durations are kept as numbers, before \<open>Duration.String\<close>.\<close>

record 'e cache_meta =
  meta_has_state :: bool
  meta_last_ok :: gotime
  meta_poll_interval :: int
  meta_stale_after :: int
  meta_last_error :: "'e option"

definition Metadata :: "('c, 'e) cache \<Rightarrow> 'e cache_meta" where
  "Metadata c =
     \<lparr>meta_has_state = cache_hasState c, meta_last_ok = cache_lastOK c,
      meta_poll_interval = cache_pollInterval c, meta_stale_after = cache_staleAfter c,
      meta_last_error = cache_lastErr c\<rparr>"

section \<open>Interleaved refreshes\<close>

text \<open>
  The cache together with the refreshes in flight, each with the collector it read.  The
  background loop of \<open>Start\<close>, the admin handlers and \<open>main\<close> begin refreshes at any time; a
  collection may end in any order.
\<close>

inductive cache_step ::
    "('c \<Rightarrow> 'w \<Rightarrow> 'e + dstate) \<Rightarrow> ('c, 'e) cache \<times> 'c list \<Rightarrow> ('c, 'e) cache \<times> 'c list \<Rightarrow> bool"
  for collect :: "'c \<Rightarrow> 'w \<Rightarrow> 'e + dstate" where
  refresh_begins: "cache_step collect (c, fs) (c, fs @ [cache_collector c])"
| refresh_ends: "i < length fs \<Longrightarrow>
    cache_step collect (c, fs)
      (fst (refresh_end (collect (fs ! i) w) now c), take i fs @ drop (Suc i) fs)"
| reconfigured: "cache_step collect (c, fs) (Reconfigure col poll stale c, fs)"

inductive cache_reach ::
    "('c \<Rightarrow> 'w \<Rightarrow> 'e + dstate) \<Rightarrow> ('c, 'e) cache \<times> 'c list \<Rightarrow> bool"
  for collect :: "'c \<Rightarrow> 'w \<Rightarrow> 'e + dstate" where
  reach_new: "cache_reach collect (NewCache col poll stale, [])"
| reach_step: "cache_reach collect s \<Longrightarrow> cache_step collect s t \<Longrightarrow> cache_reach collect t"

inductive_cases cache_stepE: "cache_step collect (c, fs) t"

definition cache_ok :: "('c, 'e) cache \<Rightarrow> bool" where
  "cache_ok c \<longleftrightarrow> (cache_hasState c \<longrightarrow> finalized (cache_state c))"

lemma refresh_end_ok: "cache_ok c \<Longrightarrow> cache_ok (fst (refresh_end r now c))"
  by (auto simp: cache_ok_def refresh_end_def split: sum.split)

lemma refresh_end_hasState:
  "cache_hasState c \<Longrightarrow> cache_hasState (fst (refresh_end r now c))"
  by (auto simp: refresh_end_def split: sum.split)

lemma reconfigure_frame [simp]:
  "cache_state (Reconfigure col p s c) = cache_state c"
  "cache_hasState (Reconfigure col p s c) = cache_hasState c"
  "cache_lastErr (Reconfigure col p s c) = cache_lastErr c"
  "cache_lastOK (Reconfigure col p s c) = cache_lastOK c"
  "cache_ok (Reconfigure col p s c) = cache_ok c"
  by (simp_all add: Reconfigure_def cache_ok_def)

lemma cache_step_ok: "cache_step collect s t \<Longrightarrow> cache_ok (fst s) \<Longrightarrow> cache_ok (fst t)"
  by (induction rule: cache_step.induct) (auto intro: refresh_end_ok)

lemma cache_reach_ok: "cache_reach collect s \<Longrightarrow> cache_ok (fst s)"
proof (induction rule: cache_reach.induct)
  case (reach_new col poll stale)
  show ?case by (simp add: cache_ok_def NewCache_def)
next
  case (reach_step s t)
  then show ?case by (blast intro: cache_step_ok)
qed

lemma cache_step_hasState:
  "cache_step collect s t \<Longrightarrow> cache_hasState (fst s) \<Longrightarrow> cache_hasState (fst t)"
  by (induction rule: cache_step.induct) (auto intro: refresh_end_hasState)

lemma CacheState_finalized:
  "cache_ok c \<Longrightarrow> CacheState now c = Inr s \<Longrightarrow> finalized s"
  by (auto simp: CacheState_def cache_ok_def Let_def split: if_splits option.splits)

section \<open>The collector interface\<close>

text \<open>
  What the cache's clients may assume of a collector: a state it returns is finalized.  A
  \<open>reliable\<close> collector also never fails; then no refresh ever reports an error.
\<close>

locale collector =
  fixes collect :: "'c \<Rightarrow> 'w \<Rightarrow> 'e + dstate"
  assumes collect_finalized: "collect c w = Inr s \<Longrightarrow> finalized s"
begin

text \<open>The cached state is the collected one, unchanged.\<close>

lemma refresh_stores:
  "collect (cache_collector c) w = Inr s \<Longrightarrow>
   cache_state (fst (Refresh collect w now c)) = s \<and> snd (Refresh collect w now c) = None"
  using collect_finalized [of "cache_collector c" w s]
  by (simp add: Refresh_def refresh_end_def Finalize_id)

lemma refresh_fresh:
  assumes "collect (cache_collector c) w = Inr s" and "0 \<le> cache_staleAfter c"
  shows "CacheState now (fst (Refresh collect w now c)) = Inr s"
  using assms collect_finalized [OF assms(1)]
  by (simp add: Refresh_def refresh_end_def CacheState_def since_def Finalize_id)

lemma refresh_failed:
  "collect (cache_collector c) w = Inl e \<Longrightarrow>
   CacheState t (fst (Refresh collect w now c))
     = (if cache_hasState c then CacheState t c else Inl (LastError e))"
  by (simp add: Refresh_def refresh_end_def CacheState_def Let_def)

end

locale reliable_collector = collector collect
  for collect :: "'c \<Rightarrow> 'w \<Rightarrow> 'e + dstate" +
  assumes collect_total: "\<exists>s. collect c w = Inr s"
begin

lemma refresh_ok: "snd (Refresh collect w now c) = None"
  using collect_total [of "cache_collector c" w]
  by (auto simp: Refresh_def refresh_end_def)

lemma step_no_error:
  "cache_step collect s t \<Longrightarrow> cache_lastErr (fst s) = None \<Longrightarrow> cache_lastErr (fst t) = None"
proof (induction rule: cache_step.induct)
  case (refresh_ends i fs c w now)
  then show ?case using collect_total [of "fs ! i" w] by (auto simp: refresh_end_def)
qed simp_all

lemma reach_no_error: "cache_reach collect s \<Longrightarrow> cache_lastErr (fst s) = None"
proof (induction rule: cache_reach.induct)
  case (reach_new col poll stale)
  show ?case by (simp add: NewCache_def)
next
  case (reach_step s t)
  then show ?case by (blast intro: step_no_error)
qed

lemma served_iff: "cache_reach collect s \<Longrightarrow>
   (\<exists>d. CacheState now (fst s) = Inr d) \<longleftrightarrow> cache_hasState (fst s)"
  by (simp add: CacheState_def Let_def split: option.split)

end

section \<open>The setup and the mock collector\<close>

definition empty_collect :: "gotime \<Rightarrow> 'e + dstate" where
  "empty_collect now = Inr (Finalize ((NewState now)
     \<lparr>dstate_Alerts := Some [alert_zero
        \<lparr>alert_ID := ''setup-required'', alert_Severity := HealthWarning,
         alert_Title := ''Bridge setup required'',
         alert_Message := ''Open the bridge admin page and add at least one Proxmox source.''\<rparr>]\<rparr>))"

text \<open>The fixed lists of the mock collector; \<open>now\<close> is the current time in seconds.\<close>

definition mock_Hosts :: "host list" where
  "mock_Hosts =
     [host_zero
        \<lparr>host_ID := ''mock/lab-a'', host_Name := ''Lab A'', host_SourceID := ''mock'',
          host_Node := ''lab-a'', host_Online := True, host_CPUPct := 18, host_MaxCPU := 4,
          host_CPUModel := ''Mock CPU'', host_GPUCount := 1,
          host_GPUSummary := ''Intel UHD Graphics'', host_MemoryPct := 62,
          host_MemoryUsedBytes := 5325759447, host_MemoryTotalBytes := 8589934592,
          host_StoragePct := 71, host_StorageUsedBytes := 76235669504,
          host_StorageTotalBytes := 107374182400, host_StorageMaxPct := 71,
          host_StorageMaxName := ''local'', host_UptimeSec := 123456,
          host_LoadAvg := [''0.24'', ''0.30'', ''0.28''],
          host_PVEVersion := ''pve-manager/mock'', host_KernelVersion := ''6.17.0-pve'',
          host_PrimaryAddress := ''192.168.1.10'', host_NetworkActive := 2,
          host_NetworkTotal := 3, host_ServicesRunning := 8, host_ServicesTotal := 8,
          host_DiskCount := 1, host_LastBackupStatus := ''OK'', host_LastBackupAgeSec := 7200,
          host_GuestsRunning := 7, host_GuestsStopped := 1, host_Health := HealthOK\<rparr>,
      host_zero
        \<lparr>host_ID := ''mock/lab-b'', host_Name := ''Lab B'', host_SourceID := ''mock'',
          host_Node := ''lab-b'', host_Online := True, host_CPUPct := 31, host_MaxCPU := 16,
          host_CPUModel := ''Mock Ryzen'', host_GPUCount := 2,
          host_GPUSummary := ''NVIDIA RTX A2000 +1'', host_MemoryPct := 48,
          host_MemoryUsedBytes := 8246337208, host_MemoryTotalBytes := 17179869184,
          host_StoragePct := 55, host_StorageUsedBytes := 590558003200,
          host_StorageTotalBytes := 1073741824000, host_StorageMaxPct := 82,
          host_StorageMaxName := ''datapool'', host_UptimeSec := 98765,
          host_LoadAvg := [''1.10'', ''1.05'', ''0.98''],
          host_PVEVersion := ''pve-manager/mock'', host_KernelVersion := ''6.17.0-pve'',
          host_PrimaryAddress := ''192.168.1.11'', host_NetworkActive := 3,
          host_NetworkTotal := 4, host_ServicesRunning := 7, host_ServicesFailed := 1,
          host_ServicesTotal := 8, host_DiskCount := 2, host_DiskIssues := 1,
          host_FailedTasks24h := 1, host_LastBackupStatus := ''ERROR'',
          host_LastBackupAgeSec := 3600, host_GuestsRunning := 5, host_GuestsStopped := 2,
          host_Health := HealthWarning\<rparr>]"

definition mock_Clusters :: "cluster list" where
  "mock_Clusters =
     [cluster_zero
        \<lparr>cluster_ID := ''mock'', cluster_SourceID := ''mock'',
          cluster_Name := ''Mock Cluster'', cluster_Quorate := True, cluster_NodesOnline := 2,
          cluster_NodesTotal := 2, cluster_Health := HealthOK\<rparr>]"

definition mock_Storages :: "storage list" where
  "mock_Storages =
     [storage_zero
        \<lparr>storage_ID := ''mock/lab-a/local'', storage_Name := ''local'',
          storage_SourceID := ''mock'', storage_HostID := ''mock/lab-a'',
          storage_HostName := ''Lab A'', storage_Node := ''lab-a'',
          storage_Status := ''available'', storage_PluginType := ''dir'',
          storage_Content := ''iso,backup,rootdir'', storage_DiskPct := 71,
          storage_DiskUsedBytes := 76235669504, storage_DiskTotalBytes := 107374182400,
          storage_Health := HealthOK\<rparr>,
      storage_zero
        \<lparr>storage_ID := ''mock/lab-b/datapool'', storage_Name := ''datapool'',
          storage_SourceID := ''mock'', storage_HostID := ''mock/lab-b'',
          storage_HostName := ''Lab B'', storage_Node := ''lab-b'',
          storage_Status := ''available'', storage_PluginType := ''zfspool'',
          storage_Content := ''images'', storage_DiskPct := 82,
          storage_DiskUsedBytes := 880468295680, storage_DiskTotalBytes := 1073741824000,
          storage_ContentItems := 1, storage_ImageCount := 1,
          storage_Health := HealthWarning\<rparr>]"

definition mock_Networks :: "network list" where
  "mock_Networks =
     [network_zero
        \<lparr>network_ID := ''mock/lab-a/vmbr0'', network_SourceID := ''mock'',
          network_HostID := ''mock/lab-a'', network_HostName := ''Lab A'',
          network_Node := ''lab-a'', network_Iface := ''vmbr0'', network_Type := ''bridge'',
          network_Active := True, network_Autostart := True,
          network_Address := ''192.168.1.10'', network_Health := HealthOK\<rparr>]"

definition mock_Services :: "service list" where
  "mock_Services =
     [service_zero
        \<lparr>service_ID := ''mock/lab-b/pvedaemon'', service_SourceID := ''mock'',
          service_HostID := ''mock/lab-b'', service_HostName := ''Lab B'',
          service_Node := ''lab-b'', service_Name := ''pvedaemon'',
          service_State := ''running'', service_UnitState := ''active'',
          service_Health := HealthOK\<rparr>]"

definition mock_ZFSPools :: "zfspool list" where
  "mock_ZFSPools =
     [zfspool_zero
        \<lparr>zfspool_ID := ''mock/lab-b/datapool'', zfspool_SourceID := ''mock'',
          zfspool_HostID := ''mock/lab-b'', zfspool_HostName := ''Lab B'',
          zfspool_Node := ''lab-b'', zfspool_Name := ''datapool'',
          zfspool_HealthText := ''ONLINE'', zfspool_Status := ''ONLINE'',
          zfspool_State := ''ONLINE'', zfspool_Scan := ''scrub repaired 0B'',
          zfspool_Errors := ''No known data errors'', zfspool_DeviceCount := 4,
          zfspool_SizeBytes := 1073741824000, zfspool_AllocatedBytes := 880468295680,
          zfspool_FreeBytes := 193273528320, zfspool_FragmentationPct := 12,
          zfspool_Health := HealthOK\<rparr>]"

definition mock_Disks :: "disk list" where
  "mock_Disks =
     [disk_zero
        \<lparr>disk_ID := ''mock/lab-a/sda'', disk_SourceID := ''mock'',
          disk_HostID := ''mock/lab-a'', disk_HostName := ''Lab A'', disk_Node := ''lab-a'',
          disk_Name := ''sda'', disk_Model := ''Samsung SSD'', disk_Type := ''ssd'',
          disk_UsedBy := ''rootfs'', disk_SizeBytes := 512110190592,
          disk_SMARTHealth := ''PASSED'', disk_WearoutPct := 4,
          disk_Health := HealthOK\<rparr>,
      disk_zero
        \<lparr>disk_ID := ''mock/lab-b/nvme0n1'', disk_SourceID := ''mock'',
          disk_HostID := ''mock/lab-b'', disk_HostName := ''Lab B'', disk_Node := ''lab-b'',
          disk_Name := ''nvme0n1'', disk_Model := ''Mock NVMe'', disk_Type := ''nvme'',
          disk_UsedBy := ''datapool'', disk_SizeBytes := 2000398934016,
          disk_SMARTHealth := ''PASSED'', disk_WearoutPct := 12,
          disk_Health := HealthOK\<rparr>]"

definition mock_Guests :: "guest list" where
  "mock_Guests =
     [guest_zero
        \<lparr>guest_ID := ''mock/100'', guest_VMID := ''100'', guest_Name := ''Home Assistant'',
          guest_Type := ''lxc'', guest_HostID := ''mock/lab-a'', guest_HostName := ''Lab A'',
          guest_SourceID := ''mock'', guest_Status := ''running'', guest_CPUPct := 3,
          guest_MaxCPU := 2, guest_MemoryPct := 34, guest_MemoryUsedBytes := 730144440,
          guest_MemoryTotalBytes := 2147483648, guest_DiskPct := 42,
          guest_DiskUsedBytes := 9019431321, guest_DiskTotalBytes := 21474836480,
          guest_UptimeSec := 456789, guest_OSType := ''debian'', guest_IPAddress := ''dhcp'',
          guest_OnBoot := True, guest_Unprivileged := True, guest_Pinned := True,
          guest_Expected := ''running'', guest_Health := HealthOK\<rparr>,
      guest_zero
        \<lparr>guest_ID := ''mock/101'', guest_VMID := ''101'', guest_Name := ''Docker'',
          guest_Type := ''qemu'', guest_HostID := ''mock/lab-b'', guest_HostName := ''Lab B'',
          guest_SourceID := ''mock'', guest_Status := ''running'', guest_CPUPct := 14,
          guest_MaxCPU := 4, guest_MemoryPct := 58, guest_MemoryUsedBytes := 4982162063,
          guest_MemoryTotalBytes := 8589934592, guest_DiskPct := 63,
          guest_DiskUsedBytes := 67645734912, guest_DiskTotalBytes := 107374182400,
          guest_UptimeSec := 98765, guest_OSType := ''l26'',
          guest_IPAddress := ''192.168.1.50/24'', guest_IPAddresses := [''192.168.1.50/24''],
          guest_AgentEnabled := True, guest_AgentAvailable := True,
          guest_AgentHostname := ''docker'', guest_AgentOS := ''Debian GNU/Linux'',
          guest_OnBoot := True, guest_Protection := True,
          guest_Disks := [guestdisk_zero\<lparr>guestdisk_Name := ''scsi0'', guestdisk_Storage := ''datapool'', guestdisk_Volume := ''datapool:vm-101-disk-0'', guestdisk_Size := ''100G'', guestdisk_Backup := True\<rparr>],
          guest_NICs := [guestnic_zero\<lparr>guestnic_Name := ''net0'', guestnic_Model := ''virtio'', guestnic_MAC := ''AA:BB:CC:DD:EE:FF'', guestnic_Bridge := ''vmbr0'', guestnic_Firewall := True\<rparr>],
          guest_Pinned := True, guest_Expected := ''running'',
          guest_Health := HealthOK\<rparr>]"

definition mock_Snapshots :: "int \<Rightarrow> snapshot list" where
  "mock_Snapshots now =
     [snapshot_zero
        \<lparr>snapshot_ID := ''mock/101/before-upgrade'', snapshot_SourceID := ''mock'',
          snapshot_HostID := ''mock/lab-b'', snapshot_HostName := ''Lab B'',
          snapshot_GuestID := ''mock/101'', snapshot_GuestName := ''Docker'',
          snapshot_VMID := ''101'', snapshot_Type := ''qemu'',
          snapshot_Name := ''before-upgrade'', snapshot_SnapTime := now - 86400,
          snapshot_Health := HealthOK\<rparr>]"

definition mock_Tasks :: "int \<Rightarrow> task list" where
  "mock_Tasks now =
     [task_zero
        \<lparr>task_ID := ''mock/lab-b/vzdump'', task_SourceID := ''mock'',
          task_HostID := ''mock/lab-b'', task_HostName := ''Lab B'', task_Node := ''lab-b'',
          task_Type := ''vzdump'', task_User := ''root@pam'', task_Status := ''ERROR'',
          task_Target := ''101 Docker'', task_VMID := ''101'', task_GuestName := ''Docker'',
          task_StartedAt := now - 3600, task_StartedAgeSec := 3600,
          task_EndedAt := now - 3500, task_DurationSec := 100,
          task_Health := HealthWarning\<rparr>,
      task_zero
        \<lparr>task_ID := ''mock/lab-a/qmstart'', task_SourceID := ''mock'',
          task_HostID := ''mock/lab-a'', task_HostName := ''Lab A'', task_Node := ''lab-a'',
          task_Type := ''qmstart'', task_User := ''root@pam'', task_Status := ''OK'',
          task_Target := ''100 Home Assistant'', task_VMID := ''100'',
          task_GuestName := ''Home Assistant'', task_StartedAt := now - 900,
          task_StartedAgeSec := 900, task_EndedAt := now - 880, task_DurationSec := 20,
          task_Health := HealthOK\<rparr>]"

definition mock_BackupJobs :: "backupjob list" where
  "mock_BackupJobs =
     [backupjob_zero
        \<lparr>backupjob_ID := ''mock/backup-nightly'', backupjob_SourceID := ''mock'',
          backupjob_Storage := ''backup'', backupjob_Schedule := ''02:00'',
          backupjob_Mode := ''snapshot'', backupjob_Enabled := True, backupjob_All := True,
          backupjob_Compress := ''zstd'', backupjob_Health := HealthOK\<rparr>]"

definition mock_Replications :: "int \<Rightarrow> replication list" where
  "mock_Replications now =
     [replication_zero
        \<lparr>replication_ID := ''mock/101-0'', replication_SourceID := ''mock'',
          replication_GuestID := ''mock/101'', replication_GuestName := ''Docker'',
          replication_VMID := ''101'', replication_SourceNode := ''lab-b'',
          replication_TargetNode := ''lab-a'', replication_Schedule := ''*/15'',
          replication_Enabled := True, replication_LastSync := now - 600,
          replication_Health := HealthOK\<rparr>]"

definition mock_HAResources :: "haresource list" where
  "mock_HAResources =
     [haresource_zero
        \<lparr>haresource_ID := ''mock/vm:101'', haresource_SourceID := ''mock'',
          haresource_SID := ''vm:101'', haresource_Type := ''vm'',
          haresource_State := ''started'', haresource_Node := ''lab-b'',
          haresource_Health := HealthOK\<rparr>]"

definition mock_Certificates :: "certificate list" where
  "mock_Certificates =
     [certificate_zero
        \<lparr>certificate_ID := ''mock/lab-a/pveproxy-ssl.pem'', certificate_SourceID := ''mock'',
          certificate_HostID := ''mock/lab-a'', certificate_HostName := ''Lab A'',
          certificate_Node := ''lab-a'', certificate_Filename := ''pveproxy-ssl.pem'',
          certificate_Subject := ''CN=lab-a.local'', certificate_Issuer := ''CN=Mock Lab CA'',
          certificate_DaysRemaining := 120, certificate_Health := HealthOK\<rparr>]"

definition mock_StorageItems :: "storageitem list" where
  "mock_StorageItems =
     [storageitem_zero
        \<lparr>storageitem_ID := ''mock/lab-b/datapool/vm-101-disk-0'',
          storageitem_SourceID := ''mock'', storageitem_HostID := ''mock/lab-b'',
          storageitem_HostName := ''Lab B'', storageitem_Node := ''lab-b'',
          storageitem_Storage := ''datapool'', storageitem_Content := ''images'',
          storageitem_VolID := ''datapool:vm-101-disk-0'', storageitem_VMID := ''101'',
          storageitem_Format := ''raw'', storageitem_SizeBytes := 107374182400,
          storageitem_Health := HealthOK\<rparr>]"

definition mock_MetricTrends :: "metrictrend list" where
  "mock_MetricTrends =
     [metrictrend_zero
        \<lparr>metrictrend_ID := ''mock/host/Lab A/cpu_pct'', metrictrend_SourceID := ''mock'',
          metrictrend_HostID := ''mock/lab-a'', metrictrend_ResourceType := ''host'',
          metrictrend_ResourceName := ''Lab A'', metrictrend_Metric := ''cpu_pct'',
          metrictrend_Unit := ''%'', metrictrend_Timeframe := ''hour'',
          metrictrend_Last := 18,
          metrictrend_Values := [12, 14, 13, 15, 18, 16, 19, 18]\<rparr>,
      metrictrend_zero
        \<lparr>metrictrend_ID := ''mock/qemu/Docker/memory_pct'', metrictrend_SourceID := ''mock'',
          metrictrend_HostID := ''mock/lab-b'', metrictrend_GuestID := ''mock/101'',
          metrictrend_ResourceType := ''qemu'', metrictrend_ResourceName := ''Docker'',
          metrictrend_Metric := ''memory_pct'', metrictrend_Unit := ''%'',
          metrictrend_Timeframe := ''hour'', metrictrend_Last := 58,
          metrictrend_Values := [52, 54, 57, 58, 59, 58, 57, 58]\<rparr>]"

definition mock_Capabilities :: "capability list" where
  "mock_Capabilities =
     [capability_zero
        \<lparr>capability_ID := ''mock/apt_updates/lab-a'', capability_SourceID := ''mock'',
          capability_HostID := ''mock/lab-a'', capability_Name := ''apt_updates'',
          capability_Endpoint := ''/api2/json/nodes/lab-a/apt/update'',
          capability_Status := ''forbidden'', capability_HTTPStatus := 403,
          capability_Message := ''HTTP 403''\<rparr>,
      capability_zero
        \<lparr>capability_ID := ''mock/node_rrd/lab-a'', capability_SourceID := ''mock'',
          capability_HostID := ''mock/lab-a'', capability_Name := ''node_rrd'',
          capability_Endpoint := ''/api2/json/nodes/lab-a/rrddata'',
          capability_Status := ''ok'', capability_HTTPStatus := 200\<rparr>]"

definition mock_Updates :: "update list" where
  "mock_Updates =
     [update_zero
        \<lparr>update_ID := ''mock/lab-a/pve-manager'', update_SourceID := ''mock'',
          update_HostID := ''mock/lab-a'', update_HostName := ''Lab A'',
          update_Node := ''lab-a'', update_Package := ''pve-manager'',
          update_CurrentVersion := ''9.1.1'', update_CandidateVersion := ''9.1.2'',
          update_Health := HealthWarning\<rparr>]"

definition mock_Repositories :: "repository list" where
  "mock_Repositories =
     [repository_zero
        \<lparr>repository_ID := ''mock/lab-a/pve-enterprise'', repository_SourceID := ''mock'',
          repository_HostID := ''mock/lab-a'', repository_HostName := ''Lab A'',
          repository_Node := ''lab-a'',
          repository_File := ''/etc/apt/sources.list.d/pve-enterprise.list'',
          repository_Enabled := False, repository_Status := ''ok'',
          repository_Health := HealthOK\<rparr>]"

definition mock_Subscriptions :: "subscription list" where
  "mock_Subscriptions =
     [subscription_zero
        \<lparr>subscription_ID := ''mock/lab-a'', subscription_SourceID := ''mock'',
          subscription_HostID := ''mock/lab-a'', subscription_HostName := ''Lab A'',
          subscription_Node := ''lab-a'', subscription_Status := ''active'',
          subscription_ProductName := ''Proxmox VE'',
          subscription_Health := HealthOK\<rparr>]"

definition mock_state :: "gotime \<Rightarrow> int \<Rightarrow> dstate" where
  "mock_state t now = (NewState t)
     \<lparr>dstate_Hosts := Some mock_Hosts,
      dstate_Clusters := Some mock_Clusters,
      dstate_Storages := Some mock_Storages,
      dstate_Networks := Some mock_Networks,
      dstate_Services := Some mock_Services,
      dstate_ZFSPools := Some mock_ZFSPools,
      dstate_Disks := Some mock_Disks,
      dstate_Guests := Some mock_Guests,
      dstate_Snapshots := Some (mock_Snapshots now),
      dstate_Tasks := Some (mock_Tasks now),
      dstate_BackupJobs := Some mock_BackupJobs,
      dstate_Replications := Some (mock_Replications now),
      dstate_HAResources := Some mock_HAResources,
      dstate_Certificates := Some mock_Certificates,
      dstate_StorageItems := Some mock_StorageItems,
      dstate_MetricTrends := Some mock_MetricTrends,
      dstate_Capabilities := Some mock_Capabilities,
      dstate_Updates := Some mock_Updates,
      dstate_Repositories := Some mock_Repositories,
      dstate_Subscriptions := Some mock_Subscriptions\<rparr>"

definition mock_collect :: "gotime \<Rightarrow> 'e + dstate" where
  "mock_collect t = Inr (Finalize (mock_state t (unix t)))"

text \<open>Both are reliable, whatever world they run in (they only read its clock).\<close>

interpretation empty_collector: reliable_collector "\<lambda>(u::unit) now. empty_collect now"
  by unfold_locales (auto simp: empty_collect_def)

interpretation mock_collector: reliable_collector "\<lambda>(u::unit) now. mock_collect now"
  by unfold_locales (auto simp: mock_collect_def)

section \<open>Properties\<close>

text \<open>
  Whatever refreshes and reconfigurations run interleaved, a state the cache serves has been
  finalized: its summary agrees with its own hosts, guests, updates and alerts.
\<close>

theorem cache_serves_finalized:
  assumes "cache_reach collect s" and "CacheState now (fst s) = Inr d"
  shows "finalized d"
  using cache_reach_ok [OF assms(1)] assms(2) by (rule CacheState_finalized)

definition sample_cache :: "(unit, string) cache" where
  "sample_cache = fst (refresh_end (Inr (NewState 0)) 0 (NewCache () 10 45))"

lemma sample_cache_reach: "cache_reach (\<lambda>u now. Inr (NewState now)) (sample_cache, [])"
proof -
  have "cache_reach (\<lambda>u now. Inr (NewState now) :: string + dstate) (NewCache () 10 45, [()])"
    using reach_step [OF reach_new refresh_begins] by (simp add: NewCache_def)
  moreover have "cache_step (\<lambda>u now. Inr (NewState now) :: string + dstate) (NewCache () 10 45, [()])
      (sample_cache, [])"
    using refresh_ends [of 0 "[()]" "\<lambda>u now. Inr (NewState now)" "NewCache () 10 45" 0 0]
    by (simp add: sample_cache_def)
  ultimately show ?thesis by (rule reach_step)
qed

lemma cache_serves_finalized_witness:
  "finalized (Finalize (NewState 0))"
proof -
  have "CacheState 1 sample_cache = Inr (Finalize (NewState 0))"
    by (simp add: CacheState_def sample_cache_def refresh_end_def NewCache_def since_def)
  then show ?thesis
    using cache_serves_finalized [OF sample_cache_reach, of 1 "Finalize (NewState 0)"] by simp
qed

text \<open>
  A failed refresh never takes a served state away: the cache goes on serving what it had, and
  reports the error only while it has never had a state.
\<close>

theorem failed_refresh_keeps_state:
  assumes "collect (cache_collector c) w = Inl e"
  shows "CacheState t (fst (Refresh collect w now c))
           = (if cache_hasState c then CacheState t c else Inl (LastError e)) \<and>
         snd (Refresh collect w now c) = Some e"
  using assms by (simp add: Refresh_def refresh_end_def CacheState_def Let_def)

lemma failed_refresh_keeps_state_witness:
  "CacheState 1 (fst (Refresh (\<lambda>c w. Inl ''refused'') () 1 sample_cache)) = CacheState 1 sample_cache"
  using failed_refresh_keeps_state [of "\<lambda>c w. Inl ''refused''" sample_cache "()" "''refused''" 1 1]
  by (simp add: sample_cache_def refresh_end_def)

text \<open>
  Once a state is there it is served for ever: from a reachable cache that serves a state,
  every further step leads to a cache that serves one, and the state is marked stale exactly when
  the last success is longer ago than the configured age (or the collector marked it so).
\<close>

theorem state_served_for_ever:
  assumes "cache_step collect s t" and "cache_hasState (fst s)"
  shows "\<exists>d. CacheState now (fst t) = Inr d \<and>
           (dstate_Stale d \<longleftrightarrow>
              dstate_Stale (cache_state (fst t)) \<or>
              since now (cache_lastOK (fst t)) > cache_staleAfter (fst t))"
  using cache_step_hasState [OF assms] by (auto simp: CacheState_def Let_def)

lemma state_served_for_ever_witness:
  "\<exists>d. CacheState 0 sample_cache = Inr d \<and> \<not> dstate_Stale d"
proof -
  have "cache_step (\<lambda>u w. Inl ''refused'') (sample_cache, []) (sample_cache, [()])"
    using refresh_begins [of "\<lambda>u w. Inl ''refused''" sample_cache "[]"] by simp
  from state_served_for_ever [OF this, of 0] show ?thesis
    by (simp add: sample_cache_def refresh_end_def NewCache_def since_def NewState_def dstate_zero_def)
qed

end
