(* ===== verification/Collector.thy ===== *)
theory Collector
  imports Source_Invariants Cache
begin

text \<open>
  \<open>Collect\<close> (\<open>internal/proxmox/provider.go\<close>): the sources are collected concurrently, their
  states are merged in the order in which they arrive, every list is sorted with \<open>sort.Slice\<close>,
  the long ones are cut, and the state is finalized.  Each source has an environment of its own;
  the arrival order and the sorting algorithm are arguments.
\<close>

section \<open>Merge\<close>

definition merge_state :: "dstate \<Rightarrow> dstate \<Rightarrow> dstate" where
  "merge_state res s = s
     \<lparr>dstate_Clusters := append_slice (dstate_Clusters s) (elems (dstate_Clusters res)),
      dstate_Hosts := append_slice (dstate_Hosts s) (elems (dstate_Hosts res)),
      dstate_Storages := append_slice (dstate_Storages s) (elems (dstate_Storages res)),
      dstate_Disks := append_slice (dstate_Disks s) (elems (dstate_Disks res)),
      dstate_Networks := append_slice (dstate_Networks s) (elems (dstate_Networks res)),
      dstate_Services := append_slice (dstate_Services s) (elems (dstate_Services res)),
      dstate_ZFSPools := append_slice (dstate_ZFSPools s) (elems (dstate_ZFSPools res)),
      dstate_Guests := append_slice (dstate_Guests s) (elems (dstate_Guests res)),
      dstate_Snapshots := append_slice (dstate_Snapshots s) (elems (dstate_Snapshots res)),
      dstate_Tasks := append_slice (dstate_Tasks s) (elems (dstate_Tasks res)),
      dstate_BackupJobs := append_slice (dstate_BackupJobs s) (elems (dstate_BackupJobs res)),
      dstate_Replications := append_slice (dstate_Replications s) (elems (dstate_Replications res)),
      dstate_HAResources := append_slice (dstate_HAResources s) (elems (dstate_HAResources res)),
      dstate_Certificates := append_slice (dstate_Certificates s) (elems (dstate_Certificates res)),
      dstate_StorageItems := append_slice (dstate_StorageItems s) (elems (dstate_StorageItems res)),
      dstate_MetricTrends := append_slice (dstate_MetricTrends s) (elems (dstate_MetricTrends res)),
      dstate_ClusterOptions := append_slice (dstate_ClusterOptions s) (elems (dstate_ClusterOptions res)),
      dstate_CephClusters := append_slice (dstate_CephClusters s) (elems (dstate_CephClusters res)),
      dstate_Capabilities := append_slice (dstate_Capabilities s) (elems (dstate_Capabilities res)),
      dstate_Updates := append_slice (dstate_Updates s) (elems (dstate_Updates res)),
      dstate_Repositories := append_slice (dstate_Repositories s) (elems (dstate_Repositories res)),
      dstate_Subscriptions := append_slice (dstate_Subscriptions s) (elems (dstate_Subscriptions res)),
      dstate_Alerts := append_slice (dstate_Alerts s) (elems (dstate_Alerts res))\<rparr>"

section \<open>Sorting and cutting\<close>

definition guest_less :: "guest \<Rightarrow> guest \<Rightarrow> bool" where
  "guest_less x y =
     (if guest_Pinned x \<noteq> guest_Pinned y then guest_Pinned x else guest_ID x < guest_ID y)"

text \<open>Newest first, then by ID.\<close>

definition newest_by :: "('a \<Rightarrow> int) \<Rightarrow> ('a \<Rightarrow> string) \<Rightarrow> 'a \<Rightarrow> 'a \<Rightarrow> bool" where
  "newest_by time ident x y = (if time x \<noteq> time y then time x > time y else ident x < ident y)"

definition alert_less :: "alert \<Rightarrow> alert \<Rightarrow> bool" where
  "alert_less x y \<longleftrightarrow> severityRank (alert_Severity x) > severityRank (alert_Severity y)"

text \<open>\<open>sort.Slice\<close> on a slice that may be nil, and the cut \<open>if len(xs) > n { xs = xs[:n] }\<close>.\<close>

definition sort_slice :: "sorter \<Rightarrow> ('a \<Rightarrow> 'a \<Rightarrow> bool) \<Rightarrow> 'a slice \<Rightarrow> 'a slice" where
  "sort_slice perm lt s = map_option (SortSlice perm lt) s"

definition cut :: "nat \<Rightarrow> 'a slice \<Rightarrow> 'a slice" where
  "cut n s = (if length (elems s) > n then Some (take n (elems s)) else s)"

definition sort_state :: "sorter \<Rightarrow> dstate \<Rightarrow> dstate" where
  "sort_state perm s = s
     \<lparr>dstate_Clusters := sort_slice perm (less_by cluster_ID) (dstate_Clusters s),
      dstate_Hosts := sort_slice perm (less_by host_ID) (dstate_Hosts s),
      dstate_Guests := sort_slice perm guest_less (dstate_Guests s),
      dstate_Storages := sort_slice perm (less_by storage_ID) (dstate_Storages s),
      dstate_Disks := sort_slice perm (less_by disk_ID) (dstate_Disks s),
      dstate_Networks := cut maxDisplayNetworks (sort_slice perm (less_by network_ID) (dstate_Networks s)),
      dstate_Services := cut maxDisplayServices (sort_slice perm (less_by service_ID) (dstate_Services s)),
      dstate_ZFSPools := sort_slice perm (less_by zfspool_ID) (dstate_ZFSPools s),
      dstate_Snapshots := cut maxDisplaySnapshots (sort_slice perm (newest_by snapshot_SnapTime snapshot_ID) (dstate_Snapshots s)),
      dstate_Tasks := cut maxDisplayTasks (sort_slice perm (newest_by task_StartedAt task_ID) (dstate_Tasks s)),
      dstate_BackupJobs := sort_slice perm (less_by backupjob_ID) (dstate_BackupJobs s),
      dstate_Replications := sort_slice perm (less_by replication_ID) (dstate_Replications s),
      dstate_HAResources := sort_slice perm (less_by haresource_ID) (dstate_HAResources s),
      dstate_Certificates := sort_slice perm (less_by certificate_ID) (dstate_Certificates s),
      dstate_StorageItems := cut maxStorageItems (sort_slice perm (newest_by storageitem_CreatedAt storageitem_ID) (dstate_StorageItems s)),
      dstate_MetricTrends := cut maxMetricTrends (sort_slice perm (less_by metrictrend_ID) (dstate_MetricTrends s)),
      dstate_ClusterOptions := cut maxClusterOptions (sort_slice perm (less_by clusteroption_ID) (dstate_ClusterOptions s)),
      dstate_CephClusters := sort_slice perm (less_by cephcluster_ID) (dstate_CephClusters s),
      dstate_Capabilities := cut maxCapabilities (sort_slice perm (less_by capability_ID) (dstate_Capabilities s)),
      dstate_Updates := cut maxDisplayUpdates (sort_slice perm (less_by update_ID) (dstate_Updates s)),
      dstate_Repositories := cut maxDisplayRepos (sort_slice perm (less_by repository_ID) (dstate_Repositories s)),
      dstate_Subscriptions := sort_slice perm (less_by subscription_ID) (dstate_Subscriptions s),
      dstate_Alerts := sort_slice perm alert_less (dstate_Alerts s)\<rparr>"

section \<open>Collect\<close>

text \<open>
  \<open>envs i\<close> is the environment of the \<open>i\<close>-th source, \<open>arrival\<close> lists the sources in the order in
  which their results were sent.  \<open>None\<close> is a panic in one of the goroutines.
\<close>

definition Collect ::
    "(nat \<Rightarrow> env) \<Rightarrow> sorter \<Rightarrow> nat list \<Rightarrow> gotime \<Rightarrow> source_collector \<Rightarrow> dstate option" where
  "Collect envs perm arrival now col =
     (case options (map (\<lambda>(i, c). collectSource (envs i) col c) (enumerate 0 (col_clients col))) of
        None \<Rightarrow> None
      | Some results \<Rightarrow>
          Some (Finalize (sort_state perm (fold merge_state (map ((!) results) arrival) (NewState now)))))"

section \<open>Facts\<close>

subsection \<open>Merge\<close>

lemma merge_fold:
  assumes "\<And>r s. elems (field (merge_state r s)) = elems (field s) @ elems (field r)"
  shows "elems (field (fold merge_state rs s)) = elems (field s) @ concat (map (\<lambda>r. elems (field r)) rs)"
  by (induction rs arbitrary: s) (simp_all add: assms)

definition rows :: "(dstate \<Rightarrow> 'a slice) \<Rightarrow> dstate list \<Rightarrow> 'a list" where
  "rows field rs = concat (map (\<lambda>r. elems (field r)) rs)"

definition merged :: "dstate list \<Rightarrow> gotime \<Rightarrow> dstate" where
  "merged rs now = fold merge_state rs (NewState now)"

lemma merged_rows:
  assumes "\<And>r s. elems (field (merge_state r s)) = elems (field s) @ elems (field r)"
    and "\<And>t. field (NewState t) = None"
  shows "elems (field (merged rs now)) = rows field rs"
  using merge_fold [of field rs "NewState now", OF assms(1)] assms(2)
  by (simp add: rows_def merged_def)

lemma merged_lists [simp]:
  "elems (dstate_Clusters (merged rs now)) = rows dstate_Clusters rs"
  "elems (dstate_Hosts (merged rs now)) = rows dstate_Hosts rs"
  "elems (dstate_Storages (merged rs now)) = rows dstate_Storages rs"
  "elems (dstate_Disks (merged rs now)) = rows dstate_Disks rs"
  "elems (dstate_Networks (merged rs now)) = rows dstate_Networks rs"
  "elems (dstate_Services (merged rs now)) = rows dstate_Services rs"
  "elems (dstate_ZFSPools (merged rs now)) = rows dstate_ZFSPools rs"
  "elems (dstate_Guests (merged rs now)) = rows dstate_Guests rs"
  "elems (dstate_Snapshots (merged rs now)) = rows dstate_Snapshots rs"
  "elems (dstate_Tasks (merged rs now)) = rows dstate_Tasks rs"
  "elems (dstate_BackupJobs (merged rs now)) = rows dstate_BackupJobs rs"
  "elems (dstate_Replications (merged rs now)) = rows dstate_Replications rs"
  "elems (dstate_HAResources (merged rs now)) = rows dstate_HAResources rs"
  "elems (dstate_Certificates (merged rs now)) = rows dstate_Certificates rs"
  "elems (dstate_StorageItems (merged rs now)) = rows dstate_StorageItems rs"
  "elems (dstate_MetricTrends (merged rs now)) = rows dstate_MetricTrends rs"
  "elems (dstate_ClusterOptions (merged rs now)) = rows dstate_ClusterOptions rs"
  "elems (dstate_CephClusters (merged rs now)) = rows dstate_CephClusters rs"
  "elems (dstate_Capabilities (merged rs now)) = rows dstate_Capabilities rs"
  "elems (dstate_Updates (merged rs now)) = rows dstate_Updates rs"
  "elems (dstate_Repositories (merged rs now)) = rows dstate_Repositories rs"
  "elems (dstate_Subscriptions (merged rs now)) = rows dstate_Subscriptions rs"
  "elems (dstate_Alerts (merged rs now)) = rows dstate_Alerts rs"
  by (rule merged_rows; simp add: merge_state_def NewState_def dstate_zero_def)+

lemma merged_meta [simp]:
  "dstate_Schema (merged rs now) = Schema"
  "dstate_GeneratedAt (merged rs now) = now"
  "dstate_Stale (merged rs now) = False"
proof -
  have "dstate_Schema (fold merge_state rs s) = dstate_Schema s \<and>
        dstate_GeneratedAt (fold merge_state rs s) = dstate_GeneratedAt s \<and>
        dstate_Stale (fold merge_state rs s) = dstate_Stale s" for s
    by (induction rs arbitrary: s) (simp_all add: merge_state_def)
  then show "dstate_Schema (merged rs now) = Schema" "dstate_GeneratedAt (merged rs now) = now"
      "dstate_Stale (merged rs now) = False"
    by (simp_all add: merged_def NewState_def dstate_zero_def)
qed

lemma rows_perm: "mset rs = mset rs' \<Longrightarrow> mset (rows field rs) = mset (rows field rs')"
  by (simp add: rows_def mset_concat) (metis mset_map sum_mset_sum_list)

lemma rows_perm_set: "mset rs = mset rs' \<Longrightarrow> set (rows field rs) = set (rows field rs')"
  by (metis rows_perm set_mset_mset)

subsection \<open>Sorting\<close>

lemma elems_sort_slice: "elems (sort_slice perm lt s) = (if s = None then [] else SortSlice perm lt (elems s))"
  by (cases s) (simp_all add: sort_slice_def)

lemma elems_cut [simp]: "elems (cut n s) = take n (elems s)"
  by (simp add: cut_def)

lemma guest_less_key: "less_key guest_less guest_ID"
  by unfold_locales (auto simp: guest_less_def split: if_splits)

lemma newest_by_key: "less_key (newest_by time ident) ident"
  by unfold_locales (auto simp: newest_by_def split: if_splits)

lemma alert_less_weak: "less_weak alert_less"
  by unfold_locales (auto simp: alert_less_def)

context sort_algorithm
begin

lemma elems_sort [simp]: "elems (sort_slice perm lt s) = SortSlice perm lt (elems s)" if "less_weak lt"
proof (cases s)
  case None
  then show ?thesis using slice_length [OF that, of "[]"] by (simp add: sort_slice_def)
qed (simp add: sort_slice_def)

text \<open>Rows with distinct IDs come out in one order, whatever the arrival order and the sort were.\<close>

lemma sort_slice_determined:
  assumes "less_key lt key" and "inj_on key (set (elems s))" and "mset (elems s) = mset (elems s')"
  shows "elems (sort_slice perm lt s) = elems (sort_slice insertion_perm lt s')"
proof -
  have w: "less_weak lt" using assms(1) by (rule less_key.axioms(1))
  have "inj_on key (set (elems s'))" using assms(2,3) by (metis set_mset_mset)
  then have "SortSlice insertion_perm lt (elems s') = slice_stable lt (elems s')"
    using assms(1) by (intro insertion.slice_determined) simp_all
  then show ?thesis
    using slice_determined [OF assms] insertion.elems_sort [OF w] w by simp
qed

end

subsection \<open>Independence of the arrival order\<close>

text \<open>Within each list, an ID names one row.\<close>

definition ids_name_rows :: "dstate list \<Rightarrow> bool" where
  "ids_name_rows rs \<longleftrightarrow>
     inj_on cluster_ID (set (rows dstate_Clusters rs)) \<and>
     inj_on host_ID (set (rows dstate_Hosts rs)) \<and>
     inj_on storage_ID (set (rows dstate_Storages rs)) \<and>
     inj_on disk_ID (set (rows dstate_Disks rs)) \<and>
     inj_on network_ID (set (rows dstate_Networks rs)) \<and>
     inj_on service_ID (set (rows dstate_Services rs)) \<and>
     inj_on zfspool_ID (set (rows dstate_ZFSPools rs)) \<and>
     inj_on guest_ID (set (rows dstate_Guests rs)) \<and>
     inj_on snapshot_ID (set (rows dstate_Snapshots rs)) \<and>
     inj_on task_ID (set (rows dstate_Tasks rs)) \<and>
     inj_on backupjob_ID (set (rows dstate_BackupJobs rs)) \<and>
     inj_on replication_ID (set (rows dstate_Replications rs)) \<and>
     inj_on haresource_ID (set (rows dstate_HAResources rs)) \<and>
     inj_on certificate_ID (set (rows dstate_Certificates rs)) \<and>
     inj_on storageitem_ID (set (rows dstate_StorageItems rs)) \<and>
     inj_on metrictrend_ID (set (rows dstate_MetricTrends rs)) \<and>
     inj_on clusteroption_ID (set (rows dstate_ClusterOptions rs)) \<and>
     inj_on cephcluster_ID (set (rows dstate_CephClusters rs)) \<and>
     inj_on capability_ID (set (rows dstate_Capabilities rs)) \<and>
     inj_on update_ID (set (rows dstate_Updates rs)) \<and>
     inj_on repository_ID (set (rows dstate_Repositories rs)) \<and>
     inj_on subscription_ID (set (rows dstate_Subscriptions rs))"

definition same_rows :: "dstate \<Rightarrow> dstate \<Rightarrow> bool" where
  "same_rows s s' \<longleftrightarrow>
     dstate_GeneratedAt s = dstate_GeneratedAt s' \<and> dstate_Stale s = dstate_Stale s' \<and>
     elems (dstate_Clusters s) = elems (dstate_Clusters s') \<and>
     elems (dstate_Hosts s) = elems (dstate_Hosts s') \<and>
     elems (dstate_Storages s) = elems (dstate_Storages s') \<and>
     elems (dstate_Disks s) = elems (dstate_Disks s') \<and>
     elems (dstate_Networks s) = elems (dstate_Networks s') \<and>
     elems (dstate_Services s) = elems (dstate_Services s') \<and>
     elems (dstate_ZFSPools s) = elems (dstate_ZFSPools s') \<and>
     elems (dstate_Guests s) = elems (dstate_Guests s') \<and>
     elems (dstate_Snapshots s) = elems (dstate_Snapshots s') \<and>
     elems (dstate_Tasks s) = elems (dstate_Tasks s') \<and>
     elems (dstate_BackupJobs s) = elems (dstate_BackupJobs s') \<and>
     elems (dstate_Replications s) = elems (dstate_Replications s') \<and>
     elems (dstate_HAResources s) = elems (dstate_HAResources s') \<and>
     elems (dstate_Certificates s) = elems (dstate_Certificates s') \<and>
     elems (dstate_StorageItems s) = elems (dstate_StorageItems s') \<and>
     elems (dstate_MetricTrends s) = elems (dstate_MetricTrends s') \<and>
     elems (dstate_ClusterOptions s) = elems (dstate_ClusterOptions s') \<and>
     elems (dstate_CephClusters s) = elems (dstate_CephClusters s') \<and>
     elems (dstate_Capabilities s) = elems (dstate_Capabilities s') \<and>
     elems (dstate_Updates s) = elems (dstate_Updates s') \<and>
     elems (dstate_Repositories s) = elems (dstate_Repositories s') \<and>
     elems (dstate_Subscriptions s) = elems (dstate_Subscriptions s')"

lemma sort_state_same:
  assumes "sort_algorithm perm" and "mset rs = mset rs'" and "ids_name_rows rs"
  shows "same_rows (sort_state perm (merged rs now)) (sort_state insertion_perm (merged rs' now))"
proof -
  note det = sort_algorithm.sort_slice_determined [OF assms(1)]
  note m = rows_perm [OF assms(2)]
  note ids = assms(3) [unfolded ids_name_rows_def]
  have Clusters: "elems (sort_slice perm (less_by cluster_ID) (dstate_Clusters (merged rs now)))
      = elems (sort_slice insertion_perm (less_by cluster_ID) (dstate_Clusters (merged rs' now)))"
    by (rule det [OF less_by_key]; use ids m [of dstate_Clusters] in \<open>simp only: merged_lists\<close>)
  have Hosts: "elems (sort_slice perm (less_by host_ID) (dstate_Hosts (merged rs now)))
      = elems (sort_slice insertion_perm (less_by host_ID) (dstate_Hosts (merged rs' now)))"
    by (rule det [OF less_by_key]; use ids m [of dstate_Hosts] in \<open>simp only: merged_lists\<close>)
  have Storages: "elems (sort_slice perm (less_by storage_ID) (dstate_Storages (merged rs now)))
      = elems (sort_slice insertion_perm (less_by storage_ID) (dstate_Storages (merged rs' now)))"
    by (rule det [OF less_by_key]; use ids m [of dstate_Storages] in \<open>simp only: merged_lists\<close>)
  have Disks: "elems (sort_slice perm (less_by disk_ID) (dstate_Disks (merged rs now)))
      = elems (sort_slice insertion_perm (less_by disk_ID) (dstate_Disks (merged rs' now)))"
    by (rule det [OF less_by_key]; use ids m [of dstate_Disks] in \<open>simp only: merged_lists\<close>)
  have Networks: "elems (sort_slice perm (less_by network_ID) (dstate_Networks (merged rs now)))
      = elems (sort_slice insertion_perm (less_by network_ID) (dstate_Networks (merged rs' now)))"
    by (rule det [OF less_by_key]; use ids m [of dstate_Networks] in \<open>simp only: merged_lists\<close>)
  have Services: "elems (sort_slice perm (less_by service_ID) (dstate_Services (merged rs now)))
      = elems (sort_slice insertion_perm (less_by service_ID) (dstate_Services (merged rs' now)))"
    by (rule det [OF less_by_key]; use ids m [of dstate_Services] in \<open>simp only: merged_lists\<close>)
  have ZFSPools: "elems (sort_slice perm (less_by zfspool_ID) (dstate_ZFSPools (merged rs now)))
      = elems (sort_slice insertion_perm (less_by zfspool_ID) (dstate_ZFSPools (merged rs' now)))"
    by (rule det [OF less_by_key]; use ids m [of dstate_ZFSPools] in \<open>simp only: merged_lists\<close>)
  have Guests: "elems (sort_slice perm guest_less (dstate_Guests (merged rs now)))
      = elems (sort_slice insertion_perm guest_less (dstate_Guests (merged rs' now)))"
    by (rule det [OF guest_less_key]; use ids m [of dstate_Guests] in \<open>simp only: merged_lists\<close>)
  have Snapshots: "elems (sort_slice perm (newest_by snapshot_SnapTime snapshot_ID) (dstate_Snapshots (merged rs now)))
      = elems (sort_slice insertion_perm (newest_by snapshot_SnapTime snapshot_ID) (dstate_Snapshots (merged rs' now)))"
    by (rule det [OF newest_by_key]; use ids m [of dstate_Snapshots] in \<open>simp only: merged_lists\<close>)
  have Tasks: "elems (sort_slice perm (newest_by task_StartedAt task_ID) (dstate_Tasks (merged rs now)))
      = elems (sort_slice insertion_perm (newest_by task_StartedAt task_ID) (dstate_Tasks (merged rs' now)))"
    by (rule det [OF newest_by_key]; use ids m [of dstate_Tasks] in \<open>simp only: merged_lists\<close>)
  have BackupJobs: "elems (sort_slice perm (less_by backupjob_ID) (dstate_BackupJobs (merged rs now)))
      = elems (sort_slice insertion_perm (less_by backupjob_ID) (dstate_BackupJobs (merged rs' now)))"
    by (rule det [OF less_by_key]; use ids m [of dstate_BackupJobs] in \<open>simp only: merged_lists\<close>)
  have Replications: "elems (sort_slice perm (less_by replication_ID) (dstate_Replications (merged rs now)))
      = elems (sort_slice insertion_perm (less_by replication_ID) (dstate_Replications (merged rs' now)))"
    by (rule det [OF less_by_key]; use ids m [of dstate_Replications] in \<open>simp only: merged_lists\<close>)
  have HAResources: "elems (sort_slice perm (less_by haresource_ID) (dstate_HAResources (merged rs now)))
      = elems (sort_slice insertion_perm (less_by haresource_ID) (dstate_HAResources (merged rs' now)))"
    by (rule det [OF less_by_key]; use ids m [of dstate_HAResources] in \<open>simp only: merged_lists\<close>)
  have Certificates: "elems (sort_slice perm (less_by certificate_ID) (dstate_Certificates (merged rs now)))
      = elems (sort_slice insertion_perm (less_by certificate_ID) (dstate_Certificates (merged rs' now)))"
    by (rule det [OF less_by_key]; use ids m [of dstate_Certificates] in \<open>simp only: merged_lists\<close>)
  have StorageItems: "elems (sort_slice perm (newest_by storageitem_CreatedAt storageitem_ID) (dstate_StorageItems (merged rs now)))
      = elems (sort_slice insertion_perm (newest_by storageitem_CreatedAt storageitem_ID) (dstate_StorageItems (merged rs' now)))"
    by (rule det [OF newest_by_key]; use ids m [of dstate_StorageItems] in \<open>simp only: merged_lists\<close>)
  have MetricTrends: "elems (sort_slice perm (less_by metrictrend_ID) (dstate_MetricTrends (merged rs now)))
      = elems (sort_slice insertion_perm (less_by metrictrend_ID) (dstate_MetricTrends (merged rs' now)))"
    by (rule det [OF less_by_key]; use ids m [of dstate_MetricTrends] in \<open>simp only: merged_lists\<close>)
  have ClusterOptions: "elems (sort_slice perm (less_by clusteroption_ID) (dstate_ClusterOptions (merged rs now)))
      = elems (sort_slice insertion_perm (less_by clusteroption_ID) (dstate_ClusterOptions (merged rs' now)))"
    by (rule det [OF less_by_key]; use ids m [of dstate_ClusterOptions] in \<open>simp only: merged_lists\<close>)
  have CephClusters: "elems (sort_slice perm (less_by cephcluster_ID) (dstate_CephClusters (merged rs now)))
      = elems (sort_slice insertion_perm (less_by cephcluster_ID) (dstate_CephClusters (merged rs' now)))"
    by (rule det [OF less_by_key]; use ids m [of dstate_CephClusters] in \<open>simp only: merged_lists\<close>)
  have Capabilities: "elems (sort_slice perm (less_by capability_ID) (dstate_Capabilities (merged rs now)))
      = elems (sort_slice insertion_perm (less_by capability_ID) (dstate_Capabilities (merged rs' now)))"
    by (rule det [OF less_by_key]; use ids m [of dstate_Capabilities] in \<open>simp only: merged_lists\<close>)
  have Updates: "elems (sort_slice perm (less_by update_ID) (dstate_Updates (merged rs now)))
      = elems (sort_slice insertion_perm (less_by update_ID) (dstate_Updates (merged rs' now)))"
    by (rule det [OF less_by_key]; use ids m [of dstate_Updates] in \<open>simp only: merged_lists\<close>)
  have Repositories: "elems (sort_slice perm (less_by repository_ID) (dstate_Repositories (merged rs now)))
      = elems (sort_slice insertion_perm (less_by repository_ID) (dstate_Repositories (merged rs' now)))"
    by (rule det [OF less_by_key]; use ids m [of dstate_Repositories] in \<open>simp only: merged_lists\<close>)
  have Subscriptions: "elems (sort_slice perm (less_by subscription_ID) (dstate_Subscriptions (merged rs now)))
      = elems (sort_slice insertion_perm (less_by subscription_ID) (dstate_Subscriptions (merged rs' now)))"
    by (rule det [OF less_by_key]; use ids m [of dstate_Subscriptions] in \<open>simp only: merged_lists\<close>)
  show ?thesis
    by (simp add: same_rows_def sort_state_def Clusters Hosts Storages Disks Networks Services ZFSPools Guests Snapshots Tasks BackupJobs Replications HAResources Certificates StorageItems MetricTrends ClusterOptions CephClusters Capabilities Updates Repositories Subscriptions)
qed

lemma non_nil_elems: "non_nil s = Some (elems s)"
  by (simp add: non_nil_def split: option.split)

text \<open>States with the same rows and the same alerts in any order finalize to the same state.\<close>

lemma Finalize_same_rows:
  assumes "same_rows s s'" and "mset (elems (dstate_Alerts s)) = mset (elems (dstate_Alerts s'))"
  shows "(Finalize s)\<lparr>dstate_Alerts := x\<rparr> = (Finalize s')\<lparr>dstate_Alerts := x\<rparr>"
proof -
  have "set (elems (dstate_Alerts s)) = set (elems (dstate_Alerts s'))"
      "length (elems (dstate_Alerts s)) = length (elems (dstate_Alerts s'))"
    using assms(2) by (metis set_mset_mset, metis size_mset)
  then have "summary_of s = summary_of s'"
    using assms(1) by (simp add: summary_of_def inventory_health_def same_rows_def)
  then show ?thesis
    using assms(1) by (simp add: Finalize_eq fill_nil_def non_nil_elems same_rows_def)
qed

subsection \<open>The results of the sources\<close>

lemma options_map_Some: "options os = Some ys \<longleftrightarrow> os = map Some ys"
proof (induction os arbitrary: ys)
  case (Cons x os)
  then show ?case by (cases x; cases ys) auto
qed auto

definition source_results ::
    "(nat \<Rightarrow> env) \<Rightarrow> source_collector \<Rightarrow> dstate list \<Rightarrow> bool" where
  "source_results envs col rs \<longleftrightarrow> length rs = length (col_clients col) \<and>
     (\<forall>i<length rs. collectSource (envs i) col (col_clients col ! i) = Some (rs ! i))"

lemma source_results_unique:
  "source_results envs col rs \<Longrightarrow> source_results envs col rs' \<Longrightarrow> rs = rs'"
  by (auto simp: source_results_def list_eq_iff_nth_eq)

lemma Collect_Some:
  "Collect envs perm arrival now col = Some s \<longleftrightarrow>
     (\<exists>rs. source_results envs col rs \<and>
           s = Finalize (sort_state perm (merged (map ((!) rs) arrival) now)))"
proof -
  have "options (map (\<lambda>(i, c). collectSource (envs i) col c) (enumerate 0 (col_clients col))) = Some rs
      \<longleftrightarrow> source_results envs col rs" for rs
    by (auto simp: options_map_Some source_results_def list_eq_iff_nth_eq nth_enumerate_eq)
  then show ?thesis
    by (auto simp: Collect_def merged_def split: option.split dest: source_results_unique)
qed

text \<open>An arrival order lists every source once.\<close>

definition arrival_of :: "source_collector \<Rightarrow> nat list \<Rightarrow> bool" where
  "arrival_of col arrival \<longleftrightarrow> mset arrival = mset [0..<length (col_clients col)]"

lemma arrival_perm:
  assumes "arrival_of col arrival" and "length rs = length (col_clients col)"
  shows "mset (map ((!) rs) arrival) = mset rs"
proof -
  have "mset (map ((!) rs) arrival) = mset (map ((!) rs) [0..<length rs])"
    using assms by (simp only: arrival_of_def mset_map)
  then show ?thesis by (simp only: map_nth)
qed

lemma Collect_total:
  assumes "\<forall>i<length (col_clients col). short_series (envs i)"
  shows "\<exists>s. Collect envs perm arrival now col = Some s"
proof -
  let ?n = "length (col_clients col)"
  let ?f = "\<lambda>i. the (collectSource (envs i) col (col_clients col ! i))"
  have "collectSource (envs i) col (col_clients col ! i) = Some (?f i)" if "i < ?n" for i
    using collectSource_some [of "envs i" col "col_clients col ! i"] assms that by auto
  then have "source_results envs col (map ?f [0..<?n])" by (simp add: source_results_def)
  then show ?thesis by (simp add: Collect_Some) blast
qed

text \<open>The rows of the collected state.\<close>

lemma rows_set:
  assumes "arrival_of col arrival" and "source_results envs col rs"
  shows "x \<in> set (rows field (map ((!) rs) arrival)) \<longleftrightarrow>
           (\<exists>i<length (col_clients col). x \<in> set (elems (field (rs ! i))))"
proof -
  have perm: "set (map ((!) rs) arrival) = set rs"
    using arrival_perm [OF assms(1)] assms(2) by (metis set_mset_mset source_results_def)
  have "set (rows field rs') = (\<Union>r\<in>set rs'. set (elems (field r)))" for rs'
    by (simp add: rows_def)
  then have "set (rows field (map ((!) rs) arrival)) = (\<Union>r\<in>set rs. set (elems (field r)))"
    by (simp only: perm)
  moreover have "set rs = (!) rs ` {..<length (col_clients col)}"
    using assms(2) by (auto simp: source_results_def set_conv_nth)
  ultimately show ?thesis by auto
qed

lemma Collect_lists:
  assumes "sort_algorithm perm" and "s = Finalize (sort_state perm (merged rs now))"
  shows "set (elems (dstate_Hosts s)) = set (rows dstate_Hosts rs)"
    and "mset (elems (dstate_Guests s)) = mset (rows dstate_Guests rs)"
    and "set (elems (dstate_Storages s)) = set (rows dstate_Storages rs)"
    and "mset (elems (dstate_Alerts s)) = mset (rows dstate_Alerts rs)"
    and "sorted_wrt (\<lambda>x y. \<not> alert_less y x) (elems (dstate_Alerts s))"
proof -
  note sorts = sort_algorithm.slice_sorts_to [OF assms(1)]
  note el = sort_algorithm.elems_sort [OF assms(1)]
  show "set (elems (dstate_Hosts s)) = set (rows dstate_Hosts rs)"
    using sorts_to_set [OF sorts [OF less_by_weak, of host_ID]] by (simp add: assms(2) sort_state_def el less_by_weak)
  show "mset (elems (dstate_Guests s)) = mset (rows dstate_Guests rs)"
    using sorts [OF less_key.axioms(1) [OF guest_less_key]]
    by (simp add: assms(2) sort_state_def el less_key.axioms(1) [OF guest_less_key] sorts_to_def)
  show "set (elems (dstate_Storages s)) = set (rows dstate_Storages rs)"
    using sorts_to_set [OF sorts [OF less_by_weak, of storage_ID]] by (simp add: assms(2) sort_state_def el less_by_weak)
  show "mset (elems (dstate_Alerts s)) = mset (rows dstate_Alerts rs)"
      "sorted_wrt (\<lambda>x y. \<not> alert_less y x) (elems (dstate_Alerts s))"
    using sorts [OF alert_less_weak] by (simp_all add: assms(2) sort_state_def el alert_less_weak sorts_to_def)
qed

subsection \<open>What each source contributes\<close>

lemma collectSource_unreachable:
  "clusterResources env c = Inl e \<Longrightarrow>
   collectSource env col c = Some (source_unreachable c e (NewState (env_clock env ''state'' 0)))"
  by (simp add: collectSource_def)

lemma source_unreachable_rows:
  "elems (dstate_Hosts (source_unreachable c e (NewState t))) = [unreachable_host c (error_text e)]"
  "elems (dstate_Alerts (source_unreachable c e (NewState t))) = [unreachable_alert c (error_text e)]"
  "elems (dstate_Guests (source_unreachable c e (NewState t))) = []"
  "elems (dstate_Storages (source_unreachable c e (NewState t))) = []"
  by (simp_all add: source_unreachable_def add_alert_def NewState_def dstate_zero_def)

lemma collectSource_reachable:
  assumes "fair_order env" and "clusterResources env c = Inr resources" and "collectSource env col c = Some s"
  shows "source_ok c s \<and> set (map host_Node (elems (dstate_Hosts s))) = node_names c resources"
  using assms(2,3) by (intro collect_resources_ok [OF assms(1) _ inventory_NewState]) (simp_all add: collectSource_def)

text \<open>A host row of a source: percentages in range, and counters that agree with its guest rows.\<close>

definition row_counts :: "guest list \<Rightarrow> host \<Rightarrow> bool" where
  "row_counts gs h \<longleftrightarrow>
     (let own = filter (\<lambda>g. guest_SourceID g = host_SourceID h \<and> guest_HostID g = host_ID h) gs
      in host_GuestsRunning h = int (length (filter (\<lambda>g. guest_Status g = ''running'') own)) \<and>
         host_GuestsStopped h = int (length (filter (\<lambda>g. guest_Status g \<noteq> ''running'') own)))"

lemma unreachable_host_row:
  "host_pcts (unreachable_host c msg) \<and> host_SourceID (unreachable_host c msg) = client_id c \<and>
   row_counts [] (unreachable_host c msg)"
  by (simp add: unreachable_host_def host_pcts_def row_counts_def host_zero_def)

lemma collectSource_rows:
  assumes "fair_order env" and "collectSource env col c = Some s"
  shows "rows_inv c s \<and> (\<forall>h\<in>set (elems (dstate_Hosts s)).
           host_pcts h \<and> host_SourceID h = client_id c \<and> row_counts (elems (dstate_Guests s)) h)"
proof (cases "clusterResources env c")
  case (Inl e)
  then show ?thesis
    using assms(2) unreachable_host_row
    by (simp add: collectSource_unreachable) (auto simp: source_unreachable_rows rows_inv_def)
next
  case (Inr resources)
  have ok: "source_ok c s" using collectSource_reachable [OF assms(1) Inr assms(2)] by blast
  have "row_counts (elems (dstate_Guests s)) h"
    if "host_named c n h" "host_counts (elems (dstate_Guests s)) h" for h n
  proof -
    have src: "guest_SourceID g = host_SourceID h" if "g \<in> set (elems (dstate_Guests s))" for g
      using ok that \<open>host_named c n h\<close> by (auto simp: source_ok_def rows_inv_def host_named_def)
    then have "filter (\<lambda>g. guest_SourceID g = host_SourceID h \<and> guest_HostID g = host_ID h) (elems (dstate_Guests s))
        = filter (\<lambda>g. guest_HostID g = host_ID h) (elems (dstate_Guests s))"
      by (auto intro: filter_cong)
    with that(2) show ?thesis
      by (simp add: row_counts_def host_counts_def guests_on_def conj_commute)
  qed
  then show ?thesis using ok by (auto simp: source_ok_def host_named_def)
qed

lemma filter_concat_single:
  assumes "i < length xss" and "\<And>j. j < length xss \<Longrightarrow> j \<noteq> i \<Longrightarrow> filter P (xss ! j) = []"
  shows "filter P (concat xss) = filter P (xss ! i)"
proof -
  have none: "filter P (concat yss) = []" if "\<forall>ys\<in>set yss. filter P ys = []" for yss
    using that by (induction yss) auto
  have "filter P (concat (take i xss)) = []" "filter P (concat (drop (Suc i) xss)) = []"
    using assms by (auto intro!: none simp: in_set_conv_nth)
  then show ?thesis
    using id_take_nth_drop [OF assms(1)]
    by (metis append.right_neutral append_Nil concat.simps(2) concat_append filter_append)
qed

lemma row_counts_perm: "mset gs = mset gs' \<Longrightarrow> row_counts gs h = row_counts gs' h"
proof -
  assume "mset gs = mset gs'"
  then have "length (filter P (filter Q gs)) = length (filter P (filter Q gs'))" for P Q
    by (metis mset_filter size_mset)
  then show ?thesis by (simp only: row_counts_def Let_def)
qed

text \<open>With distinct source IDs the counters agree with the merged guest list as well.\<close>

lemma merged_row_counts:
  assumes rs: "source_results envs col rs" and ids: "distinct (map client_id (col_clients col))"
    and fair: "\<forall>i<length (col_clients col). fair_order (envs i)"
    and i: "i < length (col_clients col)" and h: "h \<in> set (elems (dstate_Hosts (rs ! i)))"
  shows "row_counts (rows dstate_Guests rs) h"
proof -
  have each: "rows_inv (col_clients col ! j) (rs ! j) \<and> (\<forall>h\<in>set (elems (dstate_Hosts (rs ! j))).
      host_SourceID h = client_id (col_clients col ! j) \<and> row_counts (elems (dstate_Guests (rs ! j))) h)"
    if "j < length (col_clients col)" for j
    using collectSource_rows [of "envs j" col "col_clients col ! j" "rs ! j"] fair rs that
    by (auto simp: source_results_def)
  let ?own = "\<lambda>g. guest_SourceID g = host_SourceID h \<and> guest_HostID g = host_ID h"
  have "filter ?own (elems (dstate_Guests (rs ! j))) = []" if j: "j < length rs" "j \<noteq> i" for j
  proof -
    have "j < length (col_clients col)" using j rs by (simp add: source_results_def)
    then have "client_id (col_clients col ! j) \<noteq> client_id (col_clients col ! i)"
      using ids i j(2) nth_eq_iff_index_eq [OF ids] by simp
    then show ?thesis
      using each [OF \<open>j < length (col_clients col)\<close>] each [OF i] h by (auto simp: rows_inv_def filter_empty_conv)
  qed
  then have "filter ?own (rows dstate_Guests rs) = filter ?own (elems (dstate_Guests (rs ! i)))"
    unfolding rows_def using i rs
    by (subst filter_concat_single [of i]) (simp_all add: source_results_def)
  then show ?thesis using each [OF i] h by (simp add: row_counts_def)
qed

subsection \<open>The collected state\<close>

text \<open>Two sorted lists of the same alerts have the same severities in the same places.\<close>

lemma ranks_determined:
  assumes "mset xs = mset ys" and "sorted_wrt (\<lambda>x y. \<not> alert_less y x) xs" and "sorted_wrt (\<lambda>x y. \<not> alert_less y x) ys"
  shows "map (severityRank \<circ> alert_Severity) xs = map (severityRank \<circ> alert_Severity) ys"
proof -
  let ?rank = "severityRank \<circ> alert_Severity"
  have down: "sorted (rev (map ?rank zs))" if "sorted_wrt (\<lambda>x y. \<not> alert_less y x) zs" for zs
    using that by (simp add: sorted_wrt_rev sorted_wrt_map alert_less_def not_less)
  have "mset (rev (map ?rank xs)) = mset (rev (map ?rank ys))" using assms(1) by simp
  then have "rev (map ?rank xs) = rev (map ?rank ys)"
    using down [OF assms(2)] down [OF assms(3)] by (metis properties_for_sort)
  then show ?thesis by simp
qed

lemma Collect_order:
  assumes "sort_algorithm perm" and "sort_algorithm perm'"
    and "arrival_of col arrival" and "arrival_of col arrival'"
    and "Collect envs perm arrival now col = Some s" and "Collect envs perm' arrival' now col = Some s'"
    and "\<And>rs. source_results envs col rs \<Longrightarrow> ids_name_rows rs"
  shows "s\<lparr>dstate_Alerts := x\<rparr> = s'\<lparr>dstate_Alerts := x\<rparr> \<and>
         mset (elems (dstate_Alerts s)) = mset (elems (dstate_Alerts s')) \<and>
         map (severityRank \<circ> alert_Severity) (elems (dstate_Alerts s))
           = map (severityRank \<circ> alert_Severity) (elems (dstate_Alerts s'))"
proof -
  obtain rs where rs: "source_results envs col rs"
    and s: "s = Finalize (sort_state perm (merged (map ((!) rs) arrival) now))"
    and s': "s' = Finalize (sort_state perm' (merged (map ((!) rs) arrival') now))"
    using assms(5,6) by (auto simp: Collect_Some dest: source_results_unique)
  have len: "length rs = length (col_clients col)" using rs by (simp add: source_results_def)
  have p: "mset (map ((!) rs) arrival) = mset rs" "mset (map ((!) rs) arrival') = mset rs"
    using arrival_perm assms(3,4) len by blast+
  have ids: "ids_name_rows (map ((!) rs) a)" if "mset (map ((!) rs) a) = mset rs" for a
    using assms(7) [OF rs] by (simp only: ids_name_rows_def rows_perm_set [OF that])
  have "same_rows (sort_state perm (merged (map ((!) rs) arrival) now))
          (sort_state insertion_perm (merged rs now))"
      "same_rows (sort_state perm' (merged (map ((!) rs) arrival') now))
          (sort_state insertion_perm (merged rs now))"
    using sort_state_same [OF assms(1) p(1) ids [OF p(1)]] sort_state_same [OF assms(2) p(2) ids [OF p(2)]] by blast+
  then have same: "same_rows (sort_state perm (merged (map ((!) rs) arrival) now))
          (sort_state perm' (merged (map ((!) rs) arrival') now))"
    by (simp add: same_rows_def)
  have al: "mset (elems (dstate_Alerts s)) = mset (elems (dstate_Alerts s'))"
    using Collect_lists(4) [OF assms(1) s] Collect_lists(4) [OF assms(2) s'] rows_perm p by metis
  moreover have "map (severityRank \<circ> alert_Severity) (elems (dstate_Alerts s))
      = map (severityRank \<circ> alert_Severity) (elems (dstate_Alerts s'))"
    using al Collect_lists(5) [OF assms(1) s] Collect_lists(5) [OF assms(2) s'] by (rule ranks_determined)
  ultimately show ?thesis using Finalize_same_rows [OF same, of x] by (simp add: s s')
qed

lemma Collect_bounded:
  assumes "sort_algorithm perm" and "Collect envs perm arrival now col = Some s"
  shows "length (elems (dstate_Networks s)) \<le> 64 \<and> length (elems (dstate_Services s)) \<le> 96 \<and>
         length (elems (dstate_Snapshots s)) \<le> 96 \<and> length (elems (dstate_Tasks s)) \<le> 48 \<and>
         length (elems (dstate_StorageItems s)) \<le> 256 \<and> length (elems (dstate_MetricTrends s)) \<le> 384 \<and>
         length (elems (dstate_ClusterOptions s)) \<le> 64 \<and> length (elems (dstate_Capabilities s)) \<le> 512 \<and>
         length (elems (dstate_Updates s)) \<le> 64 \<and> length (elems (dstate_Repositories s)) \<le> 48 \<and>
         sorted_wrt (\<lambda>x y. severityRank (alert_Severity y) \<le> severityRank (alert_Severity x))
           (elems (dstate_Alerts s))"
proof -
  obtain rs where s: "s = Finalize (sort_state perm (merged rs now))"
    using assms(2) by (auto simp: Collect_Some)
  have "sorted_wrt (\<lambda>x y. severityRank (alert_Severity y) \<le> severityRank (alert_Severity x))
          (elems (dstate_Alerts s))"
    using Collect_lists(5) [OF assms(1) s] by (simp add: alert_less_def not_less)
  then show ?thesis
    by (simp add: s Finalize_eq fill_nil_def sort_state_def collector_caps)
qed

lemma Collect_parts:
  assumes "sort_algorithm perm" and "arrival_of col arrival" and "Collect envs perm arrival now col = Some s"
  obtains rs where "source_results envs col rs" and "length rs = length (col_clients col)"
    and "\<And>h. h \<in> set (elems (dstate_Hosts s)) \<longleftrightarrow> (\<exists>i<length (col_clients col). h \<in> set (elems (dstate_Hosts (rs ! i))))"
    and "\<And>a. a \<in> set (elems (dstate_Alerts s)) \<longleftrightarrow> (\<exists>i<length (col_clients col). a \<in> set (elems (dstate_Alerts (rs ! i))))"
    and "\<And>st. st \<in> set (elems (dstate_Storages s)) \<longleftrightarrow>
           (\<exists>i<length (col_clients col). st \<in> set (elems (dstate_Storages (rs ! i))))"
    and "mset (elems (dstate_Guests s)) = mset (rows dstate_Guests rs)"
    and "dstate_Summary s = summary_of s"
proof -
  obtain rs where rs: "source_results envs col rs"
    and s: "s = Finalize (sort_state perm (merged (map ((!) rs) arrival) now))"
    using assms(3) by (auto simp: Collect_Some)
  have len: "length rs = length (col_clients col)" using rs by (simp add: source_results_def)
  note l = Collect_lists [OF assms(1) s]
  have al: "set (elems (dstate_Alerts s)) = set (rows dstate_Alerts (map ((!) rs) arrival))"
    using l(4) by (metis set_mset_mset)
  have gu: "mset (elems (dstate_Guests s)) = mset (rows dstate_Guests rs)"
    using l(2) rows_perm [OF arrival_perm [OF assms(2) len]] by metis
  have su: "dstate_Summary s = summary_of s"
    using finalized_Finalize [of "sort_state perm (merged (map ((!) rs) arrival) now)"]
    by (simp only: s finalized_def)
  show ?thesis
    by (rule that [OF rs len _ _ _ gu su]) (simp_all only: al l(1,3) rows_set [OF assms(2) rs])
qed

lemma Collect_unreachable:
  assumes "sort_algorithm perm" and "arrival_of col arrival" and "i < length (col_clients col)"
    and "clusterResources (envs i) (col_clients col ! i) = Inl e"
    and "Collect envs perm arrival now col = Some s"
  shows "(\<exists>h\<in>set (elems (dstate_Hosts s)).
            host_ID h = client_id (col_clients col ! i) @ ''/unreachable'' \<and>
            host_SourceID h = client_id (col_clients col ! i) \<and> host_Name h = client_name (col_clients col ! i) \<and>
            \<not> host_Online h \<and> host_Health h = HealthCritical \<and> host_Error h = Some (error_text e)) \<and>
         (\<exists>a\<in>set (elems (dstate_Alerts s)).
            alert_SourceID a = client_id (col_clients col ! i) \<and>
            alert_HostID a = client_id (col_clients col ! i) @ ''/unreachable'' \<and>
            alert_Severity a = HealthCritical \<and> alert_Message a = error_text e) \<and>
         summary_Health (dstate_Summary s) = HealthCritical"
proof -
  let ?c = "col_clients col ! i"
  let ?h = "unreachable_host ?c (error_text e)" and ?a = "unreachable_alert ?c (error_text e)"
  obtain rs where rs: "source_results envs col rs" "length rs = length (col_clients col)"
    and parts: "\<And>h. h \<in> set (elems (dstate_Hosts s)) \<longleftrightarrow> (\<exists>i<length (col_clients col). h \<in> set (elems (dstate_Hosts (rs ! i))))"
      "\<And>a. a \<in> set (elems (dstate_Alerts s)) \<longleftrightarrow> (\<exists>i<length (col_clients col). a \<in> set (elems (dstate_Alerts (rs ! i))))"
    and sum: "dstate_Summary s = summary_of s"
    using assms(1,2,5) by (rule Collect_parts) blast
  have "rs ! i = source_unreachable ?c e (NewState (env_clock (envs i) ''state'' 0))"
    using rs assms(3) collectSource_unreachable [OF assms(4), of col] by (simp add: source_results_def)
  then have "unreachable_host ?c (error_text e) \<in> set (elems (dstate_Hosts (rs ! i)))"
      "unreachable_alert ?c (error_text e) \<in> set (elems (dstate_Alerts (rs ! i)))"
    by (simp_all add: source_unreachable_rows)
  then have in_s: "unreachable_host ?c (error_text e) \<in> set (elems (dstate_Hosts s))"
      "unreachable_alert ?c (error_text e) \<in> set (elems (dstate_Alerts s))"
    using parts assms(3) by blast+
  have "alert_Severity ?a = HealthCritical" by (simp add: unreachable_alert_def)
  with in_s have "\<exists>a\<in>set (elems (dstate_Alerts s)). alert_Severity a = HealthCritical" by blast
  then have "summary_Health (dstate_Summary s) = HealthCritical"
    by (simp add: sum summary_of_def inventory_health_def)
  moreover have "host_ID ?h = client_id ?c @ ''/unreachable'' \<and> host_SourceID ?h = client_id ?c \<and>
      host_Name ?h = client_name ?c \<and> \<not> host_Online ?h \<and> host_Health ?h = HealthCritical \<and>
      host_Error ?h = Some (error_text e)"
    "alert_SourceID ?a = client_id ?c \<and> alert_HostID ?a = client_id ?c @ ''/unreachable'' \<and>
      alert_Severity ?a = HealthCritical \<and> alert_Message ?a = error_text e"
    by (simp_all add: unreachable_host_def unreachable_alert_def)
  ultimately show ?thesis using in_s by blast
qed

lemma Collect_nodes:
  assumes "sort_algorithm perm" and "arrival_of col arrival" and "i < length (col_clients col)"
    and "fair_order (envs i)" and "clusterResources (envs i) (col_clients col ! i) = Inr resources"
    and "Collect envs perm arrival now col = Some s"
    and "r \<in> set resources" and "resource_Type r = ''node''"
  shows "\<exists>h\<in>set (elems (dstate_Hosts s)).
           host_ID h = client_id (col_clients col ! i) @ ''/'' @ reported_name (col_clients col ! i) r \<and>
           host_Node h = reported_name (col_clients col ! i) r \<and> host_SourceID h = client_id (col_clients col ! i) \<and>
           (\<not> host_Online h \<longrightarrow>
              (\<exists>a\<in>set (elems (dstate_Alerts s)). alert_HostID a = host_ID h \<and> alert_SourceID a = host_SourceID h \<and>
                 alert_Severity a = HealthCritical \<and> alert_Title a = host_Name h @ '' offline''))"
proof -
  let ?c = "col_clients col ! i"
  let ?node = "reported_name ?c r"
  obtain rs where rs: "source_results envs col rs" "length rs = length (col_clients col)"
    and parts: "\<And>h. h \<in> set (elems (dstate_Hosts s)) \<longleftrightarrow> (\<exists>i<length (col_clients col). h \<in> set (elems (dstate_Hosts (rs ! i))))"
      "\<And>a. a \<in> set (elems (dstate_Alerts s)) \<longleftrightarrow> (\<exists>i<length (col_clients col). a \<in> set (elems (dstate_Alerts (rs ! i))))"
    using assms(1,2,6) by (rule Collect_parts) blast
  have "collectSource (envs i) col ?c = Some (rs ! i)" using rs assms(3) by (simp add: source_results_def)
  note r = collectSource_reachable [OF assms(4,5) this]
  moreover have "?node \<in> node_names ?c resources" using assms(7,8) by (simp add: node_names_def)
  ultimately have "?node \<in> set (map host_Node (elems (dstate_Hosts (rs ! i))))" by simp
  then obtain h where h: "h \<in> set (elems (dstate_Hosts (rs ! i)))" "host_Node h = ?node"
    unfolding set_map by (elim imageE) (rule that, assumption, rule sym)
  then have "host_named ?c (host_Node h) h" "\<not> host_Online h \<longrightarrow> host_offline_alert h \<in> set (elems (dstate_Alerts (rs ! i)))"
    using r unfolding source_ok_def by blast+
  moreover have "alert_HostID (host_offline_alert h) = host_ID h \<and> alert_SourceID (host_offline_alert h) = host_SourceID h \<and>
      alert_Severity (host_offline_alert h) = HealthCritical \<and>
      alert_Title (host_offline_alert h) = host_Name h @ '' offline''"
    by (simp add: host_offline_alert_def)
  moreover have "host_offline_alert h \<in> set (elems (dstate_Alerts s))" if "\<not> host_Online h"
    using that calculation(2) parts(2) assms(3) by blast
  ultimately have row: "host_ID h = client_id ?c @ ''/'' @ ?node \<and> host_Node h = ?node \<and> host_SourceID h = client_id ?c"
    "\<not> host_Online h \<Longrightarrow> \<exists>a\<in>set (elems (dstate_Alerts s)). alert_HostID a = host_ID h \<and>
         alert_SourceID a = host_SourceID h \<and> alert_Severity a = HealthCritical \<and>
         alert_Title a = host_Name h @ '' offline''"
    using h(2) by (simp_all only: host_named_def) (rule bexI [of _ "host_offline_alert h"], simp_all)
  moreover have "h \<in> set (elems (dstate_Hosts s))" using h(1) parts(1) assms(3) by blast
  ultimately show ?thesis by blast
qed

lemma Collect_rows:
  assumes "sort_algorithm perm" and "arrival_of col arrival"
    and "distinct (map client_id (col_clients col))"
    and "\<forall>i<length (col_clients col). fair_order (envs i)"
    and "Collect envs perm arrival now col = Some s"
  shows "(\<forall>h\<in>set (elems (dstate_Hosts s)). host_pcts h \<and> row_counts (elems (dstate_Guests s)) h) \<and>
         (\<forall>g\<in>set (elems (dstate_Guests s)). guest_pcts g) \<and>
         (\<forall>st\<in>set (elems (dstate_Storages s)). is_pct (storage_DiskPct st))"
proof -
  obtain rs where rs: "source_results envs col rs" "length rs = length (col_clients col)"
    and parts: "\<And>h. h \<in> set (elems (dstate_Hosts s)) \<longleftrightarrow> (\<exists>i<length (col_clients col). h \<in> set (elems (dstate_Hosts (rs ! i))))"
      "\<And>st. st \<in> set (elems (dstate_Storages s)) \<longleftrightarrow>
           (\<exists>i<length (col_clients col). st \<in> set (elems (dstate_Storages (rs ! i))))"
    and guests: "mset (elems (dstate_Guests s)) = mset (rows dstate_Guests rs)"
    using assms(1,2,5) by (rule Collect_parts) blast
  have each: "rows_inv (col_clients col ! i) (rs ! i) \<and> (\<forall>h\<in>set (elems (dstate_Hosts (rs ! i))). host_pcts h)"
    if "i < length (col_clients col)" for i
    using collectSource_rows [of "envs i" col "col_clients col ! i" "rs ! i"] assms(4) rs that
    by (auto simp: source_results_def)
  have "set (elems (dstate_Guests s)) = set (rows dstate_Guests rs)" using guests by (metis set_mset_mset)
  then have g: "\<exists>i<length (col_clients col). g \<in> set (elems (dstate_Guests (rs ! i)))"
    if "g \<in> set (elems (dstate_Guests s))" for g
  proof -
    have "set rs = (!) rs ` {..<length (col_clients col)}" using rs(2) by (auto simp: set_conv_nth)
    then show ?thesis using that \<open>set (elems (dstate_Guests s)) = set (rows dstate_Guests rs)\<close>
      by (auto simp: rows_def)
  qed
  show ?thesis
  proof (intro conjI ballI)
    fix h assume "h \<in> set (elems (dstate_Hosts s))"
    then obtain i where i: "i < length (col_clients col)" "h \<in> set (elems (dstate_Hosts (rs ! i)))"
      using parts(1) by blast
    show "host_pcts h" using each [OF i(1)] i(2) by blast
    show "row_counts (elems (dstate_Guests s)) h"
      using merged_row_counts [OF rs(1) assms(3,4) i] row_counts_perm [OF guests] by blast
  next
    fix g assume "g \<in> set (elems (dstate_Guests s))"
    then show "guest_pcts g" using g each unfolding rows_inv_def by blast
  next
    fix st assume "st \<in> set (elems (dstate_Storages s))"
    then show "is_pct (storage_DiskPct st)" using parts(2) each unfolding rows_inv_def by blast
  qed
qed

section \<open>A sample source\<close>

text \<open>A source with one node and one guest whose other requests all time out.\<close>

definition sample_resources :: "resource list" where
  "sample_resources =
     [resource_zero\<lparr>resource_Type := ''node'', resource_Node := ''pve'', resource_Status := ''online''\<rparr>,
      resource_zero\<lparr>resource_Type := ''qemu'', resource_Node := ''pve'', resource_VMID := 100,
        resource_Status := ''running''\<rparr>]"

definition sample_codec :: codec where
  "sample_codec =
     \<lparr>json_clusterResources = \<lambda>_. (sample_resources, None),
      json_clusterStatus = \<lambda>_. ([], None),
      json_clusterBackupJobs = \<lambda>_. ([], None),
      json_clusterHAResources = \<lambda>_. ([], None),
      json_clusterReplications = \<lambda>_. ([], None),
      json_clusterOptions = \<lambda>_. ([], None),
      json_clusterStorage = \<lambda>_. ([], None),
      json_nodeStatus = \<lambda>_. (nodeStatus_zero, None),
      json_nodePCI = \<lambda>_. ([], None),
      json_nodeNetwork = \<lambda>_. ([], None),
      json_nodeServices = \<lambda>_. ([], None),
      json_nodeDisks = \<lambda>_. ([], None),
      json_nodeTasks = \<lambda>_. ([], None),
      json_replicationStatus = \<lambda>_. (replicationStatus_zero, None),
      json_nodeZFSPools = \<lambda>_. ([], None),
      json_nodeZFSPoolDetail = \<lambda>_. (zfsPoolDetail_zero, None),
      json_nodeCertificates = \<lambda>_. ([], None),
      json_nodeRRDData = \<lambda>_. ([], None),
      json_nodeAPTUpdates = \<lambda>_. ([], None),
      json_nodeAPTRepositories = \<lambda>_. (aptRepositories_zero, None),
      json_nodeSubscription = \<lambda>_. (subscriptionInfo_zero, None),
      json_guestConfig = \<lambda>_. ([], None),
      json_guestSnapshots = \<lambda>_. ([], None),
      json_guestStatus = \<lambda>_. (guestStatus_zero, None),
      json_guestRRDData = \<lambda>_. ([], None),
      json_containerInterfaces = \<lambda>_. ([], None),
      json_storageContent = \<lambda>_. ([], None),
      json_cephStatus = \<lambda>_. (cephStatus_zero, None),
      json_cephDF = \<lambda>_. (cephDF_zero, None),
      json_agentInfo = \<lambda>_. (agentInfo_zero, None),
      json_agentHostname = \<lambda>_. (agentHostname_zero, None),
      json_agentOSInfo = \<lambda>_. (agentOSInfo_zero, None),
      json_agentNetworkInterfaces = \<lambda>_. (agentNetworkInterfaces_zero, None),
      json_agentFSInfo = \<lambda>_. (agentFSInfo_zero, None)\<rparr>"

definition sample_env :: env where
  "sample_env =
     \<lparr>env_net = \<lparr>net_url_ok = \<lambda>_. None,
        net_do = \<lambda>_ rq. if rq_URL rq = ''https://pve/api2/json/cluster/resources''
                       then Inr \<lparr>rsp_StatusCode = 200, rsp_Body = Inr ''ok''\<rparr>
                       else Inl (OtherError ''timeout''),
        net_envelope = \<lambda>_. Inr ''[]''\<rparr>,
      env_codec = sample_codec, env_arch = AMD64, env_sort = insertion_perm, env_clock = \<lambda>_ _. 0,
      env_order = \<lambda>_ ks. ks\<rparr>"

definition sample_pve :: "string \<Rightarrow> client" where
  "sample_pve name =
     \<lparr>client_id = name, client_name = ''PVE'', client_baseURL = ''https://'' @ name, client_token = '''',
      client_tls = \<lparr>tp_MinVersion = 0x0303, tp_InsecureSkipVerify = False, tp_RootCAs = None, tp_Pin = None\<rparr>\<rparr>"

text \<open>Two sources: the first one answers, the second one does not.\<close>

definition sample_collector :: source_collector where
  "sample_collector =
     \<lparr>col_cfg = MockConfig, col_clients = [sample_pve ''pve'', sample_pve ''down''], col_pinned = Map.empty\<rparr>"

lemma sample_env_facts: "fair_order sample_env" "short_series sample_env"
  by (simp_all add: fair_order_def short_series_def sample_env_def sample_codec_def)

lemma sample_collector_facts:
  "length (col_clients sample_collector) = 2" "arrival_of sample_collector [1, 0]"
  "distinct (map client_id (col_clients sample_collector))"
  by (simp_all add: sample_collector_def arrival_of_def sample_pve_def upt_rec)

lemma sample_answers:
  "clusterResources sample_env (col_clients sample_collector ! 0) = Inr sample_resources"
  "clusterResources sample_env (col_clients sample_collector ! 1) = Inl (OtherError ''timeout'')"
  by (simp_all add: clusterResources_def checked_def Get_def sample_env_def sample_collector_def sample_pve_def
      get_request_def sample_codec_def)

lemma sample_collected: "\<exists>s. Collect (\<lambda>_. sample_env) insertion_perm [1, 0] 0 sample_collector = Some s"
  by (intro Collect_total) (simp add: sample_env_facts)

text \<open>An environment in which no request is answered.\<close>

definition dead_env :: env where
  "dead_env = sample_env\<lparr>env_net := (env_net sample_env)\<lparr>net_do := \<lambda>_ _. Inl (OtherError ''timeout'')\<rparr>\<rparr>"

lemma sample_arrival: "arrival_of sample_collector [0, 1]"
  by (simp add: sample_collector_def arrival_of_def upt_rec)

lemma dead_collected: "\<exists>s. Collect (\<lambda>_. dead_env) insertion_perm arrival 0 sample_collector = Some s"
  by (intro Collect_total) (simp add: dead_env_def short_series_def sample_env_def sample_codec_def)

lemma dead_ids:
  assumes "source_results (\<lambda>_. dead_env) sample_collector rs"
  shows "ids_name_rows rs"
proof -
  have "clusterResources dead_env c = Inl (OtherError ''timeout'')" for c
    by (simp add: clusterResources_def checked_def Get_def dead_env_def sample_env_def)
  then have one: "collectSource dead_env sample_collector c = Some (source_unreachable c (OtherError ''timeout'')
      (NewState (env_clock dead_env ''state'' 0)))" for c
    by (rule collectSource_unreachable)
  have n: "length rs = length (col_clients sample_collector)" using assms by (simp add: source_results_def)
  have nth: "rs ! i = source_unreachable (col_clients sample_collector ! i) (OtherError ''timeout'')
      (NewState (env_clock dead_env ''state'' 0))" if "i < length rs" for i
    using assms that one [of "col_clients sample_collector ! i"] by (auto simp: source_results_def)
  have "rs = map (\<lambda>c. source_unreachable c (OtherError ''timeout'') (NewState (env_clock dead_env ''state'' 0)))
      (col_clients sample_collector)"
    by (rule nth_equalityI) (simp_all only: length_map n nth nth_map)
  then show ?thesis
    by (auto simp: ids_name_rows_def rows_def sample_collector_def sample_pve_def source_unreachable_def
        unreachable_host_def NewState_def dstate_zero_def add_alert_def)
qed

section \<open>Properties\<close>

text \<open>
  C9: A collection always completes: whatever the sources answer, refuse or fail to answer, no
  goroutine panics, \<open>Collect\<close> returns a state without an error, and the state is finalized.
  (The series of a node or guest have at most 2 ^ 48 points.)
\<close>

theorem collection_completes:
  assumes "\<forall>i<length (col_clients col). short_series (envs i)"
  shows "\<exists>s. Collect envs perm arrival now col = Some s \<and> finalized s"
  using Collect_total [OF assms] Collect_Some by fastforce

lemma collection_completes_witness:
  "\<exists>s. Collect (\<lambda>_. sample_env) insertion_perm [1, 0] 0 sample_collector = Some s \<and> finalized s"
  by (rule collection_completes) (simp add: sample_env_facts)

text \<open>
  C10: The result does not depend on scheduling: if within each list an ID names one row, then every
  arrival order of the sources and every sorting algorithm give the same state, list by list and in
  its summary, except that alerts of equal severity (of equal rank) may be permuted: the alerts are
  the same, and at each place of the list their severity is.
\<close>

theorem arrival_order_irrelevant:
  assumes "sort_algorithm perm" and "sort_algorithm perm'"
    and "arrival_of col arrival" and "arrival_of col arrival'"
    and "Collect envs perm arrival now col = Some s" and "Collect envs perm' arrival' now col = Some s'"
    and "\<And>rs. source_results envs col rs \<Longrightarrow> ids_name_rows rs"
  shows "s\<lparr>dstate_Alerts := x\<rparr> = s'\<lparr>dstate_Alerts := x\<rparr> \<and>
         mset (elems (dstate_Alerts s)) = mset (elems (dstate_Alerts s')) \<and>
         map (severityRank \<circ> alert_Severity) (elems (dstate_Alerts s))
           = map (severityRank \<circ> alert_Severity) (elems (dstate_Alerts s'))"
  using assms by (rule Collect_order)

lemma arrival_order_irrelevant_witness:
  "\<exists>s s'. Collect (\<lambda>_. dead_env) insertion_perm [0, 1] 0 sample_collector = Some s \<and>
          Collect (\<lambda>_. dead_env) insertion_perm [1, 0] 0 sample_collector = Some s' \<and>
          s\<lparr>dstate_Alerts := None\<rparr> = s'\<lparr>dstate_Alerts := None\<rparr>"
proof -
  obtain s s' where s: "Collect (\<lambda>_. dead_env) insertion_perm [0, 1] 0 sample_collector = Some s"
      "Collect (\<lambda>_. dead_env) insertion_perm [1, 0] 0 sample_collector = Some s'"
    using dead_collected by blast
  show ?thesis
    using s arrival_order_irrelevant [OF insertion.sort_algorithm_axioms insertion.sort_algorithm_axioms
        sample_arrival sample_collector_facts(2) s dead_ids] by blast
qed

text \<open>
  C30: The state is bounded and the worst comes first: each of the long lists keeps its cap, and no
  alert stands before a more severe one.
\<close>

theorem collected_state_bounded:
  assumes "sort_algorithm perm" and "Collect envs perm arrival now col = Some s"
  shows "length (elems (dstate_Networks s)) \<le> 64 \<and> length (elems (dstate_Services s)) \<le> 96 \<and>
         length (elems (dstate_Snapshots s)) \<le> 96 \<and> length (elems (dstate_Tasks s)) \<le> 48 \<and>
         length (elems (dstate_StorageItems s)) \<le> 256 \<and> length (elems (dstate_MetricTrends s)) \<le> 384 \<and>
         length (elems (dstate_ClusterOptions s)) \<le> 64 \<and> length (elems (dstate_Capabilities s)) \<le> 512 \<and>
         length (elems (dstate_Updates s)) \<le> 64 \<and> length (elems (dstate_Repositories s)) \<le> 48 \<and>
         sorted_wrt (\<lambda>x y. severityRank (alert_Severity y) \<le> severityRank (alert_Severity x))
           (elems (dstate_Alerts s))"
  using assms by (rule Collect_bounded)

lemma collected_state_bounded_witness:
  "\<exists>s. Collect (\<lambda>_. sample_env) insertion_perm [1, 0] 0 sample_collector = Some s \<and>
       length (elems (dstate_Tasks s)) \<le> 48"
  using sample_collected collected_state_bounded [OF insertion.sort_algorithm_axioms] by blast

text \<open>
  C8: A source that cannot be reached is shown, not hidden: there is an offline host of critical
  health that carries its name and its error, and a critical alert for this host with the error as
  its message, and the overall health is critical, whatever the other sources report.
\<close>

theorem unreachable_source_shows:
  assumes "sort_algorithm perm" and "arrival_of col arrival" and "i < length (col_clients col)"
    and "clusterResources (envs i) (col_clients col ! i) = Inl e"
    and "Collect envs perm arrival now col = Some s"
  shows "(\<exists>h\<in>set (elems (dstate_Hosts s)).
            host_ID h = client_id (col_clients col ! i) @ ''/unreachable'' \<and>
            host_SourceID h = client_id (col_clients col ! i) \<and> host_Name h = client_name (col_clients col ! i) \<and>
            \<not> host_Online h \<and> host_Health h = HealthCritical \<and> host_Error h = Some (error_text e)) \<and>
         (\<exists>a\<in>set (elems (dstate_Alerts s)).
            alert_SourceID a = client_id (col_clients col ! i) \<and>
            alert_HostID a = client_id (col_clients col ! i) @ ''/unreachable'' \<and>
            alert_Severity a = HealthCritical \<and> alert_Message a = error_text e) \<and>
         summary_Health (dstate_Summary s) = HealthCritical"
  using assms by (rule Collect_unreachable)

lemma unreachable_source_shows_witness:
  "\<exists>s. Collect (\<lambda>_. sample_env) insertion_perm [1, 0] 0 sample_collector = Some s \<and>
       summary_Health (dstate_Summary s) = HealthCritical"
proof -
  obtain s where s: "Collect (\<lambda>_. sample_env) insertion_perm [1, 0] 0 sample_collector = Some s"
    using sample_collected by blast
  have "1 < length (col_clients sample_collector)" by (simp add: sample_collector_facts)
  from unreachable_source_shows [OF insertion.sort_algorithm_axioms sample_collector_facts(2) this
      sample_answers(2) s] s show ?thesis by blast
qed

text \<open>
  C7: No node is lost: for every resource of type node a reachable source reports there is a host row
  of that source with the node's name (the node field, or the name if that is blank, or the name of
  the source), and if that host is offline there is a critical alert for it; no failure of a later
  request, or of another source, removes it.
\<close>

theorem every_node_listed:
  assumes "sort_algorithm perm" and "arrival_of col arrival" and "i < length (col_clients col)"
    and "fair_order (envs i)" and "clusterResources (envs i) (col_clients col ! i) = Inr resources"
    and "Collect envs perm arrival now col = Some s"
    and "r \<in> set resources" and "resource_Type r = ''node''"
  shows "\<exists>h\<in>set (elems (dstate_Hosts s)).
           host_ID h = client_id (col_clients col ! i) @ ''/'' @ reported_name (col_clients col ! i) r \<and>
           host_Node h = reported_name (col_clients col ! i) r \<and> host_SourceID h = client_id (col_clients col ! i) \<and>
           (\<not> host_Online h \<longrightarrow>
              (\<exists>a\<in>set (elems (dstate_Alerts s)). alert_HostID a = host_ID h \<and> alert_SourceID a = host_SourceID h \<and>
                 alert_Severity a = HealthCritical \<and> alert_Title a = host_Name h @ '' offline''))"
  using assms by (rule Collect_nodes)

lemma every_node_listed_witness:
  "\<exists>s. Collect (\<lambda>_. sample_env) insertion_perm [1, 0] 0 sample_collector = Some s \<and>
       (\<exists>h\<in>set (elems (dstate_Hosts s)). host_ID h = ''pve/pve'')"
proof -
  obtain s where s: "Collect (\<lambda>_. sample_env) insertion_perm [1, 0] 0 sample_collector = Some s"
    using sample_collected by blast
  have n: "hd sample_resources \<in> set sample_resources" "resource_Type (hd sample_resources) = ''node''"
    by (simp_all add: sample_resources_def)
  have "reported_name c (hd sample_resources) = ''pve''" for c
  proof -
    have "trim_space ''pve'' \<noteq> ''''" by code_simp
    then show ?thesis by (simp add: reported_name_def sample_resources_def)
  qed
  note name = this
  have "0 < length (col_clients sample_collector)" by (simp add: sample_collector_facts)
  from every_node_listed [OF insertion.sort_algorithm_axioms sample_collector_facts(2) this
      sample_env_facts(1) sample_answers(1) s n]
  show ?thesis using s by (auto simp: name sample_collector_def sample_pve_def)
qed

text \<open>
  C6: The rows of a collected state are consistent: every percentage of a host, guest or storage is
  between 0 and 100, and the guest counters of a host are the numbers of running and other guests
  listed for it, for any answers of the API.
\<close>

theorem collected_rows_consistent:
  assumes "sort_algorithm perm" and "arrival_of col arrival"
    and "distinct (map client_id (col_clients col))"
    and "\<forall>i<length (col_clients col). fair_order (envs i)"
    and "Collect envs perm arrival now col = Some s"
  shows "(\<forall>h\<in>set (elems (dstate_Hosts s)). host_pcts h \<and> row_counts (elems (dstate_Guests s)) h) \<and>
         (\<forall>g\<in>set (elems (dstate_Guests s)). guest_pcts g) \<and>
         (\<forall>st\<in>set (elems (dstate_Storages s)). is_pct (storage_DiskPct st))"
  using assms by (rule Collect_rows)

lemma collected_rows_consistent_witness:
  "\<exists>s. Collect (\<lambda>_. sample_env) insertion_perm [1, 0] 0 sample_collector = Some s \<and>
       (\<forall>h\<in>set (elems (dstate_Hosts s)). row_counts (elems (dstate_Guests s)) h)"
proof -
  obtain s where s: "Collect (\<lambda>_. sample_env) insertion_perm [1, 0] 0 sample_collector = Some s"
    using sample_collected by blast
  have "\<forall>i<length (col_clients sample_collector). fair_order ((\<lambda>_. sample_env) i)"
    using sample_env_facts(1) by simp
  from collected_rows_consistent [OF insertion.sort_algorithm_axioms sample_collector_facts(2,3) this s]
  show ?thesis using s by blast
qed

end
