(* ===== verification/Manager.thy ===== *)
theory Manager
  imports Config_Store Collector
begin

text \<open>
  The admin manager (\<open>internal/runtime/manager.go\<close>): it owns the running configuration and its
  secrets, changes them on behalf of the admin page, writes them to disk and hands the cache a
  new collector.  The theory first closes the interface \<open>store.Collector\<close>: the three collectors
  the bridge has are the values of \<open>any_collector\<close>, and the contract of \<open>Cache\<close> is
  discharged for them.
\<close>

section \<open>The collectors of the bridge\<close>

datatype any_collector = EmptyCollector | MockCollector | ProxmoxCollector source_collector

text \<open>
  What a collection runs in: the answers each source gives, the sorting algorithm, the order in
  which so many sources finish and the clock.  A panic of a collecting goroutine ends the process; it
  is the value \<open>GoroutinePanic\<close>, the only way a collection can fail.
\<close>

record collect_world =
  cw_envs :: "nat \<Rightarrow> env"
  cw_sort :: sorter
  cw_arrival :: "nat \<Rightarrow> nat list"
  cw_now :: gotime

datatype collect_failure = GoroutinePanic

definition collect_any :: "any_collector \<Rightarrow> collect_world \<Rightarrow> collect_failure + dstate" where
  "collect_any c w =
     (case c of
        EmptyCollector \<Rightarrow> empty_collect (cw_now w)
      | MockCollector \<Rightarrow> mock_collect (cw_now w)
      | ProxmoxCollector col \<Rightarrow>
          (case Collect (cw_envs w) (cw_sort w) (cw_arrival w (length (col_clients col))) (cw_now w) col of
             None \<Rightarrow> Inl GoroutinePanic
           | Some s \<Rightarrow> Inr s))"

type_synonym bridge_cache = "(any_collector, collect_failure) cache"

text \<open>Worlds in which no series is longer than 2 ^ 48 points: there every collection completes.\<close>

definition bounded_world :: "collect_world \<Rightarrow> bool" where
  "bounded_world w \<longleftrightarrow> (\<forall>i. short_series (cw_envs w i))"

text \<open>
  In every world the library's sort sorts, and every source of a collection arrives exactly once.
\<close>

definition proper_world :: "collect_world \<Rightarrow> bool" where
  "proper_world w \<longleftrightarrow> sort_algorithm (cw_sort w) \<and> (\<forall>n. mset (cw_arrival w n) = mset [0..<n])"

lemma collect_any_finalized: "collect_any c w = Inr s \<Longrightarrow> finalized s"
  by (auto simp: collect_any_def empty_collect_def mock_collect_def Collect_Some
      split: any_collector.splits option.splits)

interpretation bridge: collector collect_any
  by unfold_locales (rule collect_any_finalized)

lemma collect_any_total:
  assumes "bounded_world w"
  shows "\<exists>s. collect_any c w = Inr s"
proof (cases c)
  case (ProxmoxCollector col)
  have "\<exists>s. Collect (cw_envs w) (cw_sort w) (cw_arrival w (length (col_clients col))) (cw_now w) col = Some s"
    using assms by (intro Collect_total) (simp add: bounded_world_def)
  then show ?thesis by (auto simp: collect_any_def ProxmoxCollector)
qed (simp_all add: collect_any_def empty_collect_def mock_collect_def)

lemma refresh_succeeds:
  assumes "bounded_world w"
  shows "snd (Refresh collect_any w now c) = None"
  using collect_any_total [OF assms, of "cache_collector c"] by (auto simp: Refresh_def refresh_end_def)

section \<open>The manager\<close>

record manager =
  mgr_cfg :: config
  mgr_secrets :: secrets
  mgr_store :: store
  mgr_cache :: bridge_cache
  mgr_mock :: bool

record source_snapshot =
  ss_ID :: string
  ss_Name :: string
  ss_BaseURL :: string
  ss_TLSMode :: string
  ss_Fingerprint :: string
  ss_CAFile :: string
  ss_TokenSet :: bool

record admin_snapshot =
  snap_ConfigPath :: string
  snap_SecretsPath :: string
  snap_Mock :: bool
  snap_AdminConfigured :: bool
  snap_DisplayTokenSet :: bool
  snap_AdminTokenSet :: bool
  snap_Server :: server_config
  snap_Alerts :: alert_config
  snap_Sources :: "source_snapshot list"

record source_diagnostic =
  diag_Message :: string
  diag_Fingerprint :: string

record server_update =
  su_PollIntervalSeconds :: int
  su_StaleAfterSeconds :: int
  su_DisplayToken :: string
  su_AdminToken :: string
  su_MemoryWarningPct :: int
  su_MemoryCriticalPct :: int
  su_StorageWarningPct :: int
  su_StorageCriticalPct :: int

record source_update =
  up_ID :: string
  up_Name :: string
  up_BaseURL :: string
  up_Token :: string
  up_TLSMode :: string
  up_Fingerprint :: string
  up_CAFile :: string

datatype admin_error =
    PollTooShort
  | StaleBelowPoll
  | SourceNameRequired
  | SourceBaseURLRequired
  | SourceTokenRequired
  | SourceIDRequired
  | SourceNotFound string
  | NotReady config_error
  | ClientFailed string
  | SaveFailed store_error
  | RefreshFailed collect_failure
  | DiagnosticFailed go_error

type_synonym 'd filesystem = "'d Config_Store.disk"

text \<open>
  Everything outside the process an admin operation talks to: the process environment, CA files,
  the file system and its faults, YAML, the Proxmox servers and the clock.
\<close>

record 'd admin_env =
  ae_getenv :: "string \<Rightarrow> string"
  ae_readFile :: "string \<Rightarrow> go_error + string"
  ae_pem_ok :: "string \<Rightarrow> bool"
  ae_fault :: "os_call \<Rightarrow> string option"
  ae_mktemp :: "'d temp_files"
  ae_yaml :: "'d yaml"
  ae_world :: collect_world
  ae_now :: gotime
  ae_dial :: dial_env
  ae_net :: network_env
  ae_version :: "string \<Rightarrow> (string \<times> string) \<times> go_error option"

definition NewManager :: "config \<Rightarrow> secrets \<Rightarrow> store \<Rightarrow> bridge_cache \<Rightarrow> bool \<Rightarrow> manager" where
  "NewManager cfg secrets cfgStore c mock =
     \<lparr>mgr_cfg = cfg, mgr_secrets = secrets, mgr_store = cfgStore, mgr_cache = c, mgr_mock = mock\<rparr>"

text \<open>The two accessors read under the lock; the configuration they return is never written again.\<close>

definition Manager_Config :: "manager \<Rightarrow> config" where
  [simp]: "Manager_Config m = mgr_cfg m"

definition Manager_AdminToken :: "(string \<Rightarrow> string) \<Rightarrow> manager \<Rightarrow> string" where
  [simp]: "Manager_AdminToken getenv m = AdminToken getenv (cfg_Server (mgr_cfg m))"

definition source_view :: "proxmox_host \<Rightarrow> source_snapshot" where
  "source_view p =
     \<lparr>ss_ID = pve_ID p, ss_Name = pve_Name p, ss_BaseURL = pve_BaseURL p,
      ss_TLSMode = tls_Mode (pve_TLS p), ss_Fingerprint = tls_Fingerprint (pve_TLS p),
      ss_CAFile = tls_CAFile (pve_TLS p),
      ss_TokenSet = (pve_TokenValue p \<noteq> '''' \<or> pve_TokenEnv p \<noteq> '''')\<rparr>"

definition Snapshot :: "(string \<Rightarrow> string) \<Rightarrow> manager \<Rightarrow> admin_snapshot" where
  "Snapshot getenv m =
     \<lparr>snap_ConfigPath = store_ConfigPath (mgr_store m),
      snap_SecretsPath = store_SecretsPath (mgr_store m),
      snap_Mock = mgr_mock m,
      snap_AdminConfigured = (AdminToken getenv (cfg_Server (mgr_cfg m)) \<noteq> ''''),
      snap_DisplayTokenSet = (DisplayToken getenv (cfg_Server (mgr_cfg m)) \<noteq> ''''),
      snap_AdminTokenSet =
        (trim_space (sec_AdminToken (mgr_secrets m)) \<noteq> '''' \<or>
         trim_space (srv_AdminTokenValue (cfg_Server (mgr_cfg m))) \<noteq> ''''),
      snap_Server = cfg_Server (mgr_cfg m),
      snap_Alerts = cfg_Alerts (mgr_cfg m),
      snap_Sources = map source_view (cfg_Proxmox (mgr_cfg m))\<rparr>"

fun source_index_from :: "nat \<Rightarrow> proxmox_host list \<Rightarrow> string \<Rightarrow> nat option" where
  "source_index_from i [] x = None"
| "source_index_from i (p # ps) x = (if pve_ID p = x then Some i else source_index_from (Suc i) ps x)"

text \<open>\<open>None\<close> is Go's -1.\<close>

definition sourceIndex :: "config \<Rightarrow> string \<Rightarrow> nat option" where
  "sourceIndex cfg x = source_index_from 0 (cfg_Proxmox cfg) x"

text \<open>The package's own \<open>firstNonEmpty\<close>, which does not trim.\<close>

fun first_non_empty :: "string list \<Rightarrow> string" where
  "first_non_empty [] = ''''"
| "first_non_empty (v # vs) = (if v \<noteq> '''' then v else first_non_empty vs)"

definition clamp :: "int \<Rightarrow> int \<Rightarrow> int \<Rightarrow> int" where
  "clamp v minValue maxValue = (if v < minValue then minValue else if v > maxValue then maxValue else v)"

definition token_of :: "secrets \<Rightarrow> string \<Rightarrow> string" where
  "token_of s x = (case sec_ProxmoxTokens s x of None \<Rightarrow> '''' | Some t \<Rightarrow> t)"

definition sourceFromUpdate ::
    "config \<Rightarrow> secrets \<Rightarrow> source_update \<Rightarrow> bool \<Rightarrow> admin_error + proxmox_host" where
  "sourceFromUpdate cfg secrets input requireToken =
     (let x = SanitizeID (up_ID input);
          x = (if x = '''' then SanitizeID (up_Name input) else x)
      in if x = '''' then Inl SourceNameRequired
         else
      (let existing = (case sourceIndex cfg x of Some i \<Rightarrow> cfg_Proxmox cfg ! i | None \<Rightarrow> proxmox_host_zero);
           name = trim_space (up_Name input);
           name = (if name = '''' then pve_Name existing else name);
           name = (if name = '''' then x else name);
           baseURL = trim_right_char (CHR ''/'') (trim_space (up_BaseURL input));
           baseURL = (if baseURL = '''' then pve_BaseURL existing else baseURL)
       in if baseURL = '''' then Inl SourceBaseURLRequired
          else
       (let tlsMode = trim_space (up_TLSMode input);
            tlsMode = (if tlsMode = '''' then tls_Mode (pve_TLS existing) else tlsMode);
            tlsMode = (if tlsMode = '''' then ''fingerprint'' else tlsMode);
            token = trim_space (up_Token input);
            tokenValue = (if token = '''' then trim_space (token_of secrets x) else token);
            tokenEnv = (if tokenValue = '''' then pve_TokenEnv existing else '''')
        in if requireToken \<and> tokenValue = '''' \<and> tokenEnv = '''' then Inl SourceTokenRequired
           else
        (let fingerprint = first_non_empty
               [trim_space (up_Fingerprint input), tls_Fingerprint (pve_TLS existing)];
             caFile = first_non_empty [trim_space (up_CAFile input), tls_CAFile (pve_TLS existing)];
             fingerprint = (if trim_space (up_Fingerprint input) = '''' \<and> up_TLSMode input \<noteq> ''''
                            then '''' else fingerprint);
             caFile = (if trim_space (up_CAFile input) = '''' \<and> up_TLSMode input \<noteq> ''''
                       then '''' else caFile)
         in Inr \<lparr>pve_ID = x, pve_Name = name, pve_BaseURL = baseURL, pve_TokenEnv = tokenEnv,
                 pve_TokenValue = tokenValue,
                 pve_TLS = \<lparr>tls_Mode = tlsMode, tls_Fingerprint = fingerprint, tls_CAFile = caFile\<rparr>\<rparr>))))"

section \<open>Installing a configuration\<close>

definition CollectorForConfig ::
    "(string \<Rightarrow> string) \<Rightarrow> (proxmox_host \<Rightarrow> go_error + client) \<Rightarrow> config \<Rightarrow> bool \<Rightarrow>
     admin_error + any_collector" where
  "CollectorForConfig getenv mk cfg mock =
     (if mock then Inr MockCollector
      else if cfg_Proxmox cfg = [] then Inr EmptyCollector
      else case Validate getenv cfg False of
             Some e \<Rightarrow> Inl (NotReady e)
           | None \<Rightarrow> (case NewCollector mk cfg of
                        Inl e \<Rightarrow> Inl (ClientFailed e)
                      | Inr col \<Rightarrow> Inr (ProxmoxCollector col)))"

definition make_client :: "'d admin_env \<Rightarrow> proxmox_host \<Rightarrow> go_error + client" where
  "make_client e = NewClient (ae_getenv e) (ae_readFile e) (ae_pem_ok e)"

text \<open>
  \<open>clone\<close> copies the source list and the token map, so what an operation does to its copy cannot
  be seen by the handlers that read the manager meanwhile.
\<close>

definition clone :: "manager \<Rightarrow> config \<times> secrets" where
  "clone m = (mgr_cfg m, mgr_secrets m)"

text \<open>
  \<open>Save\<close> clears the token values in the source list it shares with \<open>apply\<close>, so the configuration
  that becomes the running one is the one \<open>Save\<close> leaves behind.  (The new collector, made before,
  has read its tokens; it uses its configuration afterwards only for the alert thresholds.)
\<close>

definition apply_config ::
    "'d admin_env \<Rightarrow> config \<Rightarrow> secrets \<Rightarrow> manager \<times> 'd filesystem \<Rightarrow> (manager \<times> 'd filesystem) \<times> admin_error option"
where
  "apply_config e cfg secrets = (\<lambda>(m, d).
     (let cfg = ApplySecrets (applyDefaults cfg) secrets
      in case CollectorForConfig (ae_getenv e) (make_client e) cfg (mgr_mock m) of
           Inl err \<Rightarrow> ((m, d), Some err)
         | Inr col \<Rightarrow>
             (let saved = Save (ae_fault e) (ae_mktemp e) (ae_yaml e) (mgr_store m) cfg secrets d
              in case save_err saved of
                   Some err \<Rightarrow> ((m, save_disk saved), Some (SaveFailed err))
                 | None \<Rightarrow>
                     (let cfg = save_caller saved;
                          c = Reconfigure col (PollInterval (cfg_Server cfg)) (StaleAfter (cfg_Server cfg))
                                (mgr_cache m);
                          m = m\<lparr>mgr_cfg := cfg, mgr_secrets := secrets\<rparr>;
                          (c, err) = Refresh collect_any (ae_world e) (ae_now e) c
                      in ((m\<lparr>mgr_cache := c\<rparr>, save_disk saved), map_option RefreshFailed err)))))"

section \<open>The operations\<close>

definition update_thresholds :: "server_update \<Rightarrow> alert_config \<Rightarrow> alert_config" where
  "update_thresholds input a =
     (let a = a\<lparr>alr_MemoryWarningPct := clamp (su_MemoryWarningPct input) 1 100\<rparr>;
          a = a\<lparr>alr_MemoryCriticalPct := clamp (su_MemoryCriticalPct input) (alr_MemoryWarningPct a) 100\<rparr>;
          a = a\<lparr>alr_StorageWarningPct := clamp (su_StorageWarningPct input) 1 100\<rparr>
      in a\<lparr>alr_StorageCriticalPct := clamp (su_StorageCriticalPct input) (alr_StorageWarningPct a) 100\<rparr>)"

text \<open>
  Each update clones the configuration, works on its copy (\<open>prepare_...\<close>, to an error or the
  configuration and secrets to be applied), and hands the copy to \<open>apply\<close>.
\<close>

definition then_apply ::
    "'d admin_env \<Rightarrow> (manager \<Rightarrow> admin_error + config \<times> secrets) \<Rightarrow>
     manager \<times> 'd filesystem \<Rightarrow> (manager \<times> 'd filesystem) \<times> admin_error option" where
  "then_apply e prepare md =
     (case prepare (fst md) of
        Inl err \<Rightarrow> (md, Some err)
      | Inr (cfg, secrets) \<Rightarrow> apply_config e cfg secrets md)"

definition prepare_server :: "server_update \<Rightarrow> manager \<Rightarrow> admin_error + config \<times> secrets" where
  "prepare_server input m =
     (let (cfg, secrets) = clone m
      in if su_PollIntervalSeconds input < 5 then Inl PollTooShort
         else if su_StaleAfterSeconds input < su_PollIntervalSeconds input then Inl StaleBelowPoll
         else
      (let cfg = cfg
             \<lparr>cfg_Server := (cfg_Server cfg)
                \<lparr>srv_PollIntervalSeconds := su_PollIntervalSeconds input,
                 srv_StaleAfterSeconds := su_StaleAfterSeconds input\<rparr>,
              cfg_Alerts := update_thresholds input (cfg_Alerts cfg)\<rparr>;
           secrets = (if trim_space (su_DisplayToken input) \<noteq> ''''
                      then secrets\<lparr>sec_DisplayToken := trim_space (su_DisplayToken input)\<rparr> else secrets);
           secrets = (if trim_space (su_AdminToken input) \<noteq> ''''
                      then secrets\<lparr>sec_AdminToken := trim_space (su_AdminToken input)\<rparr> else secrets)
       in Inr (ApplySecrets cfg secrets, secrets)))"

definition UpdateServer ::
    "'d admin_env \<Rightarrow> server_update \<Rightarrow> manager \<times> 'd filesystem \<Rightarrow> (manager \<times> 'd filesystem) \<times> admin_error option"
where
  "UpdateServer e input = then_apply e (prepare_server input)"

definition put_source :: "proxmox_host \<Rightarrow> config \<Rightarrow> config" where
  "put_source source cfg = cfg
     \<lparr>cfg_Proxmox := (case sourceIndex cfg (pve_ID source) of
        Some i \<Rightarrow> (cfg_Proxmox cfg)[i := source]
      | None \<Rightarrow> cfg_Proxmox cfg @ [source])\<rparr>"

definition put_token :: "string \<Rightarrow> string \<Rightarrow> secrets \<Rightarrow> secrets" where
  "put_token x token s =
     (let token = trim_space token
      in if token \<noteq> '''' then s\<lparr>sec_ProxmoxTokens := (sec_ProxmoxTokens s)(x \<mapsto> token)\<rparr> else s)"

definition prepare_upsert :: "source_update \<Rightarrow> manager \<Rightarrow> admin_error + config \<times> secrets" where
  "prepare_upsert input m =
     (let (cfg, secrets) = clone m
      in case sourceFromUpdate cfg secrets input True of
           Inl err \<Rightarrow> Inl err
         | Inr source \<Rightarrow>
             (let secrets = put_token (pve_ID source) (up_Token input) secrets;
                  cfg = put_source source cfg
              in Inr (ApplySecrets cfg secrets, secrets)))"

definition UpsertSource ::
    "'d admin_env \<Rightarrow> source_update \<Rightarrow> manager \<times> 'd filesystem \<Rightarrow> (manager \<times> 'd filesystem) \<times> admin_error option"
where
  "UpsertSource e input = then_apply e (prepare_upsert input)"

definition prepare_delete :: "string \<Rightarrow> manager \<Rightarrow> admin_error + config \<times> secrets" where
  "prepare_delete x m =
     (let x = SanitizeID x
      in if x = '''' then Inl SourceIDRequired
         else
      (let (cfg, secrets) = clone m
       in if \<not> list_ex (\<lambda>p. pve_ID p = x) (cfg_Proxmox cfg) then Inl (SourceNotFound x)
          else
       (let cfg = cfg\<lparr>cfg_Proxmox := filter (\<lambda>p. pve_ID p \<noteq> x) (cfg_Proxmox cfg)\<rparr>;
            secrets = secrets\<lparr>sec_ProxmoxTokens := (sec_ProxmoxTokens secrets)(x := None)\<rparr>
        in Inr (ApplySecrets cfg secrets, secrets))))"

definition DeleteSource ::
    "'d admin_env \<Rightarrow> string \<Rightarrow> manager \<times> 'd filesystem \<Rightarrow> (manager \<times> 'd filesystem) \<times> admin_error option"
where
  "DeleteSource e x = then_apply e (prepare_delete x)"

definition TestSource :: "'d admin_env \<Rightarrow> source_update \<Rightarrow> manager \<Rightarrow> admin_error + source_diagnostic" where
  "TestSource e input m =
     (let (cfg, secrets) = clone m
      in case sourceFromUpdate cfg secrets input True of
           Inl err \<Rightarrow> Inl err
         | Inr source \<Rightarrow>
             (case TestHost (ae_getenv e) (ae_readFile e) (ae_pem_ok e) (ae_dial e) (ae_net e) (ae_version e) source of
                (_, Some err) \<Rightarrow> Inl (DiagnosticFailed err)
              | (result, None) \<Rightarrow>
                  (let message = ''connection OK'';
                       message = (if test_Version result \<noteq> ''''
                                  then message @ '': Proxmox VE '' @ test_Version result @
                                       (if test_Release result \<noteq> '''' then '' ('' @ test_Release result @ '')'' else '''')
                                  else message)
                   in Inr \<lparr>diag_Message = message, diag_Fingerprint = test_Fingerprint result\<rparr>)))"

definition Manager_DetectFingerprint :: "'d admin_env \<Rightarrow> string \<Rightarrow> admin_error + string" where
  "Manager_DetectFingerprint e baseURL =
     (case DetectFingerprint (ae_dial e) baseURL of Inl err \<Rightarrow> Inl (DiagnosticFailed err) | Inr f \<Rightarrow> Inr f)"

definition Manager_Refresh :: "'d admin_env \<Rightarrow> manager \<Rightarrow> manager \<times> admin_error option" where
  "Manager_Refresh e m =
     (let (c, err) = Refresh collect_any (ae_world e) (ae_now e) (mgr_cache m)
      in (m\<lparr>mgr_cache := c\<rparr>, map_option RefreshFailed err))"

text \<open>The updates as values: what the admin page can ask the manager to change.\<close>

datatype admin_op = SetServer server_update | PutSource source_update | DropSource string

definition run_admin ::
    "'d admin_env \<Rightarrow> admin_op \<Rightarrow> manager \<times> 'd filesystem \<Rightarrow> (manager \<times> 'd filesystem) \<times> admin_error option"
where
  "run_admin e a = (case a of SetServer i \<Rightarrow> UpdateServer e i | PutSource i \<Rightarrow> UpsertSource e i
                            | DropSource x \<Rightarrow> DeleteSource e x)"

definition prepare :: "admin_op \<Rightarrow> manager \<Rightarrow> admin_error + config \<times> secrets" where
  "prepare a = (case a of SetServer i \<Rightarrow> prepare_server i | PutSource i \<Rightarrow> prepare_upsert i
                        | DropSource x \<Rightarrow> prepare_delete x)"

lemma run_admin_prepare: "run_admin e a = then_apply e (prepare a)"
  by (simp add: run_admin_def prepare_def UpdateServer_def UpsertSource_def DeleteSource_def split: admin_op.split)

section \<open>What an operation installs\<close>

text \<open>The source as it stands in the running configuration: mode defaulted, token value cleared.\<close>

definition settled :: "proxmox_host \<Rightarrow> proxmox_host" where
  "settled p = clear_host_token (default_tls_mode p)"

definition installed :: "config \<Rightarrow> secrets \<Rightarrow> config" where
  "installed cfg secrets =
     (ApplySecrets (applyDefaults cfg) secrets)\<lparr>cfg_Proxmox := map settled (cfg_Proxmox cfg)\<rparr>"

lemma clear_apply_token [simp]: "clear_host_token (apply_token s p) = clear_host_token p"
  by (simp add: clear_host_token_def apply_token_def Let_def)

lemma settled_id [simp]: "pve_ID (settled p) = pve_ID p"
  by (simp add: settled_def clear_host_token_def)

lemma default_clear: "default_tls_mode (clear_host_token p) = clear_host_token (default_tls_mode p)"
  by (simp add: default_tls_mode_def clear_host_token_def)

lemma settled_idem [simp]: "settled (settled p) = settled p"
  by (simp add: settled_def default_clear) (simp add: clear_host_token_def)

lemma ApplySecrets_Proxmox: "cfg_Proxmox (ApplySecrets c s) = map (apply_token s) (cfg_Proxmox c)"
  by (simp add: ApplySecrets_def)

lemma Save_installs:
  "save_caller (Save fault mktemp y st (ApplySecrets (applyDefaults cfg) s) s d) = installed cfg s"
proof -
  have "map clear_host_token (cfg_Proxmox (applyDefaults (ApplySecrets (applyDefaults cfg) s)))
        = map settled (cfg_Proxmox cfg)"
    by (simp add: ApplySecrets_defaults applyDefaults_Proxmox ApplySecrets_Proxmox settled_def
        flip: apply_token_defaults)
  then show ?thesis by (simp add: installed_def)
qed

lemma installed_Server:
  "srv_PollIntervalSeconds (cfg_Server (installed cfg s)) = default_int 10 (srv_PollIntervalSeconds (cfg_Server cfg))"
  "srv_StaleAfterSeconds (cfg_Server (installed cfg s)) = default_int 45 (srv_StaleAfterSeconds (cfg_Server cfg))"
  by (simp_all add: installed_def ApplySecrets_def applyDefaults_def)

lemma installed_Proxmox [simp]: "cfg_Proxmox (installed cfg s) = map settled (cfg_Proxmox cfg)"
  by (simp add: installed_def)

lemma installed_Alerts: "cfg_Alerts (installed cfg s) = cfg_Alerts (applyDefaults cfg)"
  by (simp add: installed_def ApplySecrets_def)

lemma installed_secrets [simp]: "installed (ApplySecrets cfg s) s = installed cfg s"
proof -
  have "settled (apply_token s p) = settled p" for p
    by (simp add: settled_def flip: apply_token_defaults)
  then show ?thesis
    by (simp add: installed_def ApplySecrets_defaults [symmetric] ApplySecrets_Proxmox o_def)
qed

text \<open>The two outcomes of \<open>apply\<close>: nothing in memory changes, or everything is installed.\<close>

definition collector_for :: "'d admin_env \<Rightarrow> manager \<Rightarrow> config \<Rightarrow> secrets \<Rightarrow> admin_error + any_collector" where
  "collector_for e m cfg s =
     CollectorForConfig (ae_getenv e) (make_client e) (ApplySecrets (applyDefaults cfg) s) (mgr_mock m)"

definition saving :: "'d admin_env \<Rightarrow> manager \<Rightarrow> config \<Rightarrow> secrets \<Rightarrow> 'd filesystem \<Rightarrow> 'd save_result" where
  "saving e m cfg s d =
     Save (ae_fault e) (ae_mktemp e) (ae_yaml e) (mgr_store m) (ApplySecrets (applyDefaults cfg) s) s d"

text \<open>The two files of a save, written one after the other.\<close>

definition saving_config :: "'d admin_env \<Rightarrow> manager \<Rightarrow> config \<Rightarrow> secrets \<Rightarrow> 'd filesystem \<Rightarrow>
    store_error option \<times> 'd filesystem" where
  "saving_config e m cfg s d =
     save_config (ae_fault e) (ae_mktemp e) (ae_yaml e) (mgr_store m)
       (persisted (applyDefaults (ApplySecrets (applyDefaults cfg) s))) d"

definition saving_secrets :: "'d admin_env \<Rightarrow> manager \<Rightarrow> secrets \<Rightarrow> 'd filesystem \<Rightarrow>
    store_error option \<times> 'd filesystem" where
  "saving_secrets e m s d = save_secrets (ae_fault e) (ae_mktemp e) (ae_yaml e) (mgr_store m) s d"

lemma saving_cases:
  obtains (config_fails) x d1 where "saving_config e m cfg s d = (Some x, d1)"
      and "save_err (saving e m cfg s d) = Some x" and "save_disk (saving e m cfg s d) = d1"
    | (secrets_next) d1 err d2 where "saving_config e m cfg s d = (None, d1)"
      and "saving_secrets e m s d1 = (err, d2)"
      and "save_err (saving e m cfg s d) = err" and "save_disk (saving e m cfg s d) = d2"
proof (cases "saving_config e m cfg s d")
  case (Pair err d1)
  obtain err2 d2 where 2: "saving_secrets e m s d1 = (err2, d2)" by fastforce
  have c: "save_config (ae_fault e) (ae_mktemp e) (ae_yaml e) (mgr_store m)
      (persisted (applyDefaults (ApplySecrets (applyDefaults cfg) s))) d = (err, d1)"
    using Pair by (simp add: saving_config_def)
  show thesis
  proof (cases err)
    case None
    with Pair 2 c show thesis
      by (intro secrets_next) (simp_all add: saving_def Save_def Let_def persisted_def saving_secrets_def)
  next
    case (Some x)
    with Pair c show thesis
      by (intro config_fails) (simp_all add: saving_def Save_def Let_def persisted_def)
  qed
qed

definition refreshing :: "'d admin_env \<Rightarrow> any_collector \<Rightarrow> config \<Rightarrow> bridge_cache \<Rightarrow> bridge_cache \<times> collect_failure option"
where
  "refreshing e col cfg c =
     Refresh collect_any (ae_world e) (ae_now e)
       (Reconfigure col (PollInterval (cfg_Server cfg)) (StaleAfter (cfg_Server cfg)) c)"

lemma apply_config_eq:
  "apply_config e cfg s (m, d) =
     (case collector_for e m cfg s of
        Inl err \<Rightarrow> ((m, d), Some err)
      | Inr col \<Rightarrow>
          (case save_err (saving e m cfg s d) of
             Some err \<Rightarrow> ((m, save_disk (saving e m cfg s d)), Some (SaveFailed err))
           | None \<Rightarrow>
               (case refreshing e col (installed cfg s) (mgr_cache m) of
                  (c, err) \<Rightarrow> ((m\<lparr>mgr_cfg := installed cfg s, mgr_secrets := s\<rparr>\<lparr>mgr_cache := c\<rparr>,
                                save_disk (saving e m cfg s d)), map_option RefreshFailed err))))"
  by (simp only: apply_config_def prod.case Let_def collector_for_def saving_def refreshing_def Save_installs)

lemma apply_config_cases:
  assumes "apply_config e cfg s (m, d) = ((m', d'), err)"
  obtains (rejected) x where "collector_for e m cfg s = Inl x" and "m' = m" and "d' = d" and "err = Some x"
    | (unsaved) x where "save_err (saving e m cfg s d) = Some x" and "m' = m"
        and "d' = save_disk (saving e m cfg s d)" and "err = Some (SaveFailed x)"
    | (applied) col r where "collector_for e m cfg s = Inr col" and "save_err (saving e m cfg s d) = None"
        and "d' = save_disk (saving e m cfg s d)" and "mgr_cfg m' = installed cfg s"
        and "mgr_secrets m' = s" and "mgr_store m' = mgr_store m" and "mgr_mock m' = mgr_mock m"
        and "refreshing e col (installed cfg s) (mgr_cache m) = (mgr_cache m', r)"
        and "err = map_option RefreshFailed r"
proof (cases "collector_for e m cfg s")
  case (Inl x)
  have "((m', d'), err) = ((m, d), Some x)" using assms by (simp only: apply_config_eq Inl sum.case)
  then show thesis by (intro rejected [OF Inl]) simp_all
next
  case (Inr col)
  show thesis
  proof (cases "save_err (saving e m cfg s d)")
    case (Some x)
    have "((m', d'), err) = ((m, save_disk (saving e m cfg s d)), Some (SaveFailed x))"
      using assms by (simp only: apply_config_eq Inr Some sum.case option.case)
    then show thesis by (intro unsaved [OF Some]) simp_all
  next
    case None
    obtain c r where r: "refreshing e col (installed cfg s) (mgr_cache m) = (c, r)" by fastforce
    have "((m', d'), err) = ((m\<lparr>mgr_cfg := installed cfg s, mgr_secrets := s\<rparr>\<lparr>mgr_cache := c\<rparr>,
        save_disk (saving e m cfg s d)), map_option RefreshFailed r)"
      using assms by (simp only: apply_config_eq Inr None r sum.case option.case prod.case)
    then show thesis using r by (intro applied [OF Inr None]) simp_all
  qed
qed

section \<open>The contract of the updates\<close>

text \<open>
  What the three updates share: each rejects its input and does nothing, or hands a configuration
  and its secrets to \<open>apply\<close>.
\<close>

locale admin_update =
  fixes change :: "'d admin_env \<Rightarrow> manager \<times> 'd filesystem \<Rightarrow> (manager \<times> 'd filesystem) \<times> admin_error option"
  assumes rejects_or_applies:
    "(\<exists>err. change e (m, d) = ((m, d), Some err)) \<or> (\<exists>cfg s. change e (m, d) = apply_config e cfg s (m, d))"
begin

lemma change_cases:
  assumes "change e (m, d) = ((m', d'), err)"
  obtains (failed) x where "m' = m" and "err = Some x" and "(\<forall>y. x \<noteq> SaveFailed y) \<longrightarrow> d' = d"
    | (succeeded) cfg s col r where "collector_for e m cfg s = Inr col"
        and "save_err (saving e m cfg s d) = None" and "d' = save_disk (saving e m cfg s d)"
        and "mgr_cfg m' = installed cfg s" and "mgr_secrets m' = s"
        and "mgr_store m' = mgr_store m" and "mgr_mock m' = mgr_mock m"
        and "refreshing e col (installed cfg s) (mgr_cache m) = (mgr_cache m', r)"
        and "err = map_option RefreshFailed r"
  using rejects_or_applies [of e m d]
proof (elim disjE exE)
  fix x assume "change e (m, d) = ((m, d), Some x)"
  then show thesis using assms by (intro failed [of x]) simp_all
next
  fix cfg s assume "change e (m, d) = apply_config e cfg s (m, d)"
  then have a: "apply_config e cfg s (m, d) = ((m', d'), err)" using assms by simp
  show thesis
  proof (rule apply_config_cases [OF a])
    fix x assume "m' = m" "d' = d" "err = Some x"
    then show thesis by (intro failed [of x]) simp_all
  next
    fix x assume "m' = m" "err = Some (SaveFailed x)"
    then show thesis by (intro failed [of "SaveFailed x"]) simp_all
  qed (rule succeeded)
qed

lemma keeps_on_error:
  assumes "bounded_world (ae_world e)" and "change e (m, d) = ((m', d'), Some err)"
  shows "m' = m \<and> ((\<forall>x. err \<noteq> SaveFailed x) \<longrightarrow> d' = d)"
proof (rule change_cases [OF assms(2)])
  fix cfg s col r
  assume "refreshing e col (installed cfg s) (mgr_cache m) = (mgr_cache m', r)"
    and r: "Some err = map_option RefreshFailed r"
  then have "r = None" using refresh_succeeds [OF assms(1)] by (metis refreshing_def snd_conv)
  then show ?thesis using r by simp
qed auto

lemma restarts_as_it_runs:
  assumes "yaml_roundtrip (ae_yaml e)" and "fresh_temp (ae_mktemp e)" and "finite (dom d)"
    and "store_ConfigPath (mgr_store m) \<noteq> store_SecretsPath (mgr_store m)"
    and "\<forall>call. readfault call = None" and "change e (m, d) = ((m', d'), None)"
  shows "Load readfault (ae_yaml e) d' (mgr_store m')
           = Inr (ApplySecrets (mgr_cfg m') (mgr_secrets m'), mgr_secrets m')"
proof (rule change_cases [OF assms(6)])
  fix cfg s col r
  assume ok: "save_err (saving e m cfg s d) = None" "d' = save_disk (saving e m cfg s d)"
    "mgr_cfg m' = installed cfg s" "mgr_secrets m' = s" "mgr_store m' = mgr_store m"
  have "Load readfault (ae_yaml e) d' (mgr_store m)
      = Inr (ApplySecrets (persisted (applyDefaults (ApplySecrets (applyDefaults cfg) s))) s, s)"
    using Save_Load [OF assms(1-5)] ok(1,2) by (simp add: saving_def)
  also have "ApplySecrets (persisted (applyDefaults (ApplySecrets (applyDefaults cfg) s))) s
      = ApplySecrets (installed cfg s) s"
    by (simp add: installed_def persisted_def ApplySecrets_def applyDefaults_def default_str_def
        default_int_def settled_def flip: apply_token_defaults)
  finally show ?thesis using ok by simp
qed simp

lemma takes_effect:
  assumes "change e (m, d) = ((m', d'), None)"
  shows "\<exists>cfg s. mgr_cfg m' = installed cfg s \<and> mgr_secrets m' = s \<and>
           collector_for e m cfg s = Inr (cache_collector (mgr_cache m')) \<and>
           cache_pollInterval (mgr_cache m') = PollInterval (cfg_Server (mgr_cfg m')) \<and>
           cache_staleAfter (mgr_cache m') = StaleAfter (cfg_Server (mgr_cfg m')) \<and>
           collect_any (cache_collector (mgr_cache m')) (ae_world e) = Inr (cache_state (mgr_cache m')) \<and>
           cache_hasState (mgr_cache m') \<and> cache_lastErr (mgr_cache m') = None"
proof (rule change_cases [OF assms])
  fix cfg s col r
  assume ok: "collector_for e m cfg s = Inr col" "mgr_cfg m' = installed cfg s" "mgr_secrets m' = s"
    "refreshing e col (installed cfg s) (mgr_cache m) = (mgr_cache m', r)"
    "None = map_option RefreshFailed r"
  obtain st where "collect_any col (ae_world e) = Inr st"
    using ok(4,5) by (cases "collect_any col (ae_world e)")
      (auto simp: refreshing_def Refresh_def refresh_end_def Reconfigure_def)
  then have "mgr_cache m' = (Reconfigure col (PollInterval (cfg_Server (installed cfg s)))
        (StaleAfter (cfg_Server (installed cfg s))) (mgr_cache m))
      \<lparr>cache_state := st, cache_lastOK := ae_now e, cache_lastErr := None, cache_hasState := True\<rparr>"
    using ok(4) bridge.collect_finalized [of col "ae_world e" st]
    by (auto simp: refreshing_def Refresh_def refresh_end_def Reconfigure_def Finalize_id)
  then show ?thesis using ok(1-3) \<open>collect_any col (ae_world e) = Inr st\<close>
    by (auto simp: Reconfigure_def)
qed simp

end

lemma then_apply_update: "admin_update (\<lambda>e. then_apply e p)"
  by unfold_locales (auto simp: then_apply_def split: sum.split)

interpretation server_update: admin_update "\<lambda>e. UpdateServer e input"
  unfolding UpdateServer_def by (rule then_apply_update)

interpretation source_upsert: admin_update "\<lambda>e. UpsertSource e input"
  unfolding UpsertSource_def by (rule then_apply_update)

interpretation source_delete: admin_update "\<lambda>e. DeleteSource e x"
  unfolding DeleteSource_def by (rule then_apply_update)

interpretation any_update: admin_update "\<lambda>e. run_admin e a"
  unfolding run_admin_prepare by (rule then_apply_update)

lemmas admin_op_defs =
  UpdateServer_def prepare_server_def UpsertSource_def prepare_upsert_def DeleteSource_def prepare_delete_def
  then_apply_def clone_def

end
