(* ===== verification/Admin_Updates.thy ===== *)
theory Admin_Updates
  imports Manager
begin

text \<open>
  What the updates of \<open>Manager\<close> achieve: their effect on the registry of sources, the collector they
  put in place, the invariant of the configuration, and the properties of the admin operations.
\<close>

section \<open>The registry of sources\<close>

text \<open>The abstract view of the source list: a finite map from IDs to sources.\<close>

definition registry :: "config \<Rightarrow> string \<Rightarrow> proxmox_host option" where
  "registry cfg x = List.find (\<lambda>p. pve_ID p = x) (cfg_Proxmox cfg)"

definition update_id :: "source_update \<Rightarrow> string" where
  "update_id input = (if SanitizeID (up_ID input) = '''' then SanitizeID (up_Name input) else SanitizeID (up_ID input))"

lemma source_index_from_None: "source_index_from i ps x = None \<longleftrightarrow> x \<notin> pve_ID ` set ps"
  by (induction ps arbitrary: i) auto

lemma source_index_from_Some:
  "source_index_from i ps x = Some j \<Longrightarrow> i \<le> j \<and> j < i + length ps \<and> pve_ID (ps ! (j - i)) = x"
  by (induction ps arbitrary: i) (fastforce simp: nth_Cons' split: if_splits)+

lemma find_put:
  "List.find (\<lambda>p. pve_ID p = y)
     (case source_index_from i ps (pve_ID src) of Some j \<Rightarrow> ps[j - i := src] | None \<Rightarrow> ps @ [src])
   = (if y = pve_ID src then Some src else List.find (\<lambda>p. pve_ID p = y) ps)"
proof (induction ps arbitrary: i)
  case (Cons p ps)
  show ?case
  proof (cases "pve_ID p = pve_ID src")
    case False
    show ?thesis
    proof (cases "source_index_from (Suc i) ps (pve_ID src)")
      case None
      then show ?thesis using False Cons [of "Suc i"] by auto
    next
      case (Some j)
      then have "j - i = Suc (j - Suc i)" using source_index_from_Some [OF Some] by linarith
      then have "(p # ps)[j - i := src] = p # ps[j - Suc i := src]" by simp
      then show ?thesis using False Some Cons [of "Suc i"] by auto
    qed
  qed auto
qed simp

lemma registry_put:
  "registry (put_source src cfg) = (registry cfg)(pve_ID src \<mapsto> src)"
proof
  fix y
  show "registry (put_source src cfg) y = ((registry cfg)(pve_ID src \<mapsto> src)) y"
    using find_put [where i = 0 and ps = "cfg_Proxmox cfg" and src = src and y = y, unfolded diff_zero]
    by (simp add: registry_def put_source_def sourceIndex_def)
qed

lemma find_map_ids:
  "(\<And>p. pve_ID (f p) = pve_ID p) \<Longrightarrow>
   List.find (\<lambda>p. pve_ID p = x) (map f ps) = map_option f (List.find (\<lambda>p. pve_ID p = x) ps)"
  by (induction ps) auto

lemma registry_installed: "registry (installed cfg s) = map_option settled \<circ> registry cfg"
  by (auto simp: registry_def find_map_ids)

lemma find_filter_ids:
  "List.find (\<lambda>p. pve_ID p = y) (filter (\<lambda>p. pve_ID p \<noteq> x) ps)
   = (if y = x then None else List.find (\<lambda>p. pve_ID p = y) ps)"
  by (induction ps) auto

lemma ids_put:
  "map pve_ID (cfg_Proxmox (put_source src cfg)) =
     (if pve_ID src \<in> pve_ID ` set (cfg_Proxmox cfg) then map pve_ID (cfg_Proxmox cfg)
      else map pve_ID (cfg_Proxmox cfg) @ [pve_ID src])"
proof (cases "sourceIndex cfg (pve_ID src)")
  case None
  then have "pve_ID src \<notin> pve_ID ` set (cfg_Proxmox cfg)"
    by (simp add: sourceIndex_def source_index_from_None)
  with None show ?thesis by (simp add: put_source_def)
next
  case (Some i)
  then have i: "i < length (cfg_Proxmox cfg)" "pve_ID (cfg_Proxmox cfg ! i) = pve_ID src"
    using source_index_from_Some by (fastforce simp: sourceIndex_def)+
  then have "pve_ID src \<in> pve_ID ` set (cfg_Proxmox cfg)" by (metis image_eqI nth_mem)
  moreover have "(map pve_ID (cfg_Proxmox cfg))[i := pve_ID src] = map pve_ID (cfg_Proxmox cfg)"
    using i by (metis length_map list_update_id nth_map)
  ultimately show ?thesis using Some by (simp add: put_source_def map_update)
qed

lemma guarded_Inr: "(if P then Inl x else y) = Inr z \<longleftrightarrow> \<not> P \<and> y = Inr z"
  by simp

lemma sourceFromUpdate_id:
  assumes "sourceFromUpdate cfg s input r = Inr src"
  shows "pve_ID src = update_id input \<and> pve_ID src \<noteq> ''''"
  by (insert assms, unfold sourceFromUpdate_def update_id_def Let_def guarded_Inr sum.inject,
      elim conjE, drule sym, hypsubst) (simp only: proxmox_host.select_convs simp_thms)

lemma UpsertSource_installs:
  assumes "UpsertSource e input (m, d) = ((m', d'), None)"
  obtains src where "sourceFromUpdate (mgr_cfg m) (mgr_secrets m) input True = Inr src"
    and "mgr_secrets m' = put_token (pve_ID src) (up_Token input) (mgr_secrets m)"
    and "mgr_cfg m' = installed (put_source src (mgr_cfg m)) (mgr_secrets m')"
proof (cases "sourceFromUpdate (mgr_cfg m) (mgr_secrets m) input True")
  case (Inr src)
  let ?s = "put_token (pve_ID src) (up_Token input) (mgr_secrets m)"
  have "apply_config e (ApplySecrets (put_source src (mgr_cfg m)) ?s) ?s (m, d) = ((m', d'), None)"
    using assms Inr by (simp add: admin_op_defs Let_def)
  then show thesis
    by (rule apply_config_cases) (use Inr in \<open>simp_all add: that\<close>)
qed (use assms in \<open>simp add: admin_op_defs\<close>)

lemma DeleteSource_installs:
  assumes "DeleteSource e x (m, d) = ((m', d'), None)"
  obtains "SanitizeID x \<noteq> ''''" and "SanitizeID x \<in> pve_ID ` set (cfg_Proxmox (mgr_cfg m))"
    and "mgr_secrets m' = (mgr_secrets m)
           \<lparr>sec_ProxmoxTokens := (sec_ProxmoxTokens (mgr_secrets m))(SanitizeID x := None)\<rparr>"
    and "mgr_cfg m' = installed ((mgr_cfg m)
           \<lparr>cfg_Proxmox := filter (\<lambda>p. pve_ID p \<noteq> SanitizeID x) (cfg_Proxmox (mgr_cfg m))\<rparr>) (mgr_secrets m')"
proof -
  let ?s = "(mgr_secrets m)\<lparr>sec_ProxmoxTokens := (sec_ProxmoxTokens (mgr_secrets m))(SanitizeID x := None)\<rparr>"
  let ?c = "(mgr_cfg m)\<lparr>cfg_Proxmox := filter (\<lambda>p. pve_ID p \<noteq> SanitizeID x) (cfg_Proxmox (mgr_cfg m))\<rparr>"
  have x: "SanitizeID x \<noteq> ''''" "SanitizeID x \<in> pve_ID ` set (cfg_Proxmox (mgr_cfg m))"
    using assms
    by (auto simp: admin_op_defs Let_def list_ex_iff intro: rev_image_eqI split: if_splits)
  have "apply_config e (ApplySecrets ?c ?s) ?s (m, d) = ((m', d'), None)"
    using assms by (simp add: admin_op_defs Let_def split: if_splits)
  then show thesis
    by (rule apply_config_cases) (use x in \<open>simp_all add: that\<close>)
qed

section \<open>The collector in use\<close>

text \<open>The collector fits the running configuration: one client per source, same IDs and thresholds.\<close>

definition fits :: "any_collector \<Rightarrow> manager \<Rightarrow> bool" where
  "fits c m =
     (case c of
        MockCollector \<Rightarrow> mgr_mock m
      | EmptyCollector \<Rightarrow> \<not> mgr_mock m \<and> cfg_Proxmox (mgr_cfg m) = []
      | ProxmoxCollector col \<Rightarrow>
          \<not> mgr_mock m \<and> map client_id (col_clients col) = map pve_ID (cfg_Proxmox (mgr_cfg m)) \<and>
          distinct (map client_id (col_clients col)) \<and>
          cfg_Alerts (col_cfg col) = cfg_Alerts (mgr_cfg m))"

lemma new_clients_ids:
  "new_clients (make_client e) hs = Inr cs \<Longrightarrow> map client_id cs = map pve_ID hs"
proof (induction hs arbitrary: cs)
  case (Cons h hs)
  then obtain c cs' where c: "make_client e h = Inr c" "new_clients (make_client e) hs = Inr cs'" "cs = c # cs'"
    by (auto split: sum.splits)
  have "client_id c = pve_ID h"
    using c(1) by (auto simp: make_client_def NewClient_def split: sum.splits)
  then show ?case using Cons.IH [OF c(2)] c(3) by simp
qed simp

lemma fits_installed:
  assumes "collector_for e m cfg s = Inr c" and "mgr_cfg m' = installed cfg s" and "mgr_mock m' = mgr_mock m"
  shows "fits c m'"
proof -
  let ?c = "ApplySecrets (applyDefaults cfg) s"
  have ids: "map pve_ID (cfg_Proxmox ?c) = map pve_ID (cfg_Proxmox cfg)"
    by (simp add: ApplySecrets_Proxmox applyDefaults_Proxmox)
  consider "mgr_mock m" "c = MockCollector" | "\<not> mgr_mock m" "cfg_Proxmox ?c = []" "c = EmptyCollector"
    | col where "\<not> mgr_mock m" "Validate (ae_getenv e) ?c False = None"
        "NewCollector (make_client e) ?c = Inr col" "c = ProxmoxCollector col"
    using assms(1) by (auto simp: collector_for_def CollectorForConfig_def split: if_splits option.splits sum.splits)
  then show ?thesis
  proof cases
    case 3
    then have "map client_id (col_clients col) = map pve_ID (cfg_Proxmox cfg)" "col_cfg col = ?c"
      using ids by (auto simp: NewCollector_def dest: new_clients_ids split: sum.splits)
    moreover have "distinct (map pve_ID (cfg_Proxmox ?c))"
      using 3(2) Validate_ok [of "ae_getenv e" ?c] by simp
    ultimately show ?thesis
      using 3 assms(2,3) ids by (simp add: fits_def installed_Alerts) (simp add: ApplySecrets_def)
  next
    case 2
    then show ?thesis using assms(2,3) by (simp add: fits_def ApplySecrets_Proxmox applyDefaults_Proxmox)
  qed (use assms(3) in \<open>simp add: fits_def\<close>)
qed

section \<open>The invariant of the running configuration\<close>

definition limits :: "config \<Rightarrow> bool" where
  "limits c \<longleftrightarrow>
     5 \<le> srv_PollIntervalSeconds (cfg_Server c) \<and>
     srv_PollIntervalSeconds (cfg_Server c) \<le> srv_StaleAfterSeconds (cfg_Server c) \<and>
     1 \<le> alr_MemoryWarningPct (cfg_Alerts c) \<and>
     alr_MemoryWarningPct (cfg_Alerts c) \<le> alr_MemoryCriticalPct (cfg_Alerts c) \<and>
     alr_MemoryCriticalPct (cfg_Alerts c) \<le> 100 \<and>
     1 \<le> alr_StorageWarningPct (cfg_Alerts c) \<and>
     alr_StorageWarningPct (cfg_Alerts c) \<le> alr_StorageCriticalPct (cfg_Alerts c) \<and>
     alr_StorageCriticalPct (cfg_Alerts c) \<le> 100"

definition config_inv :: "config \<Rightarrow> bool" where
  "config_inv c \<longleftrightarrow> limits c \<and> distinct (map pve_ID (cfg_Proxmox c))"

definition manager_inv :: "manager \<Rightarrow> bool" where
  "manager_inv m \<longleftrightarrow> config_inv (mgr_cfg m) \<and> cache_ok (mgr_cache m)"

lemma config_inv_installed:
  assumes "config_inv cfg"
  shows "config_inv (installed cfg s)"
  using assms by (simp add: config_inv_def limits_def installed_Server installed_Alerts applyDefaults_def
      default_int_def o_def)

lemma clamp_bounds: "lo \<le> hi \<Longrightarrow> lo \<le> clamp v lo hi \<and> clamp v lo hi \<le> hi"
  by (simp add: clamp_def)

lemma limits_thresholds:
  fixes cfg :: config
  assumes "5 \<le> su_PollIntervalSeconds i" and "su_PollIntervalSeconds i \<le> su_StaleAfterSeconds i"
  shows "limits (cfg
           \<lparr>cfg_Server := (cfg_Server cfg)
              \<lparr>srv_PollIntervalSeconds := su_PollIntervalSeconds i,
               srv_StaleAfterSeconds := su_StaleAfterSeconds i\<rparr>,
            cfg_Alerts := update_thresholds i a\<rparr>)"
  using assms clamp_bounds [of 1 100] clamp_bounds [of "clamp (su_MemoryWarningPct i) 1 100" 100]
    clamp_bounds [of "clamp (su_StorageWarningPct i) 1 100" 100]
  by (simp add: limits_def update_thresholds_def)

lemma refreshing_ok: "cache_ok c \<Longrightarrow> refreshing e col cfg c = (c', r) \<Longrightarrow> cache_ok c'"
  using refresh_end_ok [of "Reconfigure col (PollInterval (cfg_Server cfg)) (StaleAfter (cfg_Server cfg)) c"]
  by (simp add: refreshing_def Refresh_def Let_def) (metis fst_conv)

lemma apply_config_inv:
  assumes "apply_config e cfg s (m, d) = ((m', d'), err)" and "manager_inv m" and "config_inv cfg"
  shows "manager_inv m'"
proof (rule apply_config_cases [OF assms(1)])
  fix col r
  assume "mgr_cfg m' = installed cfg s" "refreshing e col (installed cfg s) (mgr_cache m) = (mgr_cache m', r)"
  then show ?thesis
    using assms config_inv_installed [of cfg s] refreshing_ok by (auto simp: manager_inv_def)
qed (use assms(2) in auto)

text \<open>What an update is about to apply keeps the invariant of the configuration it started from.\<close>

lemma config_inv_secrets [simp]: "config_inv (ApplySecrets cfg s) = config_inv cfg"
  by (simp add: config_inv_def limits_def ApplySecrets_def o_def)

lemma prepare_inv:
  assumes "prepare a m = Inr (cfg, s)" and inv: "config_inv (mgr_cfg m)"
  shows "config_inv cfg"
proof (cases a)
  case (SetServer i)
  let ?c = "(mgr_cfg m)
      \<lparr>cfg_Server := (cfg_Server (mgr_cfg m))
         \<lparr>srv_PollIntervalSeconds := su_PollIntervalSeconds i,
          srv_StaleAfterSeconds := su_StaleAfterSeconds i\<rparr>,
       cfg_Alerts := update_thresholds i (cfg_Alerts (mgr_cfg m))\<rparr>"
  have "5 \<le> su_PollIntervalSeconds i" "su_PollIntervalSeconds i \<le> su_StaleAfterSeconds i"
    using assms(1) by (auto simp: prepare_def admin_op_defs Let_def SetServer split: if_splits)
  then have "config_inv ?c"
    using inv limits_thresholds [where i = i and cfg = "mgr_cfg m" and a = "cfg_Alerts (mgr_cfg m)"]
    by (simp add: config_inv_def)
  moreover obtain s' where "cfg = ApplySecrets ?c s'"
    using assms(1) by (auto simp: prepare_def admin_op_defs Let_def SetServer split: if_splits)
  ultimately show ?thesis by (simp only: config_inv_secrets)
next
  case (PutSource i)
  then obtain src s' where "cfg = ApplySecrets (put_source src (mgr_cfg m)) s'"
    using assms(1) by (auto simp: prepare_def admin_op_defs Let_def split: sum.splits)
  moreover have "config_inv (put_source src (mgr_cfg m))"
    using inv by (simp add: config_inv_def ids_put) (simp add: limits_def put_source_def)
  ultimately show ?thesis by simp
next
  case (DropSource x)
  let ?c = "(mgr_cfg m)\<lparr>cfg_Proxmox := filter (\<lambda>p. pve_ID p \<noteq> SanitizeID x) (cfg_Proxmox (mgr_cfg m))\<rparr>"
  obtain s' where "cfg = ApplySecrets ?c s'"
    using DropSource assms(1) by (auto simp: prepare_def admin_op_defs Let_def split: if_splits)
  moreover have "config_inv ?c" using inv by (simp add: config_inv_def limits_def distinct_map_filter)
  ultimately show ?thesis by (simp only: config_inv_secrets)
qed

lemma run_admin_inv:
  assumes "run_admin e a (m, d) = ((m', d'), err)" and "manager_inv m"
  shows "manager_inv m'"
proof (cases "prepare a m")
  case (Inr p)
  obtain cfg s where p: "p = (cfg, s)" by fastforce
  have "config_inv cfg" using prepare_inv Inr p assms(2) by (simp add: manager_inv_def)
  moreover have "apply_config e cfg s (m, d) = ((m', d'), err)"
    using assms(1) Inr p by (simp add: run_admin_prepare then_apply_def)
  ultimately show ?thesis using apply_config_inv assms(2) by blast
qed (use assms in \<open>simp add: run_admin_prepare then_apply_def\<close>)

section \<open>A sample bridge\<close>

definition sample_admin_env :: "(config + secrets) admin_env" where
  "sample_admin_env =
     \<lparr>ae_getenv = \<lambda>_. ''secret'', ae_readFile = \<lambda>_. Inl (OtherError ''no such file''), ae_pem_ok = \<lambda>_. False,
      ae_fault = \<lambda>_. None, ae_mktemp = long_temp, ae_yaml = plain_yaml,
      ae_world = \<lparr>cw_envs = \<lambda>_. dead_env, cw_sort = insertion_perm, cw_arrival = \<lambda>n. [0..<n], cw_now = 0\<rparr>,
      ae_now = 0, ae_dial = sample_dial, ae_net = sample_net 200, ae_version = \<lambda>_. ((''9.1'', ''''), None)\<rparr>"

lemma sample_world_proper: "proper_world (ae_world sample_admin_env)"
  by (simp add: sample_admin_env_def proper_world_def insertion.sort_algorithm_axioms)

definition sample_manager :: manager where
  "sample_manager = NewManager NewDefault secrets_zero sample_store (NewCache EmptyCollector 10 45) False"

definition sample_source :: source_update where
  "sample_source = \<lparr>up_ID = ''pve'', up_Name = '''', up_BaseURL = ''https://pve:8006/'', up_Token = ''t'',
     up_TLSMode = ''system'', up_Fingerprint = '''', up_CAFile = ''''\<rparr>"

definition sample_settings :: server_update where
  "sample_settings = \<lparr>su_PollIntervalSeconds = 30, su_StaleAfterSeconds = 90, su_DisplayToken = '''',
     su_AdminToken = ''admin'', su_MemoryWarningPct = 200, su_MemoryCriticalPct = 50,
     su_StorageWarningPct = 0, su_StorageCriticalPct = 90\<rparr>"

lemma sample_bounded: "bounded_world (ae_world sample_admin_env)"
  by (simp add: bounded_world_def sample_admin_env_def dead_env_def short_series_def sample_env_def sample_codec_def)

lemma sample_manager_store [simp]: "mgr_store sample_manager = sample_store"
  by (simp add: sample_manager_def NewManager_def)

lemma sample_save:
  "mgr_store m = sample_store \<Longrightarrow> save_err (saving sample_admin_env m cfg s d) = None"
  by (simp add: saving_def save_defs writeFileAtomic_def sample_store_paths plain_yaml_def Let_def
      sample_admin_env_def)

text \<open>An update of such a manager that reaches \<open>apply\<close> with a usable configuration succeeds.\<close>

lemma sample_applies:
  assumes "collector_for sample_admin_env m cfg s = Inr col" and "mgr_store m = sample_store"
  shows "\<exists>m' d'. apply_config sample_admin_env cfg s (m, Map.empty) = ((m', d'), None)"
proof -
  obtain c where "refreshing sample_admin_env col (installed cfg s) (mgr_cache m) = (c, None)"
    unfolding refreshing_def using refresh_succeeds [OF sample_bounded] by (metis prod.collapse)
  then show ?thesis by (simp add: apply_config_eq assms(1) sample_save [OF assms(2)])
qed

lemma sample_UpdateServer:
  "\<exists>m' d'. UpdateServer sample_admin_env sample_settings (sample_manager, Map.empty) = ((m', d'), None)"
proof -
  have "cfg_Proxmox NewDefault = []" by (simp add: NewDefault_def applyDefaults_def config_zero_def)
  then have "collector_for sample_admin_env sample_manager (ApplySecrets (cfg
      \<lparr>cfg_Proxmox := cfg_Proxmox NewDefault\<rparr>) s) s' = Inr EmptyCollector" for cfg s s'
    by (simp add: collector_for_def CollectorForConfig_def ApplySecrets_Proxmox applyDefaults_Proxmox
        sample_manager_def NewManager_def)
  then have "\<exists>m' d'. apply_config sample_admin_env (ApplySecrets (cfg\<lparr>cfg_Proxmox := cfg_Proxmox NewDefault\<rparr>) s) s
      (sample_manager, Map.empty) = ((m', d'), None)" for cfg s
    by (intro sample_applies) simp_all
  note a = this [of "NewDefault\<lparr>cfg_Server := x, cfg_Alerts := y\<rparr>" s for x y s]
  show ?thesis
    unfolding admin_op_defs Let_def prod.case fst_conv
    using a by (simp add: sample_settings_def sample_manager_def NewManager_def)
qed

lemma sample_source_made:
  "sourceFromUpdate (mgr_cfg sample_manager) (mgr_secrets sample_manager) sample_source True =
     Inr \<lparr>pve_ID = ''pve'', pve_Name = ''pve'', pve_BaseURL = ''https://pve:8006'', pve_TokenEnv = '''',
          pve_TokenValue = ''t'',
          pve_TLS = \<lparr>tls_Mode = ''system'', tls_Fingerprint = '''', tls_CAFile = ''''\<rparr>\<rparr>"
  unfolding sample_manager_def sample_source_def by code_simp

lemma sample_upsert_collector:
  assumes "sourceFromUpdate (mgr_cfg sample_manager) (mgr_secrets sample_manager) sample_source True = Inr src"
  shows "\<exists>col. collector_for sample_admin_env sample_manager
           (ApplySecrets (put_source src (mgr_cfg sample_manager))
              (put_token (pve_ID src) (up_Token sample_source) (mgr_secrets sample_manager)))
           (put_token (pve_ID src) (up_Token sample_source) (mgr_secrets sample_manager)) = Inr col"
proof -
  have src: "src = \<lparr>pve_ID = ''pve'', pve_Name = ''pve'', pve_BaseURL = ''https://pve:8006'', pve_TokenEnv = '''',
          pve_TokenValue = ''t'', pve_TLS = \<lparr>tls_Mode = ''system'', tls_Fingerprint = '''', tls_CAFile = ''''\<rparr>\<rparr>"
    using assms sample_source_made by simp
  have t: "trim_space ''t'' = ''t''" by code_simp
  show ?thesis
    by (simp add: src collector_for_def CollectorForConfig_def put_source_def sourceIndex_def put_token_def
        sample_source_def sample_manager_def NewManager_def NewDefault_def config_zero_def applyDefaults_def
        ApplySecrets_def apply_token_def secrets_zero_def Validate_def default_tls_mode_def default_int_def
        default_str_def NewCollector_def make_client_def NewClient_def transportForTLS_def Let_def
        validate_host_def DisplayToken_def sample_admin_env_def t trim_space_Nil)
qed

lemma sample_UpsertSource:
  "\<exists>m' d'. UpsertSource sample_admin_env sample_source (sample_manager, Map.empty) = ((m', d'), None)"
  using sample_upsert_collector [OF sample_source_made] sample_source_made
    sample_applies [OF _ sample_manager_store]
  by (simp add: admin_op_defs Let_def) blast

section \<open>Properties\<close>

text \<open>
  C15: An admin update is all or nothing in memory: whenever \<open>UpdateServer\<close>, \<open>UpsertSource\<close> or
  \<open>DeleteSource\<close> returns an error, the running configuration, the secrets and the cache are what
  they were, and the disk too unless it was the save that failed.
\<close>

theorem admin_update_all_or_nothing:
  assumes "bounded_world (ae_world e)" and "run_admin e a (m, d) = ((m', d'), Some err)"
  shows "m' = m \<and> ((\<forall>x. err \<noteq> SaveFailed x) \<longrightarrow> d' = d)"
  using assms by (rule any_update.keeps_on_error)

lemma admin_update_all_or_nothing_witness:
  "fst (run_admin sample_admin_env (DropSource ''pve'') (sample_manager, Map.empty)) = (sample_manager, Map.empty)"
proof -
  have "SanitizeID ''pve'' = ''pve''" by code_simp
  then have "run_admin sample_admin_env (DropSource ''pve'') (sample_manager, Map.empty)
      = ((sample_manager, Map.empty), Some (SourceNotFound ''pve''))"
    by (simp add: run_admin_def admin_op_defs sample_manager_def NewManager_def NewDefault_def
        applyDefaults_def config_zero_def)
  from admin_update_all_or_nothing [OF sample_bounded this] this show ?thesis by simp
qed

text \<open>
  C16: Restart: after a successful admin update, a process that is started anew loads from the disk
  the configuration and secrets the running one has (with the tokens filled in from the secrets).
\<close>

theorem admin_update_survives_restart:
  assumes "yaml_roundtrip (ae_yaml e)" and "fresh_temp (ae_mktemp e)" and "finite (dom d)"
    and "store_ConfigPath (mgr_store m) \<noteq> store_SecretsPath (mgr_store m)"
    and "\<forall>call. readfault call = None" and "run_admin e a (m, d) = ((m', d'), None)"
  shows "Load readfault (ae_yaml e) d' (mgr_store m')
           = Inr (ApplySecrets (mgr_cfg m') (mgr_secrets m'), mgr_secrets m')"
  using assms by (rule any_update.restarts_as_it_runs)

lemma admin_update_survives_restart_witness:
  "\<exists>m' d'. run_admin sample_admin_env (PutSource sample_source) (sample_manager, Map.empty) = ((m', d'), None) \<and>
     Load (\<lambda>_. None) plain_yaml d' (mgr_store m')
       = Inr (ApplySecrets (mgr_cfg m') (mgr_secrets m'), mgr_secrets m')"
proof -
  obtain m' d' where r: "run_admin sample_admin_env (PutSource sample_source) (sample_manager, Map.empty) = ((m', d'), None)"
    using sample_UpsertSource by (auto simp: run_admin_def)
  have "ae_yaml sample_admin_env = plain_yaml" "ae_mktemp sample_admin_env = long_temp"
      "mgr_store sample_manager = sample_store"
    by (simp_all add: sample_admin_env_def sample_manager_def NewManager_def)
  with admin_update_survives_restart [OF _ _ _ _ _ r, where readfault = "\<lambda>_. None"] r show ?thesis
    by (auto simp: plain_yaml_roundtrip long_temp_fresh sample_store_paths)
qed

text \<open>
  C17: A successful admin update takes effect at once: the cache has a collector that fits the new
  configuration (one client per source with its ID, the new thresholds), the new intervals, and
  already serves the state this collector has collected.
\<close>

theorem admin_update_takes_effect:
  assumes "run_admin e a (m, d) = ((m', d'), None)"
  shows "fits (cache_collector (mgr_cache m')) m' \<and>
         cache_pollInterval (mgr_cache m') = PollInterval (cfg_Server (mgr_cfg m')) \<and>
         cache_staleAfter (mgr_cache m') = StaleAfter (cfg_Server (mgr_cfg m')) \<and>
         collect_any (cache_collector (mgr_cache m')) (ae_world e) = Inr (cache_state (mgr_cache m')) \<and>
         cache_hasState (mgr_cache m') \<and> cache_lastErr (mgr_cache m') = None"
proof (rule any_update.change_cases [OF assms])
  fix cfg s col r
  assume "mgr_mock m' = mgr_mock m"
  then show ?thesis using any_update.takes_effect [OF assms] fits_installed by blast
qed simp

lemma admin_update_takes_effect_witness:
  "\<exists>m' d'. run_admin sample_admin_env (SetServer sample_settings) (sample_manager, Map.empty) = ((m', d'), None) \<and>
     fits (cache_collector (mgr_cache m')) m'"
proof -
  obtain m' d' where r: "run_admin sample_admin_env (SetServer sample_settings) (sample_manager, Map.empty) = ((m', d'), None)"
    using sample_UpdateServer by (auto simp: run_admin_def)
  from admin_update_takes_effect [OF r] r show ?thesis by blast
qed

lemma sample_manager_inv: "manager_inv sample_manager"
  by (simp add: manager_inv_def config_inv_def sample_manager_def NewManager_def NewDefault_def applyDefaults_def
      config_zero_def default_int_def limits_def cache_ok_def NewCache_def)

text \<open>
  C20: \<open>UpsertSource\<close> implements insertion into the registry of sources: the entry of the source's
  ID becomes the source made from the input and every other ID keeps its entry, each as the save
  leaves it in memory (\<open>settled\<close>): with its TLS mode defaulted and its token value cleared, which is
  the defect stated below.  In the secrets, the token of that ID is replaced exactly if one was
  entered, and every other token stays.
\<close>

theorem upsert_refines_registry:
  assumes "UpsertSource e input (m, d) = ((m', d'), None)"
  shows "\<exists>src. sourceFromUpdate (mgr_cfg m) (mgr_secrets m) input True = Inr src \<and>
           pve_ID src = update_id input \<and>
           registry (mgr_cfg m') = (map_option settled \<circ> registry (mgr_cfg m))(update_id input \<mapsto> settled src) \<and>
           sec_ProxmoxTokens (mgr_secrets m') =
             (if trim_space (up_Token input) = '''' then sec_ProxmoxTokens (mgr_secrets m)
              else (sec_ProxmoxTokens (mgr_secrets m))(update_id input \<mapsto> trim_space (up_Token input)))"
proof (rule UpsertSource_installs [OF assms])
  fix src
  assume src: "sourceFromUpdate (mgr_cfg m) (mgr_secrets m) input True = Inr src"
    and s: "mgr_secrets m' = put_token (pve_ID src) (up_Token input) (mgr_secrets m)"
    and c: "mgr_cfg m' = installed (put_source src (mgr_cfg m)) (mgr_secrets m')"
  have "pve_ID src = update_id input" using sourceFromUpdate_id [OF src] by blast
  moreover have "registry (mgr_cfg m') = (map_option settled \<circ> registry (mgr_cfg m))(pve_ID src \<mapsto> settled src)"
    by (auto simp: c registry_installed registry_put)
  ultimately show ?thesis using src s by (simp add: put_token_def Let_def)
qed

lemma upsert_refines_registry_witness:
  "\<exists>m' d' src. UpsertSource sample_admin_env sample_source (sample_manager, Map.empty) = ((m', d'), None) \<and>
     registry (mgr_cfg m') (update_id sample_source) = Some src"
proof -
  obtain m' d' where "UpsertSource sample_admin_env sample_source (sample_manager, Map.empty) = ((m', d'), None)"
    using sample_UpsertSource by blast
  with upsert_refines_registry [OF this] show ?thesis by auto
qed

text \<open>
  C21: \<open>DeleteSource\<close> implements removal from the registry: it succeeds only if the (sanitized) ID
  is there, and removes its entry and its token; every other ID keeps its entry as the save leaves it
  in memory (\<open>settled\<close>: TLS mode defaulted, token value cleared), and its token in the secrets.
\<close>

theorem delete_refines_registry:
  assumes "DeleteSource e x (m, d) = ((m', d'), None)"
  shows "registry (mgr_cfg m) (SanitizeID x) \<noteq> None \<and>
         registry (mgr_cfg m') = (map_option settled \<circ> registry (mgr_cfg m))(SanitizeID x := None) \<and>
         sec_ProxmoxTokens (mgr_secrets m') = (sec_ProxmoxTokens (mgr_secrets m))(SanitizeID x := None)"
proof (rule DeleteSource_installs [OF assms])
  assume x: "SanitizeID x \<in> pve_ID ` set (cfg_Proxmox (mgr_cfg m))"
    and s: "mgr_secrets m' = (mgr_secrets m)
           \<lparr>sec_ProxmoxTokens := (sec_ProxmoxTokens (mgr_secrets m))(SanitizeID x := None)\<rparr>"
    and c: "mgr_cfg m' = installed ((mgr_cfg m)
           \<lparr>cfg_Proxmox := filter (\<lambda>p. pve_ID p \<noteq> SanitizeID x) (cfg_Proxmox (mgr_cfg m))\<rparr>) (mgr_secrets m')"
  have "registry (mgr_cfg m') = (map_option settled \<circ> registry (mgr_cfg m))(SanitizeID x := None)"
    unfolding c registry_installed by (auto simp: registry_def find_filter_ids)
  moreover have "registry (mgr_cfg m) (SanitizeID x) \<noteq> None"
    using x by (auto simp: registry_def find_None_iff)
  ultimately show ?thesis using s by simp
qed

definition sample_registered :: manager where
  "sample_registered = sample_manager
     \<lparr>mgr_cfg := NewDefault\<lparr>cfg_Proxmox := [proxmox_host_zero\<lparr>pve_ID := ''pve''\<rparr>]\<rparr>\<rparr>"

lemma delete_refines_registry_witness:
  "\<exists>m' d'. DeleteSource sample_admin_env ''PVE'' (sample_registered, Map.empty) = ((m', d'), None) \<and>
     registry (mgr_cfg m') ''pve'' = None"
proof -
  have x: "SanitizeID ''PVE'' = ''pve''" by code_simp
  have "\<exists>m' d'. DeleteSource sample_admin_env ''PVE'' (sample_registered, Map.empty) = ((m', d'), None)"
  proof -
    have "collector_for sample_admin_env sample_registered
        (ApplySecrets (cfg\<lparr>cfg_Proxmox := []\<rparr>) s) s' = Inr EmptyCollector" for cfg s s'
      by (simp add: collector_for_def CollectorForConfig_def ApplySecrets_Proxmox applyDefaults_Proxmox
          sample_registered_def sample_manager_def NewManager_def)
    moreover have "mgr_store sample_registered = sample_store" by (simp add: sample_registered_def)
    ultimately show ?thesis using sample_applies
      by (simp add: admin_op_defs x Let_def sample_registered_def proxmox_host_zero_def)
  qed
  then obtain m' d' where r: "DeleteSource sample_admin_env ''PVE'' (sample_registered, Map.empty) = ((m', d'), None)"
    by blast
  from delete_refines_registry [OF r] r show ?thesis by (auto simp: x)
qed

text \<open>
  C40: After a successful admin update the admin page shows a source's token as set only if it comes
  from the environment: the tokens saved in the secrets file are shown as missing, although the
  collector uses them, because \<open>Save\<close> has cleared them in the list \<open>apply\<close> then installs.
\<close>

theorem saved_tokens_shown_missing:
  assumes "run_admin e a (m, d) = ((m', d'), None)"
  shows "map ss_TokenSet (snap_Sources (Snapshot getenv m'))
           = map (\<lambda>p. pve_TokenEnv p \<noteq> '''') (cfg_Proxmox (mgr_cfg m'))"
proof (rule any_update.change_cases [OF assms])
  fix cfg s
  assume "mgr_cfg m' = installed cfg s"
  then show ?thesis
    by (simp add: Snapshot_def source_view_def settled_def clear_host_token_def)
qed simp

lemma saved_tokens_shown_missing_witness:
  "\<exists>m' d'. run_admin sample_admin_env (PutSource sample_source) (sample_manager, Map.empty) = ((m', d'), None) \<and>
     sec_ProxmoxTokens (mgr_secrets m') ''pve'' = Some ''t'' \<and>
     map ss_TokenSet (snap_Sources (Snapshot (\<lambda>_. '''') m')) = [False]"
proof -
  obtain m' d' where r: "UpsertSource sample_admin_env sample_source (sample_manager, Map.empty) = ((m', d'), None)"
    using sample_UpsertSource by blast
  then have r': "run_admin sample_admin_env (PutSource sample_source) (sample_manager, Map.empty) = ((m', d'), None)"
    by (simp add: run_admin_def)
  have t: "trim_space ''t'' = ''t''" by code_simp
  have p: "cfg_Proxmox (mgr_cfg sample_manager) = []"
    by (simp add: sample_manager_def NewManager_def NewDefault_def applyDefaults_def config_zero_def)
  show ?thesis
  proof (rule UpsertSource_installs [OF r])
    fix src
    assume "sourceFromUpdate (mgr_cfg sample_manager) (mgr_secrets sample_manager) sample_source True = Inr src"
      and s: "mgr_secrets m' = put_token (pve_ID src) (up_Token sample_source) (mgr_secrets sample_manager)"
      and c: "mgr_cfg m' = installed (put_source src (mgr_cfg sample_manager)) (mgr_secrets m')"
    then have "pve_ID src = ''pve''" "pve_TokenEnv src = ''''" using sample_source_made by auto
    then have "cfg_Proxmox (mgr_cfg m') = [settled src]" "pve_TokenEnv (settled src) = ''''"
        "sec_ProxmoxTokens (mgr_secrets m') ''pve'' = Some ''t''"
      using t p by (simp_all add: c s put_source_def sourceIndex_def settled_def clear_host_token_def
          default_tls_mode_def put_token_def sample_source_def)
    then show ?thesis
      using saved_tokens_shown_missing [OF r', of "\<lambda>_. ''''"] r' by auto
  qed
qed

end
