(* ===== verification/Admin_Runs.thy ===== *)
theory Admin_Runs
  imports Admin_Updates
begin

text \<open>
  Admin updates as they really run (\<open>internal/runtime/manager.go\<close>): every request has its own
  goroutine, and an update takes the locks only for moments, to clone the configuration, to
  reconfigure the cache, to install its result, and to begin and end the refresh.  In between,
  other updates and the background refresh may take any of their steps, also between the two files
  of a save.
\<close>

section \<open>Steps\<close>

text \<open>
  How far an update in flight has come: it has its configuration and secrets; it has written the
  configuration file, with the new collector in hand; it has written the secrets too; it has
  reconfigured the cache.
\<close>

datatype pending =
    Prepared config secrets
  | Config_Saved any_collector config secrets
  | Saved any_collector config secrets
  | Reconfigured config secrets

text \<open>The manager, the disk, the updates in flight and the collectors of the refreshes in flight.\<close>

type_synonym 'd bridge_run = "manager \<times> 'd filesystem \<times> pending list \<times> any_collector list"

definition remove_at :: "nat \<Rightarrow> 'a list \<Rightarrow> 'a list" where
  "remove_at i xs = take i xs @ drop (Suc i) xs"

text \<open>
  The steps of what is in flight: updates go on or fail, refreshes start and finish.  Every moment
  has its environment, in which other calls fail and sources give other answers; \<open>E\<close> is the set of
  those that may come.
\<close>

inductive update_step :: "'d admin_env set \<Rightarrow> 'd bridge_run \<Rightarrow> 'd bridge_run \<Rightarrow> bool"
  for E :: "'d admin_env set" where
  rejected: "i < length ps \<Longrightarrow> ps ! i = Prepared cfg s \<Longrightarrow>
    collector_for e m cfg s = Inl err \<Longrightarrow> e \<in> E \<Longrightarrow>
    update_step E (m, d, ps, rs) (m, d, remove_at i ps, rs)"
| config_fails: "i < length ps \<Longrightarrow> ps ! i = Prepared cfg s \<Longrightarrow>
    collector_for e m cfg s = Inr col \<Longrightarrow> saving_config e m cfg s d = (Some err, d') \<Longrightarrow> e \<in> E \<Longrightarrow>
    update_step E (m, d, ps, rs) (m, d', remove_at i ps, rs)"
| saves_config: "i < length ps \<Longrightarrow> ps ! i = Prepared cfg s \<Longrightarrow>
    collector_for e m cfg s = Inr col \<Longrightarrow> saving_config e m cfg s d = (None, d') \<Longrightarrow> e \<in> E \<Longrightarrow>
    update_step E (m, d, ps, rs) (m, d', ps[i := Config_Saved col (installed cfg s) s], rs)"
| secrets_fail: "i < length ps \<Longrightarrow> ps ! i = Config_Saved col cfg s \<Longrightarrow>
    saving_secrets e m s d = (Some err, d') \<Longrightarrow> e \<in> E \<Longrightarrow>
    update_step E (m, d, ps, rs) (m, d', remove_at i ps, rs)"
| saves_secrets: "i < length ps \<Longrightarrow> ps ! i = Config_Saved col cfg s \<Longrightarrow>
    saving_secrets e m s d = (None, d') \<Longrightarrow> e \<in> E \<Longrightarrow>
    update_step E (m, d, ps, rs) (m, d', ps[i := Saved col cfg s], rs)"
| reconfigures: "i < length ps \<Longrightarrow> ps ! i = Saved col cfg s \<Longrightarrow>
    update_step E (m, d, ps, rs)
      (m\<lparr>mgr_cache := Reconfigure col (PollInterval (cfg_Server cfg)) (StaleAfter (cfg_Server cfg)) (mgr_cache m)\<rparr>,
       d, ps[i := Reconfigured cfg s], rs)"
| installs: "i < length ps \<Longrightarrow> ps ! i = Reconfigured cfg s \<Longrightarrow>
    update_step E (m, d, ps, rs) (m\<lparr>mgr_cfg := cfg, mgr_secrets := s\<rparr>, d, remove_at i ps, rs)"
| refresh_starts: "update_step E (m, d, ps, rs) (m, d, ps, rs @ [cache_collector (mgr_cache m)])"
| refresh_finishes: "i < length rs \<Longrightarrow> e \<in> E \<Longrightarrow> proper_world (ae_world e) \<Longrightarrow>
    update_step E (m, d, ps, rs)
      (m\<lparr>mgr_cache := fst (refresh_end (collect_any (rs ! i) (ae_world e)) (ae_now e) (mgr_cache m))\<rparr>,
       d, ps, remove_at i rs)"

text \<open>At any moment another update may begin.\<close>

inductive admin_step :: "'d admin_env set \<Rightarrow> 'd bridge_run \<Rightarrow> 'd bridge_run \<Rightarrow> bool"
  for E :: "'d admin_env set" where
  begins: "prepare a m = Inr (cfg, s) \<Longrightarrow>
    admin_step E (m, d, ps, rs) (m, d, ps @ [Prepared cfg s], rs)"
| continues: "update_step E x y \<Longrightarrow> admin_step E x y"

inductive admin_run :: "'d admin_env set \<Rightarrow> 'd bridge_run \<Rightarrow> 'd bridge_run \<Rightarrow> bool"
  for E :: "'d admin_env set" where
  run_refl: "admin_run E x x"
| run_step: "admin_run E x y \<Longrightarrow> admin_step E y z \<Longrightarrow> admin_run E x z"

text \<open>On the cache these are steps of the cache.\<close>

lemma admin_step_cache:
  "admin_step E (m, d, ps, rs) (m', d', ps', rs') \<Longrightarrow>
   mgr_cache m' = mgr_cache m \<and> rs' = rs \<or> cache_step collect_any (mgr_cache m, rs) (mgr_cache m', rs')"
  by (erule admin_step.cases; (erule update_step.cases)?) (auto simp: remove_at_def intro: cache_step.intros)

lemma updates_run: "(update_step E)\<^sup>*\<^sup>* y z \<Longrightarrow> admin_run E x y \<Longrightarrow> admin_run E x z"
  by (induction rule: rtranclp.induct) (blast intro: run_step continues)+

section \<open>A run of one update alone\<close>

text \<open>The operations of \<open>Manager\<close>, taken without interruption, are runs of these steps.\<close>

lemmas one_more = rtranclp.rtrancl_into_rtrancl

lemma refresh_run:
  assumes "e \<in> E" and "proper_world (ae_world e)"
  shows "(update_step E)\<^sup>*\<^sup>* (m, d, ps, [])
           (m\<lparr>mgr_cache := fst (Refresh collect_any (ae_world e) (ae_now e) (mgr_cache m))\<rparr>, d, ps, [])"
proof -
  let ?col = "cache_collector (mgr_cache m)"
  have "update_step E (m, d, ps, []) (m, d, ps, [?col])"
    using refresh_starts [of E m d ps "[]"] by simp
  note run = r_into_rtranclp [of "update_step E", OF this]
  have "update_step E (m, d, ps, [?col]) (m\<lparr>mgr_cache := fst (Refresh collect_any (ae_world e) (ae_now e) (mgr_cache m))\<rparr>, d, ps, [])"
    using refresh_finishes [of 0 "[?col]" e E m d ps] assms by (simp add: Refresh_def remove_at_def)
  from one_more [OF run this] show ?thesis .
qed

lemma saved_run:
  assumes "collector_for e m cfg s = Inr col" and "save_err (saving e m cfg s d) = None" and "e \<in> E"
  shows "(update_step E)\<^sup>*\<^sup>* (m, d, Prepared cfg s # ps, [])
           (m, save_disk (saving e m cfg s d), Saved col (installed cfg s) s # ps, [])"
proof (rule saving_cases [of e m cfg s d])
  fix d1 err d2
  assume r: "saving_config e m cfg s d = (None, d1)" "saving_secrets e m s d1 = (err, d2)"
    "save_err (saving e m cfg s d) = err" "save_disk (saving e m cfg s d) = d2"
  have "update_step E (m, d, Prepared cfg s # ps, []) (m, d1, Config_Saved col (installed cfg s) s # ps, [])"
    using saves_config [of 0 "Prepared cfg s # ps" cfg s e m col d d1 E "[]"] assms(1,3) r(1) by simp
  note run = r_into_rtranclp [of "update_step E", OF this]
  have "update_step E (m, d1, Config_Saved col (installed cfg s) s # ps, []) (m, d2, Saved col (installed cfg s) s # ps, [])"
    using saves_secrets [of 0 "Config_Saved col (installed cfg s) s # ps" col "installed cfg s" s e m d1 d2 E "[]"]
      r(2,3) assms(2,3) by simp
  from one_more [OF run this] show ?thesis using r(4) by simp
qed (use assms(2) in simp)

lemma failed_save_run:
  assumes "collector_for e m cfg s = Inr col" and "save_err (saving e m cfg s d) = Some x" and "e \<in> E"
  shows "(update_step E)\<^sup>*\<^sup>* (m, d, Prepared cfg s # ps, []) (m, save_disk (saving e m cfg s d), ps, [])"
proof (rule saving_cases [of e m cfg s d])
  fix y d1
  assume r: "saving_config e m cfg s d = (Some y, d1)" "save_disk (saving e m cfg s d) = d1"
  have "update_step E (m, d, Prepared cfg s # ps, []) (m, d1, ps, [])"
    using config_fails [of 0 "Prepared cfg s # ps" cfg s e m col d y d1 E "[]"] assms(1,3) r(1)
    by (simp add: remove_at_def)
  then show ?thesis using r(2) by blast
next
  fix d1 err d2
  assume r: "saving_config e m cfg s d = (None, d1)" "saving_secrets e m s d1 = (err, d2)"
    "save_err (saving e m cfg s d) = err" "save_disk (saving e m cfg s d) = d2"
  have "update_step E (m, d, Prepared cfg s # ps, []) (m, d1, Config_Saved col (installed cfg s) s # ps, [])"
    using saves_config [of 0 "Prepared cfg s # ps" cfg s e m col d d1 E "[]"] assms(1,3) r(1) by simp
  note run = r_into_rtranclp [of "update_step E", OF this]
  have "update_step E (m, d1, Config_Saved col (installed cfg s) s # ps, []) (m, d2, ps, [])"
    using secrets_fail [of 0 "Config_Saved col (installed cfg s) s # ps" col "installed cfg s" s e m d1 x d2 E "[]"]
      r(2,3) assms(2,3) by (simp add: remove_at_def)
  from one_more [OF run this] show ?thesis using r(4) by simp
qed

lemma apply_config_run:
  assumes "apply_config e cfg s (m, d) = ((m', d'), err)" and "e \<in> E" and "proper_world (ae_world e)"
  shows "(update_step E)\<^sup>*\<^sup>* (m, d, [Prepared cfg s], []) (m', d', [], [])"
proof -
  let ?start = "(m, d, [Prepared cfg s], [])"
  have start: "(update_step E)\<^sup>*\<^sup>* ?start ?start" by simp
  show ?thesis
  proof (rule apply_config_cases [OF assms(1)])
    fix x assume r: "collector_for e m cfg s = Inl x" "m' = m" "d' = d"
    have "update_step E ?start (m, d, [], [])"
      using rejected [of 0 "[Prepared cfg s]" cfg s e m x E d "[]"] r(1) assms(2) by (simp add: remove_at_def)
    then show ?thesis using one_more [OF start] r(2,3) by simp
  next
    fix x assume r: "save_err (saving e m cfg s d) = Some x" "m' = m" "d' = save_disk (saving e m cfg s d)"
    show ?thesis
    proof (cases "collector_for e m cfg s")
      case (Inl y)
      have "((m', d'), err) = ((m, d), Some y)" using assms(1) by (simp add: apply_config_eq Inl)
      moreover have "update_step E ?start (m, d, [], [])"
        using rejected [of 0 "[Prepared cfg s]" cfg s e m y E d "[]"] Inl assms(2) by (simp add: remove_at_def)
      ultimately show ?thesis using one_more [OF start] by simp
    next
      case (Inr col)
      from failed_save_run [OF this r(1) assms(2), of "[]"] show ?thesis using r(2,3) by simp
    qed
  next
    fix col r
    assume ok: "collector_for e m cfg s = Inr col" "save_err (saving e m cfg s d) = None"
      "d' = save_disk (saving e m cfg s d)" "mgr_cfg m' = installed cfg s" "mgr_secrets m' = s"
      "mgr_store m' = mgr_store m" "mgr_mock m' = mgr_mock m"
      "refreshing e col (installed cfg s) (mgr_cache m) = (mgr_cache m', r)"
    let ?c = "Reconfigure col (PollInterval (cfg_Server (installed cfg s)))
                (StaleAfter (cfg_Server (installed cfg s))) (mgr_cache m)"
    let ?m1 = "m\<lparr>mgr_cache := ?c\<rparr>"
    let ?m2 = "?m1\<lparr>mgr_cfg := installed cfg s, mgr_secrets := s\<rparr>"
    have run: "(update_step E)\<^sup>*\<^sup>* ?start (m, d', [Saved col (installed cfg s) s], [])"
      using saved_run [OF ok(1,2) assms(2), of "[]"] ok(3) by simp
    have "update_step E (m, d', [Saved col (installed cfg s) s], []) (?m1, d', [Reconfigured (installed cfg s) s], [])"
      using reconfigures [of 0 "[Saved col (installed cfg s) s]" col "installed cfg s" s E m d' "[]"] by simp
    note run = one_more [OF run this]
    have "update_step E (?m1, d', [Reconfigured (installed cfg s) s], []) (?m2, d', [], [])"
      using installs [of 0 "[Reconfigured (installed cfg s) s]" "installed cfg s" s E ?m1 d' "[]"]
      by (simp add: remove_at_def)
    note run = one_more [OF run this]
    have "(update_step E)\<^sup>*\<^sup>* (?m2, d', [], []) (?m2\<lparr>mgr_cache := mgr_cache m'\<rparr>, d', [], [])"
      using refresh_run [OF assms(2,3), of ?m2 d' "[]"] ok(8) by (simp add: refreshing_def)
    moreover have "?m2\<lparr>mgr_cache := mgr_cache m'\<rparr> = m'" using ok(4-7) by simp
    ultimately show ?thesis using rtranclp_trans [OF run] by metis
  qed
qed

lemma run_admin_run:
  assumes "run_admin e a (m, d) = ((m', d'), err)" and "e \<in> E" and "proper_world (ae_world e)"
  shows "admin_run E (m, d, [], []) (m', d', [], [])"
proof (cases "prepare a m")
  case (Inl x)
  then show ?thesis using assms run_refl by (simp add: run_admin_prepare then_apply_def)
next
  case (Inr p)
  then obtain cfg s where p: "prepare a m = Inr (cfg, s)" by (metis prod.collapse)
  then have "apply_config e cfg s (m, d) = ((m', d'), err)"
    using assms(1) by (simp add: run_admin_prepare then_apply_def)
  from updates_run [OF apply_config_run [OF this assms(2,3)]]
  show ?thesis using run_step [OF run_refl begins [OF p], of E d "[]" "[]"] by simp
qed

section \<open>Invariants of the cache under interleaving\<close>

text \<open>
  What holds of a new cache and is kept by reconfiguring it and by the end of every refresh holds of
  the manager's cache however the steps interleave.
\<close>

locale cache_kept =
  fixes P :: "bridge_cache \<Rightarrow> bool"
  assumes reconfigured: "P c \<Longrightarrow> P (Reconfigure col poll stale c)"
    and refreshed: "proper_world w \<Longrightarrow> P c \<Longrightarrow> P (fst (refresh_end (collect_any col w) now c))"
begin

lemma update_keeps: "update_step E x y \<Longrightarrow> P (mgr_cache (fst x)) \<Longrightarrow> P (mgr_cache (fst y))"
  by (induction rule: update_step.induct) (simp_all add: reconfigured refreshed)

lemma step_keeps: "admin_step E x y \<Longrightarrow> P (mgr_cache (fst x)) \<Longrightarrow> P (mgr_cache (fst y))"
  by (induction rule: admin_step.induct) (simp_all add: update_keeps)

end

locale cache_invariant = cache_kept +
  assumes fresh: "P (NewCache col poll stale)"

interpretation finalized_cache: cache_invariant cache_ok
  by unfold_locales (simp_all add: refresh_end_ok, simp add: cache_ok_def NewCache_def)

interpretation filled_cache: cache_kept cache_hasState
  by unfold_locales (simp_all add: refresh_end_hasState)

section \<open>The invariant under interleaving\<close>

fun pending_config :: "pending \<Rightarrow> config" where
  "pending_config (Prepared c s) = c"
| "pending_config (Config_Saved col c s) = c"
| "pending_config (Saved col c s) = c"
| "pending_config (Reconfigured c s) = c"

definition run_inv :: "'d bridge_run \<Rightarrow> bool" where
  "run_inv x \<longleftrightarrow> (case x of (m, d, ps, rs) \<Rightarrow>
     manager_inv m \<and> (\<forall>p\<in>set ps. config_inv (pending_config p)))"

lemma set_remove_at: "set (remove_at i xs) \<subseteq> set xs"
  by (auto simp: remove_at_def dest: in_set_takeD in_set_dropD)

lemma update_step_inv: "update_step E x y \<Longrightarrow> run_inv x \<Longrightarrow> run_inv y"
proof (induction rule: update_step.induct)
  case (saves_config i ps cfg s e m col d d' rs)
  then have "config_inv cfg" using nth_mem by (fastforce simp: run_inv_def)
  then show ?case using saves_config set_update_subset_insert [of ps i "Config_Saved col (installed cfg s) s"]
    by (auto simp: run_inv_def config_inv_installed)
next
  case (saves_secrets i ps col cfg s e m d d' rs)
  then have "config_inv cfg" using nth_mem by (fastforce simp: run_inv_def)
  then show ?case using saves_secrets set_update_subset_insert [of ps i "Saved col cfg s"]
    by (auto simp: run_inv_def)
next
  case (reconfigures i ps col cfg s m d rs)
  then have "config_inv cfg" using nth_mem by (fastforce simp: run_inv_def)
  then show ?case using reconfigures set_update_subset_insert [of ps i "Reconfigured cfg s"]
    by (auto simp: run_inv_def manager_inv_def)
next
  case (installs i ps cfg s m d rs)
  then have "config_inv cfg" using nth_mem by (fastforce simp: run_inv_def)
  then show ?case using installs set_remove_at [of i ps] by (auto simp: run_inv_def manager_inv_def)
next
  case (refresh_finishes i rs e m d ps)
  then show ?case by (simp add: run_inv_def manager_inv_def refresh_end_ok)
qed (use set_remove_at in \<open>fastforce simp: run_inv_def\<close>)+

lemma admin_step_inv: "admin_step E x y \<Longrightarrow> run_inv x \<Longrightarrow> run_inv y"
proof (induction rule: admin_step.induct)
  case (begins a m cfg s d ps rs)
  then show ?case using prepare_inv by (auto simp: run_inv_def manager_inv_def)
qed (rule update_step_inv)

lemma admin_run_inv: "admin_run E x y \<Longrightarrow> run_inv x \<Longrightarrow> run_inv y"
  by (induction rule: admin_run.induct) (simp_all add: admin_step_inv)

section \<open>Properties\<close>

text \<open>
  C18: However concurrent admin updates and refreshes interleave, failing ones included, the running
  configuration keeps its limits: the poll interval is at least 5 seconds and at most the stale
  limit, the percentages are ordered within 1 to 100, the source IDs are distinct, and a state in
  the cache is finalized.
\<close>

theorem admin_invariant:
  assumes "admin_run E (m, d, [], []) (m', d', ps, rs)" and "manager_inv m"
  shows "manager_inv m'"
  using admin_run_inv [OF assms(1)] assms(2) by (simp add: run_inv_def)

lemma admin_invariant_witness:
  "manager_inv (fst (fst (run_admin sample_admin_env (SetServer sample_settings) (sample_manager, Map.empty))))"
proof -
  obtain m' d' err where "run_admin sample_admin_env (SetServer sample_settings) (sample_manager, Map.empty) = ((m', d'), err)"
    by (metis prod.collapse)
  from admin_invariant [OF run_admin_run [OF this UNIV_I sample_world_proper] sample_manager_inv] this
  show ?thesis by simp
qed

section \<open>Lost updates\<close>

text \<open>
  An update installed while another is in flight is lost: the other has cloned the configuration
  before, and what it installs does not know of the first.
\<close>

lemma installing_run:
  "\<exists>c. (update_step E)\<^sup>*\<^sup>* (m, d, Saved col cfg s # ps, [])
     (m\<lparr>mgr_cache := c\<rparr>\<lparr>mgr_cfg := cfg, mgr_secrets := s\<rparr>, d, ps, [])"
proof -
  let ?m1 = "m\<lparr>mgr_cache := Reconfigure col (PollInterval (cfg_Server cfg)) (StaleAfter (cfg_Server cfg)) (mgr_cache m)\<rparr>"
  have "update_step E (m, d, Saved col cfg s # ps, []) (?m1, d, Reconfigured cfg s # ps, [])"
    using reconfigures [of 0 "Saved col cfg s # ps" col cfg s E m d "[]"] by simp
  note run = r_into_rtranclp [of "update_step E", OF this]
  have "update_step E (?m1, d, Reconfigured cfg s # ps, []) (?m1\<lparr>mgr_cfg := cfg, mgr_secrets := s\<rparr>, d, ps, [])"
    using installs [of 0 "Reconfigured cfg s # ps" cfg s E ?m1 d "[]"] by (simp add: remove_at_def)
  from one_more [OF run this] show ?thesis by blast
qed

lemma one_update_run:
  assumes "collector_for e m cfg s = Inr col" and "save_err (saving e m cfg s d) = None" and "e \<in> E"
  shows "\<exists>c. (update_step E)\<^sup>*\<^sup>* (m, d, Prepared cfg s # ps, [])
           (m\<lparr>mgr_cache := c\<rparr>\<lparr>mgr_cfg := installed cfg s, mgr_secrets := s\<rparr>,
            save_disk (saving e m cfg s d), ps, [])"
  using rtranclp_trans [OF saved_run [OF assms, of ps]] installing_run by blast

lemma two_begun:
  assumes "prepare a m = Inr (c1, s1)" and "prepare b m = Inr (c2, s2)"
  shows "admin_run E (m, d, [], []) (m, d, [Prepared c1 s1, Prepared c2 s2], [])"
proof -
  have "admin_step E (m, d, [], []) (m, d, [Prepared c1 s1], [])"
    using begins [OF assms(1), of E d "[]" "[]"] by simp
  moreover have "admin_step E (m, d, [Prepared c1 s1], []) (m, d, [Prepared c1 s1, Prepared c2 s2], [])"
    using begins [OF assms(2), of E d "[Prepared c1 s1]" "[]"] by simp
  ultimately show ?thesis by (meson run_refl run_step)
qed

lemma first_update_lost:
  assumes "collector_for e m c1 s1 = Inr col1" and "collector_for e m c2 s2 = Inr col2" and "e \<in> E"
    and "\<And>cfg s d'. save_err (saving e m cfg s d') = None"
  shows "\<exists>m1 d1 m2 d2.
           (update_step E)\<^sup>*\<^sup>* (m, d, [Prepared c1 s1, Prepared c2 s2], []) (m1, d1, [Prepared c2 s2], []) \<and>
           mgr_cfg m1 = installed c1 s1 \<and>
           (update_step E)\<^sup>*\<^sup>* (m1, d1, [Prepared c2 s2], []) (m2, d2, [], []) \<and> mgr_cfg m2 = installed c2 s2"
proof -
  obtain c d1 where first: "(update_step E)\<^sup>*\<^sup>* (m, d, [Prepared c1 s1, Prepared c2 s2], [])
      (m\<lparr>mgr_cache := c\<rparr>\<lparr>mgr_cfg := installed c1 s1, mgr_secrets := s1\<rparr>, d1, [Prepared c2 s2], [])"
    using one_update_run [OF assms(1,4,3), of d "[Prepared c2 s2]"] by blast
  let ?m1 = "m\<lparr>mgr_cache := c\<rparr>\<lparr>mgr_cfg := installed c1 s1, mgr_secrets := s1\<rparr>"
  have "collector_for e ?m1 c2 s2 = Inr col2" "save_err (saving e ?m1 c2 s2 d1) = None"
    using assms(2,4) by (simp_all add: collector_for_def saving_def)
  from one_update_run [OF this assms(3), of "[]"] obtain c' d2 where
    "(update_step E)\<^sup>*\<^sup>* (?m1, d1, [Prepared c2 s2], [])
       (?m1\<lparr>mgr_cache := c'\<rparr>\<lparr>mgr_cfg := installed c2 s2, mgr_secrets := s2\<rparr>, d2, [], [])" by blast
  with first show ?thesis by fastforce
qed

text \<open>Two updates prepared on the fresh manager: a source with a token, and settings.\<close>

lemma sample_updates:
  obtains c1 s1 col1 c2 s2 where "prepare (PutSource sample_source) sample_manager = Inr (c1, s1)"
    and "registry c1 ''pve'' \<noteq> None" and "sec_ProxmoxTokens s1 ''pve'' = Some ''t''"
    and "collector_for sample_admin_env sample_manager c1 s1 = Inr col1"
    and "prepare (SetServer sample_settings) sample_manager = Inr (c2, s2)"
    and "cfg_Proxmox c2 = []" and "sec_ProxmoxTokens s2 = Map.empty"
    and "collector_for sample_admin_env sample_manager c2 s2 = Inr EmptyCollector"
proof -
  let ?m = sample_manager
  obtain src where src: "sourceFromUpdate (mgr_cfg ?m) (mgr_secrets ?m) sample_source True = Inr src"
      "pve_ID src = ''pve''"
    using sample_source_made by auto
  let ?s1 = "put_token (pve_ID src) (up_Token sample_source) (mgr_secrets ?m)"
  let ?c1 = "ApplySecrets (put_source src (mgr_cfg ?m)) ?s1"
  have p1: "prepare (PutSource sample_source) ?m = Inr (?c1, ?s1)"
    using src by (simp add: prepare_def admin_op_defs Let_def)
  have r1: "registry ?c1 ''pve'' \<noteq> None"
    using registry_put [of src "mgr_cfg ?m", THEN fun_cong, of "pve_ID src"] src(2)
    by (simp add: registry_def ApplySecrets_Proxmox find_map_ids fun_upd_def)
  have "trim_space ''t'' = ''t''" by code_simp
  then have t1: "sec_ProxmoxTokens ?s1 ''pve'' = Some ''t''"
    by (simp add: src(2) put_token_def sample_source_def)
  obtain col1 where col1: "collector_for sample_admin_env ?m ?c1 ?s1 = Inr col1"
    using sample_upsert_collector [OF src(1)] by blast
  obtain c2 s2 where p2: "prepare (SetServer sample_settings) ?m = Inr (c2, s2)" "cfg_Proxmox c2 = []"
      "sec_ProxmoxTokens s2 = Map.empty"
    by (simp add: prepare_def admin_op_defs Let_def sample_settings_def ApplySecrets_def sample_manager_def
        NewManager_def NewDefault_def applyDefaults_def config_zero_def secrets_zero_def)
  have "collector_for sample_admin_env ?m c2 s2 = Inr EmptyCollector"
    by (simp add: collector_for_def CollectorForConfig_def ApplySecrets_Proxmox applyDefaults_Proxmox p2(2)
        sample_manager_def NewManager_def)
  with p1 r1 t1 col1 p2 show thesis by (rule that)
qed

text \<open>
  C36: Concurrent updates are not serialised: a settings form and a new source can both be prepared
  from the same configuration, so that both are in flight at once; without any failure, and with no
  other update beginning, the source is then installed, and the settings, which do not know of it,
  remove it again when they are installed.
\<close>

theorem added_source_lost:
  "\<exists>c1 s1 c2 s2 m1 d1 m2 d2.
     prepare (PutSource sample_source) sample_manager = Inr (c1, s1) \<and>
     prepare (SetServer sample_settings) sample_manager = Inr (c2, s2) \<and>
     admin_run {sample_admin_env} (sample_manager, Map.empty, [], [])
       (sample_manager, Map.empty, [Prepared c1 s1, Prepared c2 s2], []) \<and>
     (update_step {sample_admin_env})\<^sup>*\<^sup>* (sample_manager, Map.empty, [Prepared c1 s1, Prepared c2 s2], [])
       (m1, d1, [Prepared c2 s2], []) \<and>
     mgr_cfg m1 = installed c1 s1 \<and> registry (mgr_cfg m1) ''pve'' \<noteq> None \<and>
     (update_step {sample_admin_env})\<^sup>*\<^sup>* (m1, d1, [Prepared c2 s2], []) (m2, d2, [], []) \<and>
     mgr_cfg m2 = installed c2 s2 \<and> registry (mgr_cfg m2) ''pve'' = None"
proof (rule sample_updates)
  let ?m = sample_manager
  fix c1 s1 col1 c2 s2
  assume p: "prepare (PutSource sample_source) ?m = Inr (c1, s1)" "registry c1 ''pve'' \<noteq> None"
    and col1: "collector_for sample_admin_env ?m c1 s1 = Inr col1"
    and p2: "prepare (SetServer sample_settings) ?m = Inr (c2, s2)" "cfg_Proxmox c2 = []"
    and col2: "collector_for sample_admin_env ?m c2 s2 = Inr EmptyCollector"
  from first_update_lost [OF col1 col2 singletonI sample_save [OF sample_manager_store], of Map.empty]
  obtain m1 d1 m2 d2 where
    "(update_step {sample_admin_env})\<^sup>*\<^sup>* (?m, Map.empty, [Prepared c1 s1, Prepared c2 s2], []) (m1, d1, [Prepared c2 s2], [])"
    "mgr_cfg m1 = installed c1 s1"
    "(update_step {sample_admin_env})\<^sup>*\<^sup>* (m1, d1, [Prepared c2 s2], []) (m2, d2, [], [])" "mgr_cfg m2 = installed c2 s2"
    by blast
  moreover have "registry (installed c1 s1) ''pve'' \<noteq> None"
    using p(2) by (simp add: registry_installed)
  moreover have "registry (installed c2 s2) ''pve'' = None"
    using p2(2) by (simp add: registry_def)
  ultimately show ?thesis using p(1) p2(1) two_begun [OF p(1) p2(1)] by metis
qed

section \<open>Overlapping saves\<close>

text \<open>
  The two files of a save are written one after the other: an update may write its configuration
  after that of another, and the other its secrets after those of the first.
\<close>

lemma crossed_saves:
  assumes "collector_for e m c1 s1 = Inr col1" and "collector_for e m c2 s2 = Inr col2" and "e \<in> E"
    and "saving_config e m c2 s2 d = (None, da)" and "saving_config e m c1 s1 da = (None, db)"
    and "saving_secrets e m s1 db = (None, dc)" and "saving_secrets e m s2 dc = (None, dd)"
  shows "\<exists>m'. (update_step E)\<^sup>*\<^sup>* (m, d, [Prepared c2 s2, Prepared c1 s1], []) (m', dd, [], []) \<and>
           mgr_cfg m' = installed c1 s1 \<and> mgr_secrets m' = s1 \<and> mgr_store m' = mgr_store m"
proof -
  let ?i1 = "installed c1 s1" and ?i2 = "installed c2 s2"
  let ?P1 = "Prepared c1 s1" and ?P2 = "Prepared c2 s2"
  let ?Q1 = "Config_Saved col1 ?i1 s1" and ?Q2 = "Config_Saved col2 ?i2 s2"
  let ?S1 = "Saved col1 ?i1 s1" and ?S2 = "Saved col2 ?i2 s2"
  have "update_step E (m, d, [?P2, ?P1], []) (m, da, [?Q2, ?P1], [])"
    using saves_config [of 0 "[?P2, ?P1]", OF _ _ assms(2,4,3)] by simp
  note run = r_into_rtranclp [of "update_step E", OF this]
  have "update_step E (m, da, [?Q2, ?P1], []) (m, db, [?Q2, ?Q1], [])"
    using saves_config [of 1 "[?Q2, ?P1]", OF _ _ assms(1,5,3)] by simp
  note run = one_more [OF run this]
  have "update_step E (m, db, [?Q2, ?Q1], []) (m, dc, [?Q2, ?S1], [])"
    using saves_secrets [of 1 "[?Q2, ?Q1]", OF _ _ assms(6,3)] by simp
  note run = one_more [OF run this]
  have "update_step E (m, dc, [?Q2, ?S1], []) (m, dd, [?S2, ?S1], [])"
    using saves_secrets [of 0 "[?Q2, ?S1]", OF _ _ assms(7,3)] by simp
  note saved = one_more [OF run this]
  obtain c where "(update_step E)\<^sup>*\<^sup>* (m, dd, [?S2, ?S1], [])
      (m\<lparr>mgr_cache := c\<rparr>\<lparr>mgr_cfg := ?i2, mgr_secrets := s2\<rparr>, dd, [?S1], [])"
    using installing_run by blast
  note second = rtranclp_trans [OF saved this]
  let ?m = "m\<lparr>mgr_cache := c\<rparr>\<lparr>mgr_cfg := ?i2, mgr_secrets := s2\<rparr>"
  obtain c' where "(update_step E)\<^sup>*\<^sup>* (?m, dd, [?S1], [])
      (?m\<lparr>mgr_cache := c'\<rparr>\<lparr>mgr_cfg := ?i1, mgr_secrets := s1\<rparr>, dd, [], [])"
    using installing_run by blast
  from rtranclp_trans [OF second this] show ?thesis by fastforce
qed

lemma sample_write:
  assumes "mgr_store m = sample_store" and "finite (dom d)"
  shows "saving_config sample_admin_env m cfg s d =
      (None, d(''/data/config.yaml'' \<mapsto>
        \<lparr>file_data = Inl (persisted (applyDefaults (ApplySecrets (applyDefaults cfg) s))), file_perm = 416\<rparr>))"
    and "saving_secrets sample_admin_env m s d =
      (None, d(''/data/secrets.yaml'' \<mapsto> \<lparr>file_data = Inr s, file_perm = 384\<rparr>))"
proof -
  have ok: "\<exists>d'. writeFileAtomic (\<lambda>_. None) long_temp path b perm d = (None, d')" if "path \<noteq> ''''"
    for path and b :: "config + secrets" and perm
    using that by (simp add: writeFileAtomic_def Let_def)
  have "writeFileAtomic (\<lambda>_. None) long_temp path b perm d =
      (None, d(path \<mapsto> \<lparr>file_data = b, file_perm = perm\<rparr>))" if "path \<noteq> ''''"
    for path and b :: "config + secrets" and perm
    using ok [OF that] write_ok_disk [OF long_temp_fresh assms(2)] by blast
  then show "saving_config sample_admin_env m cfg s d =
      (None, d(''/data/config.yaml'' \<mapsto>
        \<lparr>file_data = Inl (persisted (applyDefaults (ApplySecrets (applyDefaults cfg) s))), file_perm = 416\<rparr>))"
    and "saving_secrets sample_admin_env m s d =
      (None, d(''/data/secrets.yaml'' \<mapsto> \<lparr>file_data = Inr s, file_perm = 384\<rparr>))"
    by (simp_all add: saving_config_def saving_secrets_def save_config_def save_secrets_def assms(1)
        sample_admin_env_def plain_yaml_def sample_store_paths)
qed

lemma sample_load:
  "Load (\<lambda>_. None) plain_yaml
     [''/data/config.yaml'' \<mapsto> \<lparr>file_data = Inl (persisted c), file_perm = p\<rparr>,
      ''/data/secrets.yaml'' \<mapsto> \<lparr>file_data = Inr s, file_perm = q\<rparr>] sample_store
   = Inr (ApplySecrets (persisted (applyDefaults c)) s, s)"
  by (simp add: Load_def LoadConfig_def LoadSecrets_def readFile_def fileExists_def sample_store_paths
      plain_yaml_def persisted_defaults)

lemma apply_no_token: "sec_ProxmoxTokens s = Map.empty \<Longrightarrow> apply_token s p = p"
  by (simp add: apply_token_def trim_space_Nil)

lemma registry_without_tokens:
  assumes "sec_ProxmoxTokens s' = Map.empty" and "registry c x \<noteq> None"
  shows "\<exists>p. registry (ApplySecrets (persisted (applyDefaults (ApplySecrets c s))) s') x = Some p \<and>
           pve_TokenValue p = ''''"
  using assms(2)
  by (auto simp: registry_def ApplySecrets_Proxmox persisted_def applyDefaults_Proxmox apply_no_token [OF assms(1)]
      find_map_ids clear_host_token_def)

text \<open>
  C37: Overlapping saves can leave the disk with the configuration of one update and the secrets of
  the other: with a settings form and a new source in flight at once, no failure and no other update,
  both are saved and installed so that the manager ends with the source and its token, but a restart
  loads the source without its token, which is on the disk no more.
\<close>

theorem overlapping_saves_lose_token:
  "\<exists>c1 s1 c2 s2 m d cfg s p.
     prepare (PutSource sample_source) sample_manager = Inr (c1, s1) \<and>
     prepare (SetServer sample_settings) sample_manager = Inr (c2, s2) \<and>
     admin_run {sample_admin_env} (sample_manager, Map.empty, [], [])
       (sample_manager, Map.empty, [Prepared c2 s2, Prepared c1 s1], []) \<and>
     (update_step {sample_admin_env})\<^sup>*\<^sup>* (sample_manager, Map.empty, [Prepared c2 s2, Prepared c1 s1], [])
       (m, d, [], []) \<and>
     registry (mgr_cfg m) ''pve'' \<noteq> None \<and> sec_ProxmoxTokens (mgr_secrets m) ''pve'' = Some ''t'' \<and>
     Load (\<lambda>_. None) plain_yaml d (mgr_store m) = Inr (cfg, s) \<and>
     registry cfg ''pve'' = Some p \<and> pve_TokenValue p = '''' \<and> sec_ProxmoxTokens s ''pve'' = None"
proof (rule sample_updates)
  let ?m = sample_manager and ?e = sample_admin_env
  fix c1 s1 col1 c2 s2
  assume p1: "prepare (PutSource sample_source) ?m = Inr (c1, s1)" "registry c1 ''pve'' \<noteq> None"
      "sec_ProxmoxTokens s1 ''pve'' = Some ''t''"
    and col1: "collector_for ?e ?m c1 s1 = Inr col1"
    and p2: "prepare (SetServer sample_settings) ?m = Inr (c2, s2)" "cfg_Proxmox c2 = []"
      "sec_ProxmoxTokens s2 = Map.empty"
    and col2: "collector_for ?e ?m c2 s2 = Inr EmptyCollector"
  let ?c = "applyDefaults (ApplySecrets (applyDefaults c1) s1)"
  note written = sample_write [OF sample_manager_store]
  define d where "d = [''/data/config.yaml'' \<mapsto> \<lparr>file_data = Inl (persisted ?c), file_perm = 416\<rparr>,
      ''/data/secrets.yaml'' \<mapsto> \<lparr>file_data = (Inr s2 :: config + secrets), file_perm = 384\<rparr>]"
  have "\<exists>m'. (update_step {?e})\<^sup>*\<^sup>* (?m, Map.empty, [Prepared c2 s2, Prepared c1 s1], []) (m', d, [], []) \<and>
      mgr_cfg m' = installed c1 s1 \<and> mgr_secrets m' = s1 \<and> mgr_store m' = mgr_store ?m"
    by (rule crossed_saves [OF col1 col2 singletonI]; (rule written)?) (simp_all add: written d_def)
  then obtain m' where run: "(update_step {?e})\<^sup>*\<^sup>* (?m, Map.empty, [Prepared c2 s2, Prepared c1 s1], []) (m', d, [], [])"
    and m': "mgr_cfg m' = installed c1 s1" "mgr_secrets m' = s1" "mgr_store m' = sample_store"
    by auto
  have "registry (applyDefaults c1) ''pve'' \<noteq> None"
    using p1(2) by (simp add: registry_def applyDefaults_Proxmox find_map_ids default_tls_mode_def)
  then obtain p where p: "registry (ApplySecrets (persisted ?c) s2) ''pve'' = Some p" "pve_TokenValue p = ''''"
    using registry_without_tokens [OF p2(3)] by blast
  have "Load (\<lambda>_. None) plain_yaml d (mgr_store m') = Inr (ApplySecrets (persisted ?c) s2, s2)"
    by (simp add: d_def m'(3) sample_load)
  moreover have "registry (mgr_cfg m') ''pve'' \<noteq> None" using p1(2) by (simp add: m'(1) registry_installed)
  moreover have "sec_ProxmoxTokens (mgr_secrets m') ''pve'' = Some ''t''" "sec_ProxmoxTokens s2 ''pve'' = None"
    using p1(3) p2(3) by (simp_all add: m'(2))
  ultimately show ?thesis using p1(1) p2(1) two_begun [OF p2(1) p1(1)] run p by blast
qed

end
