(* ===== verification/Server.thy ===== *)
theory Server
  imports Admin_Runs
begin

text \<open>
  The HTTP server (\<open>internal/server/server.go\<close>): the routes, the two authentication gates, the
  display API, the admin pages and their redirects.  A request is what \<open>net/http\<close> hands a
  handler; a handler is a function from the server, the disk and the request to their new values
  and the response.  Arguments are \<open>url.Parse\<close> (its \<open>Host\<close>) and the text of an error; the HTML
  templates are represented by the data they are executed on.
\<close>

definition Version :: string where
  "Version = ''0.1.0''"

section \<open>Requests and responses\<close>

text \<open>
  \<open>req_Header\<close>, \<open>req_Query\<close>, \<open>req_FormValue\<close> and \<open>req_PostFormValue\<close> are the lookups of the
  same names, the empty string when absent; \<open>req_FormErr\<close> is the error of \<open>ParseForm\<close>.
\<close>

record request =
  req_Method :: string
  req_Path :: string
  req_Host :: string
  req_Header :: "string \<Rightarrow> string"
  req_Query :: "string \<Rightarrow> string"
  req_FormErr :: "string option"
  req_FormValue :: "string \<Rightarrow> string"
  req_PostFormValue :: "string \<Rightarrow> string"

record source_draft =
  draft_Editing :: bool
  draft_ID :: string
  draft_Name :: string
  draft_BaseURL :: string
  draft_TLSMode :: string
  draft_Fingerprint :: string
  draft_CAFile :: string
  draft_TokenHint :: string

type_synonym bridge_meta = "collect_failure cache_meta"

datatype body =
    StateJSON dstate
  | DetailJSON detailstate
  | HealthJSON bool
  | DebugJSON bool bridge_meta dstate
  | DebugErrorJSON string bridge_meta
  | ErrorJSON string
  | IndexPage bool dstate bridge_meta
  | AdminPage dstate bridge_meta admin_snapshot source_draft string string
  | TextBody string
  | NoBody

record response =
  res_Status :: int
  res_Body :: body
  res_Location :: string
  res_Challenge :: bool

definition writeJSON :: "int \<Rightarrow> body \<Rightarrow> response" where
  "writeJSON status b = \<lparr>res_Status = status, res_Body = b, res_Location = '''', res_Challenge = False\<rparr>"

definition html_page :: "body \<Rightarrow> response" where
  "html_page b = writeJSON 200 b"

definition notFound :: response where
  "notFound = writeJSON 404 (TextBody ''404 page not found'')"

definition methodNotAllowed :: response where
  "methodNotAllowed = writeJSON 405 (TextBody ''method not allowed'')"

definition seeOther :: "string \<Rightarrow> response" where
  "seeOther target = \<lparr>res_Status = 303, res_Body = NoBody, res_Location = target, res_Challenge = False\<rparr>"

text \<open>
  The server and its manager share one cache; \<open>sv_cache\<close> is the cache when there is no manager.
\<close>

record server =
  sv_cfg :: config
  sv_cache :: bridge_cache
  sv_admin :: "manager option"
  sv_mock :: bool

record 'd web_env =
  we_admin :: "'d admin_env"
  we_url_host :: "string \<Rightarrow> string option"
  we_err_text :: "admin_error \<Rightarrow> string"

type_synonym 'd handler =
  "'d web_env \<Rightarrow> request \<Rightarrow> server \<times> 'd filesystem \<Rightarrow> (server \<times> 'd filesystem) \<times> response"

definition shared_cache :: "server \<Rightarrow> bridge_cache" where
  "shared_cache s = (case sv_admin s of Some m \<Rightarrow> mgr_cache m | None \<Rightarrow> sv_cache s)"

definition currentConfig :: "server \<Rightarrow> config" where
  "currentConfig s = (case sv_admin s of Some m \<Rightarrow> Manager_Config m | None \<Rightarrow> sv_cfg s)"

text \<open>\<open>Error()\<close> of what \<open>Cache.State\<close> returns; a panic has no reader.\<close>

fun state_error_text :: "collect_failure state_error \<Rightarrow> string" where
  "state_error_text NoStateYet = ''no state collected yet''"
| "state_error_text (LastError GoroutinePanic) = ''''"

definition State :: "'d web_env \<Rightarrow> server \<Rightarrow> collect_failure state_error + dstate" where
  "State e s = CacheState (ae_now (we_admin e)) (shared_cache s)"

text \<open>\<open>state, _ := cache.State()\<close>: the zero state on an error.\<close>

definition state_or_zero :: "'d web_env \<Rightarrow> server \<Rightarrow> dstate" where
  "state_or_zero e s = (case State e s of Inl _ \<Rightarrow> dstate_zero | Inr st \<Rightarrow> st)"

section \<open>Encodings\<close>

text \<open>\<open>url.QueryEscape\<close> and \<open>url.Values.Encode\<close> for values set once per key.\<close>

definition query_char :: "char \<Rightarrow> bool" where
  "query_char c \<longleftrightarrow>
     is_digit c \<or> (CHR ''A'' \<le> c \<and> c \<le> CHR ''Z'') \<or> (CHR ''a'' \<le> c \<and> c \<le> CHR ''z'') \<or> c \<in> set ''-_.~''"

definition query_byte :: "char \<Rightarrow> string" where
  "query_byte c =
     (if query_char c then [c] else if c = CHR '' '' then ''+''
      else [CHR 0x25, ascii_upper (hex_digit (of_char c div 16)),
            ascii_upper (hex_digit (of_char c mod 16))])"

definition urlQuery :: "string \<Rightarrow> string" where
  "urlQuery v = concat (map query_byte v)"

definition encode_values :: "(string \<times> string) list \<Rightarrow> string" where
  "encode_values vs = join_with ''&'' (map (\<lambda>(k, v). urlQuery k @ ''='' @ urlQuery v) (sort_key fst vs))"

definition atoiDefault :: "string \<Rightarrow> int \<Rightarrow> int" where
  "atoiDefault v fallback = (case atoi (trim_space v) of Some n \<Rightarrow> n | None \<Rightarrow> fallback)"

definition base64_value :: "char \<Rightarrow> nat option" where
  "base64_value c =
     (if CHR ''A'' \<le> c \<and> c \<le> CHR ''Z'' then Some (of_char c - 65)
      else if CHR ''a'' \<le> c \<and> c \<le> CHR ''z'' then Some (of_char c - 71)
      else if is_digit c then Some (of_char c + 4)
      else if c = CHR ''+'' then Some 62
      else if c = CHR ''/'' then Some 63
      else None)"

text \<open>
  \<open>base64.StdEncoding\<close>: groups of four, padding only at the end, spare bits of the last group
  ignored; line breaks have been dropped before.
\<close>

fun base64_groups :: "string \<Rightarrow> string option" where
  "base64_groups [] = Some []"
| "base64_groups (a # b # c # d # rest) =
     (case (base64_value a, base64_value b) of
        (Some va, Some vb) \<Rightarrow>
          (if rest = [] \<and> c = CHR ''='' \<and> d = CHR ''='' then Some [char_of (va * 4 + vb div 16)]
           else case base64_value c of
                  None \<Rightarrow> None
                | Some vc \<Rightarrow>
                    (let start = [char_of (va * 4 + vb div 16), char_of (vb mod 16 * 16 + vc div 4)]
                     in if rest = [] \<and> d = CHR ''='' then Some start
                        else case (base64_value d, base64_groups rest) of
                               (Some vd, Some tail) \<Rightarrow> Some (start @ char_of (vc mod 4 * 64 + vd) # tail)
                             | _ \<Rightarrow> None))
      | _ \<Rightarrow> None)"
| "base64_groups _ = None"

definition base64_decode :: "string \<Rightarrow> string option" where
  "base64_decode s = base64_groups (filter (\<lambda>c. c \<noteq> CHR 0x0A \<and> c \<noteq> CHR 0x0D) s)"

text \<open>\<open>r.BasicAuth()\<close>: the scheme in any case, then user and password split at the first colon.\<close>

definition BasicAuth :: "request \<Rightarrow> (string \<times> string) option" where
  "BasicAuth r =
     (let auth = req_Header r ''Authorization''
      in if map ascii_lower (take 6 auth) \<noteq> ''basic '' then None
         else case base64_decode (drop 6 auth) of
                None \<Rightarrow> None
              | Some cs \<Rightarrow> cut_char (CHR '':'') cs)"

section \<open>The gates\<close>

definition tokenEqual :: "string \<Rightarrow> string \<Rightarrow> bool" where
  "tokenEqual got want = (if got = '''' \<or> want = '''' then False else got = want)"

definition originMatchesHost :: "(string \<Rightarrow> string option) \<Rightarrow> string \<Rightarrow> string \<Rightarrow> bool" where
  "originMatchesHost url_host rawURL host =
     (case url_host rawURL of None \<Rightarrow> False | Some h \<Rightarrow> equal_fold h host)"

definition sameOrigin :: "(string \<Rightarrow> string option) \<Rightarrow> request \<Rightarrow> bool" where
  "sameOrigin url_host r =
     (if req_Header r ''Origin'' \<noteq> '''' then originMatchesHost url_host (req_Header r ''Origin'') (req_Host r)
      else if req_Header r ''Referer'' \<noteq> '''' then originMatchesHost url_host (req_Header r ''Referer'') (req_Host r)
      else True)"

definition bearer_ok :: "request \<Rightarrow> string \<Rightarrow> bool" where
  "bearer_ok r token \<longleftrightarrow>
     has_prefix (req_Header r ''Authorization'') ''Bearer '' \<and>
     tokenEqual (trim_prefix (req_Header r ''Authorization'') ''Bearer '') token"

definition auth :: "'d handler \<Rightarrow> 'd handler" where
  "auth next_handler e r sd =
     (let token = DisplayToken (ae_getenv (we_admin e)) (cfg_Server (currentConfig (fst sd)))
      in if sv_mock (fst sd) \<and> token = '''' then next_handler e r sd
         else if \<not> bearer_ok r token then (sd, writeJSON 401 (ErrorJSON ''unauthorized''))
         else next_handler e r sd)"

definition adminAuth :: "'d handler \<Rightarrow> 'd handler" where
  "adminAuth next_handler e r sd =
     (if req_Method r = ''POST'' \<and> \<not> sameOrigin (we_url_host e) r
      then (sd, writeJSON 403 (ErrorJSON ''cross-origin admin post rejected''))
      else
      (let token = AdminToken (ae_getenv (we_admin e)) (cfg_Server (currentConfig (fst sd)))
       in if token = '''' then next_handler e r sd
          else if bearer_ok r token then next_handler e r sd
          else
          (case BasicAuth r of
             Some (user, pass) \<Rightarrow>
               if user = ''admin'' \<and> tokenEqual pass token then next_handler e r sd
               else (sd, (writeJSON 401 (ErrorJSON ''admin authentication required''))\<lparr>res_Challenge := True\<rparr>)
           | None \<Rightarrow> (sd, (writeJSON 401 (ErrorJSON ''admin authentication required''))\<lparr>res_Challenge := True\<rparr>))))"

section \<open>The display API\<close>

definition healthz :: "'d handler" where
  "healthz e r sd = (sd, writeJSON 200 (HealthJSON (sv_mock (fst sd))))"

definition displayState :: "'d handler" where
  "displayState e r sd = (sd,
     (case State e (fst sd) of
        Inl err \<Rightarrow> writeJSON 503 (ErrorJSON (state_error_text err))
      | Inr state \<Rightarrow> writeJSON 200 (StateJSON (CompactForDisplay state))))"

definition detailState :: "'d handler" where
  "detailState e r sd = (sd,
     (case State e (fst sd) of
        Inl err \<Rightarrow> writeJSON 503 (ErrorJSON (state_error_text err))
      | Inr state \<Rightarrow> writeJSON 200 (DetailJSON (DetailForDisplay state))))"

definition fullState :: "'d handler" where
  "fullState e r sd = (sd,
     (case State e (fst sd) of
        Inl err \<Rightarrow> writeJSON 503 (ErrorJSON (state_error_text err))
      | Inr state \<Rightarrow> writeJSON 200 (StateJSON state)))"

definition debug :: "'d handler" where
  "debug e r sd = (sd,
     (case State e (fst sd) of
        Inl err \<Rightarrow> writeJSON 503 (DebugErrorJSON (state_error_text err) (Metadata (shared_cache (fst sd))))
      | Inr state \<Rightarrow> writeJSON 200 (DebugJSON (sv_mock (fst sd)) (Metadata (shared_cache (fst sd))) state)))"

definition index :: "'d handler" where
  "index e r sd =
     (sd, html_page (IndexPage (sv_mock (fst sd)) (state_or_zero e (fst sd)) (Metadata (shared_cache (fst sd)))))"

section \<open>The admin pages\<close>

definition configstoreID :: "string \<Rightarrow> string" where
  "configstoreID v = replace_all (to_lower (trim_space v)) ''_'' ''-''"

definition edit_draft :: "source_snapshot \<Rightarrow> source_draft \<Rightarrow> source_draft" where
  "edit_draft src draft = draft
     \<lparr>draft_Editing := True, draft_ID := ss_ID src, draft_Name := ss_Name src, draft_BaseURL := ss_BaseURL src,
      draft_TLSMode := ss_TLSMode src, draft_Fingerprint := ss_Fingerprint src, draft_CAFile := ss_CAFile src,
      draft_TokenHint := ''saved, leave blank to keep''\<rparr>"

definition sourceDraftFromRequest :: "request \<Rightarrow> admin_snapshot \<Rightarrow> source_draft" where
  "sourceDraftFromRequest r snap =
     (let draft = \<lparr>draft_Editing = False, draft_ID = req_Query r ''id'', draft_Name = req_Query r ''name'',
                   draft_BaseURL = req_Query r ''base_url'', draft_TLSMode = req_Query r ''tls_mode'',
                   draft_Fingerprint = req_Query r ''fingerprint'', draft_CAFile = req_Query r ''ca_file'',
                   draft_TokenHint = ''required for new source''\<rparr>;
          draft = (if draft_TLSMode draft = '''' then draft\<lparr>draft_TLSMode := ''fingerprint''\<rparr> else draft);
          editID = configstoreID (req_Query r ''edit'');
          draft = (if editID \<noteq> ''''
                   then case List.find (\<lambda>src. ss_ID src = editID) (snap_Sources snap) of
                          Some src \<Rightarrow> edit_draft src draft | None \<Rightarrow> draft
                   else draft)
      in if draft_ID draft \<noteq> '''' \<and> draft_TokenHint draft = ''required for new source'' \<and>
            list_ex (\<lambda>src. ss_ID src = draft_ID draft \<and> ss_TokenSet src) (snap_Sources snap)
         then draft\<lparr>draft_TokenHint := ''saved, leave blank to keep''\<rparr> else draft)"

text \<open>The errors of the two redirects are the texts \<open>err.Error()\<close>.\<close>

definition redirectAdmin :: "string \<Rightarrow> string option \<Rightarrow> response" where
  "redirectAdmin message err =
     seeOther (''/admin'' @
       (case err of
          Some x \<Rightarrow> ''?error='' @ urlQuery x
        | None \<Rightarrow> if message \<noteq> '''' then ''?message='' @ urlQuery message else ''''))"

definition redirectAdminWithDraft :: "request \<Rightarrow> string \<Rightarrow> string option \<Rightarrow> string \<Rightarrow> response" where
  "redirectAdminWithDraft r message err fingerprint =
     (let vals = concat (map (\<lambda>key. let v = trim_space (req_PostFormValue r key)
                                    in if v \<noteq> '''' then [(key, v)] else [])
                   [''id'', ''name'', ''base_url'', ''tls_mode'', ''ca_file'']);
          fingerprint = (if fingerprint = '''' then trim_space (req_PostFormValue r ''fingerprint'') else fingerprint);
          vals = (if fingerprint \<noteq> '''' then vals @ [(''fingerprint'', fingerprint)] else vals);
          vals = (case err of
                    Some x \<Rightarrow> vals @ [(''error'', x)]
                  | None \<Rightarrow> if message \<noteq> '''' then vals @ [(''message'', message)] else vals);
          encoded = encode_values vals
      in seeOther (''/admin'' @ (if encoded \<noteq> '''' then ''?'' @ encoded else '''')))"

definition sourceUpdateFromForm :: "request \<Rightarrow> source_update" where
  "sourceUpdateFromForm r =
     \<lparr>up_ID = req_PostFormValue r ''id'', up_Name = req_PostFormValue r ''name'',
      up_BaseURL = req_PostFormValue r ''base_url'', up_Token = req_PostFormValue r ''token'',
      up_TLSMode = req_PostFormValue r ''tls_mode'', up_Fingerprint = req_PostFormValue r ''fingerprint'',
      up_CAFile = req_PostFormValue r ''ca_file''\<rparr>"

definition serverUpdateFromForm :: "request \<Rightarrow> server_update" where
  "serverUpdateFromForm r =
     \<lparr>su_PollIntervalSeconds = atoiDefault (req_FormValue r ''poll_interval_seconds'') 10,
      su_StaleAfterSeconds = atoiDefault (req_FormValue r ''stale_after_seconds'') 45,
      su_DisplayToken = req_FormValue r ''display_token'',
      su_AdminToken = req_FormValue r ''admin_token'',
      su_MemoryWarningPct = atoiDefault (req_FormValue r ''memory_warning_pct'') 85,
      su_MemoryCriticalPct = atoiDefault (req_FormValue r ''memory_critical_pct'') 95,
      su_StorageWarningPct = atoiDefault (req_FormValue r ''storage_warning_pct'') 80,
      su_StorageCriticalPct = atoiDefault (req_FormValue r ''storage_critical_pct'') 90\<rparr>"

definition adminIndex :: "'d handler" where
  "adminIndex e r sd =
     (case sv_admin (fst sd) of
        None \<Rightarrow> (sd, notFound)
      | Some m \<Rightarrow>
          (let snap = Snapshot (ae_getenv (we_admin e)) m
           in (sd, html_page (AdminPage (state_or_zero e (fst sd)) (Metadata (shared_cache (fst sd))) snap
                     (sourceDraftFromRequest r snap) (req_Query r ''message'') (req_Query r ''error'')))))"

text \<open>
  The opening of every handler of a form: 404 without a manager, 405 for a method other than POST,
  a redirect with the error when the form does not parse.
\<close>

definition posted ::
    "request \<Rightarrow> server \<times> 'd filesystem \<Rightarrow> (manager \<Rightarrow> (server \<times> 'd filesystem) \<times> response) \<Rightarrow>
     (server \<times> 'd filesystem) \<times> response" where
  "posted r sd act =
     (case sv_admin (fst sd) of
        None \<Rightarrow> (sd, notFound)
      | Some m \<Rightarrow>
          if req_Method r \<noteq> ''POST'' then (sd, methodNotAllowed)
          else case req_FormErr r of
                 Some err \<Rightarrow> (sd, redirectAdmin '''' (Some err))
               | None \<Rightarrow> act m)"

text \<open>The manager is shared by reference: what an operation leaves is what the server goes on with.\<close>

definition finish_update ::
    "'d web_env \<Rightarrow> string \<Rightarrow> server \<Rightarrow> (manager \<times> 'd filesystem) \<times> admin_error option \<Rightarrow>
     (server \<times> 'd filesystem) \<times> response" where
  "finish_update e message s result =
     (case result of
        ((m, d), err) \<Rightarrow>
          ((s\<lparr>sv_admin := Some m\<rparr>, d), redirectAdmin message (map_option (we_err_text e) err)))"

definition adminSettings :: "'d handler" where
  "adminSettings e r sd = posted r sd
     (\<lambda>m. finish_update e ''settings saved'' (fst sd)
            (UpdateServer (we_admin e) (serverUpdateFromForm r) (m, snd sd)))"

definition adminProxmox :: "'d handler" where
  "adminProxmox e r sd = posted r sd
     (\<lambda>m. finish_update e ''source saved'' (fst sd)
            (UpsertSource (we_admin e) (sourceUpdateFromForm r) (m, snd sd)))"

definition adminTestProxmox :: "'d handler" where
  "adminTestProxmox e r sd = posted r sd
     (\<lambda>m. (sd,
        (case TestSource (we_admin e) (sourceUpdateFromForm r) m of
           Inl err \<Rightarrow> redirectAdminWithDraft r '''' (Some (we_err_text e err)) ''''
         | Inr result \<Rightarrow>
             (let message = diag_Message result;
                  message = (if diag_Fingerprint result \<noteq> ''''
                             then message @ '' '' @ [CHR 0xC2, CHR 0xB7] @ '' '' @ diag_Fingerprint result
                             else message)
              in redirectAdminWithDraft r message None (diag_Fingerprint result)))))"

definition adminDetectFingerprint :: "'d handler" where
  "adminDetectFingerprint e r sd = posted r sd
     (\<lambda>m. (sd,
        (case Manager_DetectFingerprint (we_admin e) (req_PostFormValue r ''base_url'') of
           Inl err \<Rightarrow> redirectAdminWithDraft r ''fingerprint detected'' (Some (we_err_text e err)) ''''
         | Inr fingerprint \<Rightarrow> redirectAdminWithDraft r ''fingerprint detected'' None fingerprint)))"

definition adminDeleteProxmox :: "'d handler" where
  "adminDeleteProxmox e r sd = posted r sd
     (\<lambda>m. finish_update e ''source deleted'' (fst sd)
            (DeleteSource (we_admin e) (req_PostFormValue r ''id'') (m, snd sd)))"

definition adminRefresh :: "'d handler" where
  "adminRefresh e r sd =
     (case sv_admin (fst sd) of
        None \<Rightarrow> (sd, notFound)
      | Some m \<Rightarrow>
          if req_Method r \<noteq> ''POST'' then (sd, methodNotAllowed)
          else case Manager_Refresh (we_admin e) m of
                 (m, err) \<Rightarrow> (((fst sd)\<lparr>sv_admin := Some m\<rparr>, snd sd),
                              redirectAdmin ''refresh requested'' (map_option (we_err_text e) err)))"

section \<open>The routes\<close>

text \<open>
  The patterns of the multiplexer: all are exact but \<open>/\<close>, which takes every other path.  (The
  multiplexer first redirects a path that is not clean to its clean form.)
\<close>

datatype guard = Open | Auth | AdminAuth

datatype endpoint =
    Index | AdminIndex | AdminSettings | AdminProxmox | AdminTestProxmox | AdminDetectFingerprint
  | AdminDeleteProxmox | AdminRefresh | Healthz | DisplayState | DetailState | FullState | Debug

definition route :: "string \<Rightarrow> guard \<times> endpoint" where
  "route path =
     (if path = ''/admin'' then (AdminAuth, AdminIndex)
      else if path = ''/admin/settings'' then (AdminAuth, AdminSettings)
      else if path = ''/admin/proxmox'' then (AdminAuth, AdminProxmox)
      else if path = ''/admin/proxmox/test'' then (AdminAuth, AdminTestProxmox)
      else if path = ''/admin/proxmox/fingerprint'' then (AdminAuth, AdminDetectFingerprint)
      else if path = ''/admin/proxmox/delete'' then (AdminAuth, AdminDeleteProxmox)
      else if path = ''/admin/refresh'' then (AdminAuth, AdminRefresh)
      else if path = ''/healthz'' then (Open, Healthz)
      else if path = ''/api/v1/display-state'' then (Auth, DisplayState)
      else if path = ''/api/v1/detail-state'' then (Auth, DetailState)
      else if path = ''/api/v1/full-state'' then (Auth, FullState)
      else if path = ''/api/v1/debug'' then (Auth, Debug)
      else (Open, Index))"

fun guarded :: "guard \<Rightarrow> 'd handler \<Rightarrow> 'd handler" where
  "guarded Open h = h"
| "guarded Auth h = auth h"
| "guarded AdminAuth h = adminAuth h"

fun handler_of :: "endpoint \<Rightarrow> 'd handler" where
  "handler_of Index = index"
| "handler_of AdminIndex = adminIndex"
| "handler_of AdminSettings = adminSettings"
| "handler_of AdminProxmox = adminProxmox"
| "handler_of AdminTestProxmox = adminTestProxmox"
| "handler_of AdminDetectFingerprint = adminDetectFingerprint"
| "handler_of AdminDeleteProxmox = adminDeleteProxmox"
| "handler_of AdminRefresh = adminRefresh"
| "handler_of Healthz = healthz"
| "handler_of DisplayState = displayState"
| "handler_of DetailState = detailState"
| "handler_of FullState = fullState"
| "handler_of Debug = debug"

definition routes :: "string \<Rightarrow> 'd handler" where
  "routes path = guarded (fst (route path)) (handler_of (snd (route path)))"

lemma routes_cases:
  "routes path =
     (if path = ''/admin'' then adminAuth adminIndex
      else if path = ''/admin/settings'' then adminAuth adminSettings
      else if path = ''/admin/proxmox'' then adminAuth adminProxmox
      else if path = ''/admin/proxmox/test'' then adminAuth adminTestProxmox
      else if path = ''/admin/proxmox/fingerprint'' then adminAuth adminDetectFingerprint
      else if path = ''/admin/proxmox/delete'' then adminAuth adminDeleteProxmox
      else if path = ''/admin/refresh'' then adminAuth adminRefresh
      else if path = ''/healthz'' then healthz
      else if path = ''/api/v1/display-state'' then auth displayState
      else if path = ''/api/v1/detail-state'' then auth detailState
      else if path = ''/api/v1/full-state'' then auth fullState
      else if path = ''/api/v1/debug'' then auth debug
      else index)"
  by (simp add: routes_def route_def)

definition ServeHTTP :: "'d handler" where
  "ServeHTTP e r sd = routes (req_Path r) e r sd"

definition NewServer :: "config \<Rightarrow> bridge_cache \<Rightarrow> bool \<Rightarrow> manager option \<Rightarrow> server" where
  "NewServer cfg c mock admin = \<lparr>sv_cfg = cfg, sv_cache = c, sv_admin = admin, sv_mock = mock\<rparr>"

section \<open>The gates, abstractly\<close>

text \<open>Who is let through: the holder of the token; nobody needs one in mock mode or before setup.\<close>

definition display_admits :: "'d web_env \<Rightarrow> request \<Rightarrow> server \<Rightarrow> bool" where
  "display_admits e r s \<longleftrightarrow>
     (let token = DisplayToken (ae_getenv (we_admin e)) (cfg_Server (currentConfig s))
      in if token = '''' then sv_mock s else req_Header r ''Authorization'' = ''Bearer '' @ token)"

definition admin_admits :: "'d web_env \<Rightarrow> request \<Rightarrow> server \<Rightarrow> bool" where
  "admin_admits e r s \<longleftrightarrow>
     (req_Method r = ''POST'' \<longrightarrow> sameOrigin (we_url_host e) r) \<and>
     (let token = AdminToken (ae_getenv (we_admin e)) (cfg_Server (currentConfig s))
      in token = '''' \<or> req_Header r ''Authorization'' = ''Bearer '' @ token \<or>
         BasicAuth r = Some (''admin'', token))"

lemma bearer_ok_iff:
  "bearer_ok r token \<longleftrightarrow> token \<noteq> '''' \<and> req_Header r ''Authorization'' = ''Bearer '' @ token"
proof -
  have "has_prefix h p \<and> drop (length p) h = t \<longleftrightarrow> h = p @ t" for h p t :: string
    unfolding has_prefix_def by (metis append_eq_conv_conj)
  from this [of "req_Header r ''Authorization''" "''Bearer ''" token] show ?thesis
    by (auto simp: bearer_ok_def tokenEqual_def trim_prefix_def)
qed

text \<open>
  What every gate promises: an admitted request runs the handler, a refused one changes nothing
  and learns nothing but that it was refused.
\<close>

locale gate =
  fixes guard :: "'d handler \<Rightarrow> 'd handler"
    and admits :: "'d web_env \<Rightarrow> request \<Rightarrow> server \<Rightarrow> bool"
  assumes admitted: "admits e r (fst sd) \<Longrightarrow> guard h e r sd = h e r sd"
    and refused: "\<not> admits e r (fst sd) \<Longrightarrow>
      \<exists>resp. guard h e r sd = (sd, resp) \<and> res_Status resp \<in> {401, 403} \<and> (\<exists>msg. res_Body resp = ErrorJSON msg)"
begin

lemma guard_cases:
  obtains (through) "admits e r (fst sd)" and "guard h e r sd = h e r sd"
    | (stopped) msg resp where "\<not> admits e r (fst sd)" and "guard h e r sd = (sd, resp)"
        and "res_Status resp \<in> {401, 403}" and "res_Body resp = ErrorJSON msg"
  using admitted refused by blast

lemma change_is_admitted: "fst (guard h e r sd) \<noteq> sd \<Longrightarrow> admits e r (fst sd) \<and> fst (h e r sd) \<noteq> sd"
  by (rule guard_cases [of e r sd h]) auto

lemma preserves: "P sd \<Longrightarrow> (P sd \<Longrightarrow> P (fst (h e r sd))) \<Longrightarrow> P (fst (guard h e r sd))"
  by (rule guard_cases [of e r sd h]) auto

lemma guard_body:
  "Q (snd (h e r sd)) \<Longrightarrow> (\<And>resp msg. res_Body resp = ErrorJSON msg \<Longrightarrow> Q resp) \<Longrightarrow> Q (snd (guard h e r sd))"
  by (rule guard_cases [of e r sd h]) auto

end

interpretation display_gate: gate auth display_admits
proof
  fix e :: "'d web_env" and r sd h
  show "display_admits e r (fst sd) \<Longrightarrow> auth h e r sd = h e r sd"
    by (auto simp: display_admits_def auth_def bearer_ok_iff Let_def split: if_splits)
  show "\<not> display_admits e r (fst sd) \<Longrightarrow>
      \<exists>resp. auth h e r sd = (sd, resp) \<and> res_Status resp \<in> {401, 403} \<and> (\<exists>msg. res_Body resp = ErrorJSON msg)"
    by (auto simp: display_admits_def auth_def bearer_ok_iff Let_def writeJSON_def split: if_splits)
qed

interpretation admin_gate: gate adminAuth admin_admits
proof
  fix e :: "'d web_env" and r sd h
  show "admin_admits e r (fst sd) \<Longrightarrow> adminAuth h e r sd = h e r sd"
    by (auto simp: admin_admits_def adminAuth_def bearer_ok_iff tokenEqual_def Let_def
        split: option.split)
  show "\<not> admin_admits e r (fst sd) \<Longrightarrow>
      \<exists>resp. adminAuth h e r sd = (sd, resp) \<and> res_Status resp \<in> {401, 403} \<and> (\<exists>msg. res_Body resp = ErrorJSON msg)"
    by (auto simp: admin_admits_def adminAuth_def bearer_ok_iff tokenEqual_def Let_def writeJSON_def
        split: option.splits if_splits)
qed

section \<open>What a request can do\<close>

definition api_paths :: "string list" where
  "api_paths = [''/api/v1/display-state'', ''/api/v1/detail-state'', ''/api/v1/full-state'', ''/api/v1/debug'']"

definition change_paths :: "string list" where
  "change_paths = [''/admin/settings'', ''/admin/proxmox'', ''/admin/proxmox/delete'', ''/admin/refresh'']"

text \<open>The handlers that only read leave the server and the disk alone.\<close>

lemma read_only [simp]:
  "fst (healthz e r sd) = sd" "fst (displayState e r sd) = sd" "fst (detailState e r sd) = sd"
  "fst (fullState e r sd) = sd" "fst (debug e r sd) = sd" "fst (index e r sd) = sd"
  "fst (adminIndex e r sd) = sd" "fst (adminTestProxmox e r sd) = sd"
  "fst (adminDetectFingerprint e r sd) = sd"
  by (simp_all add: healthz_def displayState_def detailState_def fullState_def debug_def index_def
      adminIndex_def adminTestProxmox_def adminDetectFingerprint_def posted_def Let_def
      split: option.split)

lemma gated_read_only [simp]:
  assumes "fst (h e r sd) = sd"
  shows "fst (auth h e r sd) = sd" and "fst (adminAuth h e r sd) = sd"
  using display_gate.change_is_admitted [of h e r sd] admin_gate.change_is_admitted [of h e r sd] assms
  by blast+

lemma posted_change: "fst (posted r sd act) \<noteq> sd \<Longrightarrow> req_Method r = ''POST''"
  by (auto simp: posted_def split: option.splits if_splits)

lemma update_change:
  "fst (adminSettings e r sd) \<noteq> sd \<Longrightarrow> req_Method r = ''POST''"
  "fst (adminProxmox e r sd) \<noteq> sd \<Longrightarrow> req_Method r = ''POST''"
  "fst (adminDeleteProxmox e r sd) \<noteq> sd \<Longrightarrow> req_Method r = ''POST''"
  "fst (adminRefresh e r sd) \<noteq> sd \<Longrightarrow> req_Method r = ''POST''"
  unfolding adminSettings_def adminProxmox_def adminDeleteProxmox_def
  by (blast dest: posted_change)+ (auto simp: adminRefresh_def split: option.splits if_splits)

lemma routes_change:
  assumes "fst (ServeHTTP e r sd) \<noteq> sd"
  shows "req_Path r \<in> set change_paths \<and> req_Method r = ''POST'' \<and> admin_admits e r (fst sd)"
proof -
  have "req_Path r = ''/admin/settings'' \<and> fst (adminAuth adminSettings e r sd) \<noteq> sd \<or>
        req_Path r = ''/admin/proxmox'' \<and> fst (adminAuth adminProxmox e r sd) \<noteq> sd \<or>
        req_Path r = ''/admin/proxmox/delete'' \<and> fst (adminAuth adminDeleteProxmox e r sd) \<noteq> sd \<or>
        req_Path r = ''/admin/refresh'' \<and> fst (adminAuth adminRefresh e r sd) \<noteq> sd"
    using assms unfolding ServeHTTP_def routes_cases by (simp split: if_splits)
  moreover have "req_Method r = ''POST'' \<and> admin_admits e r (fst sd)"
    if "fst (adminAuth h e r sd) \<noteq> sd" and "fst (h e r sd) \<noteq> sd \<Longrightarrow> req_Method r = ''POST''" for h
    using admin_gate.change_is_admitted [OF that(1)] that(2) by blast
  note this [OF _ update_change(1)] this [OF _ update_change(2)] this [OF _ update_change(3)]
    this [OF _ update_change(4)]
  ultimately show ?thesis by (elim disjE conjE) (simp_all add: change_paths_def)
qed

text \<open>A form that does not parse changes nothing.\<close>

lemma bad_form_keeps:
  assumes "req_FormErr r \<noteq> None" and "req_Path r \<noteq> ''/admin/refresh''"
  shows "fst (ServeHTTP e r sd) = sd"
proof -
  have "fst (posted r sd act) = sd" for act
    using assms(1) by (auto simp: posted_def split: option.split)
  then have "fst (adminSettings e r sd) = sd" "fst (adminProxmox e r sd) = sd" "fst (adminDeleteProxmox e r sd) = sd"
    by (simp_all add: adminSettings_def adminProxmox_def adminDeleteProxmox_def)
  then show ?thesis using assms(2) by (simp add: ServeHTTP_def routes_cases)
qed

text \<open>What a route of the display API answers.\<close>

lemma api_answer:
  assumes "req_Path r \<in> set api_paths"
  shows "fst (ServeHTTP e r (s, d)) = (s, d) \<and>
         res_Status (snd (ServeHTTP e r (s, d))) =
           (if \<not> display_admits e r s then 401 else if cache_hasState (shared_cache s) then 200 else 503) \<and>
         (\<not> display_admits e r s \<longrightarrow> res_Body (snd (ServeHTTP e r (s, d))) = ErrorJSON ''unauthorized'')"
proof -
  have "snd (auth h e r (s, d)) = writeJSON 401 (ErrorJSON ''unauthorized'')" if "\<not> display_admits e r s" for h
    using that by (auto simp: display_admits_def auth_def bearer_ok_iff Let_def split: if_splits)
  moreover have "snd (auth h e r (s, d)) = snd (h e r (s, d))" if "display_admits e r s" for h
    using display_gate.admitted [of e r "(s, d)" h] that by simp
  moreover have "res_Status (snd (h e r (s, d))) = (if cache_hasState (shared_cache s) then 200 else 503)"
    if "h \<in> {displayState, detailState, fullState, debug}" for h :: "'a handler"
    using that by (auto simp: displayState_def detailState_def fullState_def debug_def writeJSON_def State_def
        CacheState_def Let_def split: option.split)
  moreover have "fst (ServeHTTP e r (s, d)) = (s, d)"
    using assms by (auto simp: ServeHTTP_def routes_cases api_paths_def)
  moreover have "\<exists>h\<in>{displayState, detailState, fullState, debug}. ServeHTTP e r (s, d) = auth h e r (s, d)"
    using assms unfolding api_paths_def ServeHTTP_def routes_cases by (simp, elim disjE) simp_all
  then obtain h where h: "h \<in> {displayState, detailState, fullState, debug}"
    and "ServeHTTP e r (s, d) = auth h e r (s, d)" by blast
  ultimately show ?thesis
    by (cases "display_admits e r s")
      (simp_all only: h writeJSON_def response.select_convs if_True if_False simp_thms True_implies_equals)
qed

section \<open>Properties\<close>

text \<open>
  C11: The display API is closed to strangers: without the exact bearer token (outside mock mode
  without a token) each of its routes answers 401 with nothing but an error, with it 200, or 503
  while there is no state; no request to it changes anything.
\<close>

theorem display_api_gate:
  assumes "req_Path r \<in> set api_paths"
  shows "fst (ServeHTTP e r (s, d)) = (s, d) \<and>
         res_Status (snd (ServeHTTP e r (s, d))) =
           (if \<not> display_admits e r s then 401 else if cache_hasState (shared_cache s) then 200 else 503) \<and>
         (\<not> display_admits e r s \<longrightarrow> res_Body (snd (ServeHTTP e r (s, d))) = ErrorJSON ''unauthorized'')"
  using assms by (rule api_answer)

definition sample_request :: "string \<Rightarrow> string \<Rightarrow> string \<Rightarrow> request" where
  "sample_request method path token =
     \<lparr>req_Method = method, req_Path = path, req_Host = ''bridge:8765'',
      req_Header = (\<lambda>h. if h = ''Authorization'' \<and> token \<noteq> '''' then ''Bearer '' @ token else ''''),
      req_Query = \<lambda>_. '''', req_FormErr = None, req_FormValue = \<lambda>_. '''', req_PostFormValue = \<lambda>_. ''''\<rparr>"

definition sample_web_env :: "(config + secrets) web_env" where
  "sample_web_env = \<lparr>we_admin = sample_admin_env, we_url_host = \<lambda>_. None, we_err_text = \<lambda>_. ''failed''\<rparr>"

definition sample_server :: server where
  "sample_server = NewServer NewDefault (NewCache EmptyCollector 10 45) False (Some sample_manager)"

lemma sample_tokens:
  "DisplayToken (ae_getenv (we_admin sample_web_env)) (cfg_Server (currentConfig sample_server)) = ''secret''"
  "AdminToken (ae_getenv (we_admin sample_web_env)) (cfg_Server (currentConfig sample_server)) = ''secret''"
  by (simp_all add: sample_web_env_def sample_admin_env_def sample_server_def NewServer_def currentConfig_def
      sample_manager_def NewManager_def NewDefault_def applyDefaults_def config_zero_def DisplayToken_def
      AdminToken_def)

lemma display_api_gate_witness:
  "res_Status (snd (ServeHTTP sample_web_env (sample_request ''GET'' ''/api/v1/full-state'' ''guess'')
     (sample_server, Map.empty))) = 401"
proof -
  have "\<not> display_admits sample_web_env (sample_request ''GET'' ''/api/v1/full-state'' ''guess'') sample_server"
    by (simp add: display_admits_def sample_tokens sample_request_def)
  then show ?thesis
    using display_api_gate [of "sample_request ''GET'' ''/api/v1/full-state'' ''guess''" sample_web_env
        sample_server Map.empty] by (simp add: sample_request_def api_paths_def)
qed

text \<open>
  C1: Only an authorised POST of the same origin changes anything: if a request to any route leaves
  the server or the disk different, it is a POST to one of the four admin forms that change the
  bridge, its origin (or referer), if it names one, is the host, and it carries the admin token, or
  no admin token exists yet.
\<close>

theorem only_authorised_posts_change:
  assumes "fst (ServeHTTP e r (s, d)) \<noteq> (s, d)"
  shows "req_Path r \<in> set change_paths \<and> req_Method r = ''POST'' \<and> sameOrigin (we_url_host e) r \<and>
         (let token = AdminToken (ae_getenv (we_admin e)) (cfg_Server (currentConfig s))
          in token = '''' \<or> req_Header r ''Authorization'' = ''Bearer '' @ token \<or>
             BasicAuth r = Some (''admin'', token))"
  using routes_change [OF assms] by (simp add: admin_admits_def)

lemma sample_refresh:
  "fst (ServeHTTP sample_web_env (sample_request ''POST'' ''/admin/refresh'' ''secret'') (sample_server, Map.empty))
     \<noteq> (sample_server, Map.empty)"
proof -
  let ?r = "sample_request ''POST'' ''/admin/refresh'' ''secret''"
  have "admin_admits sample_web_env ?r sample_server"
    by (simp add: admin_admits_def sample_tokens sample_request_def sameOrigin_def)
  then have "ServeHTTP sample_web_env ?r (sample_server, Map.empty)
      = adminRefresh sample_web_env ?r (sample_server, Map.empty)"
    using admin_gate.admitted [of sample_web_env ?r "(sample_server, Map.empty)" adminRefresh]
    by (simp add: ServeHTTP_def routes_cases sample_request_def)
  moreover have "cache_hasState (mgr_cache (fst (Manager_Refresh sample_admin_env sample_manager)))"
    by (simp add: Manager_Refresh_def Refresh_def refresh_end_def sample_manager_def NewManager_def NewCache_def
        collect_any_def empty_collect_def)
  moreover have "\<not> cache_hasState (mgr_cache sample_manager)"
    by (simp add: sample_manager_def NewManager_def NewCache_def)
  ultimately show ?thesis
    by (auto simp: adminRefresh_def sample_server_def NewServer_def sample_request_def sample_web_env_def
        split: prod.split)
qed

lemma only_authorised_posts_change_witness:
  "sameOrigin (we_url_host sample_web_env) (sample_request ''POST'' ''/admin/refresh'' ''secret'')"
  using only_authorised_posts_change [OF sample_refresh] by blast

text \<open>
  C22: An admitted form runs its operation once and reports it truly: the server goes on with the
  manager and the disk the operation leaves, and redirects to the admin page with the message of
  success exactly if it returned no error, else with the escaped text of the error.
\<close>

theorem admin_form_runs_update:
  assumes "sv_admin s = Some m" and "req_Method r = ''POST''" and "req_FormErr r = None"
    and "admin_admits e r s"
    and "(req_Path r, a, msg) \<in>
           {(''/admin/settings'', SetServer (serverUpdateFromForm r), ''settings saved''),
            (''/admin/proxmox'', PutSource (sourceUpdateFromForm r), ''source saved''),
            (''/admin/proxmox/delete'', DropSource (req_PostFormValue r ''id''), ''source deleted'')}"
    and "run_admin (we_admin e) a (m, d) = ((m', d'), err)"
  shows "ServeHTTP e r (s, d) =
           ((s\<lparr>sv_admin := Some m'\<rparr>, d'),
            seeOther (case err of None \<Rightarrow> ''/admin?message='' @ urlQuery msg
                              | Some x \<Rightarrow> ''/admin?error='' @ urlQuery (we_err_text e x)))"
proof -
  have through: "adminAuth h e r (s, d) = h e r (s, d)" for h
    using admin_gate.admitted [of e r "(s, d)" h] assms(4) by simp
  have redirect: "redirectAdmin m (map_option (we_err_text e) err) =
      seeOther (case err of None \<Rightarrow> ''/admin?message='' @ urlQuery m
                        | Some x \<Rightarrow> ''/admin?error='' @ urlQuery (we_err_text e x))" if "m \<noteq> ''''" for m
    using that by (simp add: redirectAdmin_def split: option.split)
  show ?thesis
    using assms(1-3,5,6)
    by (auto simp: ServeHTTP_def routes_cases through adminSettings_def adminProxmox_def adminDeleteProxmox_def
        posted_def finish_update_def run_admin_def redirect)
qed

lemma admin_form_runs_update_witness:
  "snd (ServeHTTP sample_web_env (sample_request ''POST'' ''/admin/proxmox/delete'' ''secret'')
     (sample_server, Map.empty)) = seeOther ''/admin?error=failed''"
proof -
  let ?r = "sample_request ''POST'' ''/admin/proxmox/delete'' ''secret''"
  have "admin_admits sample_web_env ?r sample_server"
    by (simp add: admin_admits_def sample_tokens sample_request_def sameOrigin_def)
  moreover have "SanitizeID '''' = ''''" by code_simp
  then have "run_admin (we_admin sample_web_env) (DropSource '''') (sample_manager, Map.empty)
      = ((sample_manager, Map.empty), Some SourceIDRequired)"
    by (simp add: run_admin_def admin_op_defs)
  moreover have "urlQuery ''failed'' = ''failed''" by code_simp
  ultimately show ?thesis
    using admin_form_runs_update [of sample_server sample_manager ?r sample_web_env "DropSource ''''" "''source deleted''"
        Map.empty sample_manager Map.empty "Some SourceIDRequired"]
    by (simp add: sample_server_def NewServer_def sample_request_def sample_web_env_def)
qed

end
