(* ===== verification/Main_Program.thy ===== *)
theory Main_Program
  imports Server
begin

text \<open>
  \<open>main\<close> (\<open>cmd/proxmox-desk-display/main.go\<close>): the flags as package \<open>flag\<close> parses them, the choice
  of the configuration, what is loaded or replaced in mock mode, the first refresh, and the exit code.
  What is logged is left out.
\<close>

definition bool_text :: "bool \<Rightarrow> string" where
  "bool_text b = (if b then ''true'' else ''false'')"

section \<open>Flags\<close>

record flags =
  fl_config :: string
  fl_dataDir :: string
  fl_mock :: bool
  fl_version :: bool

definition default_flags :: flags where
  "default_flags = \<lparr>fl_config = '''', fl_dataDir = ''/data'', fl_mock = False, fl_version = False\<rparr>"

text \<open>
  How \<open>flag\<close> reads one argument: the flags end at an argument without a dash and at \<open>--\<close>; a name
  may not be empty or begin with a dash or an equals sign; what follows the first equals sign is the value.
\<close>

datatype flag_reading = NoFlag | BadFlag | NamedFlag string "string option"

definition flag_arg :: "string \<Rightarrow> flag_reading" where
  "flag_arg s =
     (if length s < 2 \<or> hd s \<noteq> CHR ''-'' \<or> s = ''--'' then NoFlag
      else let name = (if s ! 1 = CHR ''-'' then drop 2 s else drop 1 s)
           in if name = '''' \<or> hd name = CHR ''-'' \<or> hd name = CHR ''='' then BadFlag
              else case cut_char (CHR ''='') name of
                     None \<Rightarrow> NamedFlag name None
                   | Some (k, v) \<Rightarrow> NamedFlag k (Some v))"

definition ParseBool :: "string \<Rightarrow> bool option" where
  "ParseBool s =
     (if s \<in> set [''1'', ''t'', ''T'', ''true'', ''TRUE'', ''True''] then Some True
      else if s \<in> set [''0'', ''f'', ''F'', ''false'', ''FALSE'', ''False''] then Some False
      else None)"

definition bool_flag :: "string \<Rightarrow> (bool \<Rightarrow> flags \<Rightarrow> flags) option" where
  "bool_flag name =
     (if name = ''mock'' then Some (\<lambda>b fl. fl\<lparr>fl_mock := b\<rparr>)
      else if name = ''version'' then Some (\<lambda>b fl. fl\<lparr>fl_version := b\<rparr>)
      else None)"

definition string_flag :: "string \<Rightarrow> (string \<Rightarrow> flags \<Rightarrow> flags) option" where
  "string_flag name =
     (if name = ''config'' then Some (\<lambda>v fl. fl\<lparr>fl_config := v\<rparr>)
      else if name = ''data-dir'' then Some (\<lambda>v fl. fl\<lparr>fl_dataDir := v\<rparr>)
      else None)"

text \<open>
  \<open>flag.Parse\<close>: the flags, or the code it exits with, 0 after the help, 2 after an error.  A boolean
  flag takes a value only after an equals sign, a string flag takes the next argument otherwise.
\<close>

fun parse_flags :: "string list \<Rightarrow> flags \<Rightarrow> nat + flags" where
  "parse_flags [] fl = Inr fl"
| "parse_flags (arg # args) fl =
     (case flag_arg arg of
        NoFlag \<Rightarrow> Inr fl
      | BadFlag \<Rightarrow> Inl 2
      | NamedFlag name v \<Rightarrow>
          (case bool_flag name of
             Some put \<Rightarrow>
               (case v of
                  None \<Rightarrow> parse_flags args (put True fl)
                | Some x \<Rightarrow> (case ParseBool x of None \<Rightarrow> Inl 2 | Some b \<Rightarrow> parse_flags args (put b fl)))
           | None \<Rightarrow>
               (case string_flag name of
                  Some put \<Rightarrow>
                    (case (v, args) of
                       (Some x, _) \<Rightarrow> parse_flags args (put x fl)
                     | (None, x # rest) \<Rightarrow> parse_flags rest (put x fl)
                     | (None, []) \<Rightarrow> Inl 2)
                | None \<Rightarrow> if name = ''help'' \<or> name = ''h'' then Inl 0 else Inl 2)))"

section \<open>The program\<close>

text \<open>How \<open>main\<close> ends: it printed a line, exited with a code, or listens on an address.\<close>

datatype outcome = Printed string | Exited nat | Listening string server

definition config_path :: "(os_call \<Rightarrow> string option) \<Rightarrow> 'd filesystem \<Rightarrow> flags \<Rightarrow> string" where
  "config_path fault d fl =
     (if fl_config fl = '''' \<and> fault (Stat ''config.yaml'') = None \<and> d ''config.yaml'' \<noteq> None
      then ''config.yaml'' else fl_config fl)"

text \<open>Load, or fail unless mocking, where the zero values go on; mock mode has its own configuration.\<close>

definition main_config :: "'d admin_env \<Rightarrow> store \<Rightarrow> bool \<Rightarrow> 'd filesystem \<Rightarrow> (config \<times> secrets) option" where
  "main_config e st mock d =
     (case Load (ae_fault e) (ae_yaml e) d st of
        Inl err \<Rightarrow> if mock then Some (MockConfig, secrets_zero) else None
      | Inr (cfg, s) \<Rightarrow> Some (if mock then MockConfig else cfg, s))"

text \<open>
  The collector of the configuration, or the setup collector when it is not ready; a cache, a manager
  and a first refresh, then the server.
\<close>

definition startup :: "'d admin_env \<Rightarrow> store \<Rightarrow> bool \<Rightarrow> 'd filesystem \<Rightarrow> server option" where
  "startup e st mock d =
     (case main_config e st mock d of
        None \<Rightarrow> None
      | Some (cfg, secrets) \<Rightarrow>
          (let col = (case CollectorForConfig (ae_getenv e) (make_client e) cfg mock of
                        Inl _ \<Rightarrow> EmptyCollector | Inr c \<Rightarrow> c);
               c = NewCache col (PollInterval (cfg_Server cfg)) (StaleAfter (cfg_Server cfg));
               c = fst (Refresh collect_any (ae_world e) (ae_now e) c)
           in Some (NewServer cfg c mock (Some (NewManager cfg secrets st c mock)))))"

definition bridge_main :: "'d admin_env \<Rightarrow> string list \<Rightarrow> 'd filesystem \<Rightarrow> outcome" where
  "bridge_main e args d =
     (case parse_flags args default_flags of
        Inl code \<Rightarrow> Exited code
      | Inr fl \<Rightarrow>
          if fl_version fl then Printed Version
          else (case startup e (NewStore (fl_dataDir fl) (config_path (ae_fault e) d fl)) (fl_mock fl) d of
                  None \<Rightarrow> Exited 1
                | Some s \<Rightarrow> Listening (Addr (cfg_Server (sv_cfg s))) s))"

text \<open>
  Then \<open>main\<close> waits: a signal shuts the server down, and \<open>ListenAndServe\<close> always returns an error,
  \<open>ErrServerClosed\<close> or the one that stopped it.
\<close>

datatype stop = Signalled | ServerClosed | ListenFailed string

fun exit_code :: "stop \<Rightarrow> nat" where
  "exit_code Signalled = 0"
| "exit_code ServerClosed = 0"
| "exit_code (ListenFailed err) = 1"

text \<open>The exit status of the process, however its listener ends if it comes to listen.\<close>

fun exit_status :: "outcome \<Rightarrow> stop \<Rightarrow> nat" where
  "exit_status (Printed line) how = 0"
| "exit_status (Exited code) how = code"
| "exit_status (Listening addr s) how = exit_code how"

section \<open>Starting up\<close>

text \<open>The server as \<open>startup\<close> leaves it, and when there is none.\<close>

lemma startup_None: "startup e st mock d = None \<longleftrightarrow> \<not> mock \<and> (\<exists>err. Load (ae_fault e) (ae_yaml e) d st = Inl err)"
  by (auto simp: startup_def main_config_def Let_def split: sum.split)



lemma refresh_fills:
  assumes "bounded_world w"
  shows "cache_hasState (fst (Refresh collect_any w now c))"
  using collect_any_total [OF assms, of "cache_collector c"] by (auto simp: Refresh_def refresh_end_def)

lemma Refresh_collector [simp]: "cache_collector (fst (Refresh collect w now c)) = cache_collector c"
  by (simp add: Refresh_def refresh_end_def split: sum.split)

lemma started_manager:
  assumes "startup e st mock d = Some s" and "bounded_world (ae_world e)"
  obtains m where "sv_admin s = Some m" and "main_config e st mock d = Some (mgr_cfg m, mgr_secrets m)"
    and "mgr_store m = st" and "sv_cfg s = mgr_cfg m" and "sv_mock s = mock" and "cache_hasState (mgr_cache m)"
    and "cache_collector (mgr_cache m) =
      (if mock then MockCollector
       else case CollectorForConfig (ae_getenv e) (make_client e) (mgr_cfg m) False of
              Inl _ \<Rightarrow> EmptyCollector | Inr c \<Rightarrow> c)"
proof -
  obtain cfg secrets where c: "main_config e st mock d = Some (cfg, secrets)"
    using assms(1) by (auto simp: startup_def split: option.splits)
  let ?col = "case CollectorForConfig (ae_getenv e) (make_client e) cfg mock of Inl _ \<Rightarrow> EmptyCollector | Inr c \<Rightarrow> c"
  let ?c = "fst (Refresh collect_any (ae_world e) (ae_now e)
      (NewCache ?col (PollInterval (cfg_Server cfg)) (StaleAfter (cfg_Server cfg))))"
  have "s = NewServer cfg ?c mock (Some (NewManager cfg secrets st ?c mock))"
    using assms(1) c by (simp add: startup_def Let_def)
  moreover have "?col = (if mock then MockCollector
      else case CollectorForConfig (ae_getenv e) (make_client e) cfg False of Inl _ \<Rightarrow> EmptyCollector | Inr c \<Rightarrow> c)"
    by (simp add: CollectorForConfig_def)
  moreover have "cache_hasState ?c" by (rule refresh_fills [OF assms(2)])
  moreover have "cache_collector ?c = ?col" unfolding Refresh_collector by (simp add: NewCache_def)
  ultimately show thesis
    using that [of "NewManager cfg secrets st ?c mock"] c by (simp add: NewServer_def NewManager_def)
qed

lemma mock_sources: "cfg_Proxmox MockConfig = []"
  by (simp add: MockConfig_def config_zero_def)

lemma settings_keep_sources:
  assumes "prepare (SetServer i) m = Inr (cfg, s)" and "cfg_Proxmox (mgr_cfg m) = []"
  shows "cfg_Proxmox (installed cfg s) = []"
  using assms by (auto simp: prepare_def admin_op_defs Let_def ApplySecrets_Proxmox split: if_splits)

section \<open>Properties\<close>

lemma parse_flags_code: "parse_flags args fl = Inl code \<Longrightarrow> code = 0 \<or> code = 2"
  by (induction args fl rule: parse_flags.induct)
    (auto split: flag_reading.splits option.splits list.splits if_splits)

lemma listens:
  assumes "parse_flags args default_flags = Inr fl" and "\<not> fl_version fl" and "bounded_world (ae_world e)"
    and "st = NewStore (fl_dataDir fl) (config_path (ae_fault e) d fl)"
    and loaded: "\<not> (\<not> fl_mock fl \<and> (\<exists>err. Load (ae_fault e) (ae_yaml e) d st = Inl err))"
  shows "\<exists>s m. bridge_main e args d = Listening (Addr (cfg_Server (mgr_cfg m))) s \<and> sv_admin s = Some m \<and>
           cache_hasState (mgr_cache m) \<and>
           cache_collector (mgr_cache m) =
             (if fl_mock fl then MockCollector
              else case CollectorForConfig (ae_getenv e) (make_client e) (mgr_cfg m) False of
                     Inl _ \<Rightarrow> EmptyCollector | Inr c \<Rightarrow> c) \<and>
           (if fl_mock fl then mgr_cfg m = MockConfig
            else Load (ae_fault e) (ae_yaml e) d st = Inr (mgr_cfg m, mgr_secrets m))"
proof -
  obtain s where Some: "startup e st (fl_mock fl) d = Some s"
    using loaded startup_None [of e st "fl_mock fl" d] by auto
  from started_manager [OF Some assms(3)] obtain m where m: "sv_admin s = Some m"
    "main_config e st (fl_mock fl) d = Some (mgr_cfg m, mgr_secrets m)" "sv_cfg s = mgr_cfg m"
    "cache_hasState (mgr_cache m)"
    "cache_collector (mgr_cache m) = (if fl_mock fl then MockCollector
       else case CollectorForConfig (ae_getenv e) (make_client e) (mgr_cfg m) False of
              Inl _ \<Rightarrow> EmptyCollector | Inr c \<Rightarrow> c)" by blast
  have "bridge_main e args d = Listening (Addr (cfg_Server (mgr_cfg m))) s"
    using assms(1,2,4) Some m(3) by (simp add: bridge_main_def)
  moreover have "if fl_mock fl then mgr_cfg m = MockConfig
      else Load (ae_fault e) (ae_yaml e) d st = Inr (mgr_cfg m, mgr_secrets m)"
    using m(2) by (auto simp: main_config_def split: sum.splits if_splits)
  ultimately show ?thesis using m by blast
qed



text \<open>
  The flags are read back whatever the values contain (dashes, equals signs, blanks or nothing):
  a string flag in either form and a boolean flag with or without value give the flags they were
  written for, and what follows \<open>--\<close> is left alone.
\<close>

theorem flags_read_back:
  "parse_flags ([''-config'', fl_config fl, ''--data-dir='' @ fl_dataDir fl,
                 if fl_mock fl then ''-mock'' else ''--mock=false'', ''-version='' @ bool_text (fl_version fl), ''--''] @ rest) fl0
     = Inr fl"
proof -
  have args: "flag_arg ''-config'' = NamedFlag ''config'' None" "flag_arg ''-mock'' = NamedFlag ''mock'' None"
    "flag_arg ''--mock=false'' = NamedFlag ''mock'' (Some ''false'')"
    "flag_arg (''--data-dir='' @ v) = NamedFlag ''data-dir'' (Some v)"
    "flag_arg (''-version='' @ v) = NamedFlag ''version'' (Some v)" "flag_arg ''--'' = NoFlag" for v
    by (simp_all add: flag_arg_def cut_char_def)
  show ?thesis
    using args(4) args(5) by (simp add: args(1,2,3,6) bool_flag_def string_flag_def bool_text_def ParseBool_def)
qed

text \<open>
  C38: Saving the settings in mock mode erases every configured source: mock mode runs on a
  configuration of its own, and the admin page writes it to the file the real one was loaded from.
\<close>

theorem mock_save_drops_sources:
  assumes "startup e st True d = Some s" and "sv_admin s = Some m"
    and "yaml_roundtrip (ae_yaml e)" and "fresh_temp (ae_mktemp e)" and "finite (dom d)"
    and "store_ConfigPath st \<noteq> store_SecretsPath st" and "\<forall>call. readfault call = None"
    and "run_admin e (SetServer i) (m, d) = ((m', d'), None)"
  shows "\<exists>cfg. Load readfault (ae_yaml e) d' st = Inr cfg \<and> cfg_Proxmox (fst cfg) = []"
proof -
  have m: "mgr_store m = st" "cfg_Proxmox (mgr_cfg m) = []"
    using assms(1,2) by (auto simp: startup_def main_config_def NewServer_def NewManager_def Let_def
        mock_sources split: sum.splits)
  obtain cfg s where p: "prepare (SetServer i) m = Inr (cfg, s)"
    using assms(8) by (cases "prepare (SetServer i) m") (auto simp: run_admin_prepare then_apply_def)
  then have a: "apply_config e cfg s (m, d) = ((m', d'), None)"
    using assms(8) by (simp add: run_admin_prepare then_apply_def)
  then have m': "mgr_cfg m' = installed cfg s" "mgr_store m' = st"
    by (rule apply_config_cases; simp add: m)+
  have "Load readfault (ae_yaml e) d' st = Inr (ApplySecrets (mgr_cfg m') (mgr_secrets m'), mgr_secrets m')"
    using any_update.restarts_as_it_runs [OF assms(3,4,5) _ assms(7,8)] assms(6) m(1) m'(2) by simp
  then show ?thesis using settings_keep_sources [OF p m(2)] m'(1) by (simp add: ApplySecrets_Proxmox)
qed

definition sample_disk :: "(config + secrets) filesystem" where
  "sample_disk = [store_ConfigPath sample_store \<mapsto>
     \<lparr>file_data = Inl (NewDefault
        \<lparr>cfg_Proxmox := [\<lparr>pve_ID = ''pve'', pve_Name = ''pve'', pve_BaseURL = ''https://pve:8006'', pve_TokenEnv = '''',
           pve_TokenValue = '''', pve_TLS = \<lparr>tls_Mode = ''system'', tls_Fingerprint = '''', tls_CAFile = ''''\<rparr>\<rparr>]\<rparr>),
      file_perm = 416\<rparr>]"

lemma sample_disk_loads:
  "\<exists>cfg. Load (\<lambda>_. None) plain_yaml sample_disk sample_store = Inr cfg \<and> cfg_Proxmox (fst cfg) \<noteq> []"
  by (simp add: Load_def LoadConfig_def LoadSecrets_def readFile_def fileExists_def sample_disk_def
      plain_yaml_def sample_store_paths ApplySecrets_Proxmox applyDefaults_Proxmox)

lemma sample_mock_settings:
  assumes "mgr_store m = sample_store" and "mgr_mock m"
  shows "\<exists>m' d'. run_admin sample_admin_env (SetServer sample_settings) (m, d) = ((m', d'), None)"
proof -
  obtain cfg s where "prepare (SetServer sample_settings) m = Inr (cfg, s)"
    by (simp add: prepare_def admin_op_defs Let_def sample_settings_def)
  then have run: "run_admin sample_admin_env (SetServer sample_settings) (m, d) = apply_config sample_admin_env cfg s (m, d)"
    by (simp add: run_admin_prepare then_apply_def)
  have col: "collector_for sample_admin_env m cfg s = Inr MockCollector"
    using assms(2) by (simp add: collector_for_def CollectorForConfig_def)
  obtain c where "refreshing sample_admin_env MockCollector (installed cfg s) (mgr_cache m) = (c, None)"
    unfolding refreshing_def using refresh_succeeds [OF sample_bounded] by (metis prod.collapse)
  then show ?thesis by (simp add: run apply_config_eq col sample_save [OF assms(1)])
qed

lemma mock_save_drops_sources_witness:
  "\<exists>d' cfg cfg'. Load (\<lambda>_. None) plain_yaml sample_disk sample_store = Inr cfg \<and> cfg_Proxmox (fst cfg) \<noteq> [] \<and>
     Load (\<lambda>_. None) plain_yaml d' sample_store = Inr cfg' \<and> cfg_Proxmox (fst cfg') = []"
proof -
  let ?e = sample_admin_env
  have e: "ae_yaml ?e = plain_yaml" "ae_mktemp ?e = long_temp" by (simp_all add: sample_admin_env_def)
  obtain s where s: "startup ?e sample_store True sample_disk = Some s"
    using startup_None [of ?e sample_store True sample_disk] by auto
  from started_manager [OF s sample_bounded] obtain m where m: "sv_admin s = Some m" "mgr_store m = sample_store"
    by blast
  have "mgr_mock m" using s m(1) by (auto simp: startup_def NewServer_def NewManager_def Let_def split: option.splits)
  from sample_mock_settings [OF m(2) this] obtain m' d' where
    "run_admin ?e (SetServer sample_settings) (m, sample_disk) = ((m', d'), None)" by blast
  from mock_save_drops_sources [OF s m(1) _ _ _ _ _ this, where readfault = "\<lambda>_. None"]
  show ?thesis using sample_disk_loads
    by (auto simp: e plain_yaml_roundtrip long_temp_fresh sample_store_paths sample_disk_def)
qed

end
