(* ===== verification/Web_Runs.thy ===== *)
theory Web_Runs
  imports Main_Program
begin

text \<open>
  The server as it really runs: \<open>net/http\<close> gives every request a goroutine of its own.  A request
  arrives at its handler if the guard on its route (\<open>routes\<close>, \<open>adminAuth\<close>, \<open>auth\<close>) lets it through under
  the configuration of that moment; a form begins its update later, and the updates then go on as in
  \<open>Admin_Runs\<close>, interleaved with one another and with the refreshes of the background loop.  Requests
  that only read change nothing and may be answered at every moment.
\<close>

section \<open>Steps\<close>

text \<open>
  The update a form asks for, by the endpoint the multiplexer finds for its path; the handlers refuse
  a method other than POST and a form that does not parse.
\<close>

definition form_update :: "request \<Rightarrow> admin_op option" where
  "form_update r =
     (if req_Method r \<noteq> ''POST'' \<or> req_FormErr r \<noteq> None then None
      else case snd (route (req_Path r)) of
             AdminSettings \<Rightarrow> Some (SetServer (serverUpdateFromForm r))
           | AdminProxmox \<Rightarrow> Some (PutSource (sourceUpdateFromForm r))
           | AdminDeleteProxmox \<Rightarrow> Some (DropSource (req_PostFormValue r ''id''))
           | _ \<Rightarrow> None)"

definition asks_refresh :: "request \<Rightarrow> bool" where
  "asks_refresh r \<longleftrightarrow> req_Method r = ''POST'' \<and> snd (route (req_Path r)) = AdminRefresh"

definition at_manager :: "server \<Rightarrow> manager \<Rightarrow> server" where
  "at_manager s m = s\<lparr>sv_admin := Some m\<rparr>"

text \<open>
  A request arrives at its handler if the guard mounted on its route runs what is behind it: here a
  handler that answers with a status no guard uses.
\<close>

definition reached :: "'d handler" where
  "reached e r sd = (sd, writeJSON 0 NoBody)"

definition arrives :: "'d web_env \<Rightarrow> request \<Rightarrow> server \<Rightarrow> bool" where
  "arrives e r s \<longleftrightarrow> res_Status (snd (guarded (fst (route (req_Path r))) reached e r (s, Map.empty))) = 0"

text \<open>
  The bridge, the requests at their handlers that have not begun, and the requests that have arrived
  so far in order (a record of the past no step reads).
\<close>

type_synonym 'd web_state = "'d bridge_run \<times> request list \<times> request list"

text \<open>
  \<open>e\<close> is the environment of the process at its guards, \<open>s\<close> the server as \<open>main\<close> has made it, \<open>E\<close> the
  environments of later moments.
\<close>

inductive web_step :: "'d admin_env set \<Rightarrow> 'd web_env \<Rightarrow> server \<Rightarrow> 'd web_state \<Rightarrow> 'd web_state \<Rightarrow> bool"
  for E :: "'d admin_env set" and e :: "'d web_env" and s :: server where
  admits: "arrives e r (at_manager s m) \<Longrightarrow>
    web_step E e s ((m, d, ps, rs), qs, h) ((m, d, ps, rs), qs @ [r], h @ [r])"
| update_begins: "i < length qs \<Longrightarrow> form_update (qs ! i) = Some a \<Longrightarrow> prepare a m = Inr (cfg, sec) \<Longrightarrow>
    web_step E e s ((m, d, ps, rs), qs, h) ((m, d, ps @ [Prepared cfg sec], rs), remove_at i qs, h)"
| changes_nothing: "i < length qs \<Longrightarrow>
    \<not> asks_refresh (qs ! i) \<and> form_update (qs ! i) = None \<or>
      (\<exists>a err. form_update (qs ! i) = Some a \<and> prepare a m = Inl err) \<Longrightarrow>
    web_step E e s ((m, d, ps, rs), qs, h) ((m, d, ps, rs), remove_at i qs, h)"
| refresh_begins: "i < length qs \<Longrightarrow> asks_refresh (qs ! i) \<Longrightarrow>
    web_step E e s ((m, d, ps, rs), qs, h)
      ((m, d, ps, rs @ [cache_collector (mgr_cache m)]), remove_at i qs, h)"
| bridge_goes_on: "update_step E x y \<Longrightarrow> web_step E e s (x, qs, h) (y, qs, h)"

inductive web_run :: "'d admin_env set \<Rightarrow> 'd web_env \<Rightarrow> server \<Rightarrow> 'd web_state \<Rightarrow> 'd web_state \<Rightarrow> bool"
  for E :: "'d admin_env set" and e :: "'d web_env" and s :: server where
  web_refl: "web_run E e s x x"
| web_more: "web_run E e s x y \<Longrightarrow> web_step E e s y z \<Longrightarrow> web_run E e s x z"

text \<open>Behind the routes that change the bridge is the guard of the admin pages.\<close>

lemma change_route:
  "snd (route p) \<in> {AdminSettings, AdminProxmox, AdminDeleteProxmox, AdminRefresh} \<longleftrightarrow> p \<in> set change_paths"
  "p \<in> set change_paths \<Longrightarrow> fst (route p) = AdminAuth"
  by (auto simp: route_def change_paths_def split: if_splits)

lemma form_path: "form_update r = Some a \<or> asks_refresh r \<Longrightarrow> req_Path r \<in> set change_paths \<and> req_Method r = ''POST''"
  unfolding change_route(1) [symmetric]
  by (auto simp: form_update_def asks_refresh_def split: if_splits endpoint.splits)

lemma arrives_admin: "fst (route (req_Path r)) = AdminAuth \<Longrightarrow> arrives e r s \<longleftrightarrow> admin_admits e r s"
  using admin_gate.admitted [of e r "(s, Map.empty)" reached] admin_gate.refused [of e r "(s, Map.empty)" reached]
  by (cases "admin_admits e r s") (auto simp: arrives_def reached_def writeJSON_def)

lemma web_trans: "web_run E e s y z \<Longrightarrow> web_run E e s x y \<Longrightarrow> web_run E e s x z"
  by (induction rule: web_run.induct) (blast intro: web_more)+

section \<open>What runs keep\<close>

context cache_kept
begin

lemma web_step_keeps: "web_step E e s x y \<Longrightarrow> P (mgr_cache (fst (fst x))) \<Longrightarrow> P (mgr_cache (fst (fst y)))"
  by (induction rule: web_step.induct) (simp_all add: update_keeps)

lemma web_run_keeps: "web_run E e s x y \<Longrightarrow> P (mgr_cache (fst (fst x))) \<Longrightarrow> P (mgr_cache (fst (fst y)))"
  by (induction rule: web_run.induct) (simp_all add: web_step_keeps)

end

context cache_invariant
begin

lemma startup_holds:
  assumes "startup e st mock d = Some s" and "proper_world (ae_world e)" and "sv_admin s = Some m"
  shows "P (mgr_cache m)"
proof -
  have "P (fst (Refresh collect_any (ae_world e) (ae_now e) (NewCache col poll stale)))" for col poll stale
    using refreshed [OF assms(2) fresh] by (simp add: Refresh_def)
  then show ?thesis
    using assms(1,3) by (auto simp: startup_def NewServer_def NewManager_def Let_def split: option.splits)
qed

lemma web_run_holds:
  assumes "startup e st mock d = Some s" and "proper_world (ae_world e)" and "sv_admin s = Some m"
    and "web_run E e' s ((m, d', [], []), [], []) x"
  shows "P (mgr_cache (fst (fst x)))"
  using web_run_keeps [OF assms(4)] startup_holds [OF assms(1-3)] by simp

end

section \<open>One request after the other\<close>

text \<open>The handlers of \<open>Server\<close>, taken without interruption, are runs of these steps.\<close>

lemma updates_in_web: "(update_step E)\<^sup>*\<^sup>* x y \<Longrightarrow> web_run E e s (x, qs, h) (y, qs, h)"
  by (induction rule: rtranclp_induct) (auto intro: web_refl web_more bridge_goes_on)

text \<open>Two moments of one process differ in the disk's faults and the sources' answers only.\<close>

definition same_process :: "'d web_env \<Rightarrow> 'd web_env \<Rightarrow> bool" where
  "same_process e e' \<longleftrightarrow>
     ae_getenv (we_admin e') = ae_getenv (we_admin e) \<and> we_url_host e' = we_url_host e"

lemma admits_same_process: "same_process e e' \<Longrightarrow> admin_admits e' r s = admin_admits e r s"
  by (simp add: same_process_def admin_admits_def)

lemma form_route:
  assumes "form_update r = Some a" and "admin_admits e r s"
  obtains msg where "ServeHTTP e r (s, d) =
    posted r (s, d) (\<lambda>m. finish_update e msg s (run_admin (we_admin e) a (m, d)))"
proof -
  have through: "adminAuth h e r (s, d) = h e r (s, d)" for h
    using admin_gate.admitted [of e r "(s, d)" h] assms(2) by simp
  show thesis
    using assms(1) that
    by (auto simp: form_update_def ServeHTTP_def routes_def route_def through adminSettings_def adminProxmox_def
        adminDeleteProxmox_def run_admin_def split: if_splits)
qed

lemma form_cases:
  assumes "req_Path r \<in> set change_paths" and "req_Method r = ''POST''"
    and "req_FormErr r \<noteq> None \<Longrightarrow> req_Path r = ''/admin/refresh''"
  shows "(\<exists>a. form_update r = Some a) \<or> asks_refresh r"
  using assms by (cases "req_FormErr r") (auto simp: change_paths_def form_update_def asks_refresh_def route_def)

lemma update_form_run:
  assumes "form_update r = Some a" and "prepare a m = Inr (cfg, sec)"
    and "run_admin e' a (m, d) = ((m', d'), err)" and "e' \<in> E" and "proper_world (ae_world e')"
  shows "web_run E e s ((m, d, [], []), [r], h) ((m', d', [], []), [], h)"
proof -
  have "web_step E e s ((m, d, [], []), [r], h) ((m, d, [Prepared cfg sec], []), [], h)"
    using update_begins [of 0 "[r]" a m cfg sec E e s d "[]" "[]" h] assms(1,2) by (simp add: remove_at_def)
  moreover have "apply_config e' cfg sec (m, d) = ((m', d'), err)"
    using assms(2,3) by (simp add: run_admin_prepare then_apply_def)
  note updates_in_web [OF apply_config_run [OF this assms(4,5)], of e s "[]" h]
  ultimately show ?thesis using web_trans web_more [OF web_refl] by blast
qed

section \<open>Where the running configuration comes from\<close>

text \<open>
  The configurations the forms \<open>h\<close> can make of \<open>x\<close>, each out of one made before.
\<close>

inductive made_from :: "request list \<Rightarrow> config \<times> secrets \<Rightarrow> config \<times> secrets \<Rightarrow> bool"
  for h :: "request list" and x :: "config \<times> secrets" where
  as_before: "made_from h x x"
| by_form: "made_from h x (mgr_cfg m, mgr_secrets m) \<Longrightarrow> r \<in> set h \<Longrightarrow> form_update r = Some a \<Longrightarrow>
    prepare a m = Inr (cfg, sec) \<Longrightarrow> made_from h x (installed cfg sec, sec)"

lemma made_from_mono: "made_from h x y \<Longrightarrow> set h \<subseteq> set h' \<Longrightarrow> made_from h' x y"
  by (induction rule: made_from.induct) (auto intro: as_before by_form)

lemma made_from_none: "made_from [] x y \<Longrightarrow> y = x"
  by (induction rule: made_from.induct) simp_all

text \<open>What the administrator must show for a form while \<open>cfg\<close> runs.\<close>

definition authorised :: "'d web_env \<Rightarrow> config \<Rightarrow> request \<Rightarrow> bool" where
  "authorised e cfg r \<longleftrightarrow>
     req_Method r = ''POST'' \<and> req_Path r \<in> set change_paths \<and> sameOrigin (we_url_host e) r \<and>
     (let token = AdminToken (ae_getenv (we_admin e)) (cfg_Server cfg)
      in token = '''' \<or> req_Header r ''Authorization'' = ''Bearer '' @ token \<or>
         BasicAuth r = Some (''admin'', token))"

fun installs_as :: "pending \<Rightarrow> config \<times> secrets" where
  "installs_as (Prepared c s) = (installed c s, s)"
| "installs_as (Config_Saved col c s) = (c, s)"
| "installs_as (Saved col c s) = (c, s)"
| "installs_as (Reconfigured c s) = (c, s)"

definition origin_inv :: "'d web_env \<Rightarrow> config \<times> secrets \<Rightarrow> 'd filesystem \<Rightarrow> 'd web_state \<Rightarrow> bool" where
  "origin_inv e x d0 y \<longleftrightarrow> (case y of ((m, d, ps, rs), qs, h) \<Rightarrow>
     made_from h x (mgr_cfg m, mgr_secrets m) \<and>
     (\<forall>p\<in>set ps. made_from h x (installs_as p)) \<and>
     set qs \<subseteq> set h \<and>
     (\<forall>i<length h. form_update (h ! i) \<noteq> None \<or> asks_refresh (h ! i) \<longrightarrow>
        (\<exists>cfg sec. made_from (take i h) x (cfg, sec) \<and> authorised e cfg (h ! i))) \<and>
     ((\<forall>r\<in>set h. form_update r = None) \<longrightarrow> ps = [] \<and> d = d0))"

lemma remove_at_Nil [simp]: "remove_at i [] = []"
  by (simp add: remove_at_def)

lemma pending_made:
  "origin_inv e z d0 ((m, d, ps, rs), qs, h) \<Longrightarrow> i < length ps \<Longrightarrow>
   made_from h z (installs_as (ps ! i)) \<and> ps \<noteq> []"
  using nth_mem [of i ps] by (auto simp: origin_inv_def simp del: nth_mem)

lemma update_step_origin:
  "update_step E x y \<Longrightarrow> origin_inv e z d0 (x, qs, h) \<Longrightarrow> origin_inv e z d0 (y, qs, h)"
proof (induction rule: update_step.induct)
  case (saves_config i ps cfg s e' m col d d' rs)
  from pending_made [OF this(6,1)] have "made_from h z (installs_as (ps ! i))" "ps \<noteq> []" by simp_all
  then show ?case using saves_config set_update_subset_insert [of ps i "Config_Saved col (installed cfg s) s"]
    by (auto simp: origin_inv_def)
next
  case (saves_secrets i ps col cfg s e' m d d' rs)
  from pending_made [OF this(5,1)] have "made_from h z (installs_as (ps ! i))" "ps \<noteq> []" by simp_all
  then show ?case using saves_secrets set_update_subset_insert [of ps i "Saved col cfg s"]
    by (auto simp: origin_inv_def)
next
  case (reconfigures i ps col cfg s m d rs)
  from pending_made [OF this(3,1)] have "made_from h z (installs_as (ps ! i))" "ps \<noteq> []" by simp_all
  then show ?case using reconfigures set_update_subset_insert [of ps i "Reconfigured cfg s"]
    by (auto simp: origin_inv_def)
next
  case (installs i ps cfg s m d rs)
  from pending_made [OF this(3,1)] have "made_from h z (installs_as (ps ! i))" "ps \<noteq> []" by simp_all
  then show ?case using installs set_remove_at [of i ps] by (auto simp: origin_inv_def)
qed (use set_remove_at in \<open>fastforce simp: origin_inv_def\<close>)+

lemma origin_grows:
  assumes "origin_inv e x d0 ((m, d, ps, rs), qs, h)"
    and "form_update r \<noteq> None \<or> asks_refresh r \<Longrightarrow> authorised e (mgr_cfg m) r"
  shows "origin_inv e x d0 ((m, d, ps, rs), qs @ [r], h @ [r])"
proof -
  have more: "made_from h x y \<Longrightarrow> made_from (h @ [r]) x y" for y
    by (erule made_from_mono) auto
  have "\<exists>cfg sec. made_from (take i (h @ [r])) x (cfg, sec) \<and> authorised e cfg ((h @ [r]) ! i)"
    if "i < length (h @ [r])" and "form_update ((h @ [r]) ! i) \<noteq> None \<or> asks_refresh ((h @ [r]) ! i)" for i
    using that assms by (cases "i = length h") (auto simp: origin_inv_def nth_append)
  then show ?thesis using assms(1) more by (auto simp: origin_inv_def)
qed

text \<open>What arrives at a handler that changes the bridge has passed the guard of the admin pages.\<close>

lemma change_authorised:
  assumes "arrives e r (at_manager s m)" and "form_update r \<noteq> None \<or> asks_refresh r"
  shows "authorised e (mgr_cfg m) r"
proof -
  have r: "req_Path r \<in> set change_paths" "req_Method r = ''POST''" using form_path assms(2) by blast+
  then have "admin_admits e r (at_manager s m)" using arrives_admin [OF change_route(2)] assms(1) by blast
  then show ?thesis using r
    by (simp add: authorised_def admin_admits_def at_manager_def currentConfig_def Let_def)
qed

lemma web_step_origin: "web_step E e s y z \<Longrightarrow> origin_inv e x d0 y \<Longrightarrow> origin_inv e x d0 z"
proof (induction rule: web_step.induct)
  case (admits r m d ps rs qs h)
  from admits(2) show ?case by (rule origin_grows) (rule change_authorised [OF admits(1)])
next
  case (update_begins i qs a m cfg sec d ps rs h)
  have "qs ! i \<in> set h" using update_begins(1,4) nth_mem [of i qs] by (simp add: origin_inv_def subset_iff)
  moreover from this have "made_from h x (installs_as (Prepared cfg sec))"
    using update_begins(2-4) by (auto simp: origin_inv_def intro: by_form)
  ultimately show ?case
    using update_begins(2,4) set_remove_at [of i qs] by (force simp: origin_inv_def)
next
  case (bridge_goes_on y z qs h)
  then show ?case by (rule update_step_origin)
qed (use set_remove_at in \<open>fastforce simp: origin_inv_def\<close>)+

lemma web_run_origin: "web_run E e s y z \<Longrightarrow> origin_inv e x d0 y \<Longrightarrow> origin_inv e x d0 z"
  by (induction rule: web_run.induct) (auto intro: web_step_origin)

section \<open>What answers are made of\<close>

text \<open>
  Every state in an answer is the one the cache serves at that moment, or a view of it; the two pages
  show the zero state while it serves none.
\<close>

definition serves_state :: "'d web_env \<Rightarrow> server \<Rightarrow> body \<Rightarrow> bool" where
  "serves_state e s b =
     (case b of
        StateJSON x \<Rightarrow> (\<exists>y. State e s = Inr y \<and> (x = y \<or> x = CompactForDisplay y))
      | DetailJSON x \<Rightarrow> (\<exists>y. State e s = Inr y \<and> x = DetailForDisplay y)
      | DebugJSON mock meta x \<Rightarrow> State e s = Inr x
      | IndexPage mock x meta \<Rightarrow> x = state_or_zero e s
      | AdminPage x meta snap draft msg err \<Rightarrow> x = state_or_zero e s
      | _ \<Rightarrow> True)"

lemma api_bodies [simp]:
  "serves_state e (fst sd) (res_Body (snd (displayState e r sd)))"
  "serves_state e (fst sd) (res_Body (snd (detailState e r sd)))"
  "serves_state e (fst sd) (res_Body (snd (fullState e r sd)))"
  "serves_state e (fst sd) (res_Body (snd (debug e r sd)))"
  by (auto simp: displayState_def detailState_def fullState_def debug_def writeJSON_def serves_state_def
      split: sum.split)

lemma redirect_bodies [simp]:
  "serves_state e s (res_Body (redirectAdmin msg err))"
  "serves_state e s (res_Body (redirectAdminWithDraft r msg err f))"
  by (simp_all add: redirectAdmin_def redirectAdminWithDraft_def seeOther_def serves_state_def Let_def)

lemma error_bodies [simp]:
  "serves_state e s (res_Body notFound)" "serves_state e s (res_Body methodNotAllowed)"
  by (simp_all add: notFound_def methodNotAllowed_def writeJSON_def serves_state_def)

lemma posted_body:
  "(\<And>m. serves_state e s (res_Body (snd (act m)))) \<Longrightarrow> serves_state e s (res_Body (snd (posted r sd act)))"
  by (simp add: posted_def split: option.split)

lemma finish_body: "serves_state e s (res_Body (snd (finish_update e' msg s' x)))"
  by (simp add: finish_update_def split: prod.split)

lemma page_bodies [simp]:
  "serves_state e (fst sd) (res_Body (snd (index e r sd)))" "serves_state e s (res_Body (snd (healthz e r sd)))"
  "serves_state e (fst sd) (res_Body (snd (adminIndex e r sd)))"
  "serves_state e s (res_Body (snd (adminSettings e r sd)))"
  "serves_state e s (res_Body (snd (adminProxmox e r sd)))"
  "serves_state e s (res_Body (snd (adminTestProxmox e r sd)))"
  "serves_state e s (res_Body (snd (adminDetectFingerprint e r sd)))"
  "serves_state e s (res_Body (snd (adminDeleteProxmox e r sd)))"
  "serves_state e s (res_Body (snd (adminRefresh e r sd)))"
proof -
  show "serves_state e s (res_Body (snd (adminSettings e r sd)))"
    "serves_state e s (res_Body (snd (adminProxmox e r sd)))"
    "serves_state e s (res_Body (snd (adminDeleteProxmox e r sd)))"
    unfolding adminSettings_def adminProxmox_def adminDeleteProxmox_def by (intro posted_body finish_body)+
  show "serves_state e s (res_Body (snd (adminTestProxmox e r sd)))"
    "serves_state e s (res_Body (snd (adminDetectFingerprint e r sd)))"
    unfolding adminTestProxmox_def adminDetectFingerprint_def
    by (intro posted_body; simp add: Let_def split: sum.split)+
  show "serves_state e s (res_Body (snd (adminRefresh e r sd)))"
    by (simp add: adminRefresh_def split: option.split prod.split)
qed (simp_all add: index_def healthz_def adminIndex_def html_page_def writeJSON_def Let_def
      notFound_def serves_state_def split: option.split)

lemma ServeHTTP_body: "serves_state e (fst sd) (res_Body (snd (ServeHTTP e r sd)))"
proof -
  have refused: "serves_state e (fst sd) (res_Body resp)" if "res_Body resp = ErrorJSON msg" for resp msg
    using that by (simp add: serves_state_def)
  note guarded = display_gate.guard_body [where Q = "\<lambda>x. serves_state e (fst sd) (res_Body x)", OF _ refused]
    admin_gate.guard_body [where Q = "\<lambda>x. serves_state e (fst sd) (res_Body x)", OF _ refused]
  show ?thesis unfolding ServeHTTP_def routes_cases by (simp add: guarded)
qed

text \<open>What an admitted form does, from the moment it is admitted.\<close>

lemma at_manager_simps [simp]:
  "sv_admin (at_manager s m) = Some m" "at_manager s m\<lparr>sv_admin := Some x\<rparr> = at_manager s x"
  by (simp_all add: at_manager_def)

lemma update_request_run:
  assumes "ServeHTTP e' r (at_manager s m, d) = ((s', d'), resp)" and "(s', d') \<noteq> (at_manager s m, d)"
    and "form_update r = Some a" and "admin_admits e' r (at_manager s m)"
    and "we_admin e' \<in> E" and "proper_world (ae_world (we_admin e'))"
  shows "\<exists>m'. s' = at_manager s m' \<and> web_run E e s ((m, d, [], []), [r], h) ((m', d', [], []), [], h)"
proof -
  have form: "req_Method r = ''POST''" "req_FormErr r = None"
    using assms(3) by (auto simp: form_update_def split: if_splits)
  obtain msg where
    route: "ServeHTTP e' r (at_manager s m, d) =
      posted r (at_manager s m, d) (\<lambda>x. finish_update e' msg (at_manager s m) (run_admin (we_admin e') a (x, d)))"
    by (rule form_route [OF assms(3,4)])
  obtain m' d'' err where run: "run_admin (we_admin e') a (m, d) = ((m', d''), err)" by (metis prod.collapse)
  have out: "posted r (at_manager s m, d) (\<lambda>x. finish_update e' msg (at_manager s m) (run_admin (we_admin e') a (x, d)))
      = ((s', d'), resp)"
    using assms(1) unfolding route .
  have s': "s' = at_manager s m'" "d'' = d'"
    using out form run by (simp_all add: posted_def finish_update_def)
  obtain cfg sec where "prepare a m = Inr (cfg, sec)"
    using run assms(2) s' by (cases "prepare a m") (auto simp: run_admin_prepare then_apply_def)
  from update_form_run [OF assms(3) this run assms(5,6)] show ?thesis using s' by blast
qed

lemma refresh_request_run:
  assumes "ServeHTTP e' r (at_manager s m, d) = ((s', d'), resp)"
    and "asks_refresh r" and "admin_admits e' r (at_manager s m)"
    and "we_admin e' \<in> E" and "proper_world (ae_world (we_admin e'))"
  shows "\<exists>m'. s' = at_manager s m' \<and> web_run E e s ((m, d, [], []), [r], h) ((m', d', [], []), [], h)"
proof -
  let ?m' = "fst (Manager_Refresh (we_admin e') m)"
  have r: "req_Path r = ''/admin/refresh''" "req_Method r = ''POST''"
    using assms(2) by (auto simp: asks_refresh_def route_def split: if_splits)
  have eq: "(s', d') = (at_manager s ?m', d)"
    using assms(1,3) r admin_gate.admitted [of e' r "(at_manager s m, d)" adminRefresh]
    by (auto simp: ServeHTTP_def routes_cases adminRefresh_def split: prod.splits)
  have "web_step E e s ((m, d, [], []), [r], h) ((m, d, [], [cache_collector (mgr_cache m)]), [], h)"
    using refresh_begins [of 0 "[r]" E e s m d "[]" "[]" h] assms(2) by (simp add: remove_at_def)
  note run = web_more [OF web_refl this]
  have "update_step E (m, d, [], [cache_collector (mgr_cache m)]) (?m', d, [], [])"
    using refresh_finishes [of 0 "[cache_collector (mgr_cache m)]" "we_admin e'" E m d "[]"]
      assms(4,5) by (simp add: Manager_Refresh_def Refresh_def remove_at_def case_prod_beta)
  from web_more [OF run bridge_goes_on [OF this]] show ?thesis using eq by blast
qed

lemma at_manager_cache [simp]: "shared_cache (at_manager s m) = mgr_cache m"
  by (simp add: shared_cache_def at_manager_def)

text \<open>Whether the cache has a state is an argument: without one, only a page carries any, the zero state.\<close>

definition from_finalized :: "bool \<Rightarrow> body \<Rightarrow> bool" where
  "from_finalized has b =
     (case b of
        StateJSON x \<Rightarrow> has \<and> (\<exists>y. finalized y \<and> (x = y \<or> x = CompactForDisplay y))
      | DetailJSON x \<Rightarrow> has \<and> (\<exists>y. finalized y \<and> x = DetailForDisplay y)
      | DebugJSON mock meta x \<Rightarrow> has \<and> finalized x
      | IndexPage mock x meta \<Rightarrow> if has then finalized x else x = dstate_zero
      | AdminPage x meta snap draft msg err \<Rightarrow> if has then finalized x else x = dstate_zero
      | HealthJSON mock \<Rightarrow> True
      | DebugErrorJSON err meta \<Rightarrow> True
      | ErrorJSON err \<Rightarrow> True
      | TextBody txt \<Rightarrow> True
      | NoBody \<Rightarrow> True)"

lemma State_has: "(\<exists>y. State e s = Inr y) \<longleftrightarrow> cache_hasState (shared_cache s)"
  by (auto simp: State_def CacheState_def Let_def split: option.split)

lemma from_finalized_states:
  assumes "serves_state e s b" and "cache_ok (shared_cache s)"
  shows "from_finalized (cache_hasState (shared_cache s)) b"
proof -
  have fin: "State e s = Inr y \<Longrightarrow> finalized y" for y
    using assms(2) by (auto simp: State_def intro: CacheState_finalized)
  show ?thesis
  proof (cases "State e s")
    case (Inl err)
    then have "\<not> cache_hasState (shared_cache s)" using State_has [of e s] by auto
    then show ?thesis using assms(1) Inl
      by (auto simp: serves_state_def from_finalized_def state_or_zero_def split: body.splits)
  next
    case (Inr y)
    then have "cache_hasState (shared_cache s)" using State_has [of e s] by blast
    then show ?thesis using assms(1) Inr fin
      by (auto simp: serves_state_def from_finalized_def state_or_zero_def split: body.splits)
  qed
qed

section \<open>Properties\<close>

text \<open>
  C19: A request served without interruption is one of the concurrent runs: it leaves the frame of the
  server alone, and takes the manager and the disk where a run takes them that admits at most this
  request and ends with nothing in flight.  What is proved of runs holds of the handlers.
\<close>

theorem requests_are_runs:
  assumes "ServeHTTP e' r (at_manager s m, d) = ((s', d'), resp)"
    and "same_process e e'" and "proper_world (ae_world (we_admin e'))"
  shows "\<exists>m' h'. s' = at_manager s m' \<and> set h' \<subseteq> {r} \<and>
           web_run {we_admin e'} e s ((m, d, [], []), [], h) ((m', d', [], []), [], h @ h')"
proof (cases "(s', d') = (at_manager s m, d)")
  case True
  then show ?thesis using web_refl [of "{we_admin e'}" e s "((m, d, [], []), [], h)"] by (intro exI [of _ m] exI [of _ "[]"]) simp
next
  case False
  have r: "req_Path r \<in> set change_paths" "req_Method r = ''POST''" "admin_admits e' r (at_manager s m)"
    using routes_change [of e' r "(at_manager s m, d)"] False assms(1) by auto
  then have "arrives e r (at_manager s m)"
    using arrives_admin [OF change_route(2)] admits_same_process [OF assms(2)] by blast
  then have "web_step {we_admin e'} e s ((m, d, [], []), [], h) ((m, d, [], []), [r], h @ [r])"
    using admits [of e r s m "{we_admin e'}" d "[]" "[]" "[]" h] by simp
  note start = web_more [OF web_refl this]
  have "req_FormErr r \<noteq> None \<Longrightarrow> req_Path r = ''/admin/refresh''"
    using bad_form_keeps [of r e' "(at_manager s m, d)"] False assms(1) by auto
  then have "(\<exists>a. form_update r = Some a) \<or> asks_refresh r"
    by (rule form_cases [OF r(1,2)])
  then have "\<exists>m'. s' = at_manager s m' \<and>
      web_run {we_admin e'} e s ((m, d, [], []), [r], h @ [r]) ((m', d', [], []), [], h @ [r])"
    using update_request_run [OF assms(1) False _ r(3) singletonI assms(3)] refresh_request_run [OF assms(1) _ r(3) singletonI assms(3)]
    by blast
  then obtain m' where m': "s' = at_manager s m'"
    "web_run {we_admin e'} e s ((m, d, [], []), [r], h @ [r]) ((m', d', [], []), [], h @ [r])" by blast
  from web_trans [OF m'(2) start] show ?thesis using m'(1) by (intro exI [of _ m'] exI [of _ "[r]"]) simp
qed

lemma sample_world_started:
  "\<exists>s m. startup sample_admin_env sample_store True Map.empty = Some s \<and> sv_admin s = Some m \<and>
     mgr_store m = sample_store \<and> cache_hasState (mgr_cache m) \<and> mgr_cfg m = MockConfig \<and> mgr_mock m"
proof -
  obtain s where s: "startup sample_admin_env sample_store True Map.empty = Some s"
    using startup_None [of sample_admin_env sample_store True Map.empty] by auto
  from started_manager [OF s sample_bounded] obtain m where m: "sv_admin s = Some m" "mgr_store m = sample_store"
    "main_config sample_admin_env sample_store True Map.empty = Some (mgr_cfg m, mgr_secrets m)"
    "cache_hasState (mgr_cache m)" by blast
  moreover have "mgr_cfg m = MockConfig" using m(3) by (auto simp: main_config_def split: sum.splits)
  moreover have "mgr_mock m" using s m(1)
    by (auto simp: startup_def NewServer_def NewManager_def Let_def split: option.splits)
  ultimately show ?thesis using s by blast
qed

lemma sample_same_process: "same_process sample_web_env sample_web_env"
  by (simp add: same_process_def)

lemma requests_are_runs_witness:
  "\<exists>m' h'. web_run {sample_admin_env} sample_web_env sample_server ((sample_manager, Map.empty, [], []), [], [])
     ((m', Map.empty, [], []), [], h') \<and> cache_hasState (mgr_cache m') \<and>
     set h' \<subseteq> {sample_request ''POST'' ''/admin/refresh'' ''secret''}"
proof -
  let ?r = "sample_request ''POST'' ''/admin/refresh'' ''secret''" and ?s = sample_server
  let ?m' = "fst (Manager_Refresh (we_admin sample_web_env) sample_manager)"
  have s: "?s = at_manager ?s sample_manager" by (simp add: at_manager_def sample_server_def NewServer_def)
  have "admin_admits sample_web_env ?r ?s"
    by (simp add: admin_admits_def sample_tokens sample_request_def sameOrigin_def)
  then have "fst (ServeHTTP sample_web_env ?r (?s, Map.empty)) = (at_manager ?s ?m', Map.empty)"
    using admin_gate.admitted [of sample_web_env ?r "(?s, Map.empty)" adminRefresh]
    by (simp add: ServeHTTP_def routes_cases sample_request_def adminRefresh_def sample_server_def NewServer_def
        at_manager_def case_prod_beta)
  then obtain resp where
    "ServeHTTP sample_web_env ?r (at_manager ?s sample_manager, Map.empty) = ((at_manager ?s ?m', Map.empty), resp)"
    using s by (metis prod.collapse)
  from requests_are_runs [OF this sample_same_process, of "[]"] obtain m' h' where
    r: "at_manager ?s ?m' = at_manager ?s m'" "set h' \<subseteq> {?r}"
    "web_run {sample_admin_env} sample_web_env ?s ((sample_manager, Map.empty, [], []), [], []) ((m', Map.empty, [], []), [], h')"
    using sample_world_proper by (auto simp: sample_web_env_def)
  have "m' = ?m'" using r(1) by (simp add: at_manager_def) (metis option.inject server.ext_inject server.surjective server.update_convs(3))
  moreover have "cache_hasState (mgr_cache ?m')"
    using refresh_fills [OF sample_bounded]
    by (simp add: Manager_Refresh_def sample_web_env_def case_prod_beta)
  ultimately show ?thesis using r by blast
qed

text \<open>
  C2: Where the running configuration comes from, however requests and updates interleave: it is the
  one the bridge started with, or was made out of it, form by form, by requests that arrived at their
  handlers; and each that asks for a change or a refresh was an authorised POST of the same origin
  under a configuration made of the requests before it, for the guards mounted on the routes let no
  other arrive.  While no request that changes the configuration has arrived, the disk stays as it was.
\<close>

theorem configuration_has_authorised_origin:
  assumes "web_run E e s ((m, d, [], []), [], []) ((m', d', ps, rs), qs, h)"
  shows "made_from h (mgr_cfg m, mgr_secrets m) (mgr_cfg m', mgr_secrets m') \<and>
         (\<forall>i<length h. form_update (h ! i) \<noteq> None \<or> asks_refresh (h ! i) \<longrightarrow>
            (\<exists>cfg sec. made_from (take i h) (mgr_cfg m, mgr_secrets m) (cfg, sec) \<and> authorised e cfg (h ! i))) \<and>
         ((\<forall>r\<in>set h. form_update r = None) \<longrightarrow> d' = d)"
  using web_run_origin [OF assms, where x = "(mgr_cfg m, mgr_secrets m)" and ?d0.0 = d]
  by (simp add: origin_inv_def as_before)

lemma configuration_has_authorised_origin_witness:
  "\<exists>h. web_run {sample_admin_env} sample_web_env sample_server
       ((sample_manager, Map.empty, [], []), [], []) ((sample_manager, Map.empty, [], []), h, h) \<and>
     h \<noteq> [] \<and> authorised sample_web_env (mgr_cfg sample_manager) (hd h)"
proof -
  let ?r = "sample_request ''POST'' ''/admin/refresh'' ''secret''" and ?s = sample_server
  have route: "route (req_Path ?r) = (AdminAuth, AdminRefresh)"
    by (simp add: route_def sample_request_def)
  have "admin_admits sample_web_env ?r (at_manager ?s sample_manager)"
    by (simp add: admin_admits_def sample_request_def sameOrigin_def at_manager_def
        sample_tokens(2) [unfolded sample_server_def NewServer_def currentConfig_def, simplified]
        currentConfig_def)
  then have "arrives sample_web_env ?r (at_manager ?s sample_manager)"
    using arrives_admin [of ?r sample_web_env "at_manager ?s sample_manager"] by (simp only: route fst_conv simp_thms)
  then have "web_step {sample_admin_env} sample_web_env ?s ((sample_manager, Map.empty, [], []), [], [])
      ((sample_manager, Map.empty, [], []), [?r], [?r])"
    using admits [of sample_web_env ?r ?s sample_manager "{sample_admin_env}" Map.empty "[]" "[]" "[]" "[]"] by simp
  from web_more [OF web_refl this] have run: "web_run {sample_admin_env} sample_web_env ?s
      ((sample_manager, Map.empty, [], []), [], []) ((sample_manager, Map.empty, [], []), [?r], [?r])" .
  have "asks_refresh ?r" by (simp add: asks_refresh_def route) (simp add: sample_request_def)
  with configuration_has_authorised_origin [OF run] have "authorised sample_web_env (mgr_cfg sample_manager) ?r"
    by (auto dest: made_from_none)
  with run show ?thesis by (metis list.sel(1) list.distinct(1))
qed

text \<open>
  C13: From start-up on, however requests, updates and refreshes interleave, every state an answer
  carries is finalized, or the compact or the detail view of a finalized state, on the two pages as
  in the display API; while there is no state, only a page carries one, the zero state.
\<close>

theorem served_states_finalized:
  assumes "startup e st mock d = Some s" and "proper_world (ae_world e)" and "sv_admin s = Some m"
    and "web_run E e0 s ((m, d, [], []), [], []) ((m', d', ps, rs), qs, h)"
  shows "from_finalized (cache_hasState (mgr_cache m')) (res_Body (snd (ServeHTTP e' r (at_manager s m', d'))))"
  using finalized_cache.web_run_holds [OF assms]
    ServeHTTP_body [of e' "(at_manager s m', d')" r]
    from_finalized_states [of e' "at_manager s m'"] by simp

lemma served_states_finalized_witness:
  "\<exists>s m. startup sample_admin_env sample_store True Map.empty = Some s \<and> sv_admin s = Some m \<and>
     cache_hasState (mgr_cache m) \<and> from_finalized True (res_Body (snd (ServeHTTP sample_web_env (sample_request ''GET'' ''/api/v1/full-state'' ''secret'')
       (at_manager s m, Map.empty))))"
proof -
  obtain s m where s: "startup sample_admin_env sample_store True Map.empty = Some s" "sv_admin s = Some m"
    "cache_hasState (mgr_cache m)"
    using sample_world_started by blast
  from served_states_finalized [OF s(1) sample_world_proper s(2) web_refl [of "{sample_admin_env}" sample_web_env]] s show ?thesis by metis
qed

text \<open>
  C12: Once \<open>main\<close> listens, the display API never fails again: with the display token every one of its
  routes answers 200, at every moment of every run, whatever sources do and whatever forms are sent.
\<close>

theorem started_api_answers:
  assumes "bridge_main e args d = Listening addr s" and "bounded_world (ae_world e)" and "sv_admin s = Some m"
    and "web_run E e0 s ((m, d, [], []), [], []) ((m', d', ps, rs), qs, h)"
    and "req_Path r \<in> set api_paths" and "display_admits e' r (at_manager s m')"
  shows "res_Status (snd (ServeHTTP e' r (at_manager s m', d'))) = 200"
proof -
  obtain st mock where s: "startup e st mock d = Some s"
    using assms(1) by (auto simp: bridge_main_def split: sum.splits if_splits option.splits)
  obtain m0 where "sv_admin s = Some m0" "cache_hasState (mgr_cache m0)"
    by (rule started_manager [OF s assms(2)])
  then have "cache_hasState (mgr_cache m)" using assms(3) by simp
  then have "cache_hasState (mgr_cache m')" using filled_cache.web_run_keeps [OF assms(4)] by simp
  then show ?thesis using api_answer [OF assms(5), of e' "at_manager s m'" d'] assms(6) by simp
qed

lemma started_api_answers_witness:
  "\<exists>s m. bridge_main sample_admin_env [''--mock'', ''-data-dir=''] Map.empty = Listening (Addr (cfg_Server MockConfig)) s \<and>
     sv_admin s = Some m \<and>
     res_Status (snd (ServeHTTP sample_web_env (sample_request ''GET'' ''/api/v1/display-state'' ''secret'')
       (at_manager s m, Map.empty))) = 200"
proof -
  have flags: "parse_flags [''--mock'', ''-data-dir=''] default_flags
      = Inr (default_flags\<lparr>fl_mock := True, fl_dataDir := ''''\<rparr>)"
    by code_simp
  obtain s m where s: "startup sample_admin_env sample_store True Map.empty = Some s" "sv_admin s = Some m"
    "mgr_cfg m = MockConfig" "sv_cfg s = mgr_cfg m"
    using sample_world_started started_manager [OF _ sample_bounded] by (metis option.inject)
  then have main: "bridge_main sample_admin_env [''--mock'', ''-data-dir=''] Map.empty
      = Listening (Addr (cfg_Server MockConfig)) s"
    by (simp only: bridge_main_def flags sum.case)
      (simp add: default_flags_def config_path_def s(1) [unfolded sample_store_def])
  have "display_admits sample_web_env (sample_request ''GET'' ''/api/v1/display-state'' ''secret'') (at_manager s m)"
    by (simp add: display_admits_def sample_request_def sample_web_env_def sample_admin_env_def at_manager_def
        currentConfig_def s(3) DisplayToken_def MockConfig_def config_zero_def)
  from started_api_answers [OF main sample_bounded s(2) web_refl [of "{sample_admin_env}" sample_web_env] _ this] main s(2)
  show ?thesis by (auto simp: sample_request_def api_paths_def)
qed

end
