(* ===== verification/Go_Time.thy ===== *)
theory Go_Time
  imports Go_Prelude
begin

text \<open>
  Package \<open>time\<close> and the parts of \<open>fmt\<close> that print its values: \<open>Duration.String\<close>, the date of a
  time in UTC, its \<open>RFC3339Nano\<close> text (which \<open>encoding/json\<close> writes) and its \<open>GoString\<close> (which
  \<open>%#v\<close> writes).  Times are nanoseconds since 1970, durations nanoseconds.
\<close>

section \<open>Digits\<close>

text \<open>A number with leading zeros up to a width, and a fraction without its trailing zeros.\<close>

definition pad0 :: "nat \<Rightarrow> int \<Rightarrow> string" where
  "pad0 w n = (let s = itoa n in replicate (w - length s) (CHR ''0'') @ s)"

definition fmtFrac :: "int \<Rightarrow> nat \<Rightarrow> string" where
  "fmtFrac u prec =
     (let r = u mod 10 ^ prec
      in if r = 0 then '''' else CHR ''.'' # rev (dropWhile (\<lambda>c. c = CHR ''0'') (rev (pad0 prec r))))"

section \<open>Durations\<close>

definition micro_sign :: string where
  "micro_sign = [CHR 0xC2, CHR 0xB5]"

text \<open>A duration of at least a second: hours and minutes are left out while they are zero.\<close>

definition hms :: "int \<Rightarrow> string" where
  "hms u =
     (let secs = u div 10 ^ 9; mins = secs div 60; hours = mins div 60
      in (if 0 < hours then itoa hours @ ''h'' else '''') @
         (if 0 < mins then itoa (mins mod 60) @ ''m'' else '''') @
         itoa (secs mod 60) @ fmtFrac u 9 @ ''s'')"

definition Duration_String :: "int \<Rightarrow> string" where
  "Duration_String d =
     (let u = \<bar>d\<bar>;
          text = (if u = 0 then ''0s''
                  else if u < 10 ^ 3 then itoa u @ ''ns''
                  else if u < 10 ^ 6 then itoa (u div 10 ^ 3) @ fmtFrac u 3 @ micro_sign @ ''s''
                  else if u < 10 ^ 9 then itoa (u div 10 ^ 6) @ fmtFrac u 6 @ ''ms''
                  else hms u)
      in if d < 0 then ''-'' @ text else text)"

section \<open>Dates\<close>

text \<open>
  The proleptic Gregorian date of a day counted from 1970-01-01.  Years are counted from March, so
  that the leap day is the last of its year; 400 such years have 146097 days.
\<close>

record date =
  date_Year :: int
  date_Month :: int
  date_Day :: int

definition civil_date :: "int \<Rightarrow> date" where
  "civil_date days =
     (let z = days + 719468;
          era = z div 146097;
          doe = z mod 146097;
          yoe = (doe - doe div 1460 + doe div 36524 - doe div 146096) div 365;
          doy = doe - (365 * yoe + yoe div 4 - yoe div 100);
          mp = (5 * doy + 2) div 153;
          month = (if mp < 10 then mp + 3 else mp - 9)
      in \<lparr>date_Year = yoe + era * 400 + (if month \<le> 2 then 1 else 0), date_Month = month,
          date_Day = doy - (153 * mp + 2) div 5 + 1\<rparr>)"

definition day_of :: "int \<Rightarrow> int" where
  "day_of t = t div (86400 * 10 ^ 9)"

definition clock_of :: "int \<Rightarrow> int \<times> int \<times> int \<times> int" where
  "clock_of t =
     (let ns = t mod (86400 * 10 ^ 9); s = ns div 10 ^ 9
      in (s div 3600, s mod 3600 div 60, s mod 60, ns mod 10 ^ 9))"

definition month_names :: "string list" where
  "month_names = [''January'', ''February'', ''March'', ''April'', ''May'', ''June'', ''July'', ''August'',
     ''September'', ''October'', ''November'', ''December'']"

text \<open>\<open>MarshalJSON\<close> of a time in UTC, without its quotes.\<close>

definition rfc3339 :: "int \<Rightarrow> string" where
  "rfc3339 t =
     (let d = civil_date (day_of t)
      in case clock_of t of
           (h, m, s, ns) \<Rightarrow>
             pad0 4 (date_Year d) @ ''-'' @ pad0 2 (date_Month d) @ ''-'' @ pad0 2 (date_Day d) @ ''T'' @
             pad0 2 h @ '':'' @ pad0 2 m @ '':'' @ pad0 2 s @ fmtFrac ns 9 @ ''Z'')"

text \<open>\<open>GoString\<close> of a time in UTC.\<close>

definition time_GoString :: "int \<Rightarrow> string" where
  "time_GoString t =
     (let d = civil_date (day_of t)
      in case clock_of t of
           (h, m, s, ns) \<Rightarrow>
             ''time.Date('' @ itoa (date_Year d) @ '', time.'' @ month_names ! nat (date_Month d - 1) @ '', '' @
             join_with '', '' (map itoa [date_Day d, h, m, s, ns]) @ '', time.UTC)'')"

end
