(* ===== verification/Json.thy ===== *)
theory Json
  imports Go_Values Go_Time Display_Types
begin

text \<open>
  Package \<open>encoding/json\<close> for what the server writes: JSON values, the members that struct tags
  produce (with and without \<open>omitempty\<close>), the text \<open>Encode\<close> writes, and types of JSON values with
  a typing function, the language in which the contract of the display API is stated.
\<close>

section \<open>Values\<close>

datatype json =
    JNull
  | JBool bool
  | JInt int
  | JString string
  | JArray "json list"
  | JObject "(string \<times> json) list"

type_synonym members = "(string \<times> json) list"

section \<open>Members of a struct\<close>

definition m_json :: "string \<Rightarrow> json \<Rightarrow> members" where "m_json k v = [(k, v)]"
definition m_str :: "string \<Rightarrow> string \<Rightarrow> members" where "m_str k s = [(k, JString s)]"
definition m_int :: "string \<Rightarrow> int \<Rightarrow> members" where "m_int k n = [(k, JInt n)]"
definition m_bool :: "string \<Rightarrow> bool \<Rightarrow> members" where "m_bool k b = [(k, JBool b)]"
definition m_ints :: "string \<Rightarrow> int list \<Rightarrow> members" where "m_ints k ns = [(k, JArray (map JInt ns))]"

text \<open>A pointer is null or its value, a time its RFC 3339 text, a nil slice null.\<close>

definition m_str_ptr :: "string \<Rightarrow> string option \<Rightarrow> members" where
  "m_str_ptr k p = [(k, case p of None \<Rightarrow> JNull | Some s \<Rightarrow> JString s)]"

definition m_time :: "string \<Rightarrow> gotime \<Rightarrow> members" where
  "m_time k t = [(k, JString (rfc3339 t))]"

definition m_rows :: "string \<Rightarrow> ('a \<Rightarrow> json) \<Rightarrow> 'a slice \<Rightarrow> members" where
  "m_rows k enc s = [(k, case s of None \<Rightarrow> JNull | Some xs \<Rightarrow> JArray (map enc xs))]"

fun health_text :: "health \<Rightarrow> string" where
  "health_text HealthZero = ''''"
| "health_text HealthUnknown = ''unknown''"
| "health_text HealthOK = ''ok''"
| "health_text HealthWarning = ''warning''"
| "health_text HealthCritical = ''critical''"

definition m_health :: "string \<Rightarrow> health \<Rightarrow> members" where
  "m_health k h = [(k, JString (health_text h))]"

text \<open>\<open>omitempty\<close>.\<close>

definition o_str :: "string \<Rightarrow> string \<Rightarrow> members" where "o_str k s = (if s = '''' then [] else m_str k s)"
definition o_int :: "string \<Rightarrow> int \<Rightarrow> members" where "o_int k n = (if n = 0 then [] else m_int k n)"
definition o_bool :: "string \<Rightarrow> bool \<Rightarrow> members" where "o_bool k b = (if b then m_bool k b else [])"
definition o_strs :: "string \<Rightarrow> string list \<Rightarrow> members" where
  "o_strs k ss = (if ss = [] then [] else [(k, JArray (map JString ss))])"
definition o_list :: "string \<Rightarrow> ('a \<Rightarrow> json) \<Rightarrow> 'a list \<Rightarrow> members" where
  "o_list k enc xs = (if xs = [] then [] else [(k, JArray (map enc xs))])"

section \<open>Text\<close>

fun json_text :: "json \<Rightarrow> string" where
  "json_text JNull = ''null''"
| "json_text (JBool b) = (if b then ''true'' else ''false'')"
| "json_text (JInt n) = itoa n"
| "json_text (JString s) = json_string s"
| "json_text (JArray vs) = ''['' @ join_with '','' (map json_text vs) @ '']''"
| "json_text (JObject ms) =
     ''{'' @ join_with '','' (map (\<lambda>(k, t). json_string k @ '':'' @ t) (map (\<lambda>(k, v). (k, json_text v)) ms)) @ ''}''"

text \<open>\<open>Encoder.Encode\<close> ends the value with a line end.\<close>

definition Encode :: "json \<Rightarrow> string" where
  "Encode v = json_text v @ [CHR 0x0A]"

section \<open>Types\<close>

text \<open>
  A type of JSON values: a word is a string out of a list; the members of an object come in the
  order of the type, each with whether it must be there.
\<close>

datatype ty =
    TBool
  | TInt
  | TString
  | TWord "string list"
  | TNullable ty
  | TArray ty
  | TObject "(string \<times> bool \<times> ty) list"

type_synonym field_types = "(string \<times> bool \<times> ty) list"

function has_type :: "ty \<Rightarrow> json \<Rightarrow> bool" and has_members :: "field_types \<Rightarrow> members \<Rightarrow> bool" where
  "has_type TBool v = (case v of JBool b \<Rightarrow> True | _ \<Rightarrow> False)"
| "has_type TInt v = (case v of JInt n \<Rightarrow> True | _ \<Rightarrow> False)"
| "has_type TString v = (case v of JString s \<Rightarrow> True | _ \<Rightarrow> False)"
| "has_type (TWord ws) v = (case v of JString s \<Rightarrow> s \<in> set ws | _ \<Rightarrow> False)"
| "has_type (TNullable t) v = (v = JNull \<or> has_type t v)"
| "has_type (TArray t) v = (case v of JArray vs \<Rightarrow> list_all (has_type t) vs | _ \<Rightarrow> False)"
| "has_type (TObject fs) v = (case v of JObject ms \<Rightarrow> has_members fs ms | _ \<Rightarrow> False)"
| "has_members [] ms = (ms = [])"
| "has_members ((k, required, t) # fs) ms =
     ((case ms of [] \<Rightarrow> False | (k', v) # ms' \<Rightarrow> k' = k \<and> has_type t v \<and> has_members fs ms') \<or>
      (\<not> required \<and> has_members fs ms))"
  by pat_completeness auto

termination
  by (relation "measure (case_sum (\<lambda>(t, v). size t) (\<lambda>(fs, ms).
        size_list (size_prod (\<lambda>_. 0) (size_prod (\<lambda>_. 0) size)) fs))")
    auto

lemma has_members_required:
  "has_members ((k, True, t) # fs) ((k, v) # ms) \<longleftrightarrow> has_type t v \<and> has_members fs ms"
  by simp

lemma has_members_optional:
  "has_members fs ms \<Longrightarrow> has_members ((k, False, t) # fs) ms"
  "has_type t v \<Longrightarrow> has_members fs ms \<Longrightarrow> has_members ((k, False, t) # fs) ((k, v) # ms)"
  by simp_all

definition health_words :: "string list" where
  "health_words = [''ok'', ''warning'', ''critical'', ''unknown'']"

text \<open>An alert is a warning or critical.\<close>

definition severity_words :: "string list" where
  "severity_words = [''warning'', ''critical'']"

lemma severity_word: "h = HealthWarning \<or> h = HealthCritical \<Longrightarrow> health_text h \<in> set severity_words"
  by (auto simp: severity_words_def)

lemma health_word: "h \<noteq> HealthZero \<Longrightarrow> health_text h \<in> set health_words"
  by (cases h) (simp_all add: health_words_def)

text \<open>The members of a struct, in the order of its fields, have the types of the fields.\<close>

named_theorems typed_members

lemma typed_required [typed_members]:
  "has_members fs ms \<Longrightarrow> has_members ((k, True, TString) # fs) (m_str k s @ ms)"
  "has_members fs ms \<Longrightarrow> has_members ((k, True, TInt) # fs) (m_int k n @ ms)"
  "has_members fs ms \<Longrightarrow> has_members ((k, True, TBool) # fs) (m_bool k b @ ms)"
  "has_members fs ms \<Longrightarrow> has_members ((k, True, TString) # fs) (m_time k t @ ms)"
  "has_members fs ms \<Longrightarrow> has_members ((k, True, TNullable TString) # fs) (m_str_ptr k p @ ms)"
  "has_members fs ms \<Longrightarrow> has_members ((k, True, TArray TInt) # fs) (m_ints k ns @ ms)"
  "has_members fs ms \<Longrightarrow> h \<noteq> HealthZero \<Longrightarrow>
   has_members ((k, True, TWord health_words) # fs) (m_health k h @ ms)"
  "has_members fs ms \<Longrightarrow> h = HealthWarning \<or> h = HealthCritical \<Longrightarrow>
   has_members ((k, True, TWord severity_words) # fs) (m_health k h @ ms)"
  "has_members fs ms \<Longrightarrow> has_type ty v \<Longrightarrow> has_members ((k, True, ty) # fs) (m_json k v @ ms)"
  "has_members fs ms \<Longrightarrow> rows \<noteq> None \<Longrightarrow> (\<And>x. x \<in> set (elems rows) \<Longrightarrow> has_type ty (enc x)) \<Longrightarrow>
   has_members ((k, True, TArray ty) # fs) (m_rows k enc rows @ ms)"
  by (auto simp: m_str_def m_int_def m_bool_def m_time_def m_str_ptr_def m_ints_def m_health_def m_json_def
      m_rows_def health_word severity_word list_all_iff split: option.split)

lemma typed_optional [typed_members]:
  "has_members fs ms \<Longrightarrow> has_members ((k, False, TString) # fs) (o_str k s @ ms)"
  "has_members fs ms \<Longrightarrow> has_members ((k, False, TInt) # fs) (o_int k n @ ms)"
  "has_members fs ms \<Longrightarrow> has_members ((k, False, TBool) # fs) (o_bool k b @ ms)"
  "has_members fs ms \<Longrightarrow> has_members ((k, False, TArray TString) # fs) (o_strs k ss @ ms)"
  "has_members fs ms \<Longrightarrow> (\<And>x. x \<in> set xs \<Longrightarrow> has_type ty (enc x)) \<Longrightarrow>
   has_members ((k, False, TArray ty) # fs) (o_list k enc xs @ ms)"
  by (auto simp: o_str_def o_int_def o_bool_def o_strs_def o_list_def m_str_def m_int_def m_bool_def list_all_iff)

lemma typed_none [typed_members]: "has_members [] []"
  by simp

lemma typed_object: "has_members fs (concat mss) \<Longrightarrow> has_type (TObject fs) (JObject (concat mss))"
  by simp

end
