(* ===== verification/Display_Json.thy ===== *)
theory Display_Json
  imports Display Json
begin

text \<open>
  The JSON of the display states: for each struct of \<open>internal/display/state.go\<close> the object its
  tags describe and the type of that object, with the lemma that rows with a health are encoded to
  values of their type.  The types are the contract \<open>proxmox-desk-display.v1\<close> with the displays:
  arrays are never null, and a health is one of four words, never empty.
\<close>

definition encode_summary :: "summary \<Rightarrow> json" where
  "encode_summary x = JObject (concat
     [m_health ''health'' (summary_Health x), m_int ''hosts_online'' (summary_HostsOnline x),
      m_int ''hosts_total'' (summary_HostsTotal x), m_int ''guests_running'' (summary_GuestsRunning x),
      m_int ''guests_stopped'' (summary_GuestsStopped x), m_int ''alerts'' (summary_Alerts x),
      m_int ''updates'' (summary_Updates x)])"

definition summary_type :: ty where
  "summary_type = TObject
     [(''health'', True, TWord health_words), (''hosts_online'', True, TInt),
      (''hosts_total'', True, TInt), (''guests_running'', True, TInt),
      (''guests_stopped'', True, TInt), (''alerts'', True, TInt), (''updates'', True, TInt)]"

lemma encode_summary_typed: "summary_Health x \<noteq> HealthZero \<Longrightarrow> has_type summary_type (encode_summary x)"
  unfolding encode_summary_def summary_type_def
  by (rule typed_object, unfold concat.simps, (rule typed_members | assumption)+)

definition encode_cluster :: "cluster \<Rightarrow> json" where
  "encode_cluster x = JObject (concat
     [m_str ''id'' (cluster_ID x), m_str ''source_id'' (cluster_SourceID x),
      o_str ''name'' (cluster_Name x), o_int ''version'' (cluster_Version x),
      m_bool ''quorate'' (cluster_Quorate x), m_int ''nodes_online'' (cluster_NodesOnline x),
      m_int ''nodes_total'' (cluster_NodesTotal x), o_int ''nodes_expected'' (cluster_NodesExpected x),
      m_health ''health'' (cluster_Health x), o_strs ''data_warnings'' (cluster_DataWarnings x)])"

definition cluster_type :: ty where
  "cluster_type = TObject
     [(''id'', True, TString), (''source_id'', True, TString), (''name'', False, TString),
      (''version'', False, TInt), (''quorate'', True, TBool), (''nodes_online'', True, TInt),
      (''nodes_total'', True, TInt), (''nodes_expected'', False, TInt),
      (''health'', True, TWord health_words), (''data_warnings'', False, TArray TString)]"

lemma encode_cluster_typed: "cluster_Health x \<noteq> HealthZero \<Longrightarrow> has_type cluster_type (encode_cluster x)"
  unfolding encode_cluster_def cluster_type_def
  by (rule typed_object, unfold concat.simps, (rule typed_members | assumption)+)

definition encode_host :: "host \<Rightarrow> json" where
  "encode_host x = JObject (concat
     [m_str ''id'' (host_ID x), m_str ''name'' (host_Name x), m_str ''source_id'' (host_SourceID x),
      m_str ''node'' (host_Node x), m_bool ''online'' (host_Online x),
      m_int ''cpu_pct'' (host_CPUPct x), m_int ''max_cpu'' (host_MaxCPU x),
      o_str ''cpu_model'' (host_CPUModel x), o_int ''gpu_count'' (host_GPUCount x),
      o_str ''gpu_summary'' (host_GPUSummary x), m_int ''memory_pct'' (host_MemoryPct x),
      m_int ''memory_used_bytes'' (host_MemoryUsedBytes x),
      m_int ''memory_total_bytes'' (host_MemoryTotalBytes x),
      o_int ''memory_available_bytes'' (host_MemoryAvailableBytes x),
      o_int ''swap_pct'' (host_SwapPct x), o_int ''swap_used_bytes'' (host_SwapUsedBytes x),
      o_int ''swap_total_bytes'' (host_SwapTotalBytes x), o_int ''iowait_pct'' (host_IOWaitPct x),
      o_int ''ksm_shared_bytes'' (host_KSMSharedBytes x), m_int ''storage_pct'' (host_StoragePct x),
      m_int ''storage_used_bytes'' (host_StorageUsedBytes x),
      m_int ''storage_total_bytes'' (host_StorageTotalBytes x),
      m_int ''storage_max_pct'' (host_StorageMaxPct x),
      o_str ''storage_max_name'' (host_StorageMaxName x), m_int ''uptime_sec'' (host_UptimeSec x),
      o_strs ''load_avg'' (host_LoadAvg x), o_str ''pve_version'' (host_PVEVersion x),
      o_str ''kernel_version'' (host_KernelVersion x),
      o_str ''primary_address'' (host_PrimaryAddress x),
      m_int ''network_active'' (host_NetworkActive x), m_int ''network_total'' (host_NetworkTotal x),
      m_int ''services_running'' (host_ServicesRunning x),
      m_int ''services_failed'' (host_ServicesFailed x),
      m_int ''services_total'' (host_ServicesTotal x),
      m_int ''updates_available'' (host_UpdatesAvailable x),
      o_str ''subscription_status'' (host_SubscriptionStatus x),
      m_int ''disk_count'' (host_DiskCount x), m_int ''disk_issues'' (host_DiskIssues x),
      m_int ''failed_tasks_24h'' (host_FailedTasks24h x),
      o_str ''last_backup_status'' (host_LastBackupStatus x),
      o_int ''last_backup_age_sec'' (host_LastBackupAgeSec x),
      o_strs ''data_warnings'' (host_DataWarnings x), m_int ''guests_running'' (host_GuestsRunning x),
      m_int ''guests_stopped'' (host_GuestsStopped x), m_health ''health'' (host_Health x),
      m_str_ptr ''error'' (host_Error x)])"

definition host_type :: ty where
  "host_type = TObject
     [(''id'', True, TString), (''name'', True, TString), (''source_id'', True, TString),
      (''node'', True, TString), (''online'', True, TBool), (''cpu_pct'', True, TInt),
      (''max_cpu'', True, TInt), (''cpu_model'', False, TString), (''gpu_count'', False, TInt),
      (''gpu_summary'', False, TString), (''memory_pct'', True, TInt),
      (''memory_used_bytes'', True, TInt), (''memory_total_bytes'', True, TInt),
      (''memory_available_bytes'', False, TInt), (''swap_pct'', False, TInt),
      (''swap_used_bytes'', False, TInt), (''swap_total_bytes'', False, TInt),
      (''iowait_pct'', False, TInt), (''ksm_shared_bytes'', False, TInt),
      (''storage_pct'', True, TInt), (''storage_used_bytes'', True, TInt),
      (''storage_total_bytes'', True, TInt), (''storage_max_pct'', True, TInt),
      (''storage_max_name'', False, TString), (''uptime_sec'', True, TInt),
      (''load_avg'', False, TArray TString), (''pve_version'', False, TString),
      (''kernel_version'', False, TString), (''primary_address'', False, TString),
      (''network_active'', True, TInt), (''network_total'', True, TInt),
      (''services_running'', True, TInt), (''services_failed'', True, TInt),
      (''services_total'', True, TInt), (''updates_available'', True, TInt),
      (''subscription_status'', False, TString), (''disk_count'', True, TInt),
      (''disk_issues'', True, TInt), (''failed_tasks_24h'', True, TInt),
      (''last_backup_status'', False, TString), (''last_backup_age_sec'', False, TInt),
      (''data_warnings'', False, TArray TString), (''guests_running'', True, TInt),
      (''guests_stopped'', True, TInt), (''health'', True, TWord health_words),
      (''error'', True, TNullable TString)]"

lemma encode_host_typed: "host_Health x \<noteq> HealthZero \<Longrightarrow> has_type host_type (encode_host x)"
  unfolding encode_host_def host_type_def
  by (rule typed_object, unfold concat.simps, (rule typed_members | assumption)+)

definition encode_storage :: "storage \<Rightarrow> json" where
  "encode_storage x = JObject (concat
     [m_str ''id'' (storage_ID x), m_str ''name'' (storage_Name x),
      m_str ''source_id'' (storage_SourceID x), m_str ''host_id'' (storage_HostID x),
      m_str ''host_name'' (storage_HostName x), m_str ''node'' (storage_Node x),
      m_str ''status'' (storage_Status x), m_str ''plugin_type'' (storage_PluginType x),
      m_str ''content'' (storage_Content x), o_str ''path'' (storage_Path x),
      o_str ''pool'' (storage_Pool x), o_str ''mountpoint'' (storage_Mountpoint x),
      m_bool ''shared'' (storage_Shared x), m_int ''disk_pct'' (storage_DiskPct x),
      m_int ''disk_used_bytes'' (storage_DiskUsedBytes x),
      m_int ''disk_total_bytes'' (storage_DiskTotalBytes x),
      o_int ''content_items'' (storage_ContentItems x), o_int ''backup_count'' (storage_BackupCount x),
      o_int ''iso_count'' (storage_ISOCount x), o_int ''template_count'' (storage_TemplateCount x),
      o_int ''image_count'' (storage_ImageCount x), o_int ''rootdir_count'' (storage_RootdirCount x),
      m_health ''health'' (storage_Health x)])"

definition storage_type :: ty where
  "storage_type = TObject
     [(''id'', True, TString), (''name'', True, TString), (''source_id'', True, TString),
      (''host_id'', True, TString), (''host_name'', True, TString), (''node'', True, TString),
      (''status'', True, TString), (''plugin_type'', True, TString), (''content'', True, TString),
      (''path'', False, TString), (''pool'', False, TString), (''mountpoint'', False, TString),
      (''shared'', True, TBool), (''disk_pct'', True, TInt), (''disk_used_bytes'', True, TInt),
      (''disk_total_bytes'', True, TInt), (''content_items'', False, TInt),
      (''backup_count'', False, TInt), (''iso_count'', False, TInt), (''template_count'', False, TInt),
      (''image_count'', False, TInt), (''rootdir_count'', False, TInt),
      (''health'', True, TWord health_words)]"

lemma encode_storage_typed: "storage_Health x \<noteq> HealthZero \<Longrightarrow> has_type storage_type (encode_storage x)"
  unfolding encode_storage_def storage_type_def
  by (rule typed_object, unfold concat.simps, (rule typed_members | assumption)+)

definition encode_disk :: "disk \<Rightarrow> json" where
  "encode_disk x = JObject (concat
     [m_str ''id'' (disk_ID x), m_str ''source_id'' (disk_SourceID x),
      m_str ''host_id'' (disk_HostID x), m_str ''host_name'' (disk_HostName x),
      m_str ''node'' (disk_Node x), m_str ''name'' (disk_Name x), o_str ''model'' (disk_Model x),
      o_str ''serial'' (disk_Serial x), o_str ''type'' (disk_Type x),
      o_str ''used_by'' (disk_UsedBy x), m_int ''size_bytes'' (disk_SizeBytes x),
      o_str ''smart_health'' (disk_SMARTHealth x), o_int ''wearout_pct'' (disk_WearoutPct x),
      m_health ''health'' (disk_Health x)])"

definition disk_type :: ty where
  "disk_type = TObject
     [(''id'', True, TString), (''source_id'', True, TString), (''host_id'', True, TString),
      (''host_name'', True, TString), (''node'', True, TString), (''name'', True, TString),
      (''model'', False, TString), (''serial'', False, TString), (''type'', False, TString),
      (''used_by'', False, TString), (''size_bytes'', True, TInt), (''smart_health'', False, TString),
      (''wearout_pct'', False, TInt), (''health'', True, TWord health_words)]"

lemma encode_disk_typed: "disk_Health x \<noteq> HealthZero \<Longrightarrow> has_type disk_type (encode_disk x)"
  unfolding encode_disk_def disk_type_def
  by (rule typed_object, unfold concat.simps, (rule typed_members | assumption)+)

definition encode_network :: "network \<Rightarrow> json" where
  "encode_network x = JObject (concat
     [m_str ''id'' (network_ID x), m_str ''source_id'' (network_SourceID x),
      m_str ''host_id'' (network_HostID x), m_str ''host_name'' (network_HostName x),
      m_str ''node'' (network_Node x), m_str ''iface'' (network_Iface x),
      o_str ''type'' (network_Type x), m_bool ''active'' (network_Active x),
      m_bool ''autostart'' (network_Autostart x), o_str ''method'' (network_Method x),
      o_str ''address'' (network_Address x), o_str ''cidr'' (network_CIDR x),
      o_str ''gateway'' (network_Gateway x), o_str ''bridge_ports'' (network_BridgePorts x),
      o_str ''slaves'' (network_Slaves x), o_bool ''vlan_aware'' (network_VLANAware x),
      o_str ''comments'' (network_Comments x), m_health ''health'' (network_Health x)])"

definition network_type :: ty where
  "network_type = TObject
     [(''id'', True, TString), (''source_id'', True, TString), (''host_id'', True, TString),
      (''host_name'', True, TString), (''node'', True, TString), (''iface'', True, TString),
      (''type'', False, TString), (''active'', True, TBool), (''autostart'', True, TBool),
      (''method'', False, TString), (''address'', False, TString), (''cidr'', False, TString),
      (''gateway'', False, TString), (''bridge_ports'', False, TString), (''slaves'', False, TString),
      (''vlan_aware'', False, TBool), (''comments'', False, TString),
      (''health'', True, TWord health_words)]"

lemma encode_network_typed: "network_Health x \<noteq> HealthZero \<Longrightarrow> has_type network_type (encode_network x)"
  unfolding encode_network_def network_type_def
  by (rule typed_object, unfold concat.simps, (rule typed_members | assumption)+)

definition encode_service :: "service \<Rightarrow> json" where
  "encode_service x = JObject (concat
     [m_str ''id'' (service_ID x), m_str ''source_id'' (service_SourceID x),
      m_str ''host_id'' (service_HostID x), m_str ''host_name'' (service_HostName x),
      m_str ''node'' (service_Node x), m_str ''name'' (service_Name x),
      o_str ''state'' (service_State x), o_str ''unit_state'' (service_UnitState x),
      o_str ''description'' (service_Description x), m_health ''health'' (service_Health x)])"

definition service_type :: ty where
  "service_type = TObject
     [(''id'', True, TString), (''source_id'', True, TString), (''host_id'', True, TString),
      (''host_name'', True, TString), (''node'', True, TString), (''name'', True, TString),
      (''state'', False, TString), (''unit_state'', False, TString), (''description'', False, TString),
      (''health'', True, TWord health_words)]"

lemma encode_service_typed: "service_Health x \<noteq> HealthZero \<Longrightarrow> has_type service_type (encode_service x)"
  unfolding encode_service_def service_type_def
  by (rule typed_object, unfold concat.simps, (rule typed_members | assumption)+)

definition encode_zfspool :: "zfspool \<Rightarrow> json" where
  "encode_zfspool x = JObject (concat
     [m_str ''id'' (zfspool_ID x), m_str ''source_id'' (zfspool_SourceID x),
      m_str ''host_id'' (zfspool_HostID x), m_str ''host_name'' (zfspool_HostName x),
      m_str ''node'' (zfspool_Node x), m_str ''name'' (zfspool_Name x),
      o_str ''health_text'' (zfspool_HealthText x), o_str ''status'' (zfspool_Status x),
      o_str ''state'' (zfspool_State x), o_str ''scan'' (zfspool_Scan x),
      o_str ''errors'' (zfspool_Errors x), o_int ''device_count'' (zfspool_DeviceCount x),
      o_int ''issue_count'' (zfspool_IssueCount x), m_int ''size_bytes'' (zfspool_SizeBytes x),
      m_int ''allocated_bytes'' (zfspool_AllocatedBytes x), m_int ''free_bytes'' (zfspool_FreeBytes x),
      o_int ''fragmentation_pct'' (zfspool_FragmentationPct x),
      o_str ''dedup_ratio'' (zfspool_DedupRatio x), m_health ''health'' (zfspool_Health x)])"

definition zfspool_type :: ty where
  "zfspool_type = TObject
     [(''id'', True, TString), (''source_id'', True, TString), (''host_id'', True, TString),
      (''host_name'', True, TString), (''node'', True, TString), (''name'', True, TString),
      (''health_text'', False, TString), (''status'', False, TString), (''state'', False, TString),
      (''scan'', False, TString), (''errors'', False, TString), (''device_count'', False, TInt),
      (''issue_count'', False, TInt), (''size_bytes'', True, TInt), (''allocated_bytes'', True, TInt),
      (''free_bytes'', True, TInt), (''fragmentation_pct'', False, TInt),
      (''dedup_ratio'', False, TString), (''health'', True, TWord health_words)]"

lemma encode_zfspool_typed: "zfspool_Health x \<noteq> HealthZero \<Longrightarrow> has_type zfspool_type (encode_zfspool x)"
  unfolding encode_zfspool_def zfspool_type_def
  by (rule typed_object, unfold concat.simps, (rule typed_members | assumption)+)

definition encode_guestdisk :: "guestdisk \<Rightarrow> json" where
  "encode_guestdisk x = JObject (concat
     [m_str ''name'' (guestdisk_Name x), o_str ''storage'' (guestdisk_Storage x),
      o_str ''volume'' (guestdisk_Volume x), o_str ''size'' (guestdisk_Size x),
      o_str ''format'' (guestdisk_Format x), o_bool ''backup'' (guestdisk_Backup x),
      o_bool ''replicate'' (guestdisk_Replicate x), o_bool ''ssd'' (guestdisk_SSD x)])"

definition guestdisk_type :: ty where
  "guestdisk_type = TObject
     [(''name'', True, TString), (''storage'', False, TString), (''volume'', False, TString),
      (''size'', False, TString), (''format'', False, TString), (''backup'', False, TBool),
      (''replicate'', False, TBool), (''ssd'', False, TBool)]"

lemma encode_guestdisk_typed: "has_type guestdisk_type (encode_guestdisk x)"
  unfolding encode_guestdisk_def guestdisk_type_def
  by (rule typed_object, unfold concat.simps, (rule typed_members | assumption)+)

definition encode_guestnic :: "guestnic \<Rightarrow> json" where
  "encode_guestnic x = JObject (concat
     [m_str ''name'' (guestnic_Name x), o_str ''model'' (guestnic_Model x),
      o_str ''mac'' (guestnic_MAC x), o_str ''bridge'' (guestnic_Bridge x),
      o_bool ''firewall'' (guestnic_Firewall x), o_str ''tag'' (guestnic_Tag x),
      o_str ''rate'' (guestnic_Rate x)])"

definition guestnic_type :: ty where
  "guestnic_type = TObject
     [(''name'', True, TString), (''model'', False, TString), (''mac'', False, TString),
      (''bridge'', False, TString), (''firewall'', False, TBool), (''tag'', False, TString),
      (''rate'', False, TString)]"

lemma encode_guestnic_typed: "has_type guestnic_type (encode_guestnic x)"
  unfolding encode_guestnic_def guestnic_type_def
  by (rule typed_object, unfold concat.simps, (rule typed_members | assumption)+)

definition encode_guestfilesystem :: "guestfilesystem \<Rightarrow> json" where
  "encode_guestfilesystem x = JObject (concat
     [m_str ''name'' (guestfilesystem_Name x), o_str ''mountpoint'' (guestfilesystem_Mountpoint x),
      o_str ''type'' (guestfilesystem_Type x), m_int ''used_bytes'' (guestfilesystem_UsedBytes x),
      m_int ''total_bytes'' (guestfilesystem_TotalBytes x)])"

definition guestfilesystem_type :: ty where
  "guestfilesystem_type = TObject
     [(''name'', True, TString), (''mountpoint'', False, TString), (''type'', False, TString),
      (''used_bytes'', True, TInt), (''total_bytes'', True, TInt)]"

lemma encode_guestfilesystem_typed: "has_type guestfilesystem_type (encode_guestfilesystem x)"
  unfolding encode_guestfilesystem_def guestfilesystem_type_def
  by (rule typed_object, unfold concat.simps, (rule typed_members | assumption)+)

definition encode_guest :: "guest \<Rightarrow> json" where
  "encode_guest x = JObject (concat
     [m_str ''id'' (guest_ID x), m_str ''vmid'' (guest_VMID x), m_str ''name'' (guest_Name x),
      m_str ''type'' (guest_Type x), m_str ''host_id'' (guest_HostID x),
      m_str ''host_name'' (guest_HostName x), m_str ''source_id'' (guest_SourceID x),
      m_str ''status'' (guest_Status x), m_int ''cpu_pct'' (guest_CPUPct x),
      m_int ''max_cpu'' (guest_MaxCPU x), m_int ''memory_pct'' (guest_MemoryPct x),
      m_int ''memory_used_bytes'' (guest_MemoryUsedBytes x),
      m_int ''memory_total_bytes'' (guest_MemoryTotalBytes x),
      o_int ''memory_host_bytes'' (guest_MemoryHostBytes x), o_int ''swap_pct'' (guest_SwapPct x),
      o_int ''swap_used_bytes'' (guest_SwapUsedBytes x),
      o_int ''swap_total_bytes'' (guest_SwapTotalBytes x), m_int ''disk_pct'' (guest_DiskPct x),
      m_int ''disk_used_bytes'' (guest_DiskUsedBytes x),
      m_int ''disk_total_bytes'' (guest_DiskTotalBytes x), m_int ''uptime_sec'' (guest_UptimeSec x),
      m_int ''net_in_bytes'' (guest_NetInBytes x), m_int ''net_out_bytes'' (guest_NetOutBytes x),
      m_int ''disk_read_bytes'' (guest_DiskReadBytes x),
      m_int ''disk_write_bytes'' (guest_DiskWriteBytes x), o_str ''tags'' (guest_Tags x),
      o_str ''os_type'' (guest_OSType x), o_str ''ip_address'' (guest_IPAddress x),
      o_strs ''ip_addresses'' (guest_IPAddresses x), m_bool ''agent_enabled'' (guest_AgentEnabled x),
      m_bool ''agent_available'' (guest_AgentAvailable x),
      o_str ''agent_hostname'' (guest_AgentHostname x), o_str ''agent_os'' (guest_AgentOS x),
      o_str ''agent_version'' (guest_AgentVersion x),
      o_int ''agent_command_count'' (guest_AgentCommandCount x),
      o_str ''agent_warning'' (guest_AgentWarning x), o_int ''pid'' (guest_PID x),
      o_str ''qmp_status'' (guest_QMPStatus x), o_str ''running_qemu'' (guest_RunningQEMU x),
      o_bool ''ha_managed'' (guest_HAManaged x),
      o_int ''pressure_cpu_some_pct'' (guest_PressureCPUSomePct x),
      o_int ''pressure_cpu_full_pct'' (guest_PressureCPUFullPct x),
      o_int ''pressure_io_some_pct'' (guest_PressureIOSomePct x),
      o_int ''pressure_io_full_pct'' (guest_PressureIOFullPct x),
      o_int ''pressure_memory_some_pct'' (guest_PressureMemorySomePct x),
      o_int ''pressure_memory_full_pct'' (guest_PressureMemoryFullPct x),
      m_bool ''onboot'' (guest_OnBoot x), m_bool ''protection'' (guest_Protection x),
      m_bool ''template'' (guest_Template x), m_bool ''unprivileged'' (guest_Unprivileged x),
      o_str ''cpu_type'' (guest_CPUType x), o_str ''bios'' (guest_BIOS x),
      o_str ''machine'' (guest_Machine x), o_str ''boot_order'' (guest_BootOrder x),
      o_str ''startup'' (guest_Startup x), o_str ''nameserver'' (guest_Nameserver x),
      o_str ''search_domain'' (guest_SearchDomain x), o_str ''features'' (guest_Features x),
      o_list ''disks'' encode_guestdisk (guest_Disks x),
      o_list ''nics'' encode_guestnic (guest_NICs x),
      o_list ''filesystems'' encode_guestfilesystem (guest_Filesystems x),
      o_str ''config_warning'' (guest_ConfigWarning x), m_bool ''pinned'' (guest_Pinned x),
      o_str ''expected'' (guest_Expected x), m_health ''health'' (guest_Health x)])"

definition guest_type :: ty where
  "guest_type = TObject
     [(''id'', True, TString), (''vmid'', True, TString), (''name'', True, TString),
      (''type'', True, TString), (''host_id'', True, TString), (''host_name'', True, TString),
      (''source_id'', True, TString), (''status'', True, TString), (''cpu_pct'', True, TInt),
      (''max_cpu'', True, TInt), (''memory_pct'', True, TInt), (''memory_used_bytes'', True, TInt),
      (''memory_total_bytes'', True, TInt), (''memory_host_bytes'', False, TInt),
      (''swap_pct'', False, TInt), (''swap_used_bytes'', False, TInt),
      (''swap_total_bytes'', False, TInt), (''disk_pct'', True, TInt),
      (''disk_used_bytes'', True, TInt), (''disk_total_bytes'', True, TInt),
      (''uptime_sec'', True, TInt), (''net_in_bytes'', True, TInt), (''net_out_bytes'', True, TInt),
      (''disk_read_bytes'', True, TInt), (''disk_write_bytes'', True, TInt),
      (''tags'', False, TString), (''os_type'', False, TString), (''ip_address'', False, TString),
      (''ip_addresses'', False, TArray TString), (''agent_enabled'', True, TBool),
      (''agent_available'', True, TBool), (''agent_hostname'', False, TString),
      (''agent_os'', False, TString), (''agent_version'', False, TString),
      (''agent_command_count'', False, TInt), (''agent_warning'', False, TString),
      (''pid'', False, TInt), (''qmp_status'', False, TString), (''running_qemu'', False, TString),
      (''ha_managed'', False, TBool), (''pressure_cpu_some_pct'', False, TInt),
      (''pressure_cpu_full_pct'', False, TInt), (''pressure_io_some_pct'', False, TInt),
      (''pressure_io_full_pct'', False, TInt), (''pressure_memory_some_pct'', False, TInt),
      (''pressure_memory_full_pct'', False, TInt), (''onboot'', True, TBool),
      (''protection'', True, TBool), (''template'', True, TBool), (''unprivileged'', True, TBool),
      (''cpu_type'', False, TString), (''bios'', False, TString), (''machine'', False, TString),
      (''boot_order'', False, TString), (''startup'', False, TString),
      (''nameserver'', False, TString), (''search_domain'', False, TString),
      (''features'', False, TString), (''disks'', False, TArray guestdisk_type),
      (''nics'', False, TArray guestnic_type), (''filesystems'', False, TArray guestfilesystem_type),
      (''config_warning'', False, TString), (''pinned'', True, TBool), (''expected'', False, TString),
      (''health'', True, TWord health_words)]"

lemma encode_guest_typed: "guest_Health x \<noteq> HealthZero \<Longrightarrow> has_type guest_type (encode_guest x)"
  unfolding encode_guest_def guest_type_def
  by (rule typed_object, unfold concat.simps, (rule typed_members encode_guestdisk_typed encode_guestnic_typed encode_guestfilesystem_typed | assumption)+)

definition encode_snapshot :: "snapshot \<Rightarrow> json" where
  "encode_snapshot x = JObject (concat
     [m_str ''id'' (snapshot_ID x), m_str ''source_id'' (snapshot_SourceID x),
      m_str ''host_id'' (snapshot_HostID x), m_str ''host_name'' (snapshot_HostName x),
      m_str ''guest_id'' (snapshot_GuestID x), m_str ''guest_name'' (snapshot_GuestName x),
      m_str ''vmid'' (snapshot_VMID x), m_str ''type'' (snapshot_Type x),
      m_str ''name'' (snapshot_Name x), o_str ''description'' (snapshot_Description x),
      o_int ''snap_time'' (snapshot_SnapTime x), o_str ''parent'' (snapshot_Parent x),
      m_bool ''vmstate'' (snapshot_VMState x), m_health ''health'' (snapshot_Health x)])"

definition snapshot_type :: ty where
  "snapshot_type = TObject
     [(''id'', True, TString), (''source_id'', True, TString), (''host_id'', True, TString),
      (''host_name'', True, TString), (''guest_id'', True, TString), (''guest_name'', True, TString),
      (''vmid'', True, TString), (''type'', True, TString), (''name'', True, TString),
      (''description'', False, TString), (''snap_time'', False, TInt), (''parent'', False, TString),
      (''vmstate'', True, TBool), (''health'', True, TWord health_words)]"

lemma encode_snapshot_typed: "snapshot_Health x \<noteq> HealthZero \<Longrightarrow> has_type snapshot_type (encode_snapshot x)"
  unfolding encode_snapshot_def snapshot_type_def
  by (rule typed_object, unfold concat.simps, (rule typed_members | assumption)+)

definition encode_task :: "task \<Rightarrow> json" where
  "encode_task x = JObject (concat
     [m_str ''id'' (task_ID x), m_str ''source_id'' (task_SourceID x),
      m_str ''host_id'' (task_HostID x), m_str ''host_name'' (task_HostName x),
      m_str ''node'' (task_Node x), m_str ''type'' (task_Type x), o_str ''user'' (task_User x),
      m_str ''status'' (task_Status x), o_str ''target'' (task_Target x), o_str ''vmid'' (task_VMID x),
      o_str ''guest_name'' (task_GuestName x), m_int ''started_at'' (task_StartedAt x),
      o_int ''started_age_sec'' (task_StartedAgeSec x), o_int ''ended_at'' (task_EndedAt x),
      o_int ''duration_sec'' (task_DurationSec x), m_health ''health'' (task_Health x)])"

definition task_type :: ty where
  "task_type = TObject
     [(''id'', True, TString), (''source_id'', True, TString), (''host_id'', True, TString),
      (''host_name'', True, TString), (''node'', True, TString), (''type'', True, TString),
      (''user'', False, TString), (''status'', True, TString), (''target'', False, TString),
      (''vmid'', False, TString), (''guest_name'', False, TString), (''started_at'', True, TInt),
      (''started_age_sec'', False, TInt), (''ended_at'', False, TInt), (''duration_sec'', False, TInt),
      (''health'', True, TWord health_words)]"

lemma encode_task_typed: "task_Health x \<noteq> HealthZero \<Longrightarrow> has_type task_type (encode_task x)"
  unfolding encode_task_def task_type_def
  by (rule typed_object, unfold concat.simps, (rule typed_members | assumption)+)

definition encode_backupjob :: "backupjob \<Rightarrow> json" where
  "encode_backupjob x = JObject (concat
     [m_str ''id'' (backupjob_ID x), m_str ''source_id'' (backupjob_SourceID x),
      o_str ''storage'' (backupjob_Storage x), o_str ''schedule'' (backupjob_Schedule x),
      o_str ''mode'' (backupjob_Mode x), m_bool ''enabled'' (backupjob_Enabled x),
      m_bool ''all'' (backupjob_All x), o_str ''vmids'' (backupjob_VMIDs x),
      o_str ''compress'' (backupjob_Compress x), o_str ''mailto'' (backupjob_MailTo x),
      m_health ''health'' (backupjob_Health x)])"

definition backupjob_type :: ty where
  "backupjob_type = TObject
     [(''id'', True, TString), (''source_id'', True, TString), (''storage'', False, TString),
      (''schedule'', False, TString), (''mode'', False, TString), (''enabled'', True, TBool),
      (''all'', True, TBool), (''vmids'', False, TString), (''compress'', False, TString),
      (''mailto'', False, TString), (''health'', True, TWord health_words)]"

lemma encode_backupjob_typed: "backupjob_Health x \<noteq> HealthZero \<Longrightarrow> has_type backupjob_type (encode_backupjob x)"
  unfolding encode_backupjob_def backupjob_type_def
  by (rule typed_object, unfold concat.simps, (rule typed_members | assumption)+)

definition encode_replication :: "replication \<Rightarrow> json" where
  "encode_replication x = JObject (concat
     [m_str ''id'' (replication_ID x), m_str ''source_id'' (replication_SourceID x),
      o_str ''guest_id'' (replication_GuestID x), o_str ''guest_name'' (replication_GuestName x),
      o_str ''vmid'' (replication_VMID x), o_str ''source_node'' (replication_SourceNode x),
      o_str ''target_node'' (replication_TargetNode x), o_str ''schedule'' (replication_Schedule x),
      o_int ''rate'' (replication_Rate x), m_bool ''enabled'' (replication_Enabled x),
      o_str ''status'' (replication_Status x), o_str ''state'' (replication_State x),
      o_int ''duration_sec'' (replication_DurationSec x),
      o_int ''fail_count'' (replication_FailCount x), o_int ''last_sync'' (replication_LastSync x),
      o_int ''next_sync'' (replication_NextSync x),
      o_str ''last_sync_status'' (replication_LastSyncStatus x), o_str ''error'' (replication_Error x),
      m_health ''health'' (replication_Health x)])"

definition replication_type :: ty where
  "replication_type = TObject
     [(''id'', True, TString), (''source_id'', True, TString), (''guest_id'', False, TString),
      (''guest_name'', False, TString), (''vmid'', False, TString), (''source_node'', False, TString),
      (''target_node'', False, TString), (''schedule'', False, TString), (''rate'', False, TInt),
      (''enabled'', True, TBool), (''status'', False, TString), (''state'', False, TString),
      (''duration_sec'', False, TInt), (''fail_count'', False, TInt), (''last_sync'', False, TInt),
      (''next_sync'', False, TInt), (''last_sync_status'', False, TString),
      (''error'', False, TString), (''health'', True, TWord health_words)]"

lemma encode_replication_typed: "replication_Health x \<noteq> HealthZero \<Longrightarrow> has_type replication_type (encode_replication x)"
  unfolding encode_replication_def replication_type_def
  by (rule typed_object, unfold concat.simps, (rule typed_members | assumption)+)

definition encode_haresource :: "haresource \<Rightarrow> json" where
  "encode_haresource x = JObject (concat
     [m_str ''id'' (haresource_ID x), m_str ''source_id'' (haresource_SourceID x),
      m_str ''sid'' (haresource_SID x), o_str ''type'' (haresource_Type x),
      o_str ''state'' (haresource_State x), o_str ''request_state'' (haresource_RequestState x),
      o_str ''group'' (haresource_Group x), o_str ''node'' (haresource_Node x),
      o_int ''max_restart'' (haresource_MaxRestart x),
      o_int ''max_relocate'' (haresource_MaxRelocate x), m_health ''health'' (haresource_Health x)])"

definition haresource_type :: ty where
  "haresource_type = TObject
     [(''id'', True, TString), (''source_id'', True, TString), (''sid'', True, TString),
      (''type'', False, TString), (''state'', False, TString), (''request_state'', False, TString),
      (''group'', False, TString), (''node'', False, TString), (''max_restart'', False, TInt),
      (''max_relocate'', False, TInt), (''health'', True, TWord health_words)]"

lemma encode_haresource_typed: "haresource_Health x \<noteq> HealthZero \<Longrightarrow> has_type haresource_type (encode_haresource x)"
  unfolding encode_haresource_def haresource_type_def
  by (rule typed_object, unfold concat.simps, (rule typed_members | assumption)+)

definition encode_certificate :: "certificate \<Rightarrow> json" where
  "encode_certificate x = JObject (concat
     [m_str ''id'' (certificate_ID x), m_str ''source_id'' (certificate_SourceID x),
      m_str ''host_id'' (certificate_HostID x), m_str ''host_name'' (certificate_HostName x),
      m_str ''node'' (certificate_Node x), m_str ''filename'' (certificate_Filename x),
      o_str ''subject'' (certificate_Subject x), o_str ''issuer'' (certificate_Issuer x),
      o_strs ''sans'' (certificate_SANs x), o_str ''fingerprint'' (certificate_Fingerprint x),
      o_str ''public_key_type'' (certificate_PublicKeyType x),
      o_int ''public_key_bits'' (certificate_PublicKeyBits x),
      o_int ''not_before'' (certificate_NotBefore x), o_int ''not_after'' (certificate_NotAfter x),
      o_int ''days_remaining'' (certificate_DaysRemaining x), m_health ''health'' (certificate_Health x)])"

definition certificate_type :: ty where
  "certificate_type = TObject
     [(''id'', True, TString), (''source_id'', True, TString), (''host_id'', True, TString),
      (''host_name'', True, TString), (''node'', True, TString), (''filename'', True, TString),
      (''subject'', False, TString), (''issuer'', False, TString), (''sans'', False, TArray TString),
      (''fingerprint'', False, TString), (''public_key_type'', False, TString),
      (''public_key_bits'', False, TInt), (''not_before'', False, TInt), (''not_after'', False, TInt),
      (''days_remaining'', False, TInt), (''health'', True, TWord health_words)]"

lemma encode_certificate_typed: "certificate_Health x \<noteq> HealthZero \<Longrightarrow> has_type certificate_type (encode_certificate x)"
  unfolding encode_certificate_def certificate_type_def
  by (rule typed_object, unfold concat.simps, (rule typed_members | assumption)+)

definition encode_storageitem :: "storageitem \<Rightarrow> json" where
  "encode_storageitem x = JObject (concat
     [m_str ''id'' (storageitem_ID x), m_str ''source_id'' (storageitem_SourceID x),
      m_str ''host_id'' (storageitem_HostID x), m_str ''host_name'' (storageitem_HostName x),
      m_str ''node'' (storageitem_Node x), m_str ''storage'' (storageitem_Storage x),
      m_str ''content'' (storageitem_Content x), m_str ''volid'' (storageitem_VolID x),
      o_str ''vmid'' (storageitem_VMID x), o_str ''format'' (storageitem_Format x),
      o_int ''size_bytes'' (storageitem_SizeBytes x), o_int ''created_at'' (storageitem_CreatedAt x),
      o_str ''notes'' (storageitem_Notes x), o_bool ''protected'' (storageitem_Protected x),
      o_str ''verification_state'' (storageitem_VerificationState x),
      m_health ''health'' (storageitem_Health x)])"

definition storageitem_type :: ty where
  "storageitem_type = TObject
     [(''id'', True, TString), (''source_id'', True, TString), (''host_id'', True, TString),
      (''host_name'', True, TString), (''node'', True, TString), (''storage'', True, TString),
      (''content'', True, TString), (''volid'', True, TString), (''vmid'', False, TString),
      (''format'', False, TString), (''size_bytes'', False, TInt), (''created_at'', False, TInt),
      (''notes'', False, TString), (''protected'', False, TBool),
      (''verification_state'', False, TString), (''health'', True, TWord health_words)]"

lemma encode_storageitem_typed: "storageitem_Health x \<noteq> HealthZero \<Longrightarrow> has_type storageitem_type (encode_storageitem x)"
  unfolding encode_storageitem_def storageitem_type_def
  by (rule typed_object, unfold concat.simps, (rule typed_members | assumption)+)

definition encode_metrictrend :: "metrictrend \<Rightarrow> json" where
  "encode_metrictrend x = JObject (concat
     [m_str ''id'' (metrictrend_ID x), m_str ''source_id'' (metrictrend_SourceID x),
      o_str ''host_id'' (metrictrend_HostID x), o_str ''guest_id'' (metrictrend_GuestID x),
      m_str ''resource_type'' (metrictrend_ResourceType x),
      m_str ''resource_name'' (metrictrend_ResourceName x), m_str ''metric'' (metrictrend_Metric x),
      m_str ''unit'' (metrictrend_Unit x), m_str ''timeframe'' (metrictrend_Timeframe x),
      m_int ''last'' (metrictrend_Last x), m_ints ''values'' (metrictrend_Values x)])"

definition metrictrend_type :: ty where
  "metrictrend_type = TObject
     [(''id'', True, TString), (''source_id'', True, TString), (''host_id'', False, TString),
      (''guest_id'', False, TString), (''resource_type'', True, TString),
      (''resource_name'', True, TString), (''metric'', True, TString), (''unit'', True, TString),
      (''timeframe'', True, TString), (''last'', True, TInt), (''values'', True, TArray TInt)]"

lemma encode_metrictrend_typed: "has_type metrictrend_type (encode_metrictrend x)"
  unfolding encode_metrictrend_def metrictrend_type_def
  by (rule typed_object, unfold concat.simps, (rule typed_members | assumption)+)

definition encode_clusteroption :: "clusteroption \<Rightarrow> json" where
  "encode_clusteroption x = JObject (concat
     [m_str ''id'' (clusteroption_ID x), m_str ''source_id'' (clusteroption_SourceID x),
      m_str ''key'' (clusteroption_Key x), m_str ''value'' (clusteroption_Value x)])"

definition clusteroption_type :: ty where
  "clusteroption_type = TObject
     [(''id'', True, TString), (''source_id'', True, TString), (''key'', True, TString),
      (''value'', True, TString)]"

lemma encode_clusteroption_typed: "has_type clusteroption_type (encode_clusteroption x)"
  unfolding encode_clusteroption_def clusteroption_type_def
  by (rule typed_object, unfold concat.simps, (rule typed_members | assumption)+)

definition encode_cephcluster :: "cephcluster \<Rightarrow> json" where
  "encode_cephcluster x = JObject (concat
     [m_str ''id'' (cephcluster_ID x), m_str ''source_id'' (cephcluster_SourceID x),
      o_str ''fsid'' (cephcluster_FSID x), o_str ''health_text'' (cephcluster_HealthText x),
      o_int ''total_bytes'' (cephcluster_TotalBytes x), o_int ''used_bytes'' (cephcluster_UsedBytes x),
      o_int ''available_bytes'' (cephcluster_AvailableBytes x),
      o_int ''usage_pct'' (cephcluster_UsagePct x), o_int ''osds'' (cephcluster_OSDs x),
      o_int ''osds_up'' (cephcluster_OSDsUp x), o_int ''osds_in'' (cephcluster_OSDsIn x),
      o_int ''pgs'' (cephcluster_PGs x), m_health ''health'' (cephcluster_Health x)])"

definition cephcluster_type :: ty where
  "cephcluster_type = TObject
     [(''id'', True, TString), (''source_id'', True, TString), (''fsid'', False, TString),
      (''health_text'', False, TString), (''total_bytes'', False, TInt), (''used_bytes'', False, TInt),
      (''available_bytes'', False, TInt), (''usage_pct'', False, TInt), (''osds'', False, TInt),
      (''osds_up'', False, TInt), (''osds_in'', False, TInt), (''pgs'', False, TInt),
      (''health'', True, TWord health_words)]"

lemma encode_cephcluster_typed: "cephcluster_Health x \<noteq> HealthZero \<Longrightarrow> has_type cephcluster_type (encode_cephcluster x)"
  unfolding encode_cephcluster_def cephcluster_type_def
  by (rule typed_object, unfold concat.simps, (rule typed_members | assumption)+)

definition encode_capability :: "capability \<Rightarrow> json" where
  "encode_capability x = JObject (concat
     [m_str ''id'' (capability_ID x), m_str ''source_id'' (capability_SourceID x),
      o_str ''host_id'' (capability_HostID x), o_str ''guest_id'' (capability_GuestID x),
      m_str ''name'' (capability_Name x), m_str ''endpoint'' (capability_Endpoint x),
      m_str ''status'' (capability_Status x), o_int ''http_status'' (capability_HTTPStatus x),
      o_str ''message'' (capability_Message x)])"

definition capability_type :: ty where
  "capability_type = TObject
     [(''id'', True, TString), (''source_id'', True, TString), (''host_id'', False, TString),
      (''guest_id'', False, TString), (''name'', True, TString), (''endpoint'', True, TString),
      (''status'', True, TString), (''http_status'', False, TInt), (''message'', False, TString)]"

lemma encode_capability_typed: "has_type capability_type (encode_capability x)"
  unfolding encode_capability_def capability_type_def
  by (rule typed_object, unfold concat.simps, (rule typed_members | assumption)+)

definition encode_update :: "update \<Rightarrow> json" where
  "encode_update x = JObject (concat
     [m_str ''id'' (update_ID x), m_str ''source_id'' (update_SourceID x),
      m_str ''host_id'' (update_HostID x), m_str ''host_name'' (update_HostName x),
      m_str ''node'' (update_Node x), m_str ''package'' (update_Package x),
      o_str ''title'' (update_Title x), o_str ''current_version'' (update_CurrentVersion x),
      o_str ''candidate_version'' (update_CandidateVersion x), o_str ''origin'' (update_Origin x),
      o_str ''section'' (update_Section x), o_str ''priority'' (update_Priority x),
      m_health ''health'' (update_Health x)])"

definition update_type :: ty where
  "update_type = TObject
     [(''id'', True, TString), (''source_id'', True, TString), (''host_id'', True, TString),
      (''host_name'', True, TString), (''node'', True, TString), (''package'', True, TString),
      (''title'', False, TString), (''current_version'', False, TString),
      (''candidate_version'', False, TString), (''origin'', False, TString),
      (''section'', False, TString), (''priority'', False, TString),
      (''health'', True, TWord health_words)]"

lemma encode_update_typed: "update_Health x \<noteq> HealthZero \<Longrightarrow> has_type update_type (encode_update x)"
  unfolding encode_update_def update_type_def
  by (rule typed_object, unfold concat.simps, (rule typed_members | assumption)+)

definition encode_repository :: "repository \<Rightarrow> json" where
  "encode_repository x = JObject (concat
     [m_str ''id'' (repository_ID x), m_str ''source_id'' (repository_SourceID x),
      m_str ''host_id'' (repository_HostID x), m_str ''host_name'' (repository_HostName x),
      m_str ''node'' (repository_Node x), o_str ''file'' (repository_File x),
      o_str ''types'' (repository_Types x), o_str ''uris'' (repository_URIs x),
      o_str ''suites'' (repository_Suites x), o_str ''components'' (repository_Components x),
      m_bool ''enabled'' (repository_Enabled x), o_str ''status'' (repository_Status x),
      o_str ''warning'' (repository_Warning x), m_health ''health'' (repository_Health x)])"

definition repository_type :: ty where
  "repository_type = TObject
     [(''id'', True, TString), (''source_id'', True, TString), (''host_id'', True, TString),
      (''host_name'', True, TString), (''node'', True, TString), (''file'', False, TString),
      (''types'', False, TString), (''uris'', False, TString), (''suites'', False, TString),
      (''components'', False, TString), (''enabled'', True, TBool), (''status'', False, TString),
      (''warning'', False, TString), (''health'', True, TWord health_words)]"

lemma encode_repository_typed: "repository_Health x \<noteq> HealthZero \<Longrightarrow> has_type repository_type (encode_repository x)"
  unfolding encode_repository_def repository_type_def
  by (rule typed_object, unfold concat.simps, (rule typed_members | assumption)+)

definition encode_subscription :: "subscription \<Rightarrow> json" where
  "encode_subscription x = JObject (concat
     [m_str ''id'' (subscription_ID x), m_str ''source_id'' (subscription_SourceID x),
      m_str ''host_id'' (subscription_HostID x), m_str ''host_name'' (subscription_HostName x),
      m_str ''node'' (subscription_Node x), o_str ''status'' (subscription_Status x),
      o_str ''level'' (subscription_Level x), o_str ''product_name'' (subscription_ProductName x),
      o_str ''server_id'' (subscription_ServerID x),
      o_str ''next_due_date'' (subscription_NextDueDate x), m_health ''health'' (subscription_Health x)])"

definition subscription_type :: ty where
  "subscription_type = TObject
     [(''id'', True, TString), (''source_id'', True, TString), (''host_id'', True, TString),
      (''host_name'', True, TString), (''node'', True, TString), (''status'', False, TString),
      (''level'', False, TString), (''product_name'', False, TString), (''server_id'', False, TString),
      (''next_due_date'', False, TString), (''health'', True, TWord health_words)]"

lemma encode_subscription_typed: "subscription_Health x \<noteq> HealthZero \<Longrightarrow> has_type subscription_type (encode_subscription x)"
  unfolding encode_subscription_def subscription_type_def
  by (rule typed_object, unfold concat.simps, (rule typed_members | assumption)+)

definition encode_alert :: "alert \<Rightarrow> json" where
  "encode_alert x = JObject (concat
     [m_str ''id'' (alert_ID x), o_str ''source_id'' (alert_SourceID x),
      o_str ''host_id'' (alert_HostID x), o_str ''guest_id'' (alert_GuestID x),
      m_health ''severity'' (alert_Severity x), m_str ''title'' (alert_Title x),
      m_str ''message'' (alert_Message x)])"

definition alert_type :: ty where
  "alert_type = TObject
     [(''id'', True, TString), (''source_id'', False, TString), (''host_id'', False, TString),
      (''guest_id'', False, TString), (''severity'', True, TWord severity_words),
      (''title'', True, TString), (''message'', True, TString)]"

lemma encode_alert_typed:
  "alert_Severity x = HealthWarning \<or> alert_Severity x = HealthCritical \<Longrightarrow> has_type alert_type (encode_alert x)"
  unfolding encode_alert_def alert_type_def
  by (rule typed_object, unfold concat.simps, (rule typed_members | assumption)+)

definition encode_dstate :: "dstate \<Rightarrow> json" where
  "encode_dstate x = JObject (concat
     [m_str ''schema'' (dstate_Schema x), m_time ''generated_at'' (dstate_GeneratedAt x),
      m_bool ''stale'' (dstate_Stale x), m_json ''summary'' (encode_summary (dstate_Summary x)),
      m_rows ''clusters'' encode_cluster (dstate_Clusters x),
      m_rows ''hosts'' encode_host (dstate_Hosts x),
      m_rows ''storages'' encode_storage (dstate_Storages x),
      m_rows ''disks'' encode_disk (dstate_Disks x),
      m_rows ''networks'' encode_network (dstate_Networks x),
      m_rows ''services'' encode_service (dstate_Services x),
      m_rows ''zfs_pools'' encode_zfspool (dstate_ZFSPools x),
      m_rows ''guests'' encode_guest (dstate_Guests x),
      m_rows ''snapshots'' encode_snapshot (dstate_Snapshots x),
      m_rows ''tasks'' encode_task (dstate_Tasks x),
      m_rows ''backup_jobs'' encode_backupjob (dstate_BackupJobs x),
      m_rows ''replications'' encode_replication (dstate_Replications x),
      m_rows ''ha_resources'' encode_haresource (dstate_HAResources x),
      m_rows ''certificates'' encode_certificate (dstate_Certificates x),
      m_rows ''storage_items'' encode_storageitem (dstate_StorageItems x),
      m_rows ''metric_trends'' encode_metrictrend (dstate_MetricTrends x),
      m_rows ''cluster_options'' encode_clusteroption (dstate_ClusterOptions x),
      m_rows ''ceph_clusters'' encode_cephcluster (dstate_CephClusters x),
      m_rows ''capabilities'' encode_capability (dstate_Capabilities x),
      m_rows ''updates'' encode_update (dstate_Updates x),
      m_rows ''repositories'' encode_repository (dstate_Repositories x),
      m_rows ''subscriptions'' encode_subscription (dstate_Subscriptions x),
      m_rows ''alerts'' encode_alert (dstate_Alerts x)])"

definition dstate_type :: ty where
  "dstate_type = TObject
     [(''schema'', True, TString), (''generated_at'', True, TString), (''stale'', True, TBool),
      (''summary'', True, summary_type), (''clusters'', True, TArray cluster_type),
      (''hosts'', True, TArray host_type), (''storages'', True, TArray storage_type),
      (''disks'', True, TArray disk_type), (''networks'', True, TArray network_type),
      (''services'', True, TArray service_type), (''zfs_pools'', True, TArray zfspool_type),
      (''guests'', True, TArray guest_type), (''snapshots'', True, TArray snapshot_type),
      (''tasks'', True, TArray task_type), (''backup_jobs'', True, TArray backupjob_type),
      (''replications'', True, TArray replication_type),
      (''ha_resources'', True, TArray haresource_type),
      (''certificates'', True, TArray certificate_type),
      (''storage_items'', True, TArray storageitem_type),
      (''metric_trends'', True, TArray metrictrend_type),
      (''cluster_options'', True, TArray clusteroption_type),
      (''ceph_clusters'', True, TArray cephcluster_type),
      (''capabilities'', True, TArray capability_type), (''updates'', True, TArray update_type),
      (''repositories'', True, TArray repository_type),
      (''subscriptions'', True, TArray subscription_type), (''alerts'', True, TArray alert_type)]"

definition encode_detailstate :: "detailstate \<Rightarrow> json" where
  "encode_detailstate x = JObject (concat
     [m_str ''schema'' (detailstate_Schema x), m_time ''generated_at'' (detailstate_GeneratedAt x),
      m_bool ''stale'' (detailstate_Stale x),
      m_rows ''zfs_pools'' encode_zfspool (detailstate_ZFSPools x),
      m_rows ''certificates'' encode_certificate (detailstate_Certificates x),
      m_rows ''storage_items'' encode_storageitem (detailstate_StorageItems x),
      m_rows ''metric_trends'' encode_metrictrend (detailstate_MetricTrends x),
      m_rows ''cluster_options'' encode_clusteroption (detailstate_ClusterOptions x),
      m_rows ''ceph_clusters'' encode_cephcluster (detailstate_CephClusters x),
      m_rows ''capabilities'' encode_capability (detailstate_Capabilities x)])"

definition detailstate_type :: ty where
  "detailstate_type = TObject
     [(''schema'', True, TString), (''generated_at'', True, TString), (''stale'', True, TBool),
      (''zfs_pools'', True, TArray zfspool_type), (''certificates'', True, TArray certificate_type),
      (''storage_items'', True, TArray storageitem_type),
      (''metric_trends'', True, TArray metrictrend_type),
      (''cluster_options'', True, TArray clusteroption_type),
      (''ceph_clusters'', True, TArray cephcluster_type),
      (''capabilities'', True, TArray capability_type)]"

end
