(* ===== verification/Typed_Rows.thy ===== *)
theory Typed_Rows
  imports Collector Display_Json
begin

text \<open>
  Every row of a collected state has a health, and every alert is a warning or critical: each
  phase of \<open>collectSource\<close> keeps it so, and merging, sorting, cutting and finalizing do.  With the
  lemmas of \<open>Display_Json\<close> this makes every state the cache serves a value of the contract's type.
\<close>

section \<open>The invariant\<close>

definition rated :: "('a \<Rightarrow> health) \<Rightarrow> 'a slice \<Rightarrow> bool" where
  "rated health_of s \<longleftrightarrow> (\<forall>x\<in>set (elems s). health_of x \<noteq> HealthZero)"

definition typed :: "dstate \<Rightarrow> bool" where
  "typed s \<longleftrightarrow>
     rated cluster_Health (dstate_Clusters s) \<and>
     rated host_Health (dstate_Hosts s) \<and>
     rated storage_Health (dstate_Storages s) \<and>
     rated disk_Health (dstate_Disks s) \<and>
     rated network_Health (dstate_Networks s) \<and>
     rated service_Health (dstate_Services s) \<and>
     rated zfspool_Health (dstate_ZFSPools s) \<and>
     rated guest_Health (dstate_Guests s) \<and>
     rated snapshot_Health (dstate_Snapshots s) \<and>
     rated task_Health (dstate_Tasks s) \<and>
     rated backupjob_Health (dstate_BackupJobs s) \<and>
     rated replication_Health (dstate_Replications s) \<and>
     rated haresource_Health (dstate_HAResources s) \<and>
     rated certificate_Health (dstate_Certificates s) \<and>
     rated storageitem_Health (dstate_StorageItems s) \<and>
     rated cephcluster_Health (dstate_CephClusters s) \<and>
     rated update_Health (dstate_Updates s) \<and>
     rated repository_Health (dstate_Repositories s) \<and>
     rated subscription_Health (dstate_Subscriptions s) \<and>
     (\<forall>a\<in>set (elems (dstate_Alerts s)). is_issue (alert_Severity a))"

lemma rated_append [simp]:
  "rated f (append_slice s xs) \<longleftrightarrow> rated f s \<and> (\<forall>x\<in>set xs. f x \<noteq> HealthZero)"
  by (auto simp: rated_def)

lemma rated_None [simp]: "rated f None"
  by (simp add: rated_def)

text \<open>A step that appends rows to one list keeps the invariant exactly if the new rows have it.\<close>

lemma typed_appends [simp]:
  "typed s \<Longrightarrow> typed (s\<lparr>dstate_Clusters := append_slice (dstate_Clusters s) xs_cluster\<rparr>) \<longleftrightarrow> (\<forall>x\<in>set xs_cluster. cluster_Health x \<noteq> HealthZero)"
  "typed s \<Longrightarrow> typed (s\<lparr>dstate_Hosts := append_slice (dstate_Hosts s) xs_host\<rparr>) \<longleftrightarrow> (\<forall>x\<in>set xs_host. host_Health x \<noteq> HealthZero)"
  "typed s \<Longrightarrow> typed (s\<lparr>dstate_Storages := append_slice (dstate_Storages s) xs_storage\<rparr>) \<longleftrightarrow> (\<forall>x\<in>set xs_storage. storage_Health x \<noteq> HealthZero)"
  "typed s \<Longrightarrow> typed (s\<lparr>dstate_Disks := append_slice (dstate_Disks s) xs_disk\<rparr>) \<longleftrightarrow> (\<forall>x\<in>set xs_disk. disk_Health x \<noteq> HealthZero)"
  "typed s \<Longrightarrow> typed (s\<lparr>dstate_Networks := append_slice (dstate_Networks s) xs_network\<rparr>) \<longleftrightarrow> (\<forall>x\<in>set xs_network. network_Health x \<noteq> HealthZero)"
  "typed s \<Longrightarrow> typed (s\<lparr>dstate_Services := append_slice (dstate_Services s) xs_service\<rparr>) \<longleftrightarrow> (\<forall>x\<in>set xs_service. service_Health x \<noteq> HealthZero)"
  "typed s \<Longrightarrow> typed (s\<lparr>dstate_ZFSPools := append_slice (dstate_ZFSPools s) xs_zfspool\<rparr>) \<longleftrightarrow> (\<forall>x\<in>set xs_zfspool. zfspool_Health x \<noteq> HealthZero)"
  "typed s \<Longrightarrow> typed (s\<lparr>dstate_Guests := append_slice (dstate_Guests s) xs_guest\<rparr>) \<longleftrightarrow> (\<forall>x\<in>set xs_guest. guest_Health x \<noteq> HealthZero)"
  "typed s \<Longrightarrow> typed (s\<lparr>dstate_Snapshots := append_slice (dstate_Snapshots s) xs_snapshot\<rparr>) \<longleftrightarrow> (\<forall>x\<in>set xs_snapshot. snapshot_Health x \<noteq> HealthZero)"
  "typed s \<Longrightarrow> typed (s\<lparr>dstate_Tasks := append_slice (dstate_Tasks s) xs_task\<rparr>) \<longleftrightarrow> (\<forall>x\<in>set xs_task. task_Health x \<noteq> HealthZero)"
  "typed s \<Longrightarrow> typed (s\<lparr>dstate_BackupJobs := append_slice (dstate_BackupJobs s) xs_backupjob\<rparr>) \<longleftrightarrow> (\<forall>x\<in>set xs_backupjob. backupjob_Health x \<noteq> HealthZero)"
  "typed s \<Longrightarrow> typed (s\<lparr>dstate_Replications := append_slice (dstate_Replications s) xs_replication\<rparr>) \<longleftrightarrow> (\<forall>x\<in>set xs_replication. replication_Health x \<noteq> HealthZero)"
  "typed s \<Longrightarrow> typed (s\<lparr>dstate_HAResources := append_slice (dstate_HAResources s) xs_haresource\<rparr>) \<longleftrightarrow> (\<forall>x\<in>set xs_haresource. haresource_Health x \<noteq> HealthZero)"
  "typed s \<Longrightarrow> typed (s\<lparr>dstate_Certificates := append_slice (dstate_Certificates s) xs_certificate\<rparr>) \<longleftrightarrow> (\<forall>x\<in>set xs_certificate. certificate_Health x \<noteq> HealthZero)"
  "typed s \<Longrightarrow> typed (s\<lparr>dstate_StorageItems := append_slice (dstate_StorageItems s) xs_storageitem\<rparr>) \<longleftrightarrow> (\<forall>x\<in>set xs_storageitem. storageitem_Health x \<noteq> HealthZero)"
  "typed s \<Longrightarrow> typed (s\<lparr>dstate_CephClusters := append_slice (dstate_CephClusters s) xs_cephcluster\<rparr>) \<longleftrightarrow> (\<forall>x\<in>set xs_cephcluster. cephcluster_Health x \<noteq> HealthZero)"
  "typed s \<Longrightarrow> typed (s\<lparr>dstate_Updates := append_slice (dstate_Updates s) xs_update\<rparr>) \<longleftrightarrow> (\<forall>x\<in>set xs_update. update_Health x \<noteq> HealthZero)"
  "typed s \<Longrightarrow> typed (s\<lparr>dstate_Repositories := append_slice (dstate_Repositories s) xs_repository\<rparr>) \<longleftrightarrow> (\<forall>x\<in>set xs_repository. repository_Health x \<noteq> HealthZero)"
  "typed s \<Longrightarrow> typed (s\<lparr>dstate_Subscriptions := append_slice (dstate_Subscriptions s) xs_subscription\<rparr>) \<longleftrightarrow> (\<forall>x\<in>set xs_subscription. subscription_Health x \<noteq> HealthZero)"
  "typed (s\<lparr>dstate_MetricTrends := rows_MetricTrends\<rparr>) \<longleftrightarrow> typed s"
  "typed (s\<lparr>dstate_ClusterOptions := rows_ClusterOptions\<rparr>) \<longleftrightarrow> typed s"
  "typed (s\<lparr>dstate_Capabilities := rows_Capabilities\<rparr>) \<longleftrightarrow> typed s"
  by (auto simp: typed_def)

lemma typed_alert [simp]: "typed s \<Longrightarrow> typed (add_alert a s) \<longleftrightarrow> is_issue (alert_Severity a)"
  by (auto simp: typed_def add_alert_def)

lemma typed_capabilities [simp]:
  "typed (addCapability a b c d e err s) \<longleftrightarrow> typed s" "typed (cluster_capability cc d e err s) \<longleftrightarrow> typed s"
  "typed (node_capability cc h d e err s) \<longleftrightarrow> typed s" "typed (guest_capability cc g d e err s) \<longleftrightarrow> typed s"
  by (simp_all add: addCapability_def cluster_capability_def node_capability_def guest_capability_def Let_def
      split: prod.split)

lemma typed_NewState [simp]: "typed (NewState t)"
  by (simp add: typed_def NewState_def dstate_zero_def)

section \<open>Rows have a health\<close>

lemma is_issue_words [simp]: "is_issue HealthWarning" "is_issue HealthCritical" "is_issue h \<Longrightarrow> h \<noteq> HealthZero"
  by (auto simp: is_issue_def)

lemma healthFromText_rated [simp]: "healthFromText t \<noteq> HealthZero"
  by (simp add: healthFromText_def Let_def)

lemma maxHealth_rated [simp]: "a \<noteq> HealthZero \<Longrightarrow> maxHealth a b \<noteq> HealthZero"
  by (cases b) (simp_all add: maxHealth_def, cases a, simp_all)

lemma diskHealth_rated [simp]: "diskHealth t n \<noteq> HealthZero"
  by (simp add: diskHealth_def Let_def)

lemma displays_rated [simp]:
  "certificate_Health (certificateDisplay a c h cert now) \<noteq> HealthZero"
  "storageitem_Health (storageItemDisplay c st item) \<noteq> HealthZero"
  "network_Health (networkDisplay c h n) \<noteq> HealthZero"
  "service_Health (serviceDisplay c h sv) \<noteq> HealthZero"
  "zfspool_Health (zfsPoolDisplay c h pool) \<noteq> HealthZero"
  "backupjob_Health (backupJobDisplay c job) \<noteq> HealthZero"
  "haresource_Health (haResourceDisplay c r) \<noteq> HealthZero"
  "replication_Health (replicationDisplay c rj guests) \<noteq> HealthZero"
  "update_Health (updateDisplay c h u) \<noteq> HealthZero"
  "subscription_Health (subscriptionDisplay c h sub) \<noteq> HealthZero"
  "snapshot_Health (snapshotDisplay c g sn) \<noteq> HealthZero"
  "task_Health (taskDisplay c h t guests tnow) \<noteq> HealthZero"
  "disk_Health (disk_display c node h dk) \<noteq> HealthZero"
  by (simp_all add: certificateDisplay_def storageItemDisplay_def networkDisplay_def serviceDisplay_def
      zfsPoolDisplay_def backupJobDisplay_def haResourceDisplay_def replicationDisplay_def updateDisplay_def
      subscriptionDisplay_def snapshotDisplay_def taskDisplay_def disk_display_def Let_def)

lemma repository_rated [simp]: "repository_Health (repository_display c h path i info r) \<noteq> HealthZero"
  by (simp add: repository_display_def Let_def)

lemma repositories_rated [simp]: "x \<in> set (repositoriesDisplay c h repos) \<Longrightarrow> repository_Health x \<noteq> HealthZero"
  by (auto simp: repositoriesDisplay_def Let_def)

lemma zfs_detail_rated [simp]: "zfspool_Health p \<noteq> HealthZero \<Longrightarrow> zfspool_Health (applyZFSPoolDetail d p) \<noteq> HealthZero"
  by (simp add: applyZFSPoolDetail_def Let_def split: prod.split)

lemma ceph_rated: "cephCluster env c = Inr d \<Longrightarrow> cephcluster_Health d \<noteq> HealthZero"
  by (auto simp: cephCluster_def ceph_display_def Let_def split: sum.splits prod.splits)

lemma cluster_status_rated [simp]:
  "cluster_Health cl \<noteq> HealthZero \<Longrightarrow> cluster_Health (applyClusterStatus ss cl) \<noteq> HealthZero"
proof -
  have "cluster_Health (fold cluster_status_step ss cl) = cluster_Health cl" for ss cl
    by (rule fold_keeps) (simp add: cluster_status_step_def)
  then show "cluster_Health cl \<noteq> HealthZero \<Longrightarrow> cluster_Health (applyClusterStatus ss cl) \<noteq> HealthZero"
    by (simp add: applyClusterStatus_def Let_def)
qed

lemma cluster_warning_rated [simp]: "cluster_Health (addClusterWarning w cl) = cluster_Health cl"
  by (simp add: addClusterWarning_def)

lemma host_updates_rated [simp]:
  "host_Health (addDataWarning w h) = host_Health h"
  "host_Health h \<noteq> HealthZero \<Longrightarrow> host_Health (raise_host v h) \<noteq> HealthZero"
  "host_Health (apply_node_status a st h) = host_Health h"
  "host_Health (collect_node_status env c node h) = host_Health h"
  "host_Health (collect_pci env c node h) = host_Health h"
  by (simp_all add: addDataWarning_def raise_host_def apply_node_status_def collect_node_status_def collect_pci_def
      Let_def split: sum.split prod.split)

lemma host_alert_severity [simp]: "alert_Severity (host_alert i src hid v title msg) = v"
  by (simp add: host_alert_def)

section \<open>Phases\<close>

text \<open>The state under construction is typed and the row at hand has a health.\<close>

definition good :: "('a \<Rightarrow> health) \<Rightarrow> dstate \<times> 'a \<Rightarrow> bool" where
  "good f sx \<longleftrightarrow> typed (fst sx) \<and> f (snd sx) \<noteq> HealthZero"

lemma good_pair [simp]: "good f (s, x) \<longleftrightarrow> typed s \<and> f x \<noteq> HealthZero"
  by (simp add: good_def)

lemma fold_inv: "P y \<Longrightarrow> (\<And>x y. P y \<Longrightarrow> P (f x y)) \<Longrightarrow> P (fold f xs y)"
  by (induction xs arbitrary: y) simp_all

named_theorems typed_steps

lemma good_cluster_status [typed_steps]:
  "good cluster_Health sc \<Longrightarrow> good cluster_Health (collect_cluster_status env c sc)"
  by (cases sc) (simp add: collect_cluster_status_def quorum_alert_def Let_def split: sum.split)

lemma good_cluster_options [typed_steps]:
  "good cluster_Health sc \<Longrightarrow> good cluster_Health (collect_cluster_options env c sc)"
  by (cases sc) (simp add: collect_cluster_options_def Let_def split: sum.split)

lemma good_backup_jobs [typed_steps]:
  "good cluster_Health sc \<Longrightarrow> good cluster_Health (collect_backup_jobs env c sc)"
  by (cases sc) (auto simp: collect_backup_jobs_def Let_def split: sum.split)

lemma good_ha_step: "good cluster_Health sc \<Longrightarrow> good cluster_Health (ha_step c r sc)"
  by (cases sc) (simp add: ha_step_def ha_alert_def Let_def)

lemma good_ha [typed_steps]: "good cluster_Health sc \<Longrightarrow> good cluster_Health (collect_ha env c sc)"
  by (cases sc) (simp add: collect_ha_def Let_def fold_inv [where P = "good cluster_Health"] good_ha_step split: sum.split)

lemma good_ceph [typed_steps]: "good cluster_Health sc \<Longrightarrow> good cluster_Health (collect_ceph env c sc)"
  using ceph_rated [of env c]
  by (cases sc) (auto simp: collect_ceph_def ceph_alert_def Let_def split: sum.split)

lemma good_storage_config [typed_steps]:
  "good cluster_Health sc \<Longrightarrow> good cluster_Health (fst (collect_storage_config env c sc))"
  by (cases sc) (simp add: collect_storage_config_def Let_def split: sum.split)

lemma good_cluster: "typed s \<Longrightarrow> good cluster_Health (fst (collect_cluster env c s))"
  unfolding collect_cluster_def by (intro typed_steps) (simp add: base_cluster_def)

lemma good_certificate_step: "good host_Health sh \<Longrightarrow> good host_Health (certificate_step env c node ic sh)"
  by (cases sh) (simp add: certificate_step_def Let_def)

lemma good_certificates [typed_steps]:
  "good host_Health sh \<Longrightarrow> good host_Health (collect_certificates env c node sh)"
  by (cases sh) (simp add: collect_certificates_def Let_def fold_inv [where P = "good host_Health"] good_certificate_step
      split: sum.split)

lemma good_node_rrd: "collect_node_rrd env c node sh = Some sh' \<Longrightarrow> good host_Health sh \<Longrightarrow> good host_Health sh'"
  by (cases sh) (auto simp: collect_node_rrd_def Let_def split: sum.splits option.splits)

lemma good_network [typed_steps]: "good host_Health sh \<Longrightarrow> good host_Health (collect_network env c node sh)"
  by (cases sh) (auto simp: collect_network_def Let_def split: sum.split prod.split)

lemma good_services [typed_steps]: "good host_Health sh \<Longrightarrow> good host_Health (collect_services env c node sh)"
  by (cases sh) (auto simp: collect_services_def Let_def split: sum.split prod.split intro!: typed_alert [THEN iffD2])

lemma good_zfs_step: "good host_Health sh \<Longrightarrow> good host_Health (zfs_step env c node pool sh)"
  by (cases sh) (auto simp: zfs_step_def zfs_pool_with_detail_def Let_def split: sum.split)

lemma good_zfs [typed_steps]: "good host_Health sh \<Longrightarrow> good host_Health (collect_zfs env c node sh)"
  by (cases sh) (simp add: collect_zfs_def Let_def fold_inv [where P = "good host_Health"] good_zfs_step split: sum.split)

lemma good_updates [typed_steps]: "good host_Health sh \<Longrightarrow> good host_Health (collect_updates env c node sh)"
  by (cases sh) (auto simp: collect_updates_def Let_def split: sum.split)

lemma good_repositories [typed_steps]:
  "good host_Health sh \<Longrightarrow> good host_Health (collect_repositories env c node sh)"
  by (cases sh) (auto simp: collect_repositories_def Let_def split: sum.split)

lemma good_subscription [typed_steps]:
  "good host_Health sh \<Longrightarrow> good host_Health (collect_subscription env c node sh)"
  by (cases sh) (simp add: collect_subscription_def Let_def split: sum.split)

lemma good_disk_step: "good host_Health sh \<Longrightarrow> good host_Health (disk_step c node d sh)"
  by (cases sh) (simp add: disk_step_def Let_def)

lemma good_disks [typed_steps]: "good host_Health sh \<Longrightarrow> good host_Health (collect_disks env c node sh)"
  by (cases sh) (simp add: collect_disks_def fold_inv [where P = "good host_Health"] good_disk_step split: sum.split)

lemma good_node:
  assumes "collect_node env c node (s, h) = Some sh'" and "good host_Health (s, h)"
  shows "good host_Health sh'"
proof -
  from assms(1) obtain s1 h1 where
    r: "collect_node_rrd env c node (collect_certificates env c node (s, collect_node_status env c node h)) = Some (s1, h1)"
    and d: "sh' = collect_disks env c node (collect_subscription env c node
               (collect_repositories env c node (collect_updates env c node (collect_zfs env c node
                 (collect_services env c node (collect_network env c node (s1, collect_pci env c node h1)))))))"
    by (auto simp: collect_node_def Let_def split: option.splits)
  have "good host_Health (s1, h1)"
    by (rule good_node_rrd [OF r], intro typed_steps) (use assms(2) in simp)
  then show ?thesis unfolding d by (intro typed_steps) simp
qed

text \<open>The state and all hosts.\<close>

definition good_map :: "dstate \<times> host_map \<Rightarrow> bool" where
  "good_map sh \<longleftrightarrow> typed (fst sh) \<and> (\<forall>node h. map_of (snd sh) node = Some h \<longrightarrow> host_Health h \<noteq> HealthZero)"

lemma good_map_pair [simp]:
  "good_map (s, hosts) \<longleftrightarrow> typed s \<and> (\<forall>node h. map_of hosts node = Some h \<longrightarrow> host_Health h \<noteq> HealthZero)"
  by (simp add: good_map_def)

lemma good_map_update:
  "good_map (s0, hosts) \<Longrightarrow> good host_Health (s, h) \<Longrightarrow> good_map (s, AList.update node h hosts)"
  by (auto simp: update_conv')

lemma good_base_hosts: "typed s \<Longrightarrow> good_map (s, base_hosts a c resources)"
  unfolding base_hosts_def
  by (rule fold_inv [where P = "\<lambda>hosts. good_map (s, hosts)"])
    (auto simp: base_host_def Let_def update_conv')

lemma good_nodes: "collect_nodes env c nodes sh = Some sh' \<Longrightarrow> good_map sh \<Longrightarrow> good_map sh'"
proof (induction nodes arbitrary: sh)
  case (Cons node nodes)
  obtain s hosts where sh: "sh = (s, hosts)" by fastforce
  show ?case
  proof (cases "map_of hosts node")
    case (Some h)
    with Cons.prems sh obtain s1 h1 where n: "collect_node env c node (s, h) = Some (s1, h1)"
        and rest: "collect_nodes env c nodes (s1, AList.update node h1 hosts) = Some sh'"
      by (auto split: option.splits)
    have "good host_Health (s, h)" using Cons.prems(2) Some sh by auto
    from good_map_update [OF _ good_node [OF n this], of s hosts node] Cons.prems(2)
    show ?thesis using Cons.IH [OF rest] by (simp add: sh)
  qed (use Cons sh in simp)
qed simp

lemma good_storage_item: "good storage_Health ss \<Longrightarrow> good storage_Health (storage_item_step c item ss)"
  by (cases ss) (simp add: storage_item_step_def applyStorageItemSummary_def Let_def)

lemma good_storage_content [typed_steps]:
  "good storage_Health ss \<Longrightarrow> good storage_Health (collect_storage_content env c ss)"
  by (cases ss) (simp add: collect_storage_content_def Let_def fold_inv [where P = "good storage_Health"] good_storage_item
      split: sum.split)

lemma good_storage_alerts [typed_steps]:
  "good storage_Health ss \<Longrightarrow> good storage_Health (applyStorageAlerts cfg ss)"
  by (cases ss) (simp add: applyStorageAlerts_def storage_alert_def Let_def)

lemma good_storage_on_host: "good_map (s, hosts) \<Longrightarrow> good_map (s, storage_on_host st hosts)"
  by (auto simp: storage_on_host_def update_conv' split: option.split)

lemma good_storage:
  assumes "good_map sh"
  shows "good_map (collect_storage env col c configs r sh)"
proof -
  obtain s hosts where sh: "sh = (s, hosts)" by fastforce
  let ?st = "base_storage (env_arch env) c r"
  let ?st1 = "case configs (storage_Name ?st) of None \<Rightarrow> ?st | Some cfg \<Rightarrow> applyStorageConfig cfg ?st"
  have "storage_Health ?st1 \<noteq> HealthZero"
    by (simp add: base_storage_def applyStorageConfig_def Let_def split: option.split)
  then have start: "good storage_Health (s, ?st1)" using assms by (simp add: sh)
  obtain s2 st2 where 2: "collect_storage_content env c (s, ?st1) = (s2, st2)" by fastforce
  obtain s3 st3 where 3: "applyStorageAlerts (cfg_Alerts (col_cfg col)) (s2, st2) = (s3, st3)" by fastforce
  have "good storage_Health (s3, st3)"
    unfolding 3 [symmetric] 2 [symmetric] by (intro typed_steps start)
  moreover have "good_map (s3, storage_on_host st3 hosts)"
    using assms calculation by (intro good_storage_on_host) (simp add: sh)
  ultimately show ?thesis by (simp add: sh collect_storage_def Let_def 2 3)
qed

lemma good_guest_status [typed_steps]:
  "good guest_Health sg \<Longrightarrow> good guest_Health (collect_guest_status env c r sg)"
  by (cases sg) (simp add: collect_guest_status_def applyGuestStatus_def Let_def split: sum.split)

lemma good_snapshots [typed_steps]: "good guest_Health sg \<Longrightarrow> good guest_Health (collect_snapshots env c r sg)"
  by (cases sg) (auto simp: collect_snapshots_def split: sum.split)

lemma applyGuestAgent_rated [simp]: "guest_Health (fst (applyGuestAgent ans g)) = guest_Health g"
  by (cases "ans_info ans"; cases "ans_hostname ans"; cases "ans_osinfo ans"; cases "ans_network ans";
      cases "ans_fsinfo ans"; simp add: applyGuestAgent_def agent_networks_def Let_def split: list.split)

lemma good_agent [typed_steps]: "good guest_Health sg \<Longrightarrow> good guest_Health (collect_agent env c r sg)"
proof -
  assume "good guest_Health sg"
  moreover obtain s g where sg: "sg = (s, g)" by fastforce
  let ?r = "applyGuestAgent (agent_requests env c (resource_Node r) (guest_VMID g)) g"
  have "guest_Health (fst ?r) = guest_Health g" by simp
  ultimately show ?thesis
    by (cases ?r) (simp add: sg collect_agent_def Let_def split: option.split)
qed

lemma good_interfaces [typed_steps]: "good guest_Health sg \<Longrightarrow> good guest_Health (collect_interfaces env c r sg)"
  by (cases sg) (simp add: collect_interfaces_def container_addresses_def Let_def split: sum.split list.split)

lemma good_expected [typed_steps]: "good guest_Health sg \<Longrightarrow> good guest_Health (check_expected sg)"
  by (cases sg) (simp add: check_expected_def unexpected_status_alert_def)

lemma good_guest_rrd: "collect_guest_rrd env c r g s = Some s' \<Longrightarrow> typed s \<Longrightarrow> typed s'"
  by (auto simp: collect_guest_rrd_def Let_def split: sum.splits option.splits)

lemma good_guest_on_host: "good_map (s, hosts) \<Longrightarrow> good_map (s, guest_on_host node g hosts)"
  by (auto simp: guest_on_host_def update_conv' split: option.split)

lemma good_guest:
  assumes "collect_guest env col c r (s, hosts, guests) = Some (s', hosts', guests')" and "good_map (s, hosts)"
  shows "good_map (s', hosts')"
proof -
  let ?g0 = "base_guest (env_arch env) c (col_pinned col (client_id c @ ''/'' @ guest_vmid r)) r"
  let ?g1 = "collect_guest_config env c r ?g0"
  have "guest_Health ?g1 \<noteq> HealthZero"
    by (simp add: collect_guest_config_def applyGuestConfig_def base_guest_def Let_def split: sum.split)
  then have start: "good guest_Health (s, ?g1)" using assms(2) by simp
  obtain s2 g2 where 2: "collect_guest_status env c r (s, ?g1) = (s2, g2)" by fastforce
  have g2: "good guest_Health (s2, g2)" unfolding 2 [symmetric] by (intro typed_steps start)
  note unfold = collect_guest_def [of env col c r "(s, hosts, guests)", unfolded Let_def prod.case 2]
  from assms(1) obtain s3 where 3: "collect_guest_rrd env c r g2 s2 = Some s3"
    by (cases "collect_guest_rrd env c r g2 s2") (simp_all add: unfold)
  obtain s4 g4 where 4: "check_expected (collect_interfaces env c r (collect_agent env c r
      (collect_snapshots env c r (s3, g2)))) = (s4, g4)" by fastforce
  have "good guest_Health (s4, g4)"
    unfolding 4 [symmetric] by (intro typed_steps) (use g2 good_guest_rrd [OF 3] in simp)
  moreover have "s' = s4\<lparr>dstate_Guests := append_slice (dstate_Guests s4) [g4]\<rparr>"
      "hosts' = guest_on_host (resource_Node r) g4 hosts"
    using assms(1) by (simp_all add: unfold 3 4)
  moreover have "good_map (s, guest_on_host (resource_Node r) g4 hosts)"
    using assms(2) by (rule good_guest_on_host)
  ultimately show ?thesis by (simp add: good_map_def)
qed

lemma good_guests:
  "collect_guests env col c rs (s, hosts, guests) = Some (s', hosts', guests') \<Longrightarrow> good_map (s, hosts) \<Longrightarrow>
   good_map (s', hosts')"
proof (induction rs arbitrary: s hosts guests)
  case (Cons r rs)
  then obtain s1 hosts1 guests1 where
    1: "collect_guest env col c r (s, hosts, guests) = Some (s1, hosts1, guests1)"
    and rest: "collect_guests env col c rs (s1, hosts1, guests1) = Some (s', hosts', guests')"
    by (auto split: option.splits)
  show ?case by (rule Cons.IH [OF rest good_guest [OF 1 Cons.prems(2)]])
qed simp

lemma good_replication_step: "good cluster_Health sc \<Longrightarrow> good cluster_Health (replication_step env c guests r sc)"
  by (cases sc) (simp add: replication_step_def replication_with_status_def replication_alert_def Let_def split: sum.split)

lemma good_replications:
  "good cluster_Health sc \<Longrightarrow> good cluster_Health (collect_replications env c guests sc)"
  by (cases sc) (simp add: collect_replications_def Let_def fold_inv [where P = "good cluster_Health"]
      good_replication_step split: sum.split)

definition good_task :: "dstate \<times> host \<times> (string \<Rightarrow> int) \<Rightarrow> bool" where
  "good_task shl \<longleftrightarrow> typed (fst shl) \<and> host_Health (fst (snd shl)) \<noteq> HealthZero"

lemma good_task_step: "good_task shl \<Longrightarrow> good_task (task_step c guests now t shl)"
  by (cases shl) (simp add: good_task_def task_step_def task_on_host_def Let_def)

lemma good_node_tasks: "good_task shl \<Longrightarrow> good_task (collect_node_tasks env c guests now node shl)"
proof -
  assume g: "good_task shl"
  obtain s h started where shl: "shl = (s, h, started)" by (rule prod_cases3)
  show ?thesis
  proof (cases "nodeTasks env c node")
    case (Inr ts)
    obtain s1 h1 started1 where 1: "fold (task_step c guests now) ts shl = (s1, h1, started1)" by (metis prod.exhaust)
    have "good_task (fold (task_step c guests now) ts shl)"
      using g by (rule fold_inv) (rule good_task_step)
    then show ?thesis using Inr 1
      by (simp add: shl collect_node_tasks_def failed_tasks_alert_def good_task_def Let_def)
  qed (use g in \<open>simp add: shl collect_node_tasks_def good_task_def\<close>)
qed

lemma good_tasks:
  "good_map (s, hosts) \<Longrightarrow> good_map (collect_tasks env c guests now nodes (s, hosts, started))"
proof (induction nodes arbitrary: s hosts started)
  case (Cons node nodes)
  show ?case
  proof (cases "map_of hosts node")
    case (Some h)
    obtain s1 h1 started1 where 1: "collect_node_tasks env c guests now node (s, h, started) = (s1, h1, started1)"
      by (metis prod.exhaust)
    have "good_task (s, h, started)" using Cons.prems Some by (auto simp: good_task_def)
    from good_node_tasks [OF this, of env c guests now node] have "good host_Health (s1, h1)"
      by (simp add: 1 good_task_def)
    from Cons.IH [OF good_map_update [OF Cons.prems this, of node], of started1] show ?thesis by (simp add: Some 1)
  qed (use Cons in simp)
qed simp

lemma good_host_alerts: "good host_Health sh \<Longrightarrow> good host_Health (applyHostAlerts cfg sh)"
  by (cases sh) (simp add: applyHostAlerts_def host_memory_alerts_def host_storage_alerts_def host_offline_alert_def
      alertForHost_def Let_def)

lemma good_finish: "good_map (s, hosts) \<Longrightarrow> typed (finish_hosts cfg nodes hosts s)"
proof (induction nodes arbitrary: s)
  case (Cons node nodes)
  show ?case
  proof (cases "map_of hosts node")
    case (Some h)
    obtain s1 h1 where 1: "applyHostAlerts cfg (s, h) = (s1, h1)" by fastforce
    have "good host_Health (s1, h1)"
      unfolding 1 [symmetric] by (rule good_host_alerts) (use Cons.prems Some in auto)
    then show ?thesis using Cons.IH [of "s1\<lparr>dstate_Hosts := append_slice (dstate_Hosts s1) [h1]\<rparr>"] Cons.prems Some
      by (simp add: 1)
  qed (use Cons in simp)
qed simp

section \<open>The source and the merged state\<close>

lemma typed_resources:
  assumes res: "collect_resources env col c resources s0 = Some s" and "typed s0"
  shows "typed s"
proof -
  let ?hosts = "base_hosts (env_arch env) c resources"
  let ?guests = "filter (\<lambda>r. resource_Type r = ''qemu'' \<or> resource_Type r = ''lxc'') resources"
  obtain s1 cl configs where 1: "collect_cluster env c s0 = ((s1, cl), configs)" by (metis prod.exhaust)
  note unfold = collect_resources_def [of env col c resources s0, unfolded 1 Let_def prod.case]
  from res obtain s2 hosts2 where
    2: "collect_nodes env c (visit env 0 ?hosts) (s1, ?hosts) = Some (s2, hosts2)"
    by (auto simp: unfold split: option.splits)
  obtain s3 hosts3 where 3: "fold (collect_storage env col c configs)
      (filter (\<lambda>r. resource_Type r = ''storage'') resources) (s2, hosts2) = (s3, hosts3)" by fastforce
  from res obtain s4 hosts4 guests4 where
    4: "collect_guests env col c ?guests (s3, hosts3, Map.empty) = Some (s4, hosts4, guests4)"
    by (auto simp: unfold 2 3 split: option.splits)
  obtain s5 cl5 where 5: "collect_replications env c guests4 (s4, cl) = (s5, cl5)" by fastforce
  let ?s5 = "s5\<lparr>dstate_Clusters := append_slice (dstate_Clusters s5) [cl5]\<rparr>"
  obtain s6 hosts6 where 6: "collect_tasks env c guests4 (unix (env_clock env ''tasks'' 0)) (visit env 1 hosts4)
      (?s5, hosts4, \<lambda>_. 0) = (s6, hosts6)" by fastforce
  have s: "s = finish_hosts (cfg_Alerts (col_cfg col)) (visit env 2 hosts6) hosts6 s6"
  proof -
    have "collect_resources env col c resources s0
        = Some (finish_hosts (cfg_Alerts (col_cfg col)) (visit env 2 hosts6) hosts6 s6)"
      by (simp only: unfold 2 3 4 5 6 prod.case option.case)
    with res show ?thesis by simp
  qed
  have cl: "good cluster_Health (s1, cl)" using good_cluster [OF assms(2), of env c] by (simp add: 1)
  then have "good_map (s1, ?hosts)" by (intro good_base_hosts) simp
  from good_nodes [OF 2 this] have "good_map (s2, hosts2)" .
  then have "good_map (fold (collect_storage env col c configs)
      (filter (\<lambda>r. resource_Type r = ''storage'') resources) (s2, hosts2))"
    by (rule fold_inv) (rule good_storage)
  then have "good_map (s3, hosts3)" unfolding 3 .
  from good_guests [OF 4 this] have g4: "good_map (s4, hosts4)" .
  then have "good cluster_Health (s4, cl)" using cl by simp
  from good_replications [OF this, of env c guests4] have "good cluster_Health (s5, cl5)" by (simp add: 5)
  then have "good_map (?s5, hosts4)" using g4 by simp
  from good_tasks [OF this] have "good_map (s6, hosts6)" by (metis 6)
  then show ?thesis unfolding s by (rule good_finish)
qed

lemma typed_collectSource: "collectSource env col c = Some s \<Longrightarrow> typed s"
  using typed_resources [OF _ typed_NewState]
  by (auto simp: collectSource_def source_unreachable_def unreachable_host_def unreachable_alert_def Let_def
      split: sum.splits)

lemma typed_merge: "typed r \<Longrightarrow> typed s \<Longrightarrow> typed (merge_state r s)"
  by (simp add: typed_def merge_state_def) (auto simp: rated_def)

lemma rated_cut [simp]: "rated f s \<Longrightarrow> rated f (cut n s)"
  by (auto simp: rated_def dest: in_set_takeD)

lemma sort_slice_set:
  assumes "sort_algorithm perm" and "less_weak lt"
  shows "set (elems (sort_slice perm lt s)) = set (elems s)"
  using sorts_to_set [OF sort_algorithm.slice_sorts_to [OF assms]]
  by (simp add: sort_algorithm.elems_sort [OF assms])

lemma rated_sort:
  assumes "sort_algorithm perm" and "less_weak lt"
  shows "rated f (sort_slice perm lt s) \<longleftrightarrow> rated f s"
  by (simp add: rated_def sort_slice_set [OF assms])

lemma typed_sort:
  assumes "sort_algorithm perm" and "typed s"
  shows "typed (sort_state perm s)"
proof -
  note sorted = rated_sort [OF assms(1) less_by_weak] rated_sort [OF assms(1) less_key.axioms(1) [OF guest_less_key]]
    rated_sort [OF assms(1) less_key.axioms(1) [OF newest_by_key]] sort_slice_set [OF assms(1) alert_less_weak]
  show ?thesis using assms(2) by (simp add: typed_def sort_state_def sorted)
qed

lemma typed_Finalize [simp]: "typed (Finalize s) \<longleftrightarrow> typed s"
  by (simp add: typed_def rated_def Finalize_eq fill_nil_def)

lemma typed_Collect:
  assumes "sort_algorithm perm" and "Collect envs perm arrival now col = Some s"
    and "set arrival \<subseteq> {..<length (col_clients col)}"
  shows "typed s"
proof -
  obtain rs where rs: "source_results envs col rs"
    and s: "s = Finalize (sort_state perm (merged (map ((!) rs) arrival) now))"
    using assms(2) by (auto simp: Collect_Some)
  have "\<forall>r\<in>set (map ((!) rs) arrival). typed r"
    using rs assms(3) by (fastforce simp: source_results_def intro: typed_collectSource)
  then have "typed (fold merge_state (map ((!) rs) arrival) t)" if "typed t" for t
    using that
  proof (induction "map ((!) rs) arrival" arbitrary: arrival t)
    case (Cons r rs')
    then show ?case by (cases arrival) (auto intro: typed_merge)
  qed simp
  then show ?thesis by (simp add: s merged_def typed_sort [OF assms(1)])
qed

section \<open>States on the wire\<close>

lemma summary_of_rated: "summary_Health (summary_of s) \<noteq> HealthZero"
  by (simp add: summary_of_def inventory_health_def)

lemmas encode_typed = encode_summary_typed encode_cluster_typed encode_host_typed encode_storage_typed
  encode_disk_typed encode_network_typed encode_service_typed encode_zfspool_typed encode_guest_typed
  encode_snapshot_typed encode_task_typed encode_backupjob_typed encode_replication_typed
  encode_haresource_typed encode_certificate_typed encode_storageitem_typed encode_metrictrend_typed
  encode_clusteroption_typed encode_cephcluster_typed encode_capability_typed encode_update_typed
  encode_repository_typed encode_subscription_typed encode_alert_typed

theorem finalized_typed:
  assumes "finalized s" and "typed s"
  shows "has_type dstate_type (encode_dstate s)"
  unfolding encode_dstate_def dstate_type_def
  by (rule typed_object, unfold concat.simps, (rule typed_members)+)
    (use assms in \<open>simp_all add: finalized_def no_nil_def typed_def rated_def is_issue_def summary_of_rated encode_typed\<close>)

lemma typed_compact: "typed s \<Longrightarrow> typed (CompactForDisplay s)"
  by (simp add: CompactForDisplay_def typed_def rated_def Finalize_eq fill_nil_def)

lemma prioritized_not_None: "prioritizedCapabilities vs n \<noteq> None"
  by (cases vs) (simp_all add: prioritizedCapabilities_def)

theorem detail_typed:
  assumes "typed s"
  shows "has_type detailstate_type (encode_detailstate (DetailForDisplay s))"
  unfolding encode_detailstate_def detailstate_type_def
  by (rule typed_object, unfold concat.simps, (rule typed_members)+)
    (use assms in \<open>simp_all add: DetailForDisplay_def typed_def rated_def is_issue_def encode_typed prioritized_not_None,
      auto intro!: encode_typed dest: in_set_takeD\<close>)

section \<open>The other collectors\<close>

lemma typed_empty: "empty_collect now = Inr s \<Longrightarrow> typed s"
  by (auto simp: empty_collect_def typed_def rated_def Finalize_eq fill_nil_def NewState_def dstate_zero_def)

lemma mock_rows_rated:
  "h \<in> set mock_Hosts \<Longrightarrow> host_Health h \<noteq> HealthZero"
  "cl \<in> set mock_Clusters \<Longrightarrow> cluster_Health cl \<noteq> HealthZero"
  "st \<in> set mock_Storages \<Longrightarrow> storage_Health st \<noteq> HealthZero"
  "nw \<in> set mock_Networks \<Longrightarrow> network_Health nw \<noteq> HealthZero"
  "sv \<in> set mock_Services \<Longrightarrow> service_Health sv \<noteq> HealthZero"
  "z \<in> set mock_ZFSPools \<Longrightarrow> zfspool_Health z \<noteq> HealthZero"
  "d \<in> set mock_Disks \<Longrightarrow> disk_Health d \<noteq> HealthZero"
  "g \<in> set mock_Guests \<Longrightarrow> guest_Health g \<noteq> HealthZero"
  "sn \<in> set (mock_Snapshots t) \<Longrightarrow> snapshot_Health sn \<noteq> HealthZero"
  "tk \<in> set (mock_Tasks t) \<Longrightarrow> task_Health tk \<noteq> HealthZero"
  "b \<in> set mock_BackupJobs \<Longrightarrow> backupjob_Health b \<noteq> HealthZero"
  "rp \<in> set (mock_Replications t) \<Longrightarrow> replication_Health rp \<noteq> HealthZero"
  "ha \<in> set mock_HAResources \<Longrightarrow> haresource_Health ha \<noteq> HealthZero"
  "ce \<in> set mock_Certificates \<Longrightarrow> certificate_Health ce \<noteq> HealthZero"
  "si \<in> set mock_StorageItems \<Longrightarrow> storageitem_Health si \<noteq> HealthZero"
  "u \<in> set mock_Updates \<Longrightarrow> update_Health u \<noteq> HealthZero"
  "re \<in> set mock_Repositories \<Longrightarrow> repository_Health re \<noteq> HealthZero"
  "su \<in> set mock_Subscriptions \<Longrightarrow> subscription_Health su \<noteq> HealthZero"
  unfolding mock_Hosts_def mock_Clusters_def mock_Storages_def mock_Networks_def mock_Services_def
    mock_ZFSPools_def mock_Disks_def mock_Guests_def mock_Snapshots_def mock_Tasks_def mock_BackupJobs_def
    mock_Replications_def mock_HAResources_def mock_Certificates_def mock_StorageItems_def mock_Updates_def
    mock_Repositories_def mock_Subscriptions_def
  by auto

lemma typed_mock_state: "typed (mock_state t n)"
  by (auto simp: mock_state_def typed_def rated_def NewState_def dstate_zero_def dest: mock_rows_rated)

lemma typed_mock: "mock_collect now = Inr s \<Longrightarrow> typed s"
  using typed_mock_state by (auto simp: mock_collect_def)

end
