(* ===== verification/Api_Contract.thy ===== *)
theory Api_Contract
  imports Web_Runs Typed_Rows
begin

text \<open>
  What the display API puts on the wire: the JSON value of every answer of \<open>healthz\<close> and the four
  authenticated routes (\<open>internal/server/server.go\<close>), the type the contract gives each route and
  status, and the proof that every answer has it.  (A time after the year 9999, which
  \<open>encoding/json\<close> refuses to write, is left out.)
\<close>

section \<open>Answers as JSON\<close>

text \<open>A Go map is written with its keys in order; the one \<open>Metadata\<close> returns has an optional key.\<close>

definition encode_meta :: "bridge_meta \<Rightarrow> json" where
  "encode_meta meta = JObject (concat
     [m_bool ''has_state'' (meta_has_state meta),
      case meta_last_error meta of Some err \<Rightarrow> m_str ''last_error'' (state_error_text (LastError err)) | None \<Rightarrow> [],
      m_time ''last_ok'' (meta_last_ok meta),
      m_str ''poll_interval'' (Duration_String (meta_poll_interval meta)),
      m_str ''stale_after'' (Duration_String (meta_stale_after meta))])"

fun body_json :: "body \<Rightarrow> json option" where
  "body_json (StateJSON s) = Some (encode_dstate s)"
| "body_json (DetailJSON s) = Some (encode_detailstate s)"
| "body_json (HealthJSON mock) =
     Some (JObject (concat [m_bool ''mock'' mock, m_bool ''ok'' True, m_str ''version'' Version]))"
| "body_json (DebugJSON mock meta s) =
     Some (JObject (concat [m_json ''cache'' (encode_meta meta), m_bool ''mock'' mock,
       m_json ''state'' (encode_dstate s), m_str ''version'' Version]))"
| "body_json (DebugErrorJSON err meta) =
     Some (JObject (concat [m_json ''cache'' (encode_meta meta), m_str ''error'' err]))"
| "body_json (ErrorJSON err) = Some (JObject (concat [m_str ''error'' err]))"
| "body_json _ = None"

text \<open>\<open>writeJSON\<close> sends the text of the value.\<close>

definition body_text :: "body \<Rightarrow> string option" where
  "body_text b = map_option Encode (body_json b)"

section \<open>The contract\<close>

definition meta_type :: ty where
  "meta_type = TObject
     [(''has_state'', True, TBool), (''last_error'', False, TString), (''last_ok'', True, TString),
      (''poll_interval'', True, TString), (''stale_after'', True, TString)]"

definition health_type :: ty where
  "health_type = TObject [(''mock'', True, TBool), (''ok'', True, TBool), (''version'', True, TString)]"

definition debug_type :: ty where
  "debug_type = TObject
     [(''cache'', True, meta_type), (''mock'', True, TBool), (''state'', True, dstate_type),
      (''version'', True, TString)]"

definition error_type :: ty where
  "error_type = TObject [(''error'', True, TString)]"

definition debug_error_type :: ty where
  "debug_error_type = TObject [(''cache'', True, meta_type), (''error'', True, TString)]"

definition answer_type :: "string \<Rightarrow> int \<Rightarrow> ty" where
  "answer_type path status =
     (if path = ''/healthz'' then health_type
      else if status = 200
           then if path = ''/api/v1/detail-state'' then detailstate_type
                else if path = ''/api/v1/debug'' then debug_type
                else dstate_type
      else if status = 503 \<and> path = ''/api/v1/debug'' then debug_error_type
      else error_type)"

lemma encode_meta_typed: "has_type meta_type (encode_meta meta)"
proof (cases "meta_last_error meta")
  case None
  then show ?thesis
    unfolding encode_meta_def meta_type_def
    by (simp add: m_bool_def m_time_def m_str_def)
next
  case (Some err)
  then show ?thesis
    unfolding encode_meta_def meta_type_def
    by (simp add: m_bool_def m_time_def m_str_def)
qed

section \<open>The cache holds typed states\<close>

definition cache_typed :: "bridge_cache \<Rightarrow> bool" where
  "cache_typed c \<longleftrightarrow> (cache_hasState c \<longrightarrow> typed (cache_state c))"

lemma collect_any_typed:
  assumes "proper_world w" and "collect_any c w = Inr s"
  shows "typed s"
proof (cases c)
  case (ProxmoxCollector col)
  let ?order = "cw_arrival w (length (col_clients col))"
  have "set_mset (mset ?order) = set_mset (mset [0..<length (col_clients col)])"
    using assms(1) by (simp only: proper_world_def)
  then have "set ?order \<subseteq> {..<length (col_clients col)}" by (auto simp: lessThan_atLeast0)
  moreover have "Collect (cw_envs w) (cw_sort w) ?order (cw_now w) col = Some s"
    using assms(2) by (simp add: collect_any_def ProxmoxCollector split: option.splits)
  moreover have "sort_algorithm (cw_sort w)" using assms(1) by (simp add: proper_world_def)
  ultimately show ?thesis using typed_Collect by blast
qed (use assms(2) in \<open>auto simp: collect_any_def dest: typed_empty typed_mock\<close>)

interpretation typed_cache: cache_invariant cache_typed
proof
  fix col w c now assume "proper_world w" and "cache_typed c"
  then show "cache_typed (fst (refresh_end (collect_any col w) now c))"
    using collect_any_typed [of w col] by (auto simp: cache_typed_def refresh_end_def split: sum.split)
qed (simp_all add: cache_typed_def NewCache_def)

lemma CacheState_typed:
  assumes "cache_typed c" and "CacheState now c = Inr s"
  shows "typed s"
  using assms by (auto simp: CacheState_def cache_typed_def Let_def typed_def split: if_splits option.splits)

text \<open>A finalized and typed state goes onto the wire as the contract says, in every view.\<close>

lemma served_typed:
  assumes "cache_ok (shared_cache s)" and "cache_typed (shared_cache s)" and "State e s = Inr x"
  shows "has_type dstate_type (encode_dstate x)"
    and "has_type dstate_type (encode_dstate (CompactForDisplay x))"
    and "has_type detailstate_type (encode_detailstate (DetailForDisplay x))"
proof -
  have x: "finalized x" "typed x"
    using assms by (auto simp: State_def intro: CacheState_finalized CacheState_typed)
  then show "has_type dstate_type (encode_dstate x)" by (rule finalized_typed)
  show "has_type dstate_type (encode_dstate (CompactForDisplay x))"
    by (rule finalized_typed [OF _ typed_compact [OF x(2)]]) (simp add: CompactForDisplay_def finalized_Finalize)
  show "has_type detailstate_type (encode_detailstate (DetailForDisplay x))"
    by (rule detail_typed) (rule x)
qed

definition answers_typed :: "string \<Rightarrow> response \<Rightarrow> bool" where
  "answers_typed path resp \<longleftrightarrow>
     (case body_json (res_Body resp) of None \<Rightarrow> False | Some v \<Rightarrow> has_type (answer_type path (res_Status resp)) v)"

lemma error_answer: "path \<noteq> ''/healthz'' \<Longrightarrow> path \<noteq> ''/api/v1/debug'' \<or> status \<noteq> 503 \<Longrightarrow> status \<noteq> 200 \<Longrightarrow>
    answers_typed path (writeJSON status (ErrorJSON err))"
  by (auto simp: answers_typed_def writeJSON_def answer_type_def error_type_def m_str_def)

lemma handler_answers:
  assumes "cache_ok (shared_cache (fst sd))" and "cache_typed (shared_cache (fst sd))"
  shows "answers_typed ''/healthz'' (snd (healthz e r sd))"
    and "answers_typed ''/api/v1/display-state'' (snd (displayState e r sd))"
    and "answers_typed ''/api/v1/detail-state'' (snd (detailState e r sd))"
    and "answers_typed ''/api/v1/full-state'' (snd (fullState e r sd))"
    and "answers_typed ''/api/v1/debug'' (snd (debug e r sd))"
proof -
  note views = served_typed [OF assms, of e]
  show "answers_typed ''/healthz'' (snd (healthz e r sd))"
    by (simp add: answers_typed_def healthz_def writeJSON_def answer_type_def health_type_def m_bool_def m_str_def)
  show "answers_typed ''/api/v1/display-state'' (snd (displayState e r sd))"
    using views(2) by (auto simp: displayState_def error_answer split: sum.split)
      (simp add: answers_typed_def writeJSON_def answer_type_def)
  show "answers_typed ''/api/v1/detail-state'' (snd (detailState e r sd))"
    using views(3) by (auto simp: detailState_def error_answer split: sum.split)
      (simp add: answers_typed_def writeJSON_def answer_type_def)
  show "answers_typed ''/api/v1/full-state'' (snd (fullState e r sd))"
    using views(1) by (auto simp: fullState_def error_answer split: sum.split)
      (simp add: answers_typed_def writeJSON_def answer_type_def)
  show "answers_typed ''/api/v1/debug'' (snd (debug e r sd))"
    using views(1) encode_meta_typed
    by (auto simp: debug_def answers_typed_def writeJSON_def answer_type_def debug_type_def debug_error_type_def
        m_json_def m_bool_def m_str_def split: sum.split)
qed

lemma ServeHTTP_answers:
  assumes "cache_ok (shared_cache (fst sd))" and "cache_typed (shared_cache (fst sd))"
    and "req_Path r = ''/healthz'' \<or> req_Path r \<in> set api_paths"
  shows "answers_typed (req_Path r) (snd (ServeHTTP e r sd))"
proof (cases "req_Path r = ''/healthz''")
  case True
  then show ?thesis using handler_answers(1) [OF assms(1,2)] by (simp add: ServeHTTP_def routes_cases)
next
  case False
  have gated: "answers_typed p (snd (auth h e r sd))"
    if "answers_typed p (snd (h e r sd))" and "p \<noteq> ''/healthz''" for p and h
    using that error_answer [of p 401] by (simp add: auth_def Let_def)
  from False assms(3) have "req_Path r \<in> set api_paths" by simp
  then show ?thesis
    unfolding api_paths_def ServeHTTP_def routes_cases
    by (simp, elim disjE) (simp_all add: gated handler_answers [OF assms(1,2)])
qed

section \<open>Properties\<close>

text \<open>
  C3: From start-up on, however requests, updates and refreshes interleave, every answer of
  \<open>/healthz\<close> and of the display API is a JSON object of exactly the type the contract gives its
  route and status: the members in their order, a list never null, a health always one of the four
  words, a severity a warning or critical, and an error an object with its text.
\<close>

theorem answers_have_contract_type:
  assumes "startup e st mock d = Some s" and "proper_world (ae_world e)" and "sv_admin s = Some m"
    and "web_run E e0 s ((m, d, [], []), [], []) ((m', d', ps, rs), qs, h)"
    and "req_Path r = ''/healthz'' \<or> req_Path r \<in> set api_paths"
  shows "\<exists>v. body_json (res_Body (snd (ServeHTTP e' r (at_manager s m', d')))) = Some v \<and>
           has_type (answer_type (req_Path r) (res_Status (snd (ServeHTTP e' r (at_manager s m', d'))))) v"
proof -
  have "cache_ok (mgr_cache m')" "cache_typed (mgr_cache m')"
    using finalized_cache.web_run_holds [OF assms(1-4)] typed_cache.web_run_holds [OF assms(1-4)] by simp_all
  then have "answers_typed (req_Path r) (snd (ServeHTTP e' r (at_manager s m', d')))"
    using assms(5) by (intro ServeHTTP_answers) simp_all
  then show ?thesis by (auto simp: answers_typed_def split: option.splits)
qed

lemma answers_have_contract_type_witness:
  "\<exists>s m v. startup sample_admin_env sample_store True Map.empty = Some s \<and> sv_admin s = Some m \<and>
     body_json (res_Body (snd (ServeHTTP sample_web_env (sample_request ''GET'' ''/api/v1/debug'' ''wrong'')
       (at_manager s m, Map.empty)))) = Some v \<and> has_type error_type v"
proof -
  let ?r = "sample_request ''GET'' ''/api/v1/debug'' ''wrong''"
  obtain s m where s: "startup sample_admin_env sample_store True Map.empty = Some s" "sv_admin s = Some m"
    "mgr_cfg m = MockConfig"
    using sample_world_started by blast
  have "\<not> display_admits sample_web_env ?r (at_manager s m)"
    by (simp add: display_admits_def sample_request_def sample_web_env_def sample_admin_env_def at_manager_def
        currentConfig_def s(3) DisplayToken_def MockConfig_def config_zero_def)
  then have "res_Status (snd (ServeHTTP sample_web_env ?r (at_manager s m, Map.empty))) = 401"
    using api_answer [of ?r sample_web_env "at_manager s m" Map.empty] by (simp add: sample_request_def api_paths_def)
  moreover have "answer_type ''/api/v1/debug'' 401 = error_type" by (simp add: answer_type_def)
  moreover have "req_Path ?r = ''/api/v1/debug''" "''/api/v1/debug'' \<in> set api_paths"
    by (simp_all add: sample_request_def api_paths_def)
  ultimately show ?thesis
    using answers_have_contract_type [OF s(1) sample_world_proper s(2) web_refl [of "{sample_admin_env}" sample_web_env], of ?r sample_web_env] s
    by metis
qed

end
