(* ===== verification/Html.thy ===== *)
theory Html
  imports Go_Prelude
begin

text \<open>
  What the pages use of package \<open>html/template\<close>.  A page is a list of pieces: the text of the
  template, and the values it inserts, each with the escaper the package chooses for its place: the
  text of an element, a quoted attribute, or the query of a URL in a quoted attribute.  A reader of
  HTML as a small state machine says what is markup; the facts of this theory show that inserted
  values never are.
\<close>

section \<open>Escapers\<close>

text \<open>\<open>htmlReplacementTable\<close>; bytes from 128 on are copied.\<close>

definition html_escape_byte :: "char \<Rightarrow> string" where
  "html_escape_byte c =
     (if c = CHR 0x00 then [CHR 0xEF, CHR 0xBF, CHR 0xBD]
      else if c = CHR 0x22 then ''&#34;''
      else if c = CHR ''&'' then ''&amp;''
      else if c = CHR 0x27 then ''&#39;''
      else if c = CHR ''+'' then ''&#43;''
      else if c = CHR ''<'' then ''&lt;''
      else if c = CHR ''>'' then ''&gt;''
      else [c])"

definition html_escape :: "string \<Rightarrow> string" where
  "html_escape s = concat (map html_escape_byte s)"

text \<open>\<open>processURLOnto\<close> without normalisation: all but the unreserved bytes become \<open>%\<close> and two digits.\<close>

definition url_unreserved :: "char \<Rightarrow> bool" where
  "url_unreserved c \<longleftrightarrow>
     is_digit c \<or> (CHR ''A'' \<le> c \<and> c \<le> CHR ''Z'') \<or> (CHR ''a'' \<le> c \<and> c \<le> CHR ''z'') \<or> c \<in> set ''-._~''"

definition url_escape_byte :: "char \<Rightarrow> string" where
  "url_escape_byte c =
     (if url_unreserved c then [c]
      else [CHR ''%'', hex_digit (of_char c div 16), hex_digit (of_char c mod 16)])"

definition url_escape :: "string \<Rightarrow> string" where
  "url_escape s = concat (map url_escape_byte s)"

section \<open>Pages\<close>

datatype piece =
    Raw string
  | Text string
  | Attr string
  | Query string

fun emit :: "piece \<Rightarrow> string" where
  "emit (Raw s) = s"
| "emit (Text v) = html_escape v"
| "emit (Attr v) = html_escape v"
| "emit (Query v) = html_escape (url_escape v)"

definition render :: "piece list \<Rightarrow> string" where
  "render ps = concat (map emit ps)"

text \<open>The page with every inserted value left out.\<close>

fun blank :: "piece \<Rightarrow> piece" where
  "blank (Raw s) = Raw s"
| "blank (Text v) = Text ''''"
| "blank (Attr v) = Attr ''''"
| "blank (Query v) = Query ''''"

text \<open>Lines of template text, each with its line end; the middle dot in UTF-8.\<close>

definition text_lines :: "string list \<Rightarrow> string" where
  "text_lines ls = concat (map (\<lambda>l. l @ [CHR 0x0A]) ls)"

definition middle_dot :: string where
  "middle_dot = [CHR 0xC2, CHR 0xB7]"

section \<open>Reading a page\<close>

text \<open>
  Where a reader is: in text, inside a tag, inside a quoted attribute value.  (The templates quote
  with double quotes only and contain no comments, and no value is inserted into a script or style.)
\<close>

datatype place = InText | InTag | InQuotes

fun next_place :: "place \<Rightarrow> char \<Rightarrow> place" where
  "next_place InText c = (if c = CHR ''<'' then InTag else InText)"
| "next_place InTag c = (if c = CHR ''>'' then InText else if c = CHR 0x22 then InQuotes else InTag)"
| "next_place InQuotes c = (if c = CHR 0x22 then InTag else InQuotes)"

definition place_after :: "place \<Rightarrow> string \<Rightarrow> place" where
  "place_after p s = foldl next_place p s"

text \<open>The markup of a page: what is left without the text of elements and the values of attributes.\<close>

fun is_markup :: "place \<Rightarrow> char \<Rightarrow> bool" where
  "is_markup InText c \<longleftrightarrow> c = CHR ''<''"
| "is_markup InTag c \<longleftrightarrow> True"
| "is_markup InQuotes c \<longleftrightarrow> c = CHR 0x22"

fun markup :: "place \<Rightarrow> string \<Rightarrow> string" where
  "markup p [] = []"
| "markup p (c # s) = (if is_markup p c then [c] else []) @ markup (next_place p c) s"

text \<open>Every value is inserted where its escaper belongs: the place after such a list of pieces.\<close>

fun placed :: "place \<Rightarrow> piece list \<Rightarrow> place option" where
  "placed p [] = Some p"
| "placed p (Raw s # ps) = placed (place_after p s) ps"
| "placed p (Text v # ps) = (if p = InText then placed p ps else None)"
| "placed p (Attr v # ps) = (if p = InQuotes then placed p ps else None)"
| "placed p (Query v # ps) = (if p = InQuotes then placed p ps else None)"

section \<open>Escaped values are no markup\<close>

lemma render_simps [simp]: "render [] = []" "render (x # ps) = emit x @ render ps"
  "render (ps @ qs) = render ps @ render qs"
  by (simp_all add: render_def)

lemma place_after_simps [simp]: "place_after p [] = p" "place_after p (c # s) = place_after (next_place p c) s"
  "place_after p (s @ t) = place_after (place_after p s) t"
  by (simp_all add: place_after_def)

lemma markup_append [simp]: "markup p (s @ t) = markup p s @ markup (place_after p s) t"
  by (induction s arbitrary: p) simp_all

lemma placed_append: "placed p (ps @ qs) = Option.bind (placed p ps) (\<lambda>p'. placed p' qs)"
  by (induction p ps rule: placed.induct) simp_all

lemma placed_concat:
  assumes "\<And>ps. ps \<in> set pss \<Longrightarrow> placed p ps = Some p"
  shows "placed p (concat pss) = Some p"
  using assms by (induction pss) (simp_all add: placed_append)

definition special_chars :: "char set" where
  "special_chars = {CHR ''<'', CHR ''>'', CHR 0x22, CHR 0x27}"

lemma html_escape_harmless: "set (html_escape s) \<inter> special_chars = {}"
proof -
  have "set (html_escape_byte c) \<inter> special_chars = {}" for c
    by (simp add: html_escape_byte_def special_chars_def)
  then show ?thesis by (fastforce simp: html_escape_def)
qed

lemma harmless_is_no_markup:
  assumes "set s \<inter> special_chars = {}" and "p \<in> {InText, InQuotes}"
  shows "markup p s = [] \<and> place_after p s = p"
  using assms by (induction s) (auto simp: special_chars_def)

lemma emit_is_no_markup:
  assumes "p = InText \<and> (\<exists>v. x = Text v) \<or> p = InQuotes \<and> (\<exists>v. x = Attr v \<or> x = Query v)"
  shows "markup p (emit x) = [] \<and> place_after p (emit x) = p"
  using assms harmless_is_no_markup [OF html_escape_harmless] by auto

theorem placed_markup:
  "placed p ps = Some p' \<Longrightarrow>
   markup p (render ps) = markup p (render (map blank ps)) \<and> place_after p (render ps) = p'"
proof (induction p ps rule: placed.induct)
  case (3 p v ps)
  then show ?case
    using emit_is_no_markup [of InText "Text v"] by (auto simp: html_escape_def split: if_splits)
next
  case (4 p v ps)
  then show ?case
    using emit_is_no_markup [of InQuotes "Attr v"] by (auto simp: html_escape_def split: if_splits)
next
  case (5 p v ps)
  then show ?case
    using emit_is_no_markup [of InQuotes "Query v"] by (auto simp: html_escape_def url_escape_def split: if_splits)
qed simp_all

section \<open>What a browser reads back\<close>

text \<open>Character references: a reader turns those the escaper writes back into their characters.\<close>

definition references :: "(string \<times> char) list" where
  "references = [(''#34;'', CHR 0x22), (''amp;'', CHR ''&''), (''#39;'', CHR 0x27), (''#43;'', CHR ''+''),
     (''lt;'', CHR ''<''), (''gt;'', CHR ''>'')]"

definition read_reference :: "string \<Rightarrow> (char \<times> string) option" where
  "read_reference s =
     (case filter (\<lambda>(r, c). has_prefix s r) references of
        [] \<Rightarrow> None | (r, c) # _ \<Rightarrow> Some (c, drop (length r) s))"

lemma read_reference_shorter: "read_reference s = Some (c, t) \<Longrightarrow> length t \<le> length s"
  by (auto simp: read_reference_def split: list.splits)

function html_unescape :: "string \<Rightarrow> string" where
  "html_unescape [] = []"
| "html_unescape (c # s) =
     (if c = CHR ''&''
      then case read_reference s of Some (d, t) \<Rightarrow> d # html_unescape t | None \<Rightarrow> c # html_unescape s
      else c # html_unescape s)"
  by pat_completeness auto
termination
  by (relation "measure length") (auto dest: read_reference_shorter)

lemma read_references [simp]:
  "read_reference (''#34;'' @ t) = Some (CHR 0x22, t)" "read_reference (''amp;'' @ t) = Some (CHR ''&'', t)"
  "read_reference (''#39;'' @ t) = Some (CHR 0x27, t)" "read_reference (''#43;'' @ t) = Some (CHR ''+'', t)"
  "read_reference (''lt;'' @ t) = Some (CHR ''<'', t)" "read_reference (''gt;'' @ t) = Some (CHR ''>'', t)"
  by (simp_all add: read_reference_def references_def has_prefix_def)

lemma unescape_byte: "CHR 0x00 \<noteq> c \<Longrightarrow> html_unescape (html_escape_byte c @ t) = c # html_unescape t"
  using read_references [of t] by (auto simp: html_escape_byte_def)

theorem html_unescape_escape: "CHR 0x00 \<notin> set s \<Longrightarrow> html_unescape (html_escape s) = s"
  by (induction s) (simp_all add: html_escape_def unescape_byte)

text \<open>Reading a query: \<open>+\<close> is a blank, \<open>%\<close> and two hexadecimal digits are a byte (\<open>url.QueryUnescape\<close>).\<close>

definition hex_value :: "char \<Rightarrow> nat" where
  "hex_value c = (if is_digit c then of_char c - 48 else if CHR ''a'' \<le> c then of_char c - 87 else of_char c - 55)"

fun query_unescape :: "string \<Rightarrow> string option" where
  "query_unescape [] = Some []"
| "query_unescape (c # s) =
     (if c = CHR ''%''
      then case s of
             a # b # t \<Rightarrow>
               if is_hex a \<and> is_hex b
               then map_option (Cons (char_of (hex_value a * 16 + hex_value b))) (query_unescape t)
               else None
           | _ \<Rightarrow> None
      else map_option (Cons (if c = CHR ''+'' then CHR '' '' else c)) (query_unescape s))"

lemma hex_digits_read:
  "\<forall>d\<in>set [0..<16]. is_hex (hex_digit d) \<and> hex_value (hex_digit d) = d"
  by code_simp

lemma query_unescape_byte:
  "query_unescape (url_escape_byte c @ t) = map_option (Cons c) (query_unescape t)"
proof (cases "url_unreserved c")
  case True
  then have "c \<noteq> CHR ''%'' \<and> c \<noteq> CHR ''+''" by (auto simp: url_unreserved_def is_digit_def)
  with True show ?thesis by (simp add: url_escape_byte_def)
next
  case False
  have "of_char c div 16 < (16 :: nat)" by (rule less_mult_imp_div_less) simp
  moreover have "of_char c mod 16 < (16 :: nat)" by simp
  ultimately have "of_char c div 16 \<in> set [0..<16]" "of_char c mod 16 \<in> set [0..<16::nat]" by simp_all
  note this [THEN hex_digits_read [THEN bspec]]
  moreover have "of_char c div 16 * 16 + of_char c mod 16 = (of_char c :: nat)" by (rule div_mult_mod_eq)
  ultimately show ?thesis using False by (simp add: url_escape_byte_def)
qed

theorem query_unescape_escape: "query_unescape (url_escape s) = Some s"
  by (induction s) (simp_all add: url_escape_def query_unescape_byte)

end
