(* ===== verification/Pages.thy ===== *)
theory Pages
  imports Main_Program Html Display_Json
begin

text \<open>
  The two pages of the server: the templates \<open>indexTemplate\<close> and \<open>adminTemplate\<close>
  (\<open>internal/server/server.go\<close>), section by section, as the pieces that executing them on the data
  of \<open>Server\<close> writes.  An action \<open>{{if}}\<close> or \<open>{{range}}\<close> is a conditional or a \<open>concat\<close> of rows, every
  other action a value with the escaper of its place.  The last part shows that no value can add or
  change markup, whatever requests, sources and errors contain.
\<close>

section \<open>Values\<close>

text \<open>
  \<open>strconv.Quote\<close> (bytes from 128 on are taken as printable text) and the \<open>%#v\<close> text of the map
  \<open>Metadata\<close> returns, its keys in order.
\<close>

definition quote_byte :: "char \<Rightarrow> string" where
  "quote_byte c =
     (if c = CHR 0x22 \<or> c = CHR 0x5C then [CHR 0x5C, c]
      else if c = CHR 0x07 then [CHR 0x5C, CHR ''a'']
      else if c = CHR 0x08 then [CHR 0x5C, CHR ''b'']
      else if c = CHR 0x0C then [CHR 0x5C, CHR ''f'']
      else if c = CHR 0x0A then [CHR 0x5C, CHR ''n'']
      else if c = CHR 0x0D then [CHR 0x5C, CHR ''r'']
      else if c = CHR 0x09 then [CHR 0x5C, CHR ''t'']
      else if c = CHR 0x0B then [CHR 0x5C, CHR ''v'']
      else if c < CHR 0x20 \<or> c = CHR 0x7F
           then [CHR 0x5C, CHR ''x'', hex_digit (of_char c div 16), hex_digit (of_char c mod 16)]
      else [c])"

definition go_quote :: "string \<Rightarrow> string" where
  "go_quote s = [CHR 0x22] @ concat (map quote_byte s) @ [CHR 0x22]"

definition cache_GoString :: "bridge_meta \<Rightarrow> string" where
  "cache_GoString meta =
     ''map[string]interface {}{'' @
     join_with '', ''
       (map (\<lambda>(k, v). go_quote k @ '':'' @ v)
         ([(''has_state'', bool_text (meta_has_state meta))] @
          (case meta_last_error meta of
             Some err \<Rightarrow> [(''last_error'', go_quote (state_error_text (LastError err)))] | None \<Rightarrow> []) @
          [(''last_ok'', time_GoString (meta_last_ok meta)),
           (''poll_interval'', go_quote (Duration_String (meta_poll_interval meta))),
           (''stale_after'', go_quote (Duration_String (meta_stale_after meta)))])) @ ''}''"

section \<open>The two templates\<close>

definition index_head :: "piece list" where
  "index_head =
    [Raw (text_lines [''<!doctype html>'',
        ''<html lang=\"en\">'',
        ''<head>'',
        ''  <meta charset=\"utf-8\">'',
        ''  <meta name=\"viewport\" content=\"width=device-width, initial-scale=1\">'',
        ''  <title>Proxmox Desk Display</title>'',
        ''  <style>'',
        ''    body { font-family: system-ui, -apple-system, Segoe UI, sans-serif; margin: 2rem; max-width: 980px; color: #17202a; }'',
        ''    code, pre { background: #f4f6f8; border-radius: 6px; }'',
        ''    pre { padding: 1rem; overflow: auto; }'',
        ''    .ok { color: #0f7b45; }'',
        ''    .warning { color: #9a6700; }'',
        ''    .critical { color: #b42318; }'',
        ''    table { border-collapse: collapse; width: 100%; margin-top: 1rem; }'',
        ''    th, td { border-bottom: 1px solid #d9dee5; padding: .55rem; text-align: left; }'',
        ''  </style>'',
        ''</head>''])]"

definition index_summary :: "bool \<Rightarrow> dstate \<Rightarrow> piece list" where
  "index_summary mock st =
    [Raw (text_lines [''<body>'', ''  <h1>Proxmox Desk Display</h1>''] @ ''  <p>Bridge service '' @ middle_dot @ '' version ''),
     Text Version] @
    (if mock
      then [Raw ('' '' @ middle_dot @ '' mock mode'')]
      else []) @
    [Raw (text_lines [''</p>'',
        ''  <p>Display endpoint: <code>/api/v1/display-state</code> '' @ middle_dot @ '' detail endpoint: <code>/api/v1/detail-state</code> '' @ middle_dot @ '' full inventory: <code>/api/v1/full-state</code></p>'',
        ''  <h2>Summary</h2>''] @ ''  <p class=\"''),
     Attr (health_text (summary_Health (dstate_Summary st))),
     Raw ''\">Health: '',
     Text (health_text (summary_Health (dstate_Summary st))),
     Raw (text_lines [''</p>''] @ ''  <p>Hosts: ''),
     Text (itoa (summary_HostsOnline (dstate_Summary st))),
     Raw ''/'',
     Text (itoa (summary_HostsTotal (dstate_Summary st))),
     Raw ('' '' @ middle_dot @ '' Guests running: ''),
     Text (itoa (summary_GuestsRunning (dstate_Summary st))),
     Raw ('' '' @ middle_dot @ '' Alerts: ''),
     Text (itoa (summary_Alerts (dstate_Summary st))),
     Raw (text_lines [''</p>''])]"

definition index_host_row :: "host \<Rightarrow> piece list" where
  "index_host_row h =
    [Raw (text_lines [''''] @ ''      <tr><td>''),
     Text (host_Name h),
     Raw ''</td><td>'',
     Text (bool_text (host_Online h)),
     Raw ''</td><td>'',
     Text (itoa (host_CPUPct h)),
     Raw ''%</td><td>'',
     Text (itoa (host_MemoryPct h)),
     Raw ''%</td><td>'',
     Text (itoa (host_StoragePct h)),
     Raw ''%</td><td>'',
     Text (itoa (host_GuestsRunning h)),
     Raw '' run / '',
     Text (itoa (host_GuestsStopped h)),
     Raw (text_lines ['' stop</td></tr>''] @ ''    '')]"

definition index_hosts :: "host list \<Rightarrow> piece list" where
  "index_hosts hosts =
    [Raw (text_lines [''  <h2>Hosts</h2>'',
        ''  <table>'',
        ''    <thead><tr><th>Name</th><th>Online</th><th>CPU</th><th>Memory</th><th>Storage</th><th>Guests</th></tr></thead>'',
        ''    <tbody>''] @ ''    '')] @
    (if hosts = [] then [Raw (text_lines ['''', ''      <tr><td colspan=\"6\">No hosts collected yet.</td></tr>''] @ ''    '')]
      else concat (map index_host_row hosts)) @
    [Raw (text_lines ['''', ''    </tbody>'', ''  </table>''])]"

definition index_cache :: "bridge_meta \<Rightarrow> piece list" where
  "index_cache meta =
    [Raw (text_lines [''  <h2>Cache</h2>''] @ ''  <pre>''),
     Text (cache_GoString meta),
     Raw (text_lines [''</pre>'', ''</body>''] @ ''</html>'')]"

definition admin_head :: "piece list" where
  "admin_head =
    [Raw (text_lines [''<!doctype html>'',
        ''<html lang=\"en\">'',
        ''<head>'',
        ''  <meta charset=\"utf-8\">'',
        ''  <meta name=\"viewport\" content=\"width=device-width, initial-scale=1\">'',
        ''  <title>Proxmox Desk Display Admin</title>'',
        ''  <style>'',
        ''    :root { color-scheme: light dark; --bg:#f6f7f9; --panel:#fff; --text:#17202a; --muted:#667085; --line:#d9dee5; --accent:#1455d9; --danger:#b42318; --ok:#0f7b45; }'',
        ''    @media (prefers-color-scheme: dark) { :root { --bg:#111418; --panel:#171b21; --text:#eef2f6; --muted:#9aa4b2; --line:#303741; --accent:#7aa7ff; --danger:#ff7b72; --ok:#56d68a; } }'',
        ''    * { box-sizing: border-box; }'',
        ''    body { margin:0; background:var(--bg); color:var(--text); font-family:system-ui,-apple-system,Segoe UI,sans-serif; }'',
        ''    header { padding:18px 24px; border-bottom:1px solid var(--line); background:var(--panel); display:flex; gap:16px; align-items:center; justify-content:space-between; }'',
        ''    main { max-width:1120px; margin:0 auto; padding:24px; display:grid; gap:18px; }'',
        ''    h1 { font-size:20px; margin:0; }'',
        ''    h2 { font-size:16px; margin:0 0 14px; }'',
        ''    .meta { color:var(--muted); font-size:13px; }'',
        ''    .grid { display:grid; grid-template-columns:repeat(auto-fit,minmax(260px,1fr)); gap:18px; }'',
        ''    section { background:var(--panel); border:1px solid var(--line); border-radius:8px; padding:18px; }'',
        ''    label { display:block; font-size:13px; font-weight:650; margin:12px 0 5px; color:var(--text); }'',
        ''    input, select { width:100%; padding:10px 11px; border:1px solid var(--line); border-radius:6px; background:transparent; color:var(--text); font:inherit; }'',
        ''    button { margin-top:14px; padding:10px 13px; border:0; border-radius:6px; background:var(--accent); color:white; font-weight:700; cursor:pointer; }'',
        ''    button.secondary { background:transparent; color:var(--accent); border:1px solid var(--line); }'',
        ''    button.danger { background:var(--danger); }'',
        ''    table { width:100%; border-collapse:collapse; }'',
        ''    th, td { text-align:left; padding:9px 7px; border-bottom:1px solid var(--line); font-size:14px; vertical-align:top; }'',
        ''    th { color:var(--muted); font-size:12px; text-transform:uppercase; letter-spacing:.04em; }'',
        ''    code { background:rgba(127,127,127,.12); padding:2px 5px; border-radius:4px; }'',
        ''    .pill { display:inline-block; padding:3px 7px; border-radius:999px; border:1px solid var(--line); color:var(--muted); font-size:12px; }'',
        ''    .ok { color:var(--ok); }'',
        ''    .danger-text { color:var(--danger); }'',
        ''    .notice { border-left:4px solid var(--accent); }'',
        ''    .error { border-left:4px solid var(--danger); }'',
        ''    .actions { display:flex; gap:8px; align-items:center; flex-wrap:wrap; }'',
        ''  </style>'',
        ''</head>''])]"

definition admin_header :: "admin_snapshot \<Rightarrow> piece list" where
  "admin_header snap =
    [Raw (text_lines [''<body>'',
        ''  <header>'',
        ''    <div>'',
        ''      <h1>Proxmox Desk Display Admin</h1>''] @ ''      <div class=\"meta\">Version ''),
     Text Version,
     Raw ('' '' @ middle_dot @ '' config <code>''),
     Text (snap_ConfigPath snap),
     Raw (text_lines [''</code></div>'',
        ''    </div>'',
        ''    <form method=\"post\" action=\"/admin/refresh\"><button class=\"secondary\" type=\"submit\">Refresh Now</button></form>'',
        ''  </header>''])]"

definition admin_notices :: "string \<Rightarrow> string \<Rightarrow> piece list" where
  "admin_notices message error =
    [Raw (text_lines [''  <main>''] @ ''    '')] @
    (if message \<noteq> ''''
      then [Raw ''<section class=\"notice\">'',
          Text message,
          Raw ''</section>'']
      else []) @
    [Raw (text_lines [''''] @ ''    '')] @
    (if error \<noteq> ''''
      then [Raw ''<section class=\"error danger-text\">'',
          Text error,
          Raw ''</section>'']
      else []) @
    [Raw (text_lines ['''', ''''])]"

definition admin_runtime :: "dstate \<Rightarrow> bridge_meta \<Rightarrow> admin_snapshot \<Rightarrow> piece list" where
  "admin_runtime st meta snap =
    [Raw (text_lines [''    <div class=\"grid\">'',
        ''      <section>'',
        ''        <h2>Runtime</h2>'',
        ''        <table>'',
        ''          <tbody>''] @ ''            <tr><th>Health</th><td class=\"''),
     Attr (health_text (summary_Health (dstate_Summary st))),
     Raw ''\">'',
     Text (health_text (summary_Health (dstate_Summary st))),
     Raw (text_lines [''</td></tr>''] @ ''            <tr><th>Hosts</th><td>''),
     Text (itoa (summary_HostsOnline (dstate_Summary st))),
     Raw ''/'',
     Text (itoa (summary_HostsTotal (dstate_Summary st))),
     Raw (text_lines [''</td></tr>''] @ ''            <tr><th>Guests</th><td>''),
     Text (itoa (summary_GuestsRunning (dstate_Summary st))),
     Raw ('' running '' @ middle_dot @ '' ''),
     Text (itoa (summary_GuestsStopped (dstate_Summary st))),
     Raw (text_lines ['' stopped</td></tr>''] @ ''            <tr><th>Alerts</th><td>''),
     Text (itoa (summary_Alerts (dstate_Summary st))),
     Raw (text_lines [''</td></tr>''] @ ''            <tr><th>Poll</th><td>''),
     Text (Duration_String (meta_poll_interval meta)),
     Raw ('' '' @ middle_dot @ '' stale after ''),
     Text (Duration_String (meta_stale_after meta)),
     Raw (text_lines [''</td></tr>''] @ ''            <tr><th>Tokens</th><td>display '')] @
    (if snap_DisplayTokenSet snap
      then [Raw ''<span class=\"ok\">set</span>'']
      else [Raw ''<span class=\"danger-text\">missing</span>'']) @
    [Raw ('' '' @ middle_dot @ '' admin '')] @
    (if snap_AdminConfigured snap
      then [Raw ''<span class=\"ok\">set</span>'']
      else [Raw ''<span class=\"danger-text\">open setup</span>'']) @
    [Raw (text_lines [''</td></tr>'', ''          </tbody>'', ''        </table>'', ''      </section>''])]"

definition admin_settings_form :: "admin_snapshot \<Rightarrow> piece list" where
  "admin_settings_form snap =
    [Raw (text_lines ['''',
        ''      <section>'',
        ''        <h2>Bridge Settings</h2>'',
        ''        <form method=\"post\" action=\"/admin/settings\">'',
        ''          <label>Refresh interval seconds</label>''] @ ''          <input name=\"poll_interval_seconds\" type=\"number\" min=\"5\" value=\"''),
     Attr (itoa (srv_PollIntervalSeconds (snap_Server snap))),
     Raw (text_lines [''\">'', ''          <label>Stale after seconds</label>''] @ ''          <input name=\"stale_after_seconds\" type=\"number\" min=\"5\" value=\"''),
     Attr (itoa (srv_StaleAfterSeconds (snap_Server snap))),
     Raw (text_lines [''\">'', ''          <label>Display token</label>''] @ ''          <input name=\"display_token\" type=\"password\" placeholder=\"'')] @
    (if snap_DisplayTokenSet snap
      then [Raw ''saved, leave blank to keep'']
      else [Raw ''required for displays'']) @
    [Raw (text_lines [''\">'', ''          <label>Admin token</label>''] @ ''          <input name=\"admin_token\" type=\"password\" placeholder=\"'')] @
    (if snap_AdminConfigured snap
      then [Raw ''saved, leave blank to keep'']
      else [Raw ''optional; display token will be used if blank'']) @
    [Raw (text_lines [''\">'',
        ''          <label>Memory warning / critical</label>'',
        ''          <div class=\"actions\">''] @ ''            <input name=\"memory_warning_pct\" type=\"number\" min=\"1\" max=\"100\" value=\"''),
     Attr (itoa (alr_MemoryWarningPct (snap_Alerts snap))),
     Raw (text_lines [''\">''] @ ''            <input name=\"memory_critical_pct\" type=\"number\" min=\"1\" max=\"100\" value=\"''),
     Attr (itoa (alr_MemoryCriticalPct (snap_Alerts snap))),
     Raw (text_lines [''\">'',
        ''          </div>'',
        ''          <label>Storage warning / critical</label>'',
        ''          <div class=\"actions\">''] @ ''            <input name=\"storage_warning_pct\" type=\"number\" min=\"1\" max=\"100\" value=\"''),
     Attr (itoa (alr_StorageWarningPct (snap_Alerts snap))),
     Raw (text_lines [''\">''] @ ''            <input name=\"storage_critical_pct\" type=\"number\" min=\"1\" max=\"100\" value=\"''),
     Attr (itoa (alr_StorageCriticalPct (snap_Alerts snap))),
     Raw (text_lines [''\">'',
        ''          </div>'',
        ''          <button type=\"submit\">Save Settings</button>'',
        ''        </form>'',
        ''      </section>'',
        ''    </div>''])]"

definition admin_source_row :: "source_snapshot \<Rightarrow> piece list" where
  "admin_source_row src =
    [Raw (text_lines ['''', ''          <tr>''] @ ''            <td><code>''),
     Text (ss_ID src),
     Raw (text_lines [''</code></td>''] @ ''            <td>''),
     Text (ss_Name src),
     Raw (text_lines [''</td>''] @ ''            <td>''),
     Text (ss_BaseURL src),
     Raw (text_lines [''</td>''] @ ''            <td>''),
     Text (ss_TLSMode src),
     Raw (text_lines [''</td>''] @ ''            <td>'')] @
    (if ss_TokenSet src
      then [Raw ''<span class=\"ok\">saved</span>'']
      else [Raw ''<span class=\"danger-text\">missing</span>'']) @
    [Raw (text_lines [''</td>'', ''            <td>'', ''              <div class=\"actions\">''] @ ''                <a class=\"pill\" href=\"/admin?edit=''),
     Query (ss_ID src),
     Raw (text_lines [''\">Edit</a>'',
        ''                <form method=\"post\" action=\"/admin/proxmox/test\">''] @ ''                  <input type=\"hidden\" name=\"id\" value=\"''),
     Attr (ss_ID src),
     Raw (text_lines [''\">'',
        ''                  <button class=\"secondary\" type=\"submit\">Test</button>'',
        ''                </form>'',
        ''                <form method=\"post\" action=\"/admin/proxmox/delete\" onsubmit=\"return confirm('Delete this Proxmox source?');\">''] @ ''                  <input type=\"hidden\" name=\"id\" value=\"''),
     Attr (ss_ID src),
     Raw (text_lines [''\">'',
        ''                  <button class=\"danger\" type=\"submit\">Delete</button>'',
        ''                </form>'',
        ''              </div>'',
        ''            </td>'',
        ''          </tr>''] @ ''        '')]"

definition admin_sources :: "source_snapshot list \<Rightarrow> piece list" where
  "admin_sources sources =
    [Raw (text_lines ['''',
        ''    <section>'',
        ''      <h2>Proxmox Sources</h2>'',
        ''      <table>'',
        ''        <thead><tr><th>ID</th><th>Name</th><th>URL</th><th>TLS</th><th>Token</th><th></th></tr></thead>'',
        ''        <tbody>''] @ ''        '')] @
    (if sources = [] then [Raw (text_lines ['''', ''          <tr><td colspan=\"6\">No Proxmox source configured.</td></tr>''] @ ''        '')]
      else concat (map admin_source_row sources)) @
    [Raw (text_lines ['''', ''        </tbody>'', ''      </table>'', ''    </section>''])]"

definition admin_source_form :: "source_draft \<Rightarrow> piece list" where
  "admin_source_form draft =
    [Raw (text_lines ['''', ''    <section>''] @ ''      <h2>'')] @
    (if draft_Editing draft
      then [Raw ''Edit Proxmox'']
      else [Raw ''Add Or Update Proxmox'']) @
    [Raw (text_lines [''</h2>'',
        ''      <form method=\"post\" action=\"/admin/proxmox\">'',
        ''        <div class=\"grid\">'',
        ''          <div>'',
        ''            <label>ID</label>''] @ ''            <input name=\"id\" placeholder=\"zimablade\" value=\"''),
     Attr (draft_ID draft),
     Raw (text_lines [''\">'', ''            <label>Name</label>''] @ ''            <input name=\"name\" placeholder=\"Zimablade\" value=\"''),
     Attr (draft_Name draft),
     Raw (text_lines [''\">'', ''            <label>Base URL</label>''] @ ''            <input name=\"base_url\" placeholder=\"https://192.168.1.56:8006\" value=\"''),
     Attr (draft_BaseURL draft),
     Raw (text_lines [''\">'',
        ''          </div>'',
        ''          <div>'',
        ''            <label>API token</label>''] @ ''            <input name=\"token\" type=\"password\" placeholder=\"''),
     Attr (draft_TokenHint draft),
     Raw (text_lines [''\">'',
        ''            <label>TLS mode</label>'',
        ''            <select name=\"tls_mode\">''] @ ''              <option value=\"fingerprint\" '')] @
    (if draft_TLSMode draft = ''fingerprint''
      then [Raw ''selected'']
      else []) @
    [Raw (text_lines [''>fingerprint</option>''] @ ''              <option value=\"system\" '')] @
    (if draft_TLSMode draft = ''system''
      then [Raw ''selected'']
      else []) @
    [Raw (text_lines [''>system</option>''] @ ''              <option value=\"insecure\" '')] @
    (if draft_TLSMode draft = ''insecure''
      then [Raw ''selected'']
      else []) @
    [Raw (text_lines [''>insecure</option>''] @ ''              <option value=\"ca_file\" '')] @
    (if draft_TLSMode draft = ''ca_file''
      then [Raw ''selected'']
      else []) @
    [Raw (text_lines [''>ca_file</option>'',
        ''            </select>'',
        ''            <label>SHA256 fingerprint</label>''] @ ''            <input name=\"fingerprint\" placeholder=\"SHA256:...\" value=\"''),
     Attr (draft_Fingerprint draft),
     Raw (text_lines [''\">'', ''            <label>CA file</label>''] @ ''            <input name=\"ca_file\" placeholder=\"/data/ca.pem\" value=\"''),
     Attr (draft_CAFile draft),
     Raw (text_lines [''\">'',
        ''          </div>'',
        ''        </div>'',
        ''        <div class=\"actions\">'',
        ''          <button type=\"submit\">Save Source</button>'',
        ''          <button class=\"secondary\" type=\"submit\" formaction=\"/admin/proxmox/test\">Test Connection</button>'',
        ''          <button class=\"secondary\" type=\"submit\" formaction=\"/admin/proxmox/fingerprint\">Detect Fingerprint</button>''] @ ''          '')] @
    (if draft_Editing draft
      then [Raw ''<a class=\"pill\" href=\"/admin\">Cancel edit</a>'']
      else []) @
    [Raw (text_lines ['''',
        ''        </div>'',
        ''      </form>'',
        ''    </section>'',
        ''  </main>'',
        ''</body>''] @ ''</html>'')]"


section \<open>The pages\<close>

definition index_page :: "bool \<Rightarrow> dstate \<Rightarrow> bridge_meta \<Rightarrow> piece list" where
  "index_page mock st meta =
     index_head @ index_summary mock st @ index_hosts (elems (dstate_Hosts st)) @ index_cache meta"

definition admin_page ::
    "dstate \<Rightarrow> bridge_meta \<Rightarrow> admin_snapshot \<Rightarrow> source_draft \<Rightarrow> string \<Rightarrow> string \<Rightarrow> piece list" where
  "admin_page st meta snap draft message error =
     admin_head @ admin_header snap @ admin_notices message error @ admin_runtime st meta snap @
     admin_settings_form snap @ admin_sources (snap_Sources snap) @ admin_source_form draft"

fun page_pieces :: "body \<Rightarrow> piece list" where
  "page_pieces (IndexPage mock st meta) = index_page mock st meta"
| "page_pieces (AdminPage st meta snap draft message error) = admin_page st meta snap draft message error"
| "page_pieces _ = []"

section \<open>Values are in their places\<close>

lemmas page_text = text_lines_def middle_dot_def

lemma head_placed: "placed InText index_head = Some InText" "placed InText admin_head = Some InText"
  by code_simp+

lemma index_placed:
  "placed InText (index_summary mock st) = Some InText" "placed InText (index_host_row h) = Some InText"
  "placed InText (index_cache meta) = Some InText"
  by (simp_all add: index_summary_def index_host_row_def index_cache_def page_text)

lemma rows_placed:
  "(\<And>x. placed InText (row x) = Some InText) \<Longrightarrow> placed InText (concat (map row xs)) = Some InText"
  by (rule placed_concat) auto

lemma index_hosts_placed: "placed InText (index_hosts hs) = Some InText"
  by (simp add: index_hosts_def page_text placed_append rows_placed index_placed)

lemma admin_placed:
  "placed InText (admin_header snap) = Some InText" "placed InText (admin_notices msg err) = Some InText"
  "placed InText (admin_runtime st meta snap) = Some InText" 
  "placed InText (admin_source_row src) = Some InText"
  by (simp_all add: admin_header_def admin_notices_def admin_runtime_def admin_source_row_def page_text)

lemma admin_forms_placed:
  "placed InText (admin_settings_form snap) = Some InText" "placed InText (admin_source_form draft) = Some InText"
  by (simp_all add: admin_settings_form_def admin_source_form_def page_text)

lemma admin_sources_placed: "placed InText (admin_sources srcs) = Some InText"
  by (simp add: admin_sources_def page_text placed_append rows_placed admin_placed)

lemma pages_placed: "placed InText (page_pieces b) = Some InText"
  by (induction b rule: page_pieces.induct)
    (simp_all add: index_page_def admin_page_def placed_append head_placed index_placed index_hosts_placed
      admin_placed admin_forms_placed admin_sources_placed)

section \<open>Properties\<close>

text \<open>What is left of the data of a page when every text in it is left out.\<close>

definition bare_source :: "source_snapshot \<Rightarrow> source_snapshot" where
  "bare_source src =
     \<lparr>ss_ID = '''', ss_Name = '''', ss_BaseURL = '''', ss_TLSMode = '''', ss_Fingerprint = '''', ss_CAFile = '''',
      ss_TokenSet = ss_TokenSet src\<rparr>"

definition bare_snapshot :: "admin_snapshot \<Rightarrow> admin_snapshot" where
  "bare_snapshot snap =
     \<lparr>snap_ConfigPath = '''', snap_SecretsPath = '''', snap_Mock = False,
      snap_AdminConfigured = snap_AdminConfigured snap, snap_DisplayTokenSet = snap_DisplayTokenSet snap,
      snap_AdminTokenSet = False, snap_Server = cfg_Server config_zero, snap_Alerts = cfg_Alerts config_zero,
      snap_Sources = map bare_source (snap_Sources snap)\<rparr>"

definition bare_draft :: "source_draft \<Rightarrow> source_draft" where
  "bare_draft draft =
     \<lparr>draft_Editing = draft_Editing draft, draft_ID = '''', draft_Name = '''', draft_BaseURL = '''',
      draft_TLSMode = draft_TLSMode draft, draft_Fingerprint = '''', draft_CAFile = '''', draft_TokenHint = ''''\<rparr>"

definition bare_text :: "string \<Rightarrow> string" where
  "bare_text s = (if s = '''' then '''' else ''x'')"

definition bare_state :: "dstate \<Rightarrow> dstate" where
  "bare_state st = dstate_zero\<lparr>dstate_Hosts := Some (map (\<lambda>_. host_zero) (elems (dstate_Hosts st)))\<rparr>"

lemma blank_rows:
  assumes "\<And>x. map blank (row x) = map blank (row (bare x))"
  shows "map blank (concat (map row xs)) = map blank (concat (map row (map bare xs)))"
  using assms by (induction xs) simp_all

lemma blank_index:
  "map blank (index_page mock st meta) = map blank (index_page mock (bare_state st) meta')"
proof -
  have "map blank (index_host_row h) = map blank (index_host_row host_zero)" for h
    by (simp add: index_host_row_def)
  from blank_rows [where row = index_host_row and bare = "\<lambda>_. host_zero", OF this]
  have "map blank (index_hosts hs) = map blank (index_hosts (map (\<lambda>_. host_zero) hs))" for hs
    by (simp add: index_hosts_def)
  then show ?thesis by (simp add: index_page_def index_summary_def index_cache_def bare_state_def)
qed

lemma blank_admin:
  "map blank (admin_page st meta snap draft msg err) =
   map blank (admin_page st' meta' (bare_snapshot snap) (bare_draft draft) (bare_text msg) (bare_text err))"
proof -
  have "map blank (admin_source_row src) = map blank (admin_source_row (bare_source src))" for src
    by (simp add: admin_source_row_def bare_source_def)
  from blank_rows [where row = admin_source_row and bare = bare_source, OF this]
  have "map blank (admin_sources srcs) = map blank (admin_sources (map bare_source srcs))" for srcs
    by (simp add: admin_sources_def)
  then have sources: "map blank (admin_sources (snap_Sources snap)) = map blank (admin_sources (snap_Sources (bare_snapshot snap)))"
    by (simp add: bare_snapshot_def)
  have "map blank (admin_header snap) = map blank (admin_header (bare_snapshot snap))"
    "map blank (admin_runtime st meta snap) = map blank (admin_runtime st' meta' (bare_snapshot snap))"
    "map blank (admin_settings_form snap) = map blank (admin_settings_form (bare_snapshot snap))"
    by (simp_all add: admin_header_def admin_runtime_def admin_settings_form_def bare_snapshot_def)
  moreover have "map blank (admin_notices msg err) = map blank (admin_notices (bare_text msg) (bare_text err))"
    by (simp add: admin_notices_def bare_text_def)
  moreover have "map blank (admin_source_form draft) = map blank (admin_source_form (bare_draft draft))"
    by (simp add: admin_source_form_def bare_draft_def)
  ultimately show ?thesis by (simp add: admin_page_def sources)
qed

lemma page_markup: "markup InText (render (page_pieces b)) = markup InText (render (map blank (page_pieces b)))"
  using placed_markup [OF pages_placed] by blast

text \<open>
  C23: No page can be injected: its markup is that of the same page with every text left out.  On
  the index page it depends on the mock flag and the number of hosts only, on the admin page on
  which tokens are set, the number of sources, the mode of the form and the TLS mode selected in it,
  and whether there is a message and an error; never on a name, a URL, a message, an error or any
  other text, whether it comes from a request, a configuration or a cluster.
\<close>

theorem page_markup_fixed:
  "markup InText (render (index_page mock st meta)) =
     markup InText (render (index_page mock (bare_state st) meta')) \<and>
   markup InText (render (admin_page st meta snap draft msg err)) =
     markup InText (render (admin_page st' meta' (bare_snapshot snap) (bare_draft draft) (bare_text msg) (bare_text err)))"
  using page_markup [of "IndexPage mock st meta"] page_markup [of "IndexPage mock (bare_state st) meta'"]
    page_markup [of "AdminPage st meta snap draft msg err"]
    page_markup [of "AdminPage st' meta' (bare_snapshot snap) (bare_draft draft) (bare_text msg) (bare_text err)"]
  by (simp add: blank_index [of mock st meta meta'] blank_admin [of st meta snap draft msg err st' meta'])

lemma configstoreID_id:
  assumes "valid_id x"
  shows "configstoreID x = x"
proof -
  have ids: "list_all id_char x" using assms by (simp add: valid_id_def)
  then have "trim_space x = x"
    by (intro trim_space_id trimmedI) (auto simp: list_all_iff dest: id_char_plain)
  moreover have "CHR ''_'' \<notin> set x"
    using ids by (auto simp: list_all_iff id_char_code)
  ultimately show ?thesis
    using to_lower_id [OF ids] by (simp add: configstoreID_def replace_all_absent)
qed

lemma url_escape_no_nul: "CHR 0x00 \<notin> set (url_escape s)"
proof -
  have digits: "\<forall>d\<in>set [0..<16]. hex_digit d \<noteq> CHR 0x00" by code_simp
  have "CHR 0x00 \<notin> set (url_escape_byte c)" for c
  proof -
    have "of_char c div 16 < (16 :: nat)" by (rule less_mult_imp_div_less) simp
    moreover have "of_char c mod 16 < (16 :: nat)" by simp
    ultimately have "of_char c div 16 \<in> set [0..<16]" "of_char c mod 16 \<in> set [0..<16::nat]" by simp_all
    from this [THEN digits [THEN bspec]] show ?thesis
      by (auto simp: url_escape_byte_def url_unreserved_def is_digit_def less_eq_char_def)
  qed
  then show ?thesis by (auto simp: url_escape_def)
qed

lemma find_distinct:
  "distinct (map f xs) \<Longrightarrow> x \<in> set xs \<Longrightarrow> List.find (\<lambda>y. f y = f x) xs = Some x"
  by (induction xs) (auto dest: arg_cong [where f = f])

text \<open>
  The Edit link of a source opens that source: whatever the browser sends for the link it reads
  on the page fills the form with the saved settings of the source, provided the sources have IDs in
  normal form and no two share one.
\<close>

theorem edit_link_opens_source:
  assumes "src \<in> set (snap_Sources snap)" and "distinct (map ss_ID (snap_Sources snap))"
    and "valid_id (ss_ID src)" and "ss_ID src \<noteq> ''''"
    and "query_unescape (html_unescape (emit (Query (ss_ID src)))) = Some (req_Query r ''edit'')"
  shows "sourceDraftFromRequest r snap =
           \<lparr>draft_Editing = True, draft_ID = ss_ID src, draft_Name = ss_Name src, draft_BaseURL = ss_BaseURL src,
            draft_TLSMode = ss_TLSMode src, draft_Fingerprint = ss_Fingerprint src, draft_CAFile = ss_CAFile src,
            draft_TokenHint = ''saved, leave blank to keep''\<rparr>"
proof -
  have "req_Query r ''edit'' = ss_ID src"
    using assms(5) by (simp add: html_unescape_escape [OF url_escape_no_nul] query_unescape_escape)
  then show ?thesis
    using find_distinct [OF assms(2,1)] assms(4)
    by (simp add: sourceDraftFromRequest_def Let_def configstoreID_id [OF assms(3)] edit_draft_def)
qed

lemma edit_link_opens_source_witness:
  "draft_Name (sourceDraftFromRequest
     ((sample_request ''GET'' ''/admin'' '''')\<lparr>req_Query := \<lambda>k. if k = ''edit'' then ''lab-a'' else ''''\<rparr>)
     ((Snapshot (\<lambda>_. '''') sample_manager)
        \<lparr>snap_Sources := [\<lparr>ss_ID = ''lab-a'', ss_Name = ''Lab A'', ss_BaseURL = ''https://pve:8006'',
           ss_TLSMode = ''system'', ss_Fingerprint = '''', ss_CAFile = '''', ss_TokenSet = True\<rparr>]\<rparr>)) = ''Lab A''"
proof -
  have "query_unescape (html_unescape (emit (Query ''lab-a''))) = Some ''lab-a''"
    and "valid_id ''lab-a''" by code_simp+
  then show ?thesis by (simp add: edit_link_opens_source)
qed

end
