(* ===== verification/Polling.thy ===== *)
theory Polling
  imports Admin_Updates
begin

text \<open>
  The background loop of \<open>Start\<close> (\<open>internal/store/cache.go\<close>) with its clock: it reads the interval,
  waits for a timer, refreshes and starts again, until the context is done.  Meanwhile the clock
  advances and the rest of the bridge refreshes and reconfigures the cache.
\<close>

section \<open>The loop\<close>

text \<open>Before the timer is made, waiting for it, collecting, and after the context is done.\<close>

datatype 'c poll_loop = Arming | Waiting int | Collecting 'c | Stopped

text \<open>When a timer fires: at once for an interval that is not positive; the sum saturates.\<close>

definition timer_due :: "int \<Rightarrow> int \<Rightarrow> int" where
  "timer_due now interval = (if interval \<le> 0 then now else min (2 ^ 63 - 1) (now + interval))"

text \<open>
  The cache, the monotonic clock, the loop, and the number of refreshes it has begun so far.
  \<open>ok\<close> restricts what the rest of the bridge makes of the cache.
\<close>

type_synonym ('c, 'e) poll_state = "('c, 'e) cache \<times> int \<times> 'c poll_loop \<times> nat"

inductive poll_step ::
    "('c \<Rightarrow> 'w \<Rightarrow> 'e + dstate) \<Rightarrow> (('c, 'e) cache \<Rightarrow> bool) \<Rightarrow> ('c, 'e) poll_state \<Rightarrow> ('c, 'e) poll_state \<Rightarrow> bool"
  for collect :: "'c \<Rightarrow> 'w \<Rightarrow> 'e + dstate" and ok :: "('c, 'e) cache \<Rightarrow> bool" where
  loop_arms: "poll_step collect ok (c, t, Arming, n) (c, t, Waiting (timer_due t (cache_pollInterval c)), n)"
| loop_fires: "due \<le> t \<Longrightarrow>
    poll_step collect ok (c, t, Waiting due, n) (c, t, Collecting (cache_collector c), Suc n)"
| loop_refreshes:
    "poll_step collect ok (c, t, Collecting col, n) (fst (refresh_end (collect col w) now c), t, Arming, n)"
| loop_stops: "poll_step collect ok (c, t, Waiting due, n) (c, t, Stopped, n)"
| clock_ticks: "t \<le> t' \<Longrightarrow> poll_step collect ok (c, t, l, n) (c, t', l, n)"
| cache_changes: "ok c' \<Longrightarrow> poll_step collect ok (c, t, l, n) (c', t, l, n)"

abbreviation poll_run ::
    "('c \<Rightarrow> 'w \<Rightarrow> 'e + dstate) \<Rightarrow> (('c, 'e) cache \<Rightarrow> bool) \<Rightarrow> ('c, 'e) poll_state \<Rightarrow> ('c, 'e) poll_state \<Rightarrow> bool" where
  "poll_run collect ok \<equiv> (poll_step collect ok)\<^sup>*\<^sup>*"

section \<open>The pace\<close>

text \<open>
  With intervals of at least \<open>p\<close> before the end of the clock, \<open>n\<close> refreshes need \<open>n * p\<close> of time.
\<close>

fun on_pace :: "int \<Rightarrow> int \<Rightarrow> ('c, 'e) poll_state \<Rightarrow> bool" where
  "on_pace p t0 (c, t, l, n) \<longleftrightarrow>
     p \<le> cache_pollInterval c \<and> int n * p \<le> t - t0 \<and>
     (case l of Waiting due \<Rightarrow> min (2 ^ 63 - 1) (t0 + (int n + 1) * p) \<le> due | _ \<Rightarrow> True)"

lemma refresh_end_interval [simp]:
  "cache_pollInterval (fst (refresh_end r now c)) = cache_pollInterval c"
  by (simp add: refresh_end_def split: sum.split)

lemma timer_due_later: "0 < p \<Longrightarrow> p \<le> interval \<Longrightarrow> min (2 ^ 63 - 1) (t + p) \<le> timer_due t interval"
  by (auto simp: timer_due_def)

lemma poll_step_pace:
  assumes "poll_step collect (\<lambda>c. p \<le> cache_pollInterval c) x y" and "on_pace p t0 x" and "0 < p"
    and "fst (snd y) < 2 ^ 63 - 1"
  shows "on_pace p t0 y"
  using assms
proof (induction rule: poll_step.induct)
  case (loop_arms c t n)
  have "t0 + (int n + 1) * p \<le> t + p"
    using loop_arms by (simp add: algebra_simps)
  then have "min (2 ^ 63 - 1) (t0 + (int n + 1) * p) \<le> min (2 ^ 63 - 1) (t + p)" by linarith
  also have "\<dots> \<le> timer_due t (cache_pollInterval c)"
    using loop_arms by (intro timer_due_later) simp_all
  finally show ?case using loop_arms by simp
next
  case (loop_fires due t c n)
  then have "min (2 ^ 63 - 1) (t0 + (int n + 1) * p) \<le> t" "t < 2 ^ 63 - 1" by simp_all
  then have "t0 + (int n + 1) * p \<le> t" by linarith
  then show ?case using loop_fires by (simp add: algebra_simps)
next
  case (clock_ticks t t' c l n)
  then show ?case by (auto split: poll_loop.splits)
qed (auto split: poll_loop.splits)

lemma poll_step_clock: "poll_step collect ok x y \<Longrightarrow> fst (snd x) \<le> fst (snd y)"
  by (induction rule: poll_step.induct) simp_all

lemma poll_run_pace:
  assumes "poll_run collect (\<lambda>c. p \<le> cache_pollInterval c) x y" and "on_pace p t0 x" and "0 < p"
    and "fst (snd y) < 2 ^ 63 - 1"
  shows "on_pace p t0 y"
  using assms
proof (induction rule: rtranclp_induct)
  case (step y z)
  then have "fst (snd y) < 2 ^ 63 - 1" using poll_step_clock by fastforce
  with step show ?case by (blast intro: poll_step_pace)
qed

section \<open>Properties\<close>

text \<open>
  C24: The loop keeps its pace: while every configuration polls at intervals of at least \<open>p\<close>, the loop
  begins at most one refresh per \<open>p\<close>, whatever else refreshes or reconfigures the cache and
  however long collections take.
\<close>

theorem loop_keeps_pace:
  assumes "poll_run collect (\<lambda>c. p \<le> cache_pollInterval c) (c, t, Arming, 0) (c', t', l, n)"
    and "p \<le> cache_pollInterval c" and "0 < p" and "t' < 2 ^ 63 - 1"
  shows "int n \<le> (t' - t) div p"
proof -
  have "on_pace p t (c', t', l, n)"
    by (rule poll_run_pace [OF assms(1)]) (use assms(2-4) in simp_all)
  then have "int n * p \<le> t' - t" by simp
  then show ?thesis using assms(3) by (metis zdiv_mono1 nonzero_mult_div_cancel_right less_irrefl)
qed

lemma loop_keeps_pace_witness:
  "poll_run collect_any (\<lambda>c. 5 \<le> cache_pollInterval c) (NewCache MockCollector 10 45, 0, Arming, 0)
     (NewCache MockCollector 10 45, 12, Collecting MockCollector, 1) \<and> int 1 \<le> (12 - 0) div (5 :: int)"
proof -
  let ?c = "NewCache MockCollector 10 45 :: bridge_cache" and ?ok = "\<lambda>c :: bridge_cache. 5 \<le> cache_pollInterval c"
  have "poll_step collect_any ?ok (?c, 0, Arming, 0) (?c, 0, Waiting 10, 0)"
    using loop_arms [of collect_any ?ok ?c 0 0] by (simp add: timer_due_def NewCache_def)
  note run = r_into_rtranclp [of "poll_step collect_any ?ok", OF this]
  have "poll_step collect_any ?ok (?c, 0, Waiting 10, 0) (?c, 12, Waiting 10, 0)"
    by (rule clock_ticks) simp
  note run = rtranclp.rtrancl_into_rtrancl [OF run this]
  have "poll_step collect_any ?ok (?c, 12, Waiting 10, 0) (?c, 12, Collecting MockCollector, 1)"
    using loop_fires [of 10 12 collect_any ?ok ?c 0] by (simp add: NewCache_def)
  note run = rtranclp.rtrancl_into_rtrancl [OF run this]
  from loop_keeps_pace [OF run] run show ?thesis by (simp add: NewCache_def)
qed

lemma spins:
  fixes collect :: "'c \<Rightarrow> 'w \<Rightarrow> 'e + dstate" and w :: 'w and now :: gotime
  assumes "cache_pollInterval c \<le> 0"
  shows "\<exists>c'. poll_run collect ok (c, t, Arming, 0) (c', t, Arming, n) \<and> cache_pollInterval c' \<le> 0"
proof (induction n)
  case (Suc n)
  then obtain c' where run: "poll_run collect ok (c, t, Arming, 0) (c', t, Arming, n)"
    and c': "cache_pollInterval c' \<le> 0" by blast
  have "poll_step collect ok (c', t, Arming, n) (c', t, Waiting t, n)"
    using loop_arms [of collect ok c' t n] c' by (simp add: timer_due_def)
  note run = rtranclp.rtrancl_into_rtrancl [OF run this]
  note run = rtranclp.rtrancl_into_rtrancl [OF run loop_fires [OF order_refl]]
  let ?c = "fst (refresh_end (collect (cache_collector c') w) now c')"
  have "poll_step collect ok (c', t, Collecting (cache_collector c'), Suc n) (?c, t, Arming, Suc n)"
    by (rule loop_refreshes)
  note run = rtranclp.rtrancl_into_rtrancl [OF run this]
  then show ?case using c' by (intro exI [of _ ?c]) simp
qed (use assms in blast)

definition huge_interval :: server_update where
  "huge_interval = sample_settings\<lparr>su_PollIntervalSeconds := 9223372037, su_StaleAfterSeconds := 9223372037\<rparr>"

text \<open>
  C39: The poll interval has a lower bound but no upper one: the settings form accepts
  9223372037 seconds, whose duration wraps to a negative one, and with such an interval the loop
  refreshes without end and without waiting: any number of times at one instant.
\<close>

theorem huge_interval_spins:
  "\<exists>cfg s. prepare (SetServer huge_interval) sample_manager = Inr (cfg, s) \<and>
     (\<forall>n. \<exists>c'. poll_run collect_any ok
        (c\<lparr>cache_pollInterval := PollInterval (cfg_Server (installed cfg s))\<rparr>, t, Arming, 0) (c', t, Arming, n))"
proof -
  obtain cfg s where p: "prepare (SetServer huge_interval) sample_manager = Inr (cfg, s)"
    and "srv_PollIntervalSeconds (cfg_Server cfg) = 9223372037"
    by (auto simp: prepare_def admin_op_defs Let_def huge_interval_def sample_settings_def ApplySecrets_def)
  then have "PollInterval (cfg_Server (installed cfg s)) < 0"
    using seconds_overflow by (simp add: PollInterval_def installed_Server applyDefaults_def default_int_def)
  then have "cache_pollInterval (c\<lparr>cache_pollInterval := PollInterval (cfg_Server (installed cfg s))\<rparr>) \<le> 0"
    by simp
  then show ?thesis using p spins by blast
qed

end
