(* ===== verification/Spec2Isabelle.thy ===== *)
theory Spec2Isabelle
  imports Api_Contract Pages Polling
begin

text \<open>
  A verification development for the Go bridge of Proxmox Desk Display
  (\<open>src/apps/bridge\<close>).  The bridge polls one or more Proxmox VE clusters over their HTTP API,
  condenses the answers into one display state, caches it, and serves it to small displays; an
  admin page changes its configuration while it runs.

  The parts of the program and how they interact.  \<open>main\<close> loads the configuration and the secrets
  (\<open>configstore\<close>), picks a collector, and builds the cache, the manager and the server around it.
  The cache (\<open>store\<close>) asks its collector for a state whenever its ticker or an admin asks for a
  refresh.  The Proxmox collector (\<open>proxmox\<close>) queries all sources concurrently, one goroutine
  each, and merges what they send.  The server (\<open>server\<close>) answers the displays from the cache and
  hands admin forms to the manager (\<open>runtime\<close>), which validates and saves the new configuration
  and gives the cache a new collector.

  Theories and code (files below \<open>src/apps/bridge/internal\<close>):

  \<^item> \<open>Go_Prelude\<close>, \<open>Go_Sort\<close>, \<open>Go_Float\<close>, \<open>Go_Values\<close>: what the code uses of Go.  Slices that may be
    nil, 64-bit integers with their wrap-around, byte strings and package \<open>strings\<close>; \<open>sort.Slice\<close> as
    the locale \<open>sort_algorithm\<close>; double precision as rounded rationals with the conversions of amd64
    and arm64; untyped JSON values with \<open>fmt.Sprint\<close>, \<open>json.Marshal\<close> and \<open>strconv.ParseFloat\<close>.
  \<^item> \<open>Display_Types\<close>, \<open>Display\<close> (\<open>display/state.go\<close>): the state types, \<open>Finalize\<close>,
    \<open>CompactForDisplay\<close> and \<open>DetailForDisplay\<close>.
  \<^item> \<open>Cache\<close> (\<open>store/cache.go\<close>): the cache, its locked sections as steps, the contract of a
    collector as the locales \<open>collector\<close> and \<open>reliable_collector\<close>, the setup and the mock collector.
  \<^item> \<open>Config\<close> (\<open>config/config.go\<close>) and \<open>Config_Store\<close> (\<open>configstore/store.go\<close>): defaults, validation,
    tokens; \<open>Save\<close>, \<open>Load\<close> and atomic writes on an explicit disk where every call may fail, the
    removal of the temporary file too.
  \<^item> \<open>Client\<close> (\<open>proxmox/client.go\<close>, \<open>diagnostics.go\<close>): TLS policies, pinning, requests and errors, the
    connection test.
  \<^item> \<open>Values\<close>, \<open>Normalize\<close>, \<open>Alerts\<close>, \<open>Guest_View\<close>, \<open>Trends\<close>, \<open>Api_Types\<close>, \<open>Proxmox_Api\<close>
    (\<open>proxmox/provider.go\<close>): conversions, the rows made from API answers, alerts and capability
    records, guest data, sampled trends, the answer types and the endpoints.
  \<^item> \<open>Collect_Source\<close>, \<open>Source_Invariants\<close>, \<open>Collector\<close> (\<open>proxmox/provider.go\<close>): \<open>collectSource\<close>,
    split at its requests, with the invariant of a source's state; \<open>NewCollector\<close>; \<open>Collect\<close>, which
    merges the sources in their order of arrival, sorts, cuts and finalizes.
  \<^item> \<open>Manager\<close>, \<open>Admin_Updates\<close>, \<open>Admin_Runs\<close> (\<open>runtime/manager.go\<close>): the dispatch of collectors, which
    discharges the contract of the cache; the operations of the admin page and their shared contract
    as the locale \<open>admin_update\<close>; their effects; the same operations as interleaved steps of
    concurrent requests, with the invariant that holds of every interleaving.  A run takes the
    environment of each step from a set \<open>E\<close>; a statement that some run is possible fixes \<open>E\<close> to
    one environment.
  \<^item> \<open>Polling\<close> (\<open>store/cache.go\<close>): the background loop of \<open>Start\<close> with its timer and the clock.
  \<^item> \<open>Server\<close> (\<open>server/server.go\<close>): requests and responses as values, the two gates under the locale
    \<open>gate\<close>, the handlers, and the routes as a table that gives every path its guard and its endpoint.
  \<^item> \<open>Main_Program\<close> (\<open>cmd/proxmox-desk-display/main.go\<close>): the flags, what is loaded or mocked,
    start-up, the listener and the exit codes.
  \<^item> \<open>Web_Runs\<close>: the whole program as runs in which requests arrive through the guard mounted on their
    route, begin their updates later, and go on interleaved with one another and with refreshes.
  \<^item> \<open>Go_Time\<close>, \<open>Json\<close>, \<open>Display_Json\<close>, \<open>Typed_Rows\<close>, \<open>Api_Contract\<close> (\<open>display/state.go\<close>,
    \<open>server/server.go\<close>): texts of times and durations; JSON values and types of them; the members of
    every struct by its tags; the invariant that makes every collected state well typed; the JSON
    of every answer of the API with the type of its route.
  \<^item> \<open>Html\<close>, \<open>Pages\<close> (\<open>server/server.go\<close>): what \<open>html/template\<close> writes for text, attributes and query
    values, and the two templates section by section.

  How code and model correspond.  A struct is a record with the field names prefixed by the type, an
  enumeration a datatype, a panic the value \<open>None\<close>, an error the left of a sum.  A method that
  changes its receiver returns it; an argument that is changed through a pointer or a shared slice is
  returned too (\<open>Save\<close> returns the configuration its caller is left with).  A map that is ranged over
  is an association list visited in an order given by \<open>env_order\<close>.

  What the lemmas show.  For each component: what its operations compute on every branch, the
  invariants they keep (finalized states, consistent rows of a source, limits of the
  configuration), agreement with a reference (summary, validation, registry of sources), round
  trips through the disk, bounds of percentages, lists and trends.  Across components: whatever the
  sources answer a collection completes, loses no node, and does not depend on scheduling; an
  update is all or nothing, takes effect at once and survives a restart; for every list of arguments,
  when \<open>main\<close> listens and with which code it exits.  The last group is about all interleavings of the running program: a request
  served alone is one of them (\<open>requests_are_runs\<close>); the running configuration is made, form by form,
  by authorised posts; once started the API never fails, and every answer is finalized and of the
  type of the contract.  What is invariant of the cache is proved once in the locale
  \<open>cache_invariant\<close>, which is interpreted for finalized and for typed states.

  Arguments of the model, standing for code outside the repository: the network and the decoding of
  JSON into the answer types, TLS chain verification, SHA-256, YAML, \<open>url.Parse\<close>, the text of an
  error, the process environment, the clock, the sorting algorithm (any that permutes and sorts), the
  iteration order of maps, the order in which sources finish.  Hypotheses about them are named where
  they are used: \<open>yaml_roundtrip\<close>, \<open>fresh_temp\<close>, \<open>fair_order\<close> (a range visits every key once),
  \<open>sort_algorithm\<close>, \<open>arrival_of\<close>, \<open>proper_world\<close> (the sort sorts, every source arrives once).

  Bounds.  \<open>short_series\<close> (at most 2 ^ 48 points in a series) keeps the index computation of a
  trend exact in double precision; a response of that size cannot be held in memory.  Integers are
  unbounded where the code only copies or compares them, and \<open>i64\<close> writes the wrap-around where it
  computes with unbounded input.  There is no fuel: every recursion is structural or has a measure.

  Not modelled: logging, the socket of the listener beyond the error with which it stops,
  request timeouts other than as failed requests, the calls inside one atomic write as steps of
  concurrent runs (a save is two steps there, one for each file), a time after the year 9999 (which
  \<open>encoding/json\<close> refuses), the redirect of paths that are not clean, and the firmware of the
  displays, which is not Go.
\<close>

end
